(* ===== verification/Prelude.thy ===== *)
theory Prelude
  imports Main
begin

text \<open>
  Shared vocabulary of the development: the collections of simplification rules the
  component theories declare into, JSON values, results that may be errors, and the four
  statements of SQL over a table kept as a list of rows, with the lemmas on them that the
  repositories share.
\<close>

named_theorems entity_simps "unfolding rules of small accessors and constructors"
named_theorems service_simps "characteristic equations of the services"

type_synonym uuid = string
type_synonym time = nat \<comment> \<open>milliseconds since the epoch\<close>

text \<open>
  A price is a NUMERIC(10,2) column read by parseFloat: at most ten significant digits, so
  the double prints back to the same decimal; it is represented by its hundredths.
\<close>

type_synonym price = int

text \<open>JSON values; JPrice is a number given by its hundredths.\<close>

datatype json =
    JNull
  | JBool bool
  | JNum int
  | JPrice price
  | JStr string
  | JArr "json list"
  | JObj "(string \<times> json) list"

section \<open>Results that may be errors\<close>

definition bind_res :: "'e + 'a \<Rightarrow> ('a \<Rightarrow> 'e + 'b) \<Rightarrow> 'e + 'b" where
  "bind_res m f = (case m of Inl e \<Rightarrow> Inl e | Inr a \<Rightarrow> f a)"

lemma bind_res_simps [simp]:
  "bind_res (Inl e) f = Inl e" "bind_res (Inr a) f = f a"
  by (simp_all add: bind_res_def)

lemma bind_res_Inr: "bind_res m f = Inr b \<longleftrightarrow> (\<exists>a. m = Inr a \<and> f a = Inr b)"
  by (cases m) simp_all

lemma bind_res_Inl: "bind_res m f = Inl e \<longleftrightarrow> m = Inl e \<or> (\<exists>a. m = Inr a \<and> f a = Inl e)"
  by (cases m) simp_all

lemma bind_res_cong [fundef_cong]:
  "m = m' \<Longrightarrow> (\<And>a. m' = Inr a \<Longrightarrow> f a = g a) \<Longrightarrow> bind_res m f = bind_res m' g"
  by (cases m') simp_all

text \<open>A value that must be there, or else an error.\<close>

definition require :: "'e \<Rightarrow> 'a option \<Rightarrow> 'e + 'a" where
  "require e x = (case x of None \<Rightarrow> Inl e | Some a \<Rightarrow> Inr a)"

definition ensure :: "'e \<Rightarrow> bool \<Rightarrow> 'e + unit" where
  "ensure e b = (if b then Inr () else Inl e)"

lemma require_simps [simp]: "require e None = Inl e" "require e (Some a) = Inr a"
  by (simp_all add: require_def)

lemma require_Inr [simp]: "require e x = Inr a \<longleftrightarrow> x = Some a"
  by (cases x) simp_all

lemma ensure_simps [simp]: "ensure e True = Inr ()" "ensure e False = Inl e"
  by (simp_all add: ensure_def)

lemma ensure_Inr [simp]: "ensure e b = Inr u \<longleftrightarrow> b"
  by (simp add: ensure_def)

section \<open>Computations over a state that may fail\<close>

text \<open>
  An async method of a service: a computation over the state that returns a value or throws,
  the state being what it is at that moment. await is st_bind; try/finally and try/catch are
  st_finally and st_catch.
\<close>

type_synonym ('s, 'e, 'a) comp = "'s \<Rightarrow> ('e + 'a) \<times> 's"

definition st_return :: "'a \<Rightarrow> ('s, 'e, 'a) comp" where
  "st_return a s = (Inr a, s)"

definition st_throw :: "'e \<Rightarrow> ('s, 'e, 'a) comp" where
  "st_throw e s = (Inl e, s)"

definition st_lift :: "'e + 'a \<Rightarrow> ('s, 'e, 'a) comp" where
  "st_lift r s = (r, s)"

definition st_update :: "('s \<Rightarrow> 's) \<Rightarrow> ('s, 'e, unit) comp" where
  "st_update f s = (Inr (), f s)"

definition st_bind :: "('s, 'e, 'a) comp \<Rightarrow> ('a \<Rightarrow> ('s, 'e, 'b) comp) \<Rightarrow> ('s, 'e, 'b) comp" where
  "st_bind m f s = (case m s of (Inl e, s') \<Rightarrow> (Inl e, s') | (Inr a, s') \<Rightarrow> f a s')"

text \<open>An error of the finally block takes the place of the result.\<close>

definition st_finally :: "('s, 'e, 'a) comp \<Rightarrow> ('s, 'e, unit) comp \<Rightarrow> ('s, 'e, 'a) comp" where
  "st_finally m g s =
     (case m s of (r, s') \<Rightarrow> (case g s' of (Inl e, s'') \<Rightarrow> (Inl e, s'') | (Inr _, s'') \<Rightarrow> (r, s'')))"

definition st_catch :: "('s, 'e, 'a) comp \<Rightarrow> ('e \<Rightarrow> ('s, 'e, 'a) comp) \<Rightarrow> ('s, 'e, 'a) comp" where
  "st_catch m h s = (case m s of (Inl e, s') \<Rightarrow> h e s' | (Inr a, s') \<Rightarrow> (Inr a, s'))"

lemma st_simps [simp]:
  "st_return a s = (Inr a, s)" "st_throw e s = (Inl e, s)" "st_lift r s = (r, s)"
  "st_update f s = (Inr (), f s)"
  by (simp_all add: st_return_def st_throw_def st_lift_def st_update_def)

lemma st_bind_Inl: "m s = (Inl e, s') \<Longrightarrow> st_bind m f s = (Inl e, s')"
  and st_bind_Inr: "m s = (Inr a, s') \<Longrightarrow> st_bind m f s = f a s'"
  by (simp_all add: st_bind_def)

lemma st_bind_eq_Inr:
  "st_bind m f s = (Inr b, s'') \<longleftrightarrow> (\<exists>a s'. m s = (Inr a, s') \<and> f a s' = (Inr b, s''))"
  by (auto simp: st_bind_def split: prod.splits sum.splits)

lemma st_bind_cases:
  obtains (err) e where "m s = (Inl e, snd (m s))" "st_bind m f s = (Inl e, snd (m s))"
  | (ok) a where "m s = (Inr a, snd (m s))" "st_bind m f s = f a (snd (m s))"
  by (cases "m s"; cases "fst (m s)") (auto simp: st_bind_def)

text \<open>
  A property of states that every part keeps: the rules by which the invariants of the
  services are carried through their methods.
\<close>

definition keeps :: "('s \<Rightarrow> bool) \<Rightarrow> ('s, 'e, 'a) comp \<Rightarrow> bool" where
  "keeps P m \<longleftrightarrow> (\<forall>s. P s \<longrightarrow> P (snd (m s)))"

named_theorems keeps_intros "parts that keep an invariant"

lemma keepsI: "(\<And>s. P s \<Longrightarrow> P (snd (m s))) \<Longrightarrow> keeps P m"
  by (simp add: keeps_def)

lemma keepsD: "keeps P m \<Longrightarrow> P s \<Longrightarrow> P (snd (m s))"
  by (simp add: keeps_def)

lemma keeps_return [keeps_intros]: "keeps P (st_return a)"
  and keeps_throw [keeps_intros]: "keeps P (st_throw e)"
  and keeps_lift [keeps_intros]: "keeps P (st_lift r)"
  by (simp_all add: keeps_def)

lemma keeps_update: "(\<And>s. P s \<Longrightarrow> P (f s)) \<Longrightarrow> keeps P (st_update f)"
  by (simp add: keeps_def)

lemma keeps_bind [keeps_intros]:
  assumes "keeps P m" and "\<And>a. keeps P (f a)"
  shows "keeps P (st_bind m f)"
proof (rule keepsI)
  fix s assume "P s"
  with assms(1) have m: "P (snd (m s))" by (rule keepsD)
  show "P (snd (st_bind m f s))"
  proof (cases rule: st_bind_cases [of m s f])
    case (err e)
    with m show ?thesis by simp
  next
    case (ok a)
    with m show ?thesis using keepsD [OF assms(2)] by simp
  qed
qed

lemma keeps_finally [keeps_intros]: "keeps P m \<Longrightarrow> keeps P g \<Longrightarrow> keeps P (st_finally m g)"
  by (auto simp: keeps_def st_finally_def split: prod.splits sum.splits)

lemma keeps_catch [keeps_intros]:
  "keeps P m \<Longrightarrow> (\<And>e. keeps P (h e)) \<Longrightarrow> keeps P (st_catch m h)"
  by (auto simp: keeps_def st_catch_def split: prod.splits sum.splits)

lemma keeps_if [keeps_intros]: "keeps P m \<Longrightarrow> keeps P n \<Longrightarrow> keeps P (if b then m else n)"
  by simp

lemma keeps_cond: "(b \<Longrightarrow> keeps P m) \<Longrightarrow> (\<not> b \<Longrightarrow> keeps P n) \<Longrightarrow> keeps P (if b then m else n)"
  by simp

lemma keeps_option [keeps_intros]:
  "keeps P m \<Longrightarrow> (\<And>a. keeps P (f a)) \<Longrightarrow> keeps P (case x of None \<Rightarrow> m | Some a \<Rightarrow> f a)"
  by (cases x) simp_all

section \<open>Tables as lists of rows\<close>

definition sql_select :: "('r \<Rightarrow> bool) \<Rightarrow> 'r list \<Rightarrow> 'r list" where
  "sql_select p t = filter p t"

definition sql_update :: "('r \<Rightarrow> bool) \<Rightarrow> ('r \<Rightarrow> 'r) \<Rightarrow> 'r list \<Rightarrow> 'r list" where
  "sql_update p f t = map (\<lambda>r. if p r then f r else r) t"

definition sql_count :: "('r \<Rightarrow> bool) \<Rightarrow> 'r list \<Rightarrow> nat" where
  "sql_count p t = length (filter p t)"

definition sql_delete :: "('r \<Rightarrow> bool) \<Rightarrow> 'r list \<Rightarrow> 'r list" where
  "sql_delete p t = filter (\<lambda>r. \<not> p r) t"

lemma length_sql_update [simp]: "length (sql_update p f t) = length t"
  by (simp add: sql_update_def)

lemma sql_update_none: "\<forall>r \<in> set t. \<not> p r \<Longrightarrow> sql_update p f t = t"
  by (simp add: sql_update_def map_idI)

lemma sql_count_0: "sql_count p t = 0 \<longleftrightarrow> (\<forall>r \<in> set t. \<not> p r)"
  by (simp add: sql_count_def filter_empty_conv)

lemma sql_update_count_0: "sql_count p t = 0 \<Longrightarrow> sql_update p f t = t"
  by (simp add: sql_count_0 sql_update_none)

lemma map_sql_update: "(\<And>r. p r \<Longrightarrow> k (f r) = k r) \<Longrightarrow> map k (sql_update p f t) = map k t"
  by (simp add: sql_update_def)

lemma image_sql_update: "(\<And>r. p r \<Longrightarrow> k (f r) = k r) \<Longrightarrow> k ` set (sql_update p f t) = k ` set t"
  by (metis map_sql_update set_map)

lemma set_sql_update: "set (sql_update p f t) = (\<lambda>r. if p r then f r else r) ` set t"
  by (simp add: sql_update_def)

lemma sql_select_empty: "sql_select p t = [] \<longleftrightarrow> (\<forall>r \<in> set t. \<not> p r)"
  by (simp add: sql_select_def filter_empty_conv)

text \<open>A key column without duplicates: a lookup by key finds the one row that has it.\<close>

lemma distinct_key_filter:
  "distinct (map k t) \<Longrightarrow> r \<in> set t \<Longrightarrow> filter (\<lambda>x. k x = k r) t = [r]"
  by (induction t) (auto simp: filter_empty_conv image_iff)

lemma distinct_key_eq:
  "distinct (map k t) \<Longrightarrow> r \<in> set t \<Longrightarrow> s \<in> set t \<Longrightarrow> k r = k s \<Longrightarrow> r = s"
  by (auto simp: distinct_map inj_on_def)

lemma find_key:
  assumes "distinct (map k t)" and "r \<in> set t"
  shows "find (\<lambda>x. k x = k r) t = Some r"
  using assms by (induction t) (auto simp: image_iff)

lemma find_None_key: "find (\<lambda>x. k x = a) t = None \<longleftrightarrow> a \<notin> k ` set t"
  by (auto simp: find_None_iff)

lemma find_Some_D: "find p t = Some r \<Longrightarrow> r \<in> set t \<and> p r"
  by (metis find_Some_iff nth_mem)

lemma find_append: "find p (s @ t) = (case find p s of None \<Rightarrow> find p t | Some r \<Rightarrow> Some r)"
  by (induction s) auto

lemma find_sql_update_key:
  assumes "\<And>r. k (f r) = k r"
  shows "find (\<lambda>r. k r = a) (sql_update p f t) =
    map_option (\<lambda>r. if p r then f r else r) (find (\<lambda>r. k r = a) t)"
  using assms by (induction t) (auto simp: sql_update_def)

lemma inj_on_fstD: "inj_on fst B \<Longrightarrow> (a, t) \<in> B \<Longrightarrow> (a, u) \<in> B \<Longrightarrow> t = u"
  by (auto dest: inj_onD [of fst B "(a, t)" "(a, u)"])

section \<open>Strings built from a prefix and a key\<close>

lemma append_key_inject [simp]: "p @ a = p @ b \<longleftrightarrow> a = (b :: string)"
  by simp

lemma suffix_length_neq: "s \<noteq> [] \<Longrightarrow> a @ s \<noteq> (a :: string)"
  by simp

end
