(* ===== verification/Order_Domain.thy ===== *)
theory Order_Domain
  imports Prelude
begin

text \<open>
  The domain layer: order statuses and the transition table
  (src/order/domain/order-state-machine.ts), the error classes
  (src/order/domain/errors/order.errors.ts) and the entities
  (src/order/domain/entities).
\<close>

section \<open>Statuses\<close>

text \<open>
  The TypeScript type OrderStatus has the first five values. The column holds any of the
  nine values its CHECK constraint allows, since the POS writes the last four; at run time
  the state machine is handed whatever the column holds.
\<close>

datatype order_status =
    QUEUED | SAVED | SENT_TO_POS | COMPLETED | FAILED
  | ACCEPTED | COOKING | DONE | CANCELLED

definition worker_statuses :: "order_status list" where
  "worker_statuses = [QUEUED, SAVED, SENT_TO_POS, COMPLETED, FAILED]"

text \<open>A property that the object literal does not have is undefined: None.\<close>

fun ALLOWED_TRANSITIONS :: "order_status \<Rightarrow> order_status list option" where
  "ALLOWED_TRANSITIONS QUEUED = Some [SAVED, FAILED]"
| "ALLOWED_TRANSITIONS SAVED = Some [SENT_TO_POS, FAILED]"
| "ALLOWED_TRANSITIONS SENT_TO_POS = Some [COMPLETED]"
| "ALLOWED_TRANSITIONS COMPLETED = Some []"
| "ALLOWED_TRANSITIONS FAILED = Some []"
| "ALLOWED_TRANSITIONS _ = None"

fun ADMIN_REDRIVE_TRANSITIONS :: "order_status \<Rightarrow> order_status list option" where
  "ADMIN_REDRIVE_TRANSITIONS FAILED = Some [QUEUED]"
| "ADMIN_REDRIVE_TRANSITIONS QUEUED = Some []"
| "ADMIN_REDRIVE_TRANSITIONS SAVED = Some []"
| "ADMIN_REDRIVE_TRANSITIONS SENT_TO_POS = Some []"
| "ADMIN_REDRIVE_TRANSITIONS COMPLETED = Some []"
| "ADMIN_REDRIVE_TRANSITIONS _ = None"

section \<open>Error classes\<close>

text \<open>
  The classes of the source with the built-in ones it can meet, and the parent each
  extends. QueryFailedError stands for what the database driver throws.
\<close>

datatype error_class =
    Error | TypeError | SyntaxError | QueryFailedError | BrokenCircuitError
  | OrderError | BusinessLogicError | RetryableError
  | AmountMismatchError | MenuNotFoundError | MenuUnavailableError
  | InvalidStateTransitionError
  | StaleOrderVersionError | LockAcquisitionError | PosUnavailableError
  | CircuitBreakerOpenError
  | ConflictException | UnprocessableEntityException | ServiceUnavailableException
  | NotFoundException | BadRequestException | UnauthorizedException

fun parent_class :: "error_class \<Rightarrow> error_class option" where
  "parent_class Error = None"
| "parent_class BusinessLogicError = Some OrderError"
| "parent_class RetryableError = Some OrderError"
| "parent_class AmountMismatchError = Some BusinessLogicError"
| "parent_class MenuNotFoundError = Some BusinessLogicError"
| "parent_class MenuUnavailableError = Some BusinessLogicError"
| "parent_class InvalidStateTransitionError = Some BusinessLogicError"
| "parent_class StaleOrderVersionError = Some RetryableError"
| "parent_class LockAcquisitionError = Some RetryableError"
| "parent_class PosUnavailableError = Some RetryableError"
| "parent_class CircuitBreakerOpenError = Some RetryableError"
| "parent_class _ = Some Error"

fun class_depth :: "error_class \<Rightarrow> nat" where
  "class_depth Error = 0"
| "class_depth BusinessLogicError = 2"
| "class_depth RetryableError = 2"
| "class_depth AmountMismatchError = 3"
| "class_depth MenuNotFoundError = 3"
| "class_depth MenuUnavailableError = 3"
| "class_depth InvalidStateTransitionError = 3"
| "class_depth StaleOrderVersionError = 3"
| "class_depth LockAcquisitionError = 3"
| "class_depth PosUnavailableError = 3"
| "class_depth CircuitBreakerOpenError = 3"
| "class_depth _ = 1"

lemma parent_class_depth: "parent_class c = Some d \<Longrightarrow> class_depth d < class_depth c"
  by (cases c) auto

text \<open>The prototype chain: instanceof climbs it.\<close>

function class_extends :: "error_class \<Rightarrow> error_class \<Rightarrow> bool" where
  "class_extends c d =
     (c = d \<or> (case parent_class c of None \<Rightarrow> False | Some p \<Rightarrow> class_extends p d))"
  by pat_completeness auto
termination
  by (relation "measure (\<lambda>(c, d). class_depth c)") (auto simp: parent_class_depth)

declare class_extends.simps [simp del]

text \<open>
  A message is the template of the source with the values it interpolates; TextMsg is a
  message whose text is not a template of the program.
\<close>

datatype message =
    AmountMismatchMsg string string
  | MenuNotFoundMsg string
  | MenuUnavailableMsg string
  | InvalidTransitionMsg order_status order_status "order_status list"
  | StaleVersionMsg string int
  | LockFailedMsg string
  | PosFailedMsg string string
  | BreakerOpenMsg string
  | StoreMissingMsg string
  | OrderMissingMsg string
  | UnknownPosTypeMsg string
  | NotFailedMsg order_status
  | TextMsg string

record error =
  err_class :: error_class
  err_message :: message

definition instanceof :: "error \<Rightarrow> error_class \<Rightarrow> bool" where
  "instanceof e c = class_extends (err_class e) c"

definition mk_error :: "error_class \<Rightarrow> message \<Rightarrow> error" where
  "mk_error c m = \<lparr>err_class = c, err_message = m\<rparr>"

definition amountMismatchError :: "string \<Rightarrow> string \<Rightarrow> error" where
  "amountMismatchError requested calculated =
     mk_error AmountMismatchError (AmountMismatchMsg requested calculated)"

definition menuNotFoundError :: "string \<Rightarrow> error" where
  "menuNotFoundError menuId = mk_error MenuNotFoundError (MenuNotFoundMsg menuId)"

definition menuUnavailableError :: "string \<Rightarrow> error" where
  "menuUnavailableError menuName = mk_error MenuUnavailableError (MenuUnavailableMsg menuName)"

definition invalidStateTransitionError ::
  "order_status \<Rightarrow> order_status \<Rightarrow> order_status list \<Rightarrow> error" where
  "invalidStateTransitionError src dst allowed =
     mk_error InvalidStateTransitionError (InvalidTransitionMsg src dst allowed)"

definition staleOrderVersionError :: "string \<Rightarrow> int \<Rightarrow> error" where
  "staleOrderVersionError orderId expectedVersion =
     mk_error StaleOrderVersionError (StaleVersionMsg orderId expectedVersion)"

definition lockAcquisitionError :: "string \<Rightarrow> error" where
  "lockAcquisitionError orderId = mk_error LockAcquisitionError (LockFailedMsg orderId)"

definition posUnavailableError :: "string \<Rightarrow> string \<Rightarrow> error" where
  "posUnavailableError storeId reason =
     mk_error PosUnavailableError (PosFailedMsg storeId reason)"

definition circuitBreakerOpenError :: "string \<Rightarrow> error" where
  "circuitBreakerOpenError storeId =
     mk_error CircuitBreakerOpenError (BreakerOpenMsg storeId)"

section \<open>The state machine\<close>

text \<open>
  validate reads the table of the flag; reading includes of undefined is a TypeError.
\<close>

definition validate ::
  "order_status \<Rightarrow> order_status \<Rightarrow> bool \<Rightarrow> error + unit" where
  "validate current nxt isAdminRedrive =
     (case (if isAdminRedrive then ADMIN_REDRIVE_TRANSITIONS current
            else ALLOWED_TRANSITIONS current) of
        None \<Rightarrow> Inl (mk_error TypeError (TextMsg ''undefined.includes''))
      | Some allowed \<Rightarrow>
          if nxt \<in> set allowed then Inr ()
          else Inl (invalidStateTransitionError current nxt allowed))"

definition isTerminal :: "order_status \<Rightarrow> bool" where
  "isTerminal s = (s = COMPLETED \<or> s = FAILED)"

section \<open>Entities\<close>

text \<open>
  Columns that are themselves relations (store, order) are the foreign key next to them.
\<close>

record store_entity =
  st_id :: uuid
  st_name :: string
  st_posType :: string
  st_posEndpoint :: string
  st_posApiKeyEnc :: "string option"
  st_isActive :: bool
  st_createdAt :: time
  st_updatedAt :: time

record menu_entity =
  me_id :: uuid
  me_storeId :: uuid
  me_name :: string
  me_unitPrice :: price
  me_isAvailable :: bool
  me_version :: int
  me_createdAt :: time
  me_updatedAt :: time

record order_item_entity =
  oi_id :: uuid
  oi_orderId :: uuid
  oi_menuId :: uuid
  oi_menuName :: string
  oi_unitPrice :: price
  oi_quantity :: int
  oi_createdAt :: time

record order_state_transition_entity =
  tr_id :: uuid
  tr_orderId :: uuid
  tr_fromStatus :: "order_status option"
  tr_toStatus :: order_status
  tr_workerId :: "string option"
  tr_jobId :: "string option"
  tr_reason :: "message option"
  tr_transitionedAt :: time

text \<open>A row of orders; requestedAmount and calculatedAmount are the column's text.\<close>

record order_row =
  o_id :: uuid
  o_idempotencyKey :: string
  o_traceId :: string
  o_storeId :: uuid
  o_userId :: "uuid option"
  o_status :: order_status
  o_requestedAmount :: string
  o_calculatedAmount :: string
  o_version :: int
  o_posResponse :: "json option"
  o_posErrorMessage :: "string option"
  o_retryCount :: int
  o_dlqAt :: "time option"
  o_failureReason :: "message option"
  o_createdAt :: time
  o_queuedAt :: time
  o_savedAt :: "time option"
  o_sentToPosAt :: "time option"
  o_completedAt :: "time option"
  o_failedAt :: "time option"
  o_updatedAt :: "time option"

text \<open>The entity is the row with the relations that the query loads.\<close>

record order_entity =
  oe_row :: order_row
  oe_items :: "order_item_entity list"

section \<open>Lemmas\<close>

lemmas error_ctor_defs [entity_simps] =
  mk_error_def amountMismatchError_def menuNotFoundError_def menuUnavailableError_def
  invalidStateTransitionError_def staleOrderVersionError_def lockAcquisitionError_def
  posUnavailableError_def circuitBreakerOpenError_def

lemma class_extends_BusinessLogicError [simp]:
  "class_extends c BusinessLogicError \<longleftrightarrow>
     c \<in> {BusinessLogicError, AmountMismatchError, MenuNotFoundError, MenuUnavailableError,
          InvalidStateTransitionError}"
  by (cases c) (simp_all add: class_extends.simps)

lemma class_extends_RetryableError [simp]:
  "class_extends c RetryableError \<longleftrightarrow>
     c \<in> {RetryableError, StaleOrderVersionError, LockAcquisitionError, PosUnavailableError,
          CircuitBreakerOpenError}"
  by (cases c) (simp_all add: class_extends.simps)

lemma class_extends_StaleOrderVersionError [simp]:
  "class_extends c StaleOrderVersionError \<longleftrightarrow> c = StaleOrderVersionError"
  by (cases c) (simp_all add: class_extends.simps)

lemma validate_ok:
  "validate s t False = Inr () \<longleftrightarrow>
     (s, t) \<in> {(QUEUED, SAVED), (QUEUED, FAILED), (SAVED, SENT_TO_POS), (SAVED, FAILED),
               (SENT_TO_POS, COMPLETED)}"
  by (cases s) (auto simp: validate_def)

lemma validate_admin_ok: "validate s t True = Inr () \<longleftrightarrow> s = FAILED \<and> t = QUEUED"
  by (cases s) (auto simp: validate_def)

end
