(* ===== verification/Order_Queue.thy ===== *)
theory Order_Queue
  imports Order_Domain
begin

text \<open>
  OrderQueueService (src/order/infrastructure/queue/order-queue.service.ts). The job queue is
  an interface (locale job_queue): adding a job under a job id that the queue already knows is
  ignored, whatever state that job is in, as the queue library documents. The queue of the
  model is the list of the jobs it keeps.
\<close>

section \<open>Jobs\<close>

definition ORDERS_QUEUE_NAME :: string where
  "ORDERS_QUEUE_NAME = ''orders-main''"

record order_job_item =
  ji_menuId :: uuid
  ji_menuName :: string
  ji_unitPrice :: price
  ji_quantity :: int

record order_job_payload =
  jp_orderId :: uuid
  jp_traceId :: string
  jp_storeId :: uuid
  jp_userId :: "uuid option"
  jp_idempotencyKey :: string
  jp_requestedAmount :: string
  jp_calculatedAmount :: string
  jp_items :: "order_job_item list"
  jp_isRedrive :: "bool option"
  jp_redriveAt :: "time option"

text \<open>The payload of the dead letter queue: the order's payload with two more fields.\<close>

record dlq_payload =
  dp_payload :: order_job_payload
  dp_failureReason :: message
  dp_attempts :: int

datatype backoff = Backoff_exponential nat
datatype retention = Keep | Remove | KeepCount nat

record job_options =
  opt_jobId :: string
  opt_attempts :: nat
  opt_backoff :: "backoff option"
  opt_removeOnComplete :: retention
  opt_removeOnFail :: retention

datatype job_state = Waiting | Active | Done_ok | Failed_job

record 'p job =
  job_name :: string
  job_data :: 'p
  job_opts :: job_options
  job_state :: job_state

section \<open>The interface of the queue library\<close>

locale job_queue =
  fixes add :: "string \<Rightarrow> 'p \<Rightarrow> job_options \<Rightarrow> 'q \<Rightarrow> 'q"
    and lookup :: "'q \<Rightarrow> string \<Rightarrow> 'p job option"
  assumes add_new:
      "lookup q (opt_jobId opts) = None \<Longrightarrow> lookup (add name data opts q) (opt_jobId opts) =
         Some \<lparr>job_name = name, job_data = data, job_opts = opts, job_state = Waiting\<rparr>"
    and add_known: "lookup q (opt_jobId opts) = Some j \<Longrightarrow> add name data opts q = q"
    and add_other: "k \<noteq> opt_jobId opts \<Longrightarrow> lookup (add name data opts q) k = lookup q k"
begin

lemma add_keeps: "lookup q k = Some j \<Longrightarrow> lookup (add name data opts q) k = Some j"
  by (cases "k = opt_jobId opts") (simp_all add: add_known add_other)

end

type_synonym 'p bull_queue = "'p job list"

definition bull_lookup :: "'p bull_queue \<Rightarrow> string \<Rightarrow> 'p job option" where
  "bull_lookup q k = find (\<lambda>j. opt_jobId (job_opts j) = k) q"

definition bull_add :: "string \<Rightarrow> 'p \<Rightarrow> job_options \<Rightarrow> 'p bull_queue \<Rightarrow> 'p bull_queue" where
  "bull_add name data opts q =
     (case bull_lookup q (opt_jobId opts) of
        Some _ \<Rightarrow> q
      | None \<Rightarrow> q @ [\<lparr>job_name = name, job_data = data, job_opts = opts, job_state = Waiting\<rparr>])"

interpretation bull: job_queue bull_add bull_lookup
  by unfold_locales (auto simp: bull_add_def bull_lookup_def find_append split: option.splits)

section \<open>The service\<close>

definition orderJobId :: "uuid \<Rightarrow> string" where
  "orderJobId orderId = ''order-'' @ orderId"

text \<open>retry.maxAttempts and retry.baseDelayMs of the configuration.\<close>

definition defaultJobOptions :: "nat \<Rightarrow> nat \<Rightarrow> string \<Rightarrow> job_options" where
  "defaultJobOptions maxAttempts baseDelay jobId =
     \<lparr>opt_jobId = jobId, opt_attempts = maxAttempts,
      opt_backoff = Some (Backoff_exponential baseDelay),
      opt_removeOnComplete = KeepCount 1000, opt_removeOnFail = Keep\<rparr>"

definition publishOrder ::
  "(string \<Rightarrow> order_job_payload \<Rightarrow> job_options \<Rightarrow> 'q \<Rightarrow> 'q) \<Rightarrow> nat \<Rightarrow> nat \<Rightarrow>
   order_job_payload \<Rightarrow> 'q \<Rightarrow> string \<times> 'q" where
  "publishOrder add maxAttempts baseDelay payload q =
     (let jobId = orderJobId (jp_orderId payload)
      in (jobId, add ''process-order'' payload
            (defaultJobOptions maxAttempts baseDelay jobId) q))"

text \<open>show_time prints Date.now() in decimal.\<close>

definition publishToDlq ::
  "(string \<Rightarrow> dlq_payload \<Rightarrow> job_options \<Rightarrow> 'q \<Rightarrow> 'q) \<Rightarrow> (time \<Rightarrow> string) \<Rightarrow> time \<Rightarrow>
   dlq_payload \<Rightarrow> 'q \<Rightarrow> 'q" where
  "publishToDlq add show_time now payload q =
     add ''failed-order'' payload
       \<lparr>opt_jobId = ''dlq-'' @ jp_orderId (dp_payload payload) @ ''-'' @ show_time now,
        opt_attempts = 1, opt_backoff = None,
        opt_removeOnComplete = Keep, opt_removeOnFail = Keep\<rparr> q"

record queue_depth =
  qd_waiting :: nat
  qd_active :: nat
  qd_failed :: nat

definition count_state :: "job_state \<Rightarrow> 'p bull_queue \<Rightarrow> nat" where
  "count_state st q = length (filter (\<lambda>j. job_state j = st) q)"

definition getQueueDepth :: "'p bull_queue \<Rightarrow> queue_depth" where
  "getQueueDepth q =
     \<lparr>qd_waiting = count_state Waiting q, qd_active = count_state Active q,
      qd_failed = count_state Failed_job q\<rparr>"

section \<open>Lemmas over any queue\<close>

lemma orderJobId_inject [simp]: "orderJobId a = orderJobId b \<longleftrightarrow> a = b"
  by (simp add: orderJobId_def)

lemma opt_jobId_default [simp]: "opt_jobId (defaultJobOptions m b j) = j"
  by (simp add: defaultJobOptions_def)

locale order_queue = job_queue add lookup
  for add :: "string \<Rightarrow> order_job_payload \<Rightarrow> job_options \<Rightarrow> 'q \<Rightarrow> 'q" and lookup
begin

lemma publish_known:
  "lookup q (orderJobId (jp_orderId p)) = Some j \<Longrightarrow> snd (publishOrder add m b p q) = q"
  by (simp add: publishOrder_def Let_def add_known)

lemma publish_new:
  "lookup q (orderJobId (jp_orderId p)) = None \<Longrightarrow>
     lookup (snd (publishOrder add m b p q)) (orderJobId (jp_orderId p)) =
       Some \<lparr>job_name = ''process-order'', job_data = p,
         job_opts = defaultJobOptions m b (orderJobId (jp_orderId p)), job_state = Waiting\<rparr>"
  using add_new [of q "defaultJobOptions m b (orderJobId (jp_orderId p))"]
  by (simp add: publishOrder_def Let_def)

lemma publish_other:
  "k \<noteq> orderJobId (jp_orderId p) \<Longrightarrow> lookup (snd (publishOrder add m b p q)) k = lookup q k"
  by (simp add: publishOrder_def Let_def add_other)

lemma publish_idem:
  "snd (publishOrder add m b p (snd (publishOrder add m b p q))) = snd (publishOrder add m b p q)"
proof (cases "lookup q (orderJobId (jp_orderId p))")
  case None
  show ?thesis by (rule publish_known [OF publish_new [OF None]])
next
  case (Some j)
  then show ?thesis by (simp add: publish_known)
qed

end

interpretation oq: order_queue bull_add bull_lookup
  by unfold_locales

lemma publishOrder_fresh:
  "bull_lookup q (orderJobId (jp_orderId p)) = None \<Longrightarrow>
     publishOrder bull_add m b p q = (orderJobId (jp_orderId p),
       q @ [\<lparr>job_name = ''process-order'', job_data = p,
         job_opts = defaultJobOptions m b (orderJobId (jp_orderId p)), job_state = Waiting\<rparr>])"
  by (simp add: publishOrder_def Let_def bull_add_def)

lemma publishOrder_known:
  "bull_lookup q (orderJobId (jp_orderId p)) = Some j \<Longrightarrow>
     publishOrder bull_add m b p q = (orderJobId (jp_orderId p), q)"
  by (simp add: publishOrder_def Let_def bull_add_def)

end
