(* ===== verification/Order_Repository.thy ===== *)
theory Order_Repository
  imports Order_Queue
begin

text \<open>
  OrderRepository (src/order/infrastructure/repositories/order.repository.ts): its SQL
  statements over the tables of the database, kept as lists of rows, and its two
  transactions, whose effects are dropped when a statement fails. What the database server
  and the driver contribute to a call is its context: the clock, the generated ids, how the
  server reads uuid and numeric text, which statement fails and with what error, and in
  which shape the driver hands back the result of an UPDATE.
\<close>

section \<open>The database\<close>

record database =
  t_stores :: "store_entity list"
  t_menus :: "menu_entity list"
  t_orders :: "order_row list"
  t_items :: "order_item_entity list"
  t_transitions :: "order_state_transition_entity list"

datatype stmt =
    InsertOrder | InsertItem nat | InsertTransition | UpdateOrder | SelectOrder | SelectMenus
  | SelectStore | SelectItems | CountOrders | Commit | CatalogStmt nat

text \<open>An element of the JavaScript value an UPDATE query resolves to.\<close>

datatype ret_cell =
    RowCell uuid order_status
  | RowsCell "(uuid \<times> order_status) list"
  | CountCell nat

record db_ctx =
  cx_now :: time
  cx_uuid :: "nat \<Rightarrow> uuid"
  cx_uuid_in :: "string \<Rightarrow> uuid option"
  cx_numeric_in :: "string \<Rightarrow> string option"
  cx_fault :: "stmt \<Rightarrow> error option"
  cx_update_result :: "(uuid \<times> order_status) list \<Rightarrow> nat \<Rightarrow> ret_cell list"

text \<open>
  Documented behaviour of the driver that transitionStatus relies on: element 1 of the result
  of an UPDATE is the number of rows it changed.
\<close>

fun row_count :: "ret_cell list \<Rightarrow> nat option" where
  "row_count (_ # CountCell n # _) = Some n"
| "row_count _ = None"

definition driver_counts :: "db_ctx \<Rightarrow> bool" where
  "driver_counts C \<longleftrightarrow> (\<forall>rows n. row_count (cx_update_result C rows n) = Some n)"

definition typeorm_result :: "(uuid \<times> order_status) list \<Rightarrow> nat \<Rightarrow> ret_cell list" where
  "typeorm_result rows n = [RowsCell rows, CountCell n]"

lemma typeorm_result_counts [simp]: "row_count (typeorm_result rows n) = Some n"
  by (simp add: typeorm_result_def)

definition queryFailed :: "string \<Rightarrow> error" where
  "queryFailed why = mk_error QueryFailedError (TextMsg why)"

definition run_stmt :: "db_ctx \<Rightarrow> stmt \<Rightarrow> error + unit" where
  "run_stmt C st = (case cx_fault C st of Some e \<Rightarrow> Inl e | None \<Rightarrow> Inr ())"

definition uuid_arg :: "db_ctx \<Rightarrow> string \<Rightarrow> error + uuid" where
  "uuid_arg C s = require (queryFailed ''invalid input syntax for type uuid'') (cx_uuid_in C s)"

definition numeric_arg :: "db_ctx \<Rightarrow> string \<Rightarrow> error + string" where
  "numeric_arg C s = require (queryFailed ''numeric'') (cx_numeric_in C s)"

text \<open>BEGIN, the body, COMMIT; any error rolls back.\<close>

definition transaction :: "(database \<Rightarrow> error + 'a \<times> database) \<Rightarrow> database \<Rightarrow> (error + 'a) \<times> database" where
  "transaction body db =
     (case body db of Inl e \<Rightarrow> (Inl e, db) | Inr (a, db') \<Rightarrow> (Inr a, db'))"

section \<open>Reading orders\<close>

definition row_with_id :: "uuid \<Rightarrow> database \<Rightarrow> order_row option" where
  "row_with_id i db = find (\<lambda>r. o_id r = i) (t_orders db)"

definition items_of :: "uuid \<Rightarrow> database \<Rightarrow> order_item_entity list" where
  "items_of i db = filter (\<lambda>it. oi_orderId it = i) (t_items db)"

definition findByIdempotencyKey :: "db_ctx \<Rightarrow> string \<Rightarrow> database \<Rightarrow> error + order_row option" where
  "findByIdempotencyKey C key db =
     bind_res (run_stmt C SelectOrder) (\<lambda>_.
       Inr (find (\<lambda>r. o_idempotencyKey r = key) (t_orders db)))"

definition findById :: "db_ctx \<Rightarrow> string \<Rightarrow> database \<Rightarrow> error + order_entity option" where
  "findById C i db =
     bind_res (run_stmt C SelectOrder) (\<lambda>_.
     bind_res (uuid_arg C i) (\<lambda>u.
       Inr (map_option (\<lambda>r. \<lparr>oe_row = r, oe_items = items_of u db\<rparr>) (row_with_id u db))))"

section \<open>createOrder\<close>

record create_order_params =
  cp_id :: uuid
  cp_idempotencyKey :: string
  cp_traceId :: string
  cp_storeId :: uuid
  cp_userId :: "uuid option"
  cp_requestedAmount :: string
  cp_calculatedAmount :: string
  cp_items :: "order_job_item list"
  cp_workerId :: string
  cp_jobId :: string

record transition_log =
  tl_orderId :: uuid
  tl_fromStatus :: "order_status option"
  tl_toStatus :: order_status
  tl_workerId :: "string option"
  tl_jobId :: "string option"
  tl_reason :: "message option"

definition log_entry :: "db_ctx \<Rightarrow> nat \<Rightarrow> transition_log \<Rightarrow> order_state_transition_entity" where
  "log_entry C n p =
     \<lparr>tr_id = cx_uuid C n, tr_orderId = tl_orderId p,
      tr_fromStatus = tl_fromStatus p, tr_toStatus = tl_toStatus p,
      tr_workerId = tl_workerId p, tr_jobId = tl_jobId p, tr_reason = tl_reason p,
      tr_transitionedAt = cx_now C\<rparr>"

definition insertTransition :: "db_ctx \<Rightarrow> transition_log \<Rightarrow> database \<Rightarrow> error + database" where
  "insertTransition C p db =
     bind_res (run_stmt C InsertTransition) (\<lambda>_.
     bind_res (ensure (queryFailed ''order_id'') (tl_orderId p \<in> o_id ` set (t_orders db))) (\<lambda>_.
       Inr (db\<lparr>t_transitions := t_transitions db @
         [log_entry C (length (t_transitions db)) p]\<rparr>)))"

text \<open>The columns of a new row that the INSERT leaves to their defaults.\<close>

definition new_row ::
  "db_ctx \<Rightarrow> create_order_params \<Rightarrow> uuid \<Rightarrow> uuid \<Rightarrow> uuid option \<Rightarrow> string \<Rightarrow> string \<Rightarrow> order_row"
where
  "new_row C p i store user requested calculated =
     \<lparr>o_id = i, o_idempotencyKey = cp_idempotencyKey p, o_traceId = cp_traceId p,
      o_storeId = store, o_userId = user, o_status = QUEUED,
      o_requestedAmount = requested, o_calculatedAmount = calculated, o_version = 0,
      o_posResponse = None, o_posErrorMessage = None, o_retryCount = 0, o_dlqAt = None,
      o_failureReason = None, o_createdAt = cx_now C, o_queuedAt = cx_now C, o_savedAt = None,
      o_sentToPosAt = None, o_completedAt = None, o_failedAt = None, o_updatedAt = None\<rparr>"

text \<open>
  INSERT INTO orders ... ON CONFLICT (idempotency_key) DO NOTHING RETURNING id. None is the
  empty result of a conflict on the idempotency key; a clash of the primary key or a missing
  store is an error.
\<close>

definition insertOrder ::
  "db_ctx \<Rightarrow> create_order_params \<Rightarrow> database \<Rightarrow> error + database option" where
  "insertOrder C p db =
     bind_res (run_stmt C InsertOrder) (\<lambda>_.
     bind_res (uuid_arg C (cp_id p)) (\<lambda>i.
     bind_res (uuid_arg C (cp_storeId p)) (\<lambda>store.
     bind_res (case cp_userId p of None \<Rightarrow> Inr None
               | Some w \<Rightarrow> map_sum id Some (uuid_arg C w)) (\<lambda>user.
     bind_res (numeric_arg C (cp_requestedAmount p)) (\<lambda>requested.
     bind_res (numeric_arg C (cp_calculatedAmount p)) (\<lambda>calculated.
       if cp_idempotencyKey p \<in> o_idempotencyKey ` set (t_orders db) then Inr None
       else
         bind_res (ensure (queryFailed ''orders_pkey'') (i \<notin> o_id ` set (t_orders db))) (\<lambda>_.
         bind_res (ensure (queryFailed ''store_id'') (store \<in> st_id ` set (t_stores db))) (\<lambda>_.
           Inr (Some (db\<lparr>t_orders := t_orders db @
             [new_row C p i store user requested calculated]\<rparr>))))))))))"

text \<open>CHECK and numeric range of order_items; subtotal is generated as NUMERIC(10,2).\<close>

definition item_row_ok :: "order_job_item \<Rightarrow> bool" where
  "item_row_ok it \<longleftrightarrow>
     0 \<le> ji_unitPrice it \<and> ji_unitPrice it < 10 ^ 10 \<and> 0 < ji_quantity it \<and>
     ji_quantity it < 2 ^ 31 \<and> ji_unitPrice it * ji_quantity it < 10 ^ 10"

definition insertItem ::
  "db_ctx \<Rightarrow> nat \<Rightarrow> uuid \<Rightarrow> order_job_item \<Rightarrow> database \<Rightarrow> error + database" where
  "insertItem C n i it db =
     bind_res (run_stmt C (InsertItem n)) (\<lambda>_.
     bind_res (uuid_arg C (ji_menuId it)) (\<lambda>menu.
     bind_res (ensure (queryFailed ''order_items_check'') (item_row_ok it)) (\<lambda>_.
     bind_res (ensure (queryFailed ''menu_id'') (menu \<in> me_id ` set (t_menus db))) (\<lambda>_.
       Inr (db\<lparr>t_items := t_items db @
         [\<lparr>oi_id = cx_uuid C (length (t_items db)), oi_orderId = i, oi_menuId = menu,
           oi_menuName = ji_menuName it, oi_unitPrice = ji_unitPrice it,
           oi_quantity = ji_quantity it, oi_createdAt = cx_now C\<rparr>]\<rparr>)))))"

fun insertItems ::
  "db_ctx \<Rightarrow> nat \<Rightarrow> uuid \<Rightarrow> order_job_item list \<Rightarrow> database \<Rightarrow> error + database" where
  "insertItems C n i [] db = Inr db"
| "insertItems C n i (it # its) db =
     bind_res (insertItem C n i it db) (\<lambda>db'. insertItems C (Suc n) i its db')"

text \<open>
  The body of the transaction: False for a duplicate, which is rolled back by hand. The read
  of the new order comes after COMMIT and its promise is returned without being awaited, so
  its failure neither rolls anything back nor reaches the catch clause.
\<close>

definition createOrder_tx :: "db_ctx \<Rightarrow> create_order_params \<Rightarrow> database \<Rightarrow> error + bool \<times> database" where
  "createOrder_tx C p db =
     bind_res (insertOrder C p db) (\<lambda>inserted.
       case inserted of
         None \<Rightarrow> Inr (False, db)
       | Some db1 \<Rightarrow>
           bind_res (uuid_arg C (cp_id p)) (\<lambda>i.
           bind_res (insertItems C 0 i (cp_items p) db1) (\<lambda>db2.
           bind_res (insertTransition C
             \<lparr>tl_orderId = i, tl_fromStatus = None, tl_toStatus = QUEUED,
              tl_workerId = Some (cp_workerId p), tl_jobId = Some (cp_jobId p),
              tl_reason = None\<rparr> db2) (\<lambda>db3.
           bind_res (run_stmt C Commit) (\<lambda>_. Inr (True, db3))))))"

definition createOrder ::
  "db_ctx \<Rightarrow> create_order_params \<Rightarrow> database \<Rightarrow> (error + order_entity option) \<times> database" where
  "createOrder C p db =
     (case transaction (createOrder_tx C p) db of
        (Inl e, db') \<Rightarrow> (Inl e, db')
      | (Inr False, db') \<Rightarrow> (Inr None, db')
      | (Inr True, db') \<Rightarrow> (findById C (cp_id p) db', db'))"

section \<open>transitionStatus\<close>

record transition_params =
  tp_orderId :: string
  tp_expectedStatus :: order_status
  tp_nextStatus :: order_status
  tp_currentVersion :: int
  tp_workerId :: string
  tp_jobId :: "string option"
  tp_reason :: "message option"
  tp_posResponse :: "json option"
  tp_posErrorMessage :: "string option"

datatype timestamp_column = Queued_at | Saved_at | Sent_to_pos_at | Completed_at | Failed_at

fun timestampColumn :: "order_status \<Rightarrow> timestamp_column option" where
  "timestampColumn QUEUED = Some Queued_at"
| "timestampColumn SAVED = Some Saved_at"
| "timestampColumn SENT_TO_POS = Some Sent_to_pos_at"
| "timestampColumn COMPLETED = Some Completed_at"
| "timestampColumn FAILED = Some Failed_at"
| "timestampColumn _ = None"

fun set_timestamp :: "timestamp_column \<Rightarrow> time \<Rightarrow> order_row \<Rightarrow> order_row" where
  "set_timestamp Queued_at now r = r\<lparr>o_queuedAt := now\<rparr>"
| "set_timestamp Saved_at now r = r\<lparr>o_savedAt := Some now\<rparr>"
| "set_timestamp Sent_to_pos_at now r = r\<lparr>o_sentToPosAt := Some now\<rparr>"
| "set_timestamp Completed_at now r = r\<lparr>o_completedAt := Some now\<rparr>"
| "set_timestamp Failed_at now r = r\<lparr>o_failedAt := Some now\<rparr>"

text \<open>A string is truthy when it is not empty; every template has text.\<close>

fun truthy_message :: "message option \<Rightarrow> bool" where
  "truthy_message None = False"
| "truthy_message (Some (TextMsg s)) = (s \<noteq> [])"
| "truthy_message (Some _) = True"

definition extra_clauses :: "transition_params \<Rightarrow> order_row \<Rightarrow> order_row" where
  "extra_clauses p r =
     (let r1 = (case tp_posResponse p of None \<Rightarrow> r | Some j \<Rightarrow> r\<lparr>o_posResponse := Some j\<rparr>);
          r2 = (case tp_posErrorMessage p of None \<Rightarrow> r1
                | Some m \<Rightarrow> if m = [] then r1 else r1\<lparr>o_posErrorMessage := Some m\<rparr>)
      in if truthy_message (tp_reason p) then r2\<lparr>o_failureReason := tp_reason p\<rparr> else r2)"

definition transition_row ::
  "timestamp_column \<Rightarrow> time \<Rightarrow> transition_params \<Rightarrow> order_row \<Rightarrow> order_row" where
  "transition_row col now p r =
     extra_clauses p (set_timestamp col now
       (r\<lparr>o_status := tp_nextStatus p, o_version := o_version r + 1\<rparr>))"

definition transition_where :: "uuid \<Rightarrow> transition_params \<Rightarrow> order_row \<Rightarrow> bool" where
  "transition_where i p r \<longleftrightarrow>
     o_id r = i \<and> o_status r = tp_expectedStatus p \<and> o_version r = tp_currentVersion p"

definition transitionStatus_tx ::
  "db_ctx \<Rightarrow> transition_params \<Rightarrow> database \<Rightarrow> error + unit \<times> database" where
  "transitionStatus_tx C p db =
     bind_res (validate (tp_expectedStatus p) (tp_nextStatus p) False) (\<lambda>_.
     bind_res (require (queryFailed ''column undefined'') (timestampColumn (tp_nextStatus p))) (\<lambda>col.
     bind_res (run_stmt C UpdateOrder) (\<lambda>_.
     bind_res (uuid_arg C (tp_orderId p)) (\<lambda>i.
       let hit = transition_where i p;
           result = cx_update_result C [] (sql_count hit (t_orders db));
           db1 = db\<lparr>t_orders := sql_update hit (transition_row col (cx_now C) p) (t_orders db)\<rparr>
       in if row_count result = Some 0
          then Inl (staleOrderVersionError (tp_orderId p) (tp_currentVersion p))
          else
            bind_res (insertTransition C
              \<lparr>tl_orderId = i, tl_fromStatus = Some (tp_expectedStatus p),
               tl_toStatus = tp_nextStatus p, tl_workerId = Some (tp_workerId p),
               tl_jobId = tp_jobId p, tl_reason = tp_reason p\<rparr> db1) (\<lambda>db2.
            bind_res (run_stmt C Commit) (\<lambda>_. Inr ((), db2)))))))"

definition transitionStatus ::
  "db_ctx \<Rightarrow> transition_params \<Rightarrow> database \<Rightarrow> (error + unit) \<times> database" where
  "transitionStatus C p db = transaction (transitionStatus_tx C p) db"

section \<open>Failure bookkeeping\<close>

definition markDlq :: "db_ctx \<Rightarrow> string \<Rightarrow> message \<Rightarrow> database \<Rightarrow> (error + unit) \<times> database" where
  "markDlq C orderId reason db =
     (case bind_res (run_stmt C UpdateOrder) (\<lambda>_. uuid_arg C orderId) of
        Inl e \<Rightarrow> (Inl e, db)
      | Inr i \<Rightarrow> (Inr (), db\<lparr>t_orders := sql_update (\<lambda>r. o_id r = i)
          (\<lambda>r. r\<lparr>o_dlqAt := Some (cx_now C), o_failureReason := Some reason\<rparr>) (t_orders db)\<rparr>))"

definition incrementRetryCount :: "db_ctx \<Rightarrow> string \<Rightarrow> database \<Rightarrow> (error + unit) \<times> database" where
  "incrementRetryCount C orderId db =
     (case bind_res (run_stmt C UpdateOrder) (\<lambda>_. uuid_arg C orderId) of
        Inl e \<Rightarrow> (Inl e, db)
      | Inr i \<Rightarrow> (Inr (), db\<lparr>t_orders := sql_update (\<lambda>r. o_id r = i)
          (\<lambda>r. r\<lparr>o_retryCount := o_retryCount r + 1\<rparr>) (t_orders db)\<rparr>))"

section \<open>Queries\<close>

record failed_query =
  fq_storeId :: "uuid option"
  fq_from :: "time option"
  fq_to :: "time option"
  fq_page :: int
  fq_limit :: "int option"

definition failed_where :: "failed_query \<Rightarrow> uuid option \<Rightarrow> order_row \<Rightarrow> bool" where
  "failed_where q store r \<longleftrightarrow>
     o_status r = FAILED \<and> o_dlqAt r \<noteq> None \<and>
     (case store of None \<Rightarrow> True | Some s \<Rightarrow> o_storeId r = s) \<and>
     (case fq_from q of None \<Rightarrow> True | Some t \<Rightarrow> t \<le> o_createdAt r) \<and>
     (case fq_to q of None \<Rightarrow> True | Some t \<Rightarrow> o_createdAt r \<le> t)"

definition order_by_dlqAt_desc :: "order_row list \<Rightarrow> order_row list" where
  "order_by_dlqAt_desc rs = rev (sort_key (\<lambda>r. case o_dlqAt r of None \<Rightarrow> 0 | Some t \<Rightarrow> t) rs)"

text \<open>skip and take reach the server as OFFSET and LIMIT, which must not be negative.\<close>

definition findFailedOrders ::
  "db_ctx \<Rightarrow> failed_query \<Rightarrow> database \<Rightarrow> error + order_row list \<times> nat" where
  "findFailedOrders C q db =
     (let limit = (case fq_limit q of None \<Rightarrow> 20 | Some l \<Rightarrow> l);
          offset = (fq_page q - 1) * limit
      in bind_res (run_stmt C SelectOrder) (\<lambda>_.
         bind_res (case fq_storeId q of None \<Rightarrow> Inr None
                   | Some s \<Rightarrow> if s = [] then Inr None else map_sum id Some (uuid_arg C s)) (\<lambda>store.
         bind_res (ensure (queryFailed ''OFFSET or LIMIT must not be negative'')
                     (0 \<le> offset \<and> 0 \<le> limit)) (\<lambda>_.
           let rows = order_by_dlqAt_desc (sql_select (failed_where q store) (t_orders db))
           in bind_res (run_stmt C CountOrders) (\<lambda>_.
                Inr (take (nat limit) (drop (nat offset) rows),
                     sql_count (failed_where q store) (t_orders db)))))))"

record menu_view =
  mv_id :: uuid
  mv_name :: string
  mv_unitPrice :: price
  mv_isAvailable :: bool

definition menu_view_of :: "menu_entity \<Rightarrow> menu_view" where
  "menu_view_of m = \<lparr>mv_id = me_id m, mv_name = me_name m, mv_unitPrice = me_unitPrice m,
     mv_isAvailable = me_isAvailable m\<rparr>"

fun uuid_args :: "db_ctx \<Rightarrow> string list \<Rightarrow> error + uuid list" where
  "uuid_args C [] = Inr []"
| "uuid_args C (s # ss) =
     bind_res (uuid_arg C s) (\<lambda>u. bind_res (uuid_args C ss) (\<lambda>us. Inr (u # us)))"

definition findMenusByIds ::
  "db_ctx \<Rightarrow> string list \<Rightarrow> string \<Rightarrow> database \<Rightarrow> error + menu_view list" where
  "findMenusByIds C menuIds storeId db =
     (if menuIds = [] then Inr []
      else bind_res (run_stmt C SelectMenus) (\<lambda>_.
           bind_res (uuid_args C menuIds) (\<lambda>ids.
           bind_res (uuid_arg C storeId) (\<lambda>store.
             Inr (map menu_view_of
               (sql_select (\<lambda>m. me_id m \<in> set ids \<and> me_storeId m = store) (t_menus db)))))))"

end
