(* ===== verification/Samples.thy ===== *)
theory Samples
  imports Order_Repository
begin

text \<open>
  Concrete values at which the properties are exercised: a database server whose statements
  all succeed, the seed stores and menus, and one order.
\<close>

definition quiet_ctx :: "time \<Rightarrow> db_ctx" where
  "quiet_ctx now = \<lparr>cx_now = now, cx_uuid = (\<lambda>n. replicate (Suc n) (CHR ''u'')),
     cx_uuid_in = Some, cx_numeric_in = Some, cx_fault = (\<lambda>_. None),
     cx_update_result = typeorm_result\<rparr>"

definition sample_store :: store_entity where
  "sample_store = \<lparr>st_id = ''s1'', st_name = ''Gangnam'', st_posType = ''MODERN_V2'',
     st_posEndpoint = ''http://pos-modern:8080'', st_posApiKeyEnc = None, st_isActive = True,
     st_createdAt = 0, st_updatedAt = 0\<rparr>"

definition sample_menu :: menu_entity where
  "sample_menu = \<lparr>me_id = ''m1'', me_storeId = ''s1'', me_name = ''fried'',
     me_unitPrice = 1800000, me_isAvailable = True, me_version = 0, me_createdAt = 0,
     me_updatedAt = 0\<rparr>"

definition seed_db :: database where
  "seed_db = \<lparr>t_stores = [sample_store], t_menus = [sample_menu], t_orders = [], t_items = [],
     t_transitions = []\<rparr>"

definition sample_item :: order_job_item where
  "sample_item = \<lparr>ji_menuId = ''m1'', ji_menuName = ''fried'', ji_unitPrice = 1800000,
     ji_quantity = 2\<rparr>"

definition sample_params :: create_order_params where
  "sample_params = \<lparr>cp_id = ''o1'', cp_idempotencyKey = ''k1'', cp_traceId = ''t1'',
     cp_storeId = ''s1'', cp_userId = None, cp_requestedAmount = ''36000'',
     cp_calculatedAmount = ''36000.00'', cp_items = [sample_item], cp_workerId = ''w1'',
     cp_jobId = ''order-o1''\<rparr>"

definition sample_row :: order_row where
  "sample_row = new_row (quiet_ctx 10) sample_params ''o1'' ''s1'' None ''36000'' ''36000.00''"

definition sample_log :: order_state_transition_entity where
  "sample_log = log_entry (quiet_ctx 10) 0
     \<lparr>tl_orderId = ''o1'', tl_fromStatus = None, tl_toStatus = QUEUED, tl_workerId = Some ''w1'',
      tl_jobId = Some ''order-o1'', tl_reason = None\<rparr>"

definition sample_item_row :: order_item_entity where
  "sample_item_row = \<lparr>oi_id = ''u'', oi_orderId = ''o1'', oi_menuId = ''m1'',
     oi_menuName = ''fried'', oi_unitPrice = 1800000, oi_quantity = 2, oi_createdAt = 10\<rparr>"

definition queued_db :: database where
  "queued_db = seed_db\<lparr>t_orders := [sample_row], t_items := [sample_item_row],
     t_transitions := [sample_log]\<rparr>"

lemma quiet_ctx_sel [simp]:
  "cx_now (quiet_ctx now) = now" "cx_uuid_in (quiet_ctx now) = Some"
  "cx_numeric_in (quiet_ctx now) = Some" "cx_fault (quiet_ctx now) st = None"
  "cx_update_result (quiet_ctx now) = typeorm_result"
  by (simp_all add: quiet_ctx_def)

lemma quiet_ctx_driver [simp]: "driver_counts (quiet_ctx now)"
  by (simp add: driver_counts_def)

lemma quiet_run [simp]: "run_stmt (quiet_ctx now) st = Inr ()"
  by (simp add: run_stmt_def)

lemma quiet_uuid [simp]: "uuid_arg (quiet_ctx now) s = Inr s"
  by (simp add: uuid_arg_def)

lemma quiet_numeric [simp]: "numeric_arg (quiet_ctx now) s = Inr s"
  by (simp add: numeric_arg_def)

lemma seed_db_sel [simp]:
  "t_orders seed_db = []" "t_items seed_db = []" "t_transitions seed_db = []"
  "t_stores seed_db = [sample_store]" "t_menus seed_db = [sample_menu]"
  by (simp_all add: seed_db_def)

lemma sample_row_sel [simp]:
  "o_id sample_row = ''o1''" "o_idempotencyKey sample_row = ''k1''"
  "o_status sample_row = QUEUED" "o_version sample_row = 0" "o_storeId sample_row = ''s1''"
  by (simp_all add: sample_row_def new_row_def sample_params_def)

lemma queued_db_sel [simp]:
  "t_orders queued_db = [sample_row]" "t_items queued_db = [sample_item_row]"
  "t_transitions queued_db = [sample_log]" "t_stores queued_db = [sample_store]"
  "t_menus queued_db = [sample_menu]"
  by (simp_all add: queued_db_def)

lemma sample_log_sel [simp]:
  "tr_orderId sample_log = ''o1''" "tr_fromStatus sample_log = None"
  "tr_toStatus sample_log = QUEUED"
  by (simp_all add: sample_log_def log_entry_def)

lemma quiet_uuid_gen [simp]: "cx_uuid (quiet_ctx now) n = replicate (Suc n) (CHR ''u'')"
  by (simp add: quiet_ctx_def)

lemma sample_params_sel [simp]:
  "cp_id sample_params = ''o1''" "cp_idempotencyKey sample_params = ''k1''"
  "cp_storeId sample_params = ''s1''" "cp_userId sample_params = None"
  "cp_items sample_params = [sample_item]" "cp_workerId sample_params = ''w1''"
  "cp_jobId sample_params = ''order-o1''" "cp_requestedAmount sample_params = ''36000''"
  "cp_calculatedAmount sample_params = ''36000.00''"
  by (simp_all add: sample_params_def)

lemma sample_ids [simp]: "st_id sample_store = ''s1''" "me_id sample_menu = ''m1''"
  by (simp_all add: sample_store_def sample_menu_def)

lemma sample_item_ok [simp]: "item_row_ok sample_item"
  by (simp add: item_row_ok_def sample_item_def)

lemma sample_insertOrder:
  "insertOrder (quiet_ctx 10) sample_params seed_db =
     Inr (Some (seed_db\<lparr>t_orders := [sample_row]\<rparr>))"
  by (simp add: insertOrder_def sample_row_def)

lemma sample_insertItem:
  "t_menus db = [sample_menu] \<Longrightarrow> t_items db = [] \<Longrightarrow>
     insertItem (quiet_ctx 10) 0 ''o1'' sample_item db =
     Inr (db\<lparr>t_items := [sample_item_row]\<rparr>)"
  by (simp add: insertItem_def) (simp add: sample_item_def sample_item_row_def)

lemma sample_created_tx:
  "createOrder_tx (quiet_ctx 10) sample_params seed_db = Inr (True, queued_db)"
  by (simp add: createOrder_tx_def sample_insertOrder sample_insertItem insertTransition_def
      queued_db_def sample_log_def)

lemma sample_created:
  "createOrder (quiet_ctx 10) sample_params seed_db =
     (Inr (Some \<lparr>oe_row = sample_row, oe_items = [sample_item_row]\<rparr>), queued_db)"
  by (simp add: createOrder_def transaction_def sample_created_tx findById_def row_with_id_def
      items_of_def sample_item_row_def)

end
