(* ===== verification/Order_Audit.thy ===== *)
theory Order_Audit
  imports Order_Repository Samples
begin

text \<open>
  What the repository's operations keep true of the database: keys stay unique, and the
  append-only log of each order replays, along allowed transitions from QUEUED, to the
  status of its row, with as many steps as its version says. One lemma per operation, then
  the states reachable by any sequence of repository operations.
\<close>

section \<open>Well-formed tables and the audit log\<close>

definition trail :: "uuid \<Rightarrow> database \<Rightarrow> order_state_transition_entity list" where
  "trail i db = filter (\<lambda>t. tr_orderId t = i) (t_transitions db)"

fun walk :: "order_status \<Rightarrow> order_state_transition_entity list \<Rightarrow> order_status option" where
  "walk s [] = Some s"
| "walk s (t # ts) =
     (if tr_fromStatus t = Some s \<and> validate s (tr_toStatus t) False = Inr ()
      then walk (tr_toStatus t) ts else None)"

fun audit_ok :: "order_row \<Rightarrow> order_state_transition_entity list \<Rightarrow> bool" where
  "audit_ok r [] = False"
| "audit_ok r (t # ts) =
     (tr_fromStatus t = None \<and> tr_toStatus t = QUEUED \<and> walk QUEUED ts = Some (o_status r) \<and>
      o_version r = int (length ts))"

definition keys_ok :: "database \<Rightarrow> bool" where
  "keys_ok db \<longleftrightarrow> distinct (map o_id (t_orders db)) \<and>
     distinct (map o_idempotencyKey (t_orders db)) \<and>
     tr_orderId ` set (t_transitions db) \<subseteq> o_id ` set (t_orders db)"

definition audit_inv :: "database \<Rightarrow> bool" where
  "audit_inv db \<longleftrightarrow> (\<forall>r \<in> set (t_orders db). audit_ok r (trail (o_id r) db))"

definition db_inv :: "database \<Rightarrow> bool" where
  "db_inv db \<longleftrightarrow> keys_ok db \<and> audit_inv db"

lemma walk_append:
  "walk s (ts @ us) = (case walk s ts of None \<Rightarrow> None | Some t \<Rightarrow> walk t us)"
  by (induction s ts rule: walk.induct) auto

lemma walk_snoc:
  "walk s ts = Some t \<Longrightarrow> tr_fromStatus x = Some t \<Longrightarrow>
     validate t (tr_toStatus x) False = Inr () \<Longrightarrow> walk s (ts @ [x]) = Some (tr_toStatus x)"
  by (simp add: walk_append)

lemma audit_ok_cong:
  "o_status r = o_status s \<Longrightarrow> o_version r = o_version s \<Longrightarrow> audit_ok r ts = audit_ok s ts"
  by (cases ts) simp_all

lemma audit_ok_snoc:
  assumes "audit_ok r ts" and "tr_fromStatus x = Some (o_status r)"
    and "validate (o_status r) (tr_toStatus x) False = Inr ()"
    and "o_status s = tr_toStatus x" and "o_version s = o_version r + 1"
  shows "audit_ok s (ts @ [x])"
  using assms by (cases ts) (simp_all add: walk_snoc)

lemma row_with_id_in:
  "keys_ok db \<Longrightarrow> r \<in> set (t_orders db) \<Longrightarrow> row_with_id (o_id r) db = Some r"
  by (simp add: keys_ok_def row_with_id_def find_key)

lemma row_with_id_Some: "row_with_id i db = Some r \<Longrightarrow> r \<in> set (t_orders db) \<and> o_id r = i"
  by (auto simp: row_with_id_def dest: find_Some_D)

section \<open>What each statement does\<close>

lemma run_stmt_Inr [simp]: "run_stmt C st = Inr u \<longleftrightarrow> cx_fault C st = None"
  by (simp add: run_stmt_def split: option.splits)

lemma uuid_arg_Inr [simp]: "uuid_arg C s = Inr u \<longleftrightarrow> cx_uuid_in C s = Some u"
  by (simp add: uuid_arg_def)

lemma numeric_arg_Inr [simp]: "numeric_arg C s = Inr u \<longleftrightarrow> cx_numeric_in C s = Some u"
  by (simp add: numeric_arg_def)

lemma transaction_Inl: "fst (transaction body db) = Inl e \<Longrightarrow> snd (transaction body db) = db"
  by (auto simp: transaction_def split: sum.splits)

lemma insertTransition_Inr:
  "insertTransition C p db = Inr db' \<longleftrightarrow>
     cx_fault C InsertTransition = None \<and> tl_orderId p \<in> o_id ` set (t_orders db) \<and>
     db' = db\<lparr>t_transitions := t_transitions db @ [log_entry C (length (t_transitions db)) p]\<rparr>"
  by (auto simp: insertTransition_def bind_res_Inr)

lemma log_entry_fields [simp]:
  "tr_orderId (log_entry C n p) = tl_orderId p"
  "tr_fromStatus (log_entry C n p) = tl_fromStatus p"
  "tr_toStatus (log_entry C n p) = tl_toStatus p"
  "tr_reason (log_entry C n p) = tl_reason p"
  "tr_workerId (log_entry C n p) = tl_workerId p"
  "tr_jobId (log_entry C n p) = tl_jobId p"
  by (simp_all add: log_entry_def)

lemma insertItem_Inr:
  "insertItem C n i it db = Inr db' \<longleftrightarrow>
     cx_fault C (InsertItem n) = None \<and> item_row_ok it \<and>
     (\<exists>m. cx_uuid_in C (ji_menuId it) = Some m \<and> m \<in> me_id ` set (t_menus db) \<and>
       db' = db\<lparr>t_items := t_items db @
         [\<lparr>oi_id = cx_uuid C (length (t_items db)), oi_orderId = i, oi_menuId = m,
           oi_menuName = ji_menuName it, oi_unitPrice = ji_unitPrice it,
           oi_quantity = ji_quantity it, oi_createdAt = cx_now C\<rparr>]\<rparr>)"
  by (auto simp: insertItem_def bind_res_Inr)

lemma insertItems_Inr:
  "insertItems C n i its db = Inr db' \<Longrightarrow>
     \<exists>rows. db' = db\<lparr>t_items := t_items db @ rows\<rparr> \<and> length rows = length its \<and>
       (\<forall>row \<in> set rows. oi_orderId row = i) \<and> list_all item_row_ok its"
proof (induction C n i its db arbitrary: db' rule: insertItems.induct)
  case (1 C n i db)
  then show ?case by (intro exI [of _ "[]"]) simp
next
  case (2 C n i it its db)
  from "2.prems" obtain db1 where a: "insertItem C n i it db = Inr db1"
    and b: "insertItems C (Suc n) i its db1 = Inr db'"
    by (auto simp: bind_res_Inr)
  from a obtain row where row: "db1 = db\<lparr>t_items := t_items db @ [row]\<rparr>" "oi_orderId row = i"
    "item_row_ok it"
    by (auto simp: insertItem_Inr)
  from "2.IH" [OF a b] obtain rows where
    "db' = db1\<lparr>t_items := t_items db1 @ rows\<rparr>" "length rows = length its"
    "\<forall>r \<in> set rows. oi_orderId r = i" "list_all item_row_ok its"
    by blast
  with row show ?case by (intro exI [of _ "row # rows"]) simp
qed

text \<open>The parts of a new order's row that the invariants and properties speak of.\<close>

definition fresh_row_of :: "create_order_params \<Rightarrow> uuid \<Rightarrow> order_row \<Rightarrow> bool" where
  "fresh_row_of p i r \<longleftrightarrow>
     o_id r = i \<and> o_idempotencyKey r = cp_idempotencyKey p \<and> o_status r = QUEUED \<and>
     o_version r = 0 \<and> o_updatedAt r = None"

lemma new_row_fresh: "fresh_row_of p i (new_row C p i store user requested calculated)"
  by (simp add: fresh_row_of_def new_row_def)

lemma insertOrder_Inr:
  "insertOrder C p db = Inr res \<Longrightarrow>
     \<exists>i. cx_uuid_in C (cp_id p) = Some i \<and>
     (case res of
        None \<Rightarrow> cp_idempotencyKey p \<in> o_idempotencyKey ` set (t_orders db)
      | Some db' \<Rightarrow>
          cp_idempotencyKey p \<notin> o_idempotencyKey ` set (t_orders db) \<and>
          i \<notin> o_id ` set (t_orders db) \<and>
          (\<exists>row. fresh_row_of p i row \<and> db' = db\<lparr>t_orders := t_orders db @ [row]\<rparr>))"
  by (cases res) (auto simp: insertOrder_def bind_res_Inr split: if_splits intro: new_row_fresh)

lemma createOrder_tx_True:
  assumes "createOrder_tx C p db = Inr (True, db')"
  shows "\<exists>i row its tr. cx_uuid_in C (cp_id p) = Some i \<and> fresh_row_of p i row \<and>
     cp_idempotencyKey p \<notin> o_idempotencyKey ` set (t_orders db) \<and> i \<notin> o_id ` set (t_orders db) \<and>
     tr_orderId tr = i \<and> tr_fromStatus tr = None \<and> tr_toStatus tr = QUEUED \<and>
     length its = length (cp_items p) \<and> (\<forall>it \<in> set its. oi_orderId it = i) \<and>
     db' = db\<lparr>t_orders := t_orders db @ [row], t_items := t_items db @ its,
       t_transitions := t_transitions db @ [tr]\<rparr>"
proof -
  let ?log = "\<lambda>i. \<lparr>tl_orderId = i, tl_fromStatus = None, tl_toStatus = QUEUED,
    tl_workerId = Some (cp_workerId p), tl_jobId = Some (cp_jobId p), tl_reason = None\<rparr>"
  from assms obtain db1 i db2 where
    ins: "insertOrder C p db = Inr (Some db1)" and i: "cx_uuid_in C (cp_id p) = Some i" and
    its: "insertItems C 0 i (cp_items p) db1 = Inr db2" and
    tr: "insertTransition C (?log i) db2 = Inr db'"
    by (auto simp: createOrder_tx_def bind_res_Inr split: option.splits)
  from insertOrder_Inr [OF ins] i obtain row where row:
    "cp_idempotencyKey p \<notin> o_idempotencyKey ` set (t_orders db)" "i \<notin> o_id ` set (t_orders db)"
    "fresh_row_of p i row" and db1: "db1 = db\<lparr>t_orders := t_orders db @ [row]\<rparr>"
    by auto
  from insertItems_Inr [OF its] obtain rows where rows:
    "length rows = length (cp_items p)" "\<forall>r \<in> set rows. oi_orderId r = i"
    and db2: "db2 = db1\<lparr>t_items := t_items db1 @ rows\<rparr>"
    by blast
  have "db' = db\<lparr>t_orders := t_orders db @ [row], t_items := t_items db @ rows,
      t_transitions := t_transitions db @ [log_entry C (length (t_transitions db)) (?log i)]\<rparr>"
    using tr by (simp add: insertTransition_Inr db1 db2)
  with i row rows show ?thesis
    by (intro exI [of _ i] exI [of _ row] exI [of _ rows]
        exI [of _ "log_entry C (length (t_transitions db)) (?log i)"]) simp
qed

lemma createOrder_tx_False:
  "createOrder_tx C p db = Inr (False, db') \<Longrightarrow>
     db' = db \<and> cp_idempotencyKey p \<in> o_idempotencyKey ` set (t_orders db)"
  by (auto simp: createOrder_tx_def bind_res_Inr dest: insertOrder_Inr split: option.splits)

lemma createOrder_state:
  "snd (createOrder C p db) =
     (case createOrder_tx C p db of Inr (True, db') \<Rightarrow> db' | _ \<Rightarrow> db)"
proof (cases "createOrder_tx C p db")
  case (Inr x)
  then show ?thesis
    by (cases x; cases "fst x")
      (auto simp: createOrder_def transaction_def dest: createOrder_tx_False)
qed (simp add: createOrder_def transaction_def)

lemma transitionStatus_Inr:
  assumes "transitionStatus C p db = (Inr (), db')" and "driver_counts C"
  shows "\<exists>i col tr. cx_uuid_in C (tp_orderId p) = Some i \<and>
     validate (tp_expectedStatus p) (tp_nextStatus p) False = Inr () \<and>
     0 < sql_count (transition_where i p) (t_orders db) \<and>
     tr_orderId tr = i \<and> tr_fromStatus tr = Some (tp_expectedStatus p) \<and>
     tr_toStatus tr = tp_nextStatus p \<and> tr_reason tr = tp_reason p \<and>
     db' = db\<lparr>t_orders := sql_update (transition_where i p) (transition_row col (cx_now C) p)
         (t_orders db), t_transitions := t_transitions db @ [tr]\<rparr>"
proof -
  let ?log = "\<lambda>i. \<lparr>tl_orderId = i, tl_fromStatus = Some (tp_expectedStatus p),
    tl_toStatus = tp_nextStatus p, tl_workerId = Some (tp_workerId p),
    tl_jobId = tp_jobId p, tl_reason = tp_reason p\<rparr>"
  let ?db1 = "\<lambda>i col. db\<lparr>t_orders :=
    sql_update (transition_where i p) (transition_row col (cx_now C) p) (t_orders db)\<rparr>"
  from assms(1) have "transitionStatus_tx C p db = Inr ((), db')"
    by (auto simp: transitionStatus_def transaction_def split: sum.splits)
  with assms(2) obtain i col where
    "cx_uuid_in C (tp_orderId p) = Some i"
    "validate (tp_expectedStatus p) (tp_nextStatus p) False = Inr ()"
    "0 < sql_count (transition_where i p) (t_orders db)"
    and log: "insertTransition C (?log i) (?db1 i col) = Inr db'"
    by (auto simp: transitionStatus_tx_def bind_res_Inr driver_counts_def Let_def split: if_splits)
  moreover from log have
    "db' = (?db1 i col)\<lparr>t_transitions := t_transitions db @
      [log_entry C (length (t_transitions db)) (?log i)]\<rparr>"
    by (simp add: insertTransition_Inr)
  ultimately show ?thesis
    by (intro exI [of _ i] exI [of _ col]
        exI [of _ "log_entry C (length (t_transitions db)) (?log i)"]) simp
qed

lemma transitionStatus_Inl: "fst (transitionStatus C p db) = Inl e \<Longrightarrow> snd (transitionStatus C p db) = db"
  unfolding transitionStatus_def by (rule transaction_Inl)

lemma set_timestamp_frame [simp]:
  "o_id (set_timestamp c t r) = o_id r" "o_status (set_timestamp c t r) = o_status r"
  "o_version (set_timestamp c t r) = o_version r"
  "o_idempotencyKey (set_timestamp c t r) = o_idempotencyKey r"
  "o_updatedAt (set_timestamp c t r) = o_updatedAt r"
  "o_requestedAmount (set_timestamp c t r) = o_requestedAmount r"
  "o_calculatedAmount (set_timestamp c t r) = o_calculatedAmount r"
  by (cases c; simp)+

lemma extra_clauses_frame [simp]:
  "o_id (extra_clauses p r) = o_id r" "o_status (extra_clauses p r) = o_status r"
  "o_version (extra_clauses p r) = o_version r"
  "o_idempotencyKey (extra_clauses p r) = o_idempotencyKey r"
  "o_updatedAt (extra_clauses p r) = o_updatedAt r"
  "o_requestedAmount (extra_clauses p r) = o_requestedAmount r"
  "o_calculatedAmount (extra_clauses p r) = o_calculatedAmount r"
  by (simp_all add: extra_clauses_def Let_def split: option.splits)

lemma transition_row_fields [simp]:
  "o_id (transition_row c t p r) = o_id r"
  "o_idempotencyKey (transition_row c t p r) = o_idempotencyKey r"
  "o_status (transition_row c t p r) = tp_nextStatus p"
  "o_version (transition_row c t p r) = o_version r + 1"
  "o_updatedAt (transition_row c t p r) = o_updatedAt r"
  "o_requestedAmount (transition_row c t p r) = o_requestedAmount r"
  "o_calculatedAmount (transition_row c t p r) = o_calculatedAmount r"
  by (simp_all add: transition_row_def)

section \<open>Every operation keeps the invariant\<close>

text \<open>
  The part of the proofs that does not depend on what is said of one row and its log: A holds of a
  new row and its first entry, is kept by a step from the row's status, and looks only at the
  identifier, status and version of the row.
\<close>

definition logged ::
  "(order_row \<Rightarrow> order_state_transition_entity list \<Rightarrow> bool) \<Rightarrow> database \<Rightarrow> bool" where
  "logged A db \<longleftrightarrow> keys_ok db \<and> (\<forall>r \<in> set (t_orders db). A r (trail (o_id r) db))"

lemma loggedI:
  "keys_ok db \<Longrightarrow> (\<And>r. r \<in> set (t_orders db) \<Longrightarrow> A r (trail (o_id r) db)) \<Longrightarrow> logged A db"
  by (simp add: logged_def)

lemma db_inv_logged: "db_inv db = logged audit_ok db"
  by (simp add: db_inv_def audit_inv_def logged_def)

lemma trail_empty: "keys_ok db \<Longrightarrow> i \<notin> o_id ` set (t_orders db) \<Longrightarrow> trail i db = []"
  by (auto simp: trail_def filter_empty_conv keys_ok_def)

lemma keys_ok_update:
  assumes "keys_ok db" and f: "\<And>r. o_id (f r) = o_id r" "\<And>r. o_idempotencyKey (f r) = o_idempotencyKey r"
  shows "keys_ok (db\<lparr>t_orders := sql_update q f (t_orders db)\<rparr>)"
proof -
  let ?db = "db\<lparr>t_orders := sql_update q f (t_orders db)\<rparr>"
  have rows: "map o_id (t_orders ?db) = map o_id (t_orders db)"
    "map o_idempotencyKey (t_orders ?db) = map o_idempotencyKey (t_orders db)"
    by (simp_all add: map_sql_update f)
  then have "o_id ` set (t_orders ?db) = o_id ` set (t_orders db)" by (metis set_map)
  with rows assms(1) show ?thesis by (simp add: keys_ok_def)
qed

locale row_log =
  fixes A :: "order_row \<Rightarrow> order_state_transition_entity list \<Rightarrow> bool"
  assumes first: "fresh_row_of p i r \<Longrightarrow> tr_fromStatus t = None \<Longrightarrow> tr_toStatus t = QUEUED \<Longrightarrow> A r [t]"
    and step: "A r ts \<Longrightarrow> tr_fromStatus x = Some (o_status r) \<Longrightarrow>
      validate (o_status r) (tr_toStatus x) False = Inr () \<Longrightarrow> o_id r' = o_id r \<Longrightarrow>
      o_status r' = tr_toStatus x \<Longrightarrow> o_version r' = o_version r + 1 \<Longrightarrow> A r' (ts @ [x])"
    and frame: "A r ts \<Longrightarrow> o_id r' = o_id r \<Longrightarrow> o_status r' = o_status r \<Longrightarrow>
      o_version r' = o_version r \<Longrightarrow> A r' ts"
begin

lemma createOrder_logged:
  assumes "logged A db"
  shows "logged A (snd (createOrder C p db))"
proof (cases "\<exists>db'. createOrder_tx C p db = Inr (True, db')")
  case False
  then have "snd (createOrder C p db) = db"
    by (auto simp: createOrder_state split: sum.splits prod.splits bool.splits)
  with assms show ?thesis by simp
next
  case True
  then obtain db' where tx: "createOrder_tx C p db = Inr (True, db')" by blast
  from createOrder_tx_True [OF tx] obtain i row its tr where
    row: "fresh_row_of p i row"
    and new: "cp_idempotencyKey p \<notin> o_idempotencyKey ` set (t_orders db)"
      "i \<notin> o_id ` set (t_orders db)"
    and tr: "tr_orderId tr = i" "tr_fromStatus tr = None" "tr_toStatus tr = QUEUED"
    and db': "db' = db\<lparr>t_orders := t_orders db @ [row], t_items := t_items db @ its,
       t_transitions := t_transitions db @ [tr]\<rparr>"
    by blast
  from assms have inv: "keys_ok db" "\<forall>r \<in> set (t_orders db). A r (trail (o_id r) db)"
    by (simp_all add: logged_def)
  have keys: "keys_ok db'"
    using inv(1) row new tr(1) by (auto simp: db' keys_ok_def fresh_row_of_def)
  have "logged A db'"
  proof (rule loggedI [OF keys])
    fix r assume r: "r \<in> set (t_orders db')"
    have old: "trail i db = []" using inv(1) new(2) by (rule trail_empty)
    show "A r (trail (o_id r) db')"
    proof (cases "r = row")
      case True
      with old row tr first [OF row tr(2,3)] show ?thesis by (simp add: db' trail_def fresh_row_of_def)
    next
      case False
      with r have "r \<in> set (t_orders db)" by (simp add: db')
      with inv(2) new(2) tr(1) show ?thesis by (auto simp: db' trail_def)
    qed
  qed
  then show ?thesis by (simp add: createOrder_state tx)
qed

lemma transitionStatus_logged:
  assumes inv: "logged A db" and C: "driver_counts C"
  shows "logged A (snd (transitionStatus C p db))"
proof (cases "fst (transitionStatus C p db)")
  case (Inl e)
  with inv show ?thesis by (simp add: transitionStatus_Inl)
next
  case (Inr u)
  then obtain db' where ok: "transitionStatus C p db = (Inr (), db')"
    by (cases "transitionStatus C p db") auto
  from transitionStatus_Inr [OF ok C] obtain i col tr where
    val: "validate (tp_expectedStatus p) (tp_nextStatus p) False = Inr ()"
    and hit: "0 < sql_count (transition_where i p) (t_orders db)"
    and tr: "tr_orderId tr = i" "tr_fromStatus tr = Some (tp_expectedStatus p)"
      "tr_toStatus tr = tp_nextStatus p"
    and db': "db' = db\<lparr>t_orders := sql_update (transition_where i p)
        (transition_row col (cx_now C) p) (t_orders db), t_transitions := t_transitions db @ [tr]\<rparr>"
    by blast
  let ?f = "\<lambda>r. if transition_where i p r then transition_row col (cx_now C) p r else r"
  from hit obtain r0 where r0: "r0 \<in> set (t_orders db)" "transition_where i p r0"
    by (auto simp: sql_count_def filter_empty_conv)
  from inv have keys: "keys_ok db" by (simp add: logged_def)
  have rows: "map o_id (t_orders db') = map o_id (t_orders db)"
    "map o_idempotencyKey (t_orders db') = map o_idempotencyKey (t_orders db)"
    by (simp_all add: db' map_sql_update)
  have ids: "o_id ` set (t_orders db') = o_id ` set (t_orders db)"
    using rows(1) by (metis set_map)
  have "i \<in> o_id ` set (t_orders db)" using r0 by (auto simp: transition_where_def)
  then have keys': "keys_ok db'"
    using keys rows ids tr(1) by (simp add: keys_ok_def) (simp add: db')
  have "logged A db'"
  proof (rule loggedI [OF keys'])
    fix r' assume "r' \<in> set (t_orders db')"
    then obtain r where r: "r \<in> set (t_orders db)" "r' = ?f r"
      by (auto simp: db' set_sql_update)
    from inv r have ok_r: "A r (trail (o_id r) db)" by (simp add: logged_def)
    show "A r' (trail (o_id r') db')"
    proof (cases "o_id r = i")
      case True
      with keys r(1) r0 have "r = r0"
        by (auto simp: keys_ok_def transition_where_def intro: distinct_key_eq)
      with r r0 have r': "r' = transition_row col (cx_now C) p r"
        and st: "o_status r = tp_expectedStatus p"
        by (simp_all add: transition_where_def)
      have "trail (o_id r') db' = trail (o_id r) db @ [tr]"
        using True tr(1) by (simp add: r' db' trail_def)
      with step [OF ok_r, of tr r'] st tr val show ?thesis by (simp add: r')
    next
      case False
      with r have "r' = r" by (simp add: transition_where_def)
      with False ok_r tr(1) show ?thesis by (simp add: db' trail_def)
    qed
  qed
  with ok show ?thesis by simp
qed

text \<open>An UPDATE that changes neither keys, status nor version.\<close>

lemma update_frame_logged:
  assumes inv: "logged A db"
    and f: "\<And>r. o_id (f r) = o_id r" "\<And>r. o_idempotencyKey (f r) = o_idempotencyKey r"
      "\<And>r. o_status (f r) = o_status r" "\<And>r. o_version (f r) = o_version r"
  shows "logged A (db\<lparr>t_orders := sql_update q f (t_orders db)\<rparr>)"
proof (rule loggedI)
  from inv f show "keys_ok (db\<lparr>t_orders := sql_update q f (t_orders db)\<rparr>)"
    by (simp add: logged_def keys_ok_update)
next
  let ?db = "db\<lparr>t_orders := sql_update q f (t_orders db)\<rparr>"
  fix r' assume "r' \<in> set (t_orders ?db)"
  then obtain r where r: "r \<in> set (t_orders db)" "r' = (if q r then f r else r)"
    by (auto simp: set_sql_update)
  then have "o_id r' = o_id r" "o_status r' = o_status r" "o_version r' = o_version r"
    by (simp_all add: f)
  with inv r(1) show "A r' (trail (o_id r') ?db)"
    by (auto simp: logged_def trail_def intro: frame)
qed

lemma markDlq_logged: "logged A db \<Longrightarrow> logged A (snd (markDlq C i m db))"
  by (auto simp: markDlq_def intro!: update_frame_logged split: sum.splits)

lemma incrementRetryCount_logged: "logged A db \<Longrightarrow> logged A (snd (incrementRetryCount C i db))"
  by (auto simp: incrementRetryCount_def intro!: update_frame_logged split: sum.splits)

end

interpretation replay: row_log audit_ok
  by unfold_locales (auto simp: fresh_row_of_def intro: audit_ok_snoc, metis audit_ok_cong)

lemmas createOrder_inv = replay.createOrder_logged [folded db_inv_logged]
  and transitionStatus_inv = replay.transitionStatus_logged [folded db_inv_logged]
  and update_frame_inv = replay.update_frame_logged [folded db_inv_logged]
  and markDlq_inv = replay.markDlq_logged [folded db_inv_logged]
  and incrementRetryCount_inv = replay.incrementRetryCount_logged [folded db_inv_logged]

section \<open>States reachable through the repository\<close>

inductive repo_step :: "database \<Rightarrow> database \<Rightarrow> bool" where
  create: "repo_step db (snd (createOrder C p db))"
| transition: "driver_counts C \<Longrightarrow> repo_step db (snd (transitionStatus C tp db))"
| dlq: "repo_step db (snd (markDlq C i m db))"
| retry: "repo_step db (snd (incrementRetryCount C i db))"

inductive repo_reachable :: "database \<Rightarrow> bool" where
  initial: "t_orders db = [] \<Longrightarrow> t_transitions db = [] \<Longrightarrow> repo_reachable db"
| step: "repo_reachable db \<Longrightarrow> repo_step db db' \<Longrightarrow> repo_reachable db'"

inductive_cases repo_stepE: "repo_step db db'"

lemma repo_step_inv: "repo_step db db' \<Longrightarrow> db_inv db \<Longrightarrow> db_inv db'"
  by (induction rule: repo_step.induct)
    (simp_all add: createOrder_inv transitionStatus_inv markDlq_inv incrementRetryCount_inv)

lemma initial_inv: "t_orders db = [] \<Longrightarrow> t_transitions db = [] \<Longrightarrow> db_inv db"
  by (simp add: db_inv_def keys_ok_def audit_inv_def)

lemma repo_reachable_inv: "repo_reachable db \<Longrightarrow> db_inv db"
  by (induction rule: repo_reachable.induct) (auto intro: initial_inv repo_step_inv)

section \<open>Paths of the transition graph\<close>

definition visits :: "order_state_transition_entity list \<Rightarrow> order_status list" where
  "visits ts = map tr_toStatus ts"

lemma visits_simps [simp]: "visits [] = []" "visits (t # ts) = tr_toStatus t # visits ts"
  by (simp_all add: visits_def)

lemma walk_unfold:
  "walk s ts = Some u \<Longrightarrow> ts = [] \<and> s = u \<or>
     (\<exists>v us. visits ts = v # visits us \<and> validate s v False = Inr () \<and> walk v us = Some u)"
  by (cases ts) (auto split: if_splits)

lemma walk_COMPLETED: "walk COMPLETED ts = Some s \<Longrightarrow> (visits ts, s) = ([], COMPLETED)"
  by (drule walk_unfold) (auto simp: validate_ok)

lemma walk_FAILED: "walk FAILED ts = Some s \<Longrightarrow> (visits ts, s) = ([], FAILED)"
  by (drule walk_unfold) (auto simp: validate_ok)

lemma walk_SENT_TO_POS:
  "walk SENT_TO_POS ts = Some s \<Longrightarrow>
     (visits ts, s) \<in> {([], SENT_TO_POS), ([COMPLETED], COMPLETED)}"
  by (drule walk_unfold) (auto simp: validate_ok dest!: walk_COMPLETED)

lemma walk_SAVED:
  "walk SAVED ts = Some s \<Longrightarrow>
     (visits ts, s) \<in> {([], SAVED), ([FAILED], FAILED), ([SENT_TO_POS], SENT_TO_POS),
       ([SENT_TO_POS, COMPLETED], COMPLETED)}"
  by (drule walk_unfold) (auto simp: validate_ok dest!: walk_FAILED walk_SENT_TO_POS)

lemma walk_QUEUED:
  "walk QUEUED ts = Some s \<Longrightarrow>
     (visits ts, s) \<in> {([], QUEUED), ([FAILED], FAILED), ([SAVED], SAVED),
       ([SAVED, FAILED], FAILED), ([SAVED, SENT_TO_POS], SENT_TO_POS),
       ([SAVED, SENT_TO_POS, COMPLETED], COMPLETED)}"
  by (drule walk_unfold) (auto simp: validate_ok dest!: walk_FAILED walk_SAVED)

lemma audit_ok_visits:
  assumes "audit_ok r ts"
  shows "(visits ts, o_status r, o_version r) \<in>
    {([QUEUED], QUEUED, 0), ([QUEUED, FAILED], FAILED, 1), ([QUEUED, SAVED], SAVED, 1),
     ([QUEUED, SAVED, FAILED], FAILED, 2), ([QUEUED, SAVED, SENT_TO_POS], SENT_TO_POS, 2),
     ([QUEUED, SAVED, SENT_TO_POS, COMPLETED], COMPLETED, 3)}"
proof (cases ts)
  case Nil
  with assms show ?thesis by simp
next
  case (Cons t us)
  with assms have t: "tr_toStatus t = QUEUED" and w: "walk QUEUED us = Some (o_status r)"
    and v: "o_version r = int (length (visits us))"
    by (simp_all add: visits_def)
  have vs: "visits ts = QUEUED # visits us" by (simp add: Cons t)
  from walk_QUEUED [OF w] show ?thesis
    unfolding vs v by (elim insertE emptyE) (simp_all add: prod_eq_iff)
qed

lemma queued_db_reachable: "repo_reachable queued_db"
proof -
  have "repo_reachable seed_db" by (rule repo_reachable.initial) simp_all
  moreover have "repo_step seed_db queued_db"
    using repo_step.create [of seed_db "quiet_ctx 10" sample_params] by (simp add: sample_created)
  ultimately show ?thesis by (rule repo_reachable.step)
qed

section \<open>Properties\<close>

text \<open>C29: in every database that the repository's operations can produce, whatever their
  arguments, order and failures, the log of each order starts with the creation in QUEUED and
  replays along allowed transitions to the status of the row, one step per version.\<close>

theorem audit_log_replays:
  assumes "repo_reachable db" and "r \<in> set (t_orders db)"
  shows "audit_ok r (trail (o_id r) db)"
  using repo_reachable_inv [OF assms(1)] assms(2) by (simp add: db_inv_def audit_inv_def)

theorem audit_log_replays_witness: "audit_ok sample_row (trail ''o1'' queued_db)"
  using audit_log_replays [OF queued_db_reachable, of sample_row] by simp

text \<open>The life of an order through the repository is one of six paths, none of them longer
  than three transitions; an order recorded as sent to the POS never becomes FAILED, and a
  COMPLETED one has been through SAVED and SENT_TO_POS.\<close>

theorem order_life_cycle:
  assumes "repo_reachable db" and "r \<in> set (t_orders db)"
  shows "(visits (trail (o_id r) db), o_status r, o_version r) \<in>
    {([QUEUED], QUEUED, 0), ([QUEUED, FAILED], FAILED, 1), ([QUEUED, SAVED], SAVED, 1),
     ([QUEUED, SAVED, FAILED], FAILED, 2), ([QUEUED, SAVED, SENT_TO_POS], SENT_TO_POS, 2),
     ([QUEUED, SAVED, SENT_TO_POS, COMPLETED], COMPLETED, 3)}"
proof -
  from repo_reachable_inv [OF assms(1)] assms(2) have "audit_ok r (trail (o_id r) db)"
    by (simp add: db_inv_def audit_inv_def)
  then show ?thesis by (rule audit_ok_visits)
qed

theorem order_life_cycle_witness:
  "(visits (trail ''o1'' queued_db), o_status sample_row, o_version sample_row) =
     ([QUEUED], QUEUED, 0)"
  using order_life_cycle [OF queued_db_reachable, of sample_row] by simp

text \<open>No two orders ever share an id or an idempotency key: the unique key turns every
  second insertion into the duplicate answer and leaves the database as it is.\<close>

theorem unique_orders:
  assumes "repo_reachable db"
  shows "distinct (map o_id (t_orders db)) \<and> distinct (map o_idempotencyKey (t_orders db))"
  using repo_reachable_inv [OF assms] by (simp add: db_inv_def keys_ok_def)

theorem unique_orders_witness: "distinct (map o_idempotencyKey (t_orders queued_db))"
  using unique_orders [OF queued_db_reachable] by (rule conjunct2)

text \<open>C25: createOrder is all or nothing: either the database is unchanged, or it holds exactly
  one new QUEUED row, all items of the order and its first log entry. A duplicate changes
  nothing, and an error leaves the new order behind only when the read after COMMIT failed.\<close>

theorem createOrder_all_or_nothing:
  "(snd (createOrder C p db) = db \<or>
    (\<exists>i row its tr. fresh_row_of p i row \<and> i \<notin> o_id ` set (t_orders db) \<and>
       cp_idempotencyKey p \<notin> o_idempotencyKey ` set (t_orders db) \<and>
       length its = length (cp_items p) \<and> (\<forall>it \<in> set its. oi_orderId it = i) \<and>
       tr_orderId tr = i \<and> tr_fromStatus tr = None \<and> tr_toStatus tr = QUEUED \<and>
       snd (createOrder C p db) = db\<lparr>t_orders := t_orders db @ [row],
         t_items := t_items db @ its, t_transitions := t_transitions db @ [tr]\<rparr>)) \<and>
   (fst (createOrder C p db) = Inr None \<longrightarrow> snd (createOrder C p db) = db) \<and>
   (\<forall>e. fst (createOrder C p db) = Inl e \<longrightarrow>
      snd (createOrder C p db) = db \<or> cx_fault C SelectOrder = Some e)"
proof (cases "\<exists>db'. createOrder_tx C p db = Inr (True, db')")
  case False
  then show ?thesis
    by (auto simp: createOrder_state split: sum.splits prod.splits bool.splits)
next
  case True
  then obtain db' where tx: "createOrder_tx C p db = Inr (True, db')" by blast
  from createOrder_tx_True [OF tx] obtain i row its tr where
    i: "cx_uuid_in C (cp_id p) = Some i" and new: "fresh_row_of p i row"
    "i \<notin> o_id ` set (t_orders db)"
    and db': "db' = db\<lparr>t_orders := t_orders db @ [row], t_items := t_items db @ its,
       t_transitions := t_transitions db @ [tr]\<rparr>"
    by blast
  have res: "createOrder C p db = (findById C (cp_id p) db', db')"
    by (simp add: createOrder_def transaction_def tx)
  have "row_with_id i db' \<noteq> None"
    using new(1) by (simp add: row_with_id_def db' find_None_key fresh_row_of_def)
  with i have "findById C (cp_id p) db' \<noteq> Inr None"
    "\<And>e. findById C (cp_id p) db' = Inl e \<Longrightarrow> cx_fault C SelectOrder = Some e"
    by (auto simp: findById_def bind_res_Inr bind_res_Inl run_stmt_def uuid_arg_def
        split: option.splits)
  moreover from createOrder_tx_True [OF tx] have
    "\<exists>i row its tr. fresh_row_of p i row \<and> i \<notin> o_id ` set (t_orders db) \<and>
       cp_idempotencyKey p \<notin> o_idempotencyKey ` set (t_orders db) \<and>
       length its = length (cp_items p) \<and> (\<forall>it \<in> set its. oi_orderId it = i) \<and>
       tr_orderId tr = i \<and> tr_fromStatus tr = None \<and> tr_toStatus tr = QUEUED \<and>
       db' = db\<lparr>t_orders := t_orders db @ [row], t_items := t_items db @ its,
         t_transitions := t_transitions db @ [tr]\<rparr>"
    by blast
  ultimately show ?thesis by (simp add: res)
qed

theorem createOrder_all_or_nothing_witness:
  "length (t_orders queued_db) = 1 \<and>
   fst (createOrder (quiet_ctx 20) sample_params queued_db) = Inr None \<and>
   snd (createOrder (quiet_ctx 20) sample_params queued_db) = queued_db"
proof -
  have "fst (createOrder (quiet_ctx 20) sample_params queued_db) = Inr None"
    by (simp add: createOrder_def transaction_def createOrder_tx_def insertOrder_def
        sample_params_def)
  with createOrder_all_or_nothing [of "quiet_ctx 20" sample_params queued_db]
  show ?thesis by simp
qed

end
