(* ===== verification/Repository_Properties.thy ===== *)
theory Repository_Properties
  imports Order_Audit "HOL-Library.Multiset"
begin

text \<open>
  The functional behaviour of transitionStatus on every branch, the optimistic lock as a
  contract (locale versioned_store) that the repository fulfils, and the pages of
  findFailedOrders.
\<close>

section \<open>transitionStatus on every branch\<close>

definition statements_succeed :: "db_ctx \<Rightarrow> bool" where
  "statements_succeed C \<longleftrightarrow> (\<forall>st. cx_fault C st = None)"

lemma statements_succeedD: "statements_succeed C \<Longrightarrow> run_stmt C st = Inr ()"
  by (simp add: statements_succeed_def run_stmt_def)

lemma quiet_statements [simp]: "statements_succeed (quiet_ctx now)"
  by (simp add: statements_succeed_def)

lemma validate_timestampColumn:
  "validate s t False = Inr () \<Longrightarrow> \<exists>col. timestampColumn t = Some col"
  by (auto simp: validate_ok)

lemma sql_update_cong: "(\<And>r. r \<in> set t \<Longrightarrow> p r = q r) \<Longrightarrow> sql_update p f t = sql_update q f t"
  by (simp add: sql_update_def)

lemma transition_where_row:
  assumes "keys_ok db" and "row_with_id i db = Some r" and "x \<in> set (t_orders db)"
  shows "transition_where i p x \<longleftrightarrow>
    o_id x = i \<and> o_status r = tp_expectedStatus p \<and> o_version r = tp_currentVersion p"
proof -
  from assms(2) have r: "r \<in> set (t_orders db)" "o_id r = i" by (auto dest: row_with_id_Some)
  with assms(1,3) have "o_id x = i \<longleftrightarrow> x = r"
    by (auto simp: keys_ok_def intro: distinct_key_eq)
  then show ?thesis by (auto simp: transition_where_def r)
qed

lemma transition_count:
  assumes "keys_ok db" and "row_with_id i db = Some r"
  shows "sql_count (transition_where i p) (t_orders db) = 0 \<longleftrightarrow>
    \<not> (o_status r = tp_expectedStatus p \<and> o_version r = tp_currentVersion p)"
  using assms(2) by (auto simp: sql_count_0 transition_where_row [OF assms] dest: row_with_id_Some)

text \<open>The row and the log after a transition that took place.\<close>

definition transition_done ::
  "db_ctx \<Rightarrow> transition_params \<Rightarrow> uuid \<Rightarrow> timestamp_column \<Rightarrow> database \<Rightarrow> database" where
  "transition_done C p i col db = db
     \<lparr>t_orders := sql_update (\<lambda>x. o_id x = i) (transition_row col (cx_now C) p) (t_orders db),
      t_transitions := t_transitions db @ [log_entry C (length (t_transitions db))
        \<lparr>tl_orderId = i, tl_fromStatus = Some (tp_expectedStatus p),
         tl_toStatus = tp_nextStatus p, tl_workerId = Some (tp_workerId p),
         tl_jobId = tp_jobId p, tl_reason = tp_reason p\<rparr>]\<rparr>"

lemma transitionStatus_invalid:
  "validate (tp_expectedStatus p) (tp_nextStatus p) False = Inl e \<Longrightarrow>
     transitionStatus C p db = (Inl e, db)"
  by (simp add: transitionStatus_def transaction_def transitionStatus_tx_def)

lemma transitionStatus_stale:
  assumes "driver_counts C" "statements_succeed C" "cx_uuid_in C (tp_orderId p) = Some i"
    and "validate (tp_expectedStatus p) (tp_nextStatus p) False = Inr ()"
    and "sql_count (transition_where i p) (t_orders db) = 0"
  shows "transitionStatus C p db =
    (Inl (staleOrderVersionError (tp_orderId p) (tp_currentVersion p)), db)"
  using assms validate_timestampColumn [OF assms(4)]
  by (auto simp: transitionStatus_def transaction_def transitionStatus_tx_def
      statements_succeedD uuid_arg_def driver_counts_def)

lemma transitionStatus_hit:
  assumes C: "driver_counts C" "statements_succeed C" "cx_uuid_in C (tp_orderId p) = Some i"
    and v: "validate (tp_expectedStatus p) (tp_nextStatus p) False = Inr ()"
    and col: "timestampColumn (tp_nextStatus p) = Some col"
    and db: "keys_ok db" "row_with_id i db = Some r"
    and r: "o_status r = tp_expectedStatus p" "o_version r = tp_currentVersion p"
  shows "transitionStatus C p db = (Inr (), transition_done C p i col db)"
proof -
  from db have "sql_count (transition_where i p) (t_orders db) \<noteq> 0"
    by (simp add: transition_count r)
  moreover have "sql_update (transition_where i p) f (t_orders db) =
      sql_update (\<lambda>x. o_id x = i) f (t_orders db)" for f
    by (rule sql_update_cong) (simp add: transition_where_row [OF db] r)
  moreover have "i \<in> o_id ` set (t_orders db)" using db(2) by (auto dest: row_with_id_Some)
  then have "i \<in> o_id ` set (sql_update (\<lambda>x. o_id x = i) (transition_row col t p) (t_orders db))" for t
    by (simp add: image_sql_update)
  ultimately show ?thesis
    using C v col
    by (simp add: transitionStatus_def transaction_def transitionStatus_tx_def
        statements_succeedD uuid_arg_def driver_counts_def Let_def insertTransition_def
        transition_done_def)
qed

section \<open>The optimistic lock as a contract\<close>

fun cas_run :: "('req \<Rightarrow> 's \<Rightarrow> bool \<times> 's) \<Rightarrow> 'req list \<Rightarrow> 's \<Rightarrow> bool list \<times> 's" where
  "cas_run cas [] s = ([], s)"
| "cas_run cas (q # qs) s =
     (let (b, s') = cas q s; (bs, s'') = cas_run cas qs s' in (b # bs, s''))"

definition winners :: "bool list \<Rightarrow> nat" where
  "winners bs = length (filter id bs)"

locale versioned_store =
  fixes cas :: "'req \<Rightarrow> 's \<Rightarrow> bool \<times> 's"
    and ver :: "'s \<Rightarrow> int" and want :: "'req \<Rightarrow> int"
    and ok :: "'req \<Rightarrow> bool" and inv :: "'s \<Rightarrow> bool"
  assumes cas_inv: "inv s \<Longrightarrow> ok q \<Longrightarrow> inv (snd (cas q s))"
    and cas_True: "inv s \<Longrightarrow> ok q \<Longrightarrow> fst (cas q s) \<Longrightarrow>
      want q = ver s \<and> ver (snd (cas q s)) = ver s + 1"
    and cas_False: "\<not> fst (cas q s) \<Longrightarrow> snd (cas q s) = s"
begin

lemma cas_run_winners:
  "inv s \<Longrightarrow> list_all ok qs \<Longrightarrow>
     ver (snd (cas_run cas qs s)) = ver s + int (winners (fst (cas_run cas qs s)))"
proof (induction qs arbitrary: s)
  case (Cons q qs)
  then have "inv (snd (cas q s))" by (simp add: cas_inv)
  with Cons show ?case
    using cas_True [of s q] cas_False [of q s]
    by (cases "fst (cas q s)") (simp_all add: winners_def case_prod_beta)
qed (simp add: winners_def)

lemma cas_run_passed:
  "inv s \<Longrightarrow> list_all ok qs \<Longrightarrow> \<forall>q \<in> set qs. want q < ver s \<Longrightarrow>
     winners (fst (cas_run cas qs s)) = 0"
proof (induction qs)
  case (Cons q qs)
  then have "\<not> fst (cas q s)" using cas_True [of s q] by auto
  with Cons show ?case using cas_False [of q s] by (simp add: winners_def case_prod_beta)
qed (simp add: winners_def)

lemma cas_run_same_version:
  "inv s \<Longrightarrow> list_all ok qs \<Longrightarrow> \<forall>q \<in> set qs. want q = w \<Longrightarrow>
     winners (fst (cas_run cas qs s)) \<le> 1"
proof (induction qs arbitrary: s)
  case (Cons q qs)
  show ?case
  proof (cases "fst (cas q s)")
    case True
    with Cons.prems have "want q = ver s" "ver (snd (cas q s)) = ver s + 1" "inv (snd (cas q s))"
      using cas_True [of s q] by (simp_all add: cas_inv)
    with Cons.prems have "winners (fst (cas_run cas qs (snd (cas q s)))) = 0"
      by (intro cas_run_passed) auto
    with True show ?thesis by (simp add: winners_def case_prod_beta)
  next
    case False
    with Cons show ?thesis using cas_False [of q s] by (simp add: winners_def case_prod_beta)
  qed
qed (simp add: winners_def)

end

text \<open>The repository's instance: transitions of the order with id i.\<close>

definition transition_cas :: "db_ctx \<times> transition_params \<Rightarrow> database \<Rightarrow> bool \<times> database" where
  "transition_cas q db =
     (case transitionStatus (fst q) (snd q) db of (res, db') \<Rightarrow> (res = Inr (), db'))"

definition version_of :: "uuid \<Rightarrow> database \<Rightarrow> int" where
  "version_of i db = (case row_with_id i db of None \<Rightarrow> 0 | Some r \<Rightarrow> o_version r)"

definition request_for :: "uuid \<Rightarrow> db_ctx \<times> transition_params \<Rightarrow> bool" where
  "request_for i q \<longleftrightarrow> driver_counts (fst q) \<and> cx_uuid_in (fst q) (tp_orderId (snd q)) = Some i"

lemma transition_cas_True:
  assumes inv: "db_inv db" and q: "request_for i q" and won: "fst (transition_cas q db)"
  shows "tp_currentVersion (snd q) = version_of i db \<and>
    version_of i (snd (transition_cas q db)) = version_of i db + 1"
proof -
  obtain C p where qq: "q = (C, p)" by force
  from won obtain db' where ok: "transitionStatus C p db = (Inr (), db')"
    by (auto simp: transition_cas_def qq split: prod.splits)
  from q have C: "driver_counts C" and i: "cx_uuid_in C (tp_orderId p) = Some i"
    by (simp_all add: request_for_def qq)
  from transitionStatus_Inr [OF ok C] i obtain col tr where
    hit: "0 < sql_count (transition_where i p) (t_orders db)"
    and db': "db' = db\<lparr>t_orders := sql_update (transition_where i p)
       (transition_row col (cx_now C) p) (t_orders db), t_transitions := t_transitions db @ [tr]\<rparr>"
    by auto
  from hit obtain r where r: "r \<in> set (t_orders db)" "transition_where i p r"
    by (auto simp: sql_count_def filter_empty_conv)
  then have row: "row_with_id i db = Some r"
    using row_with_id_in [of db r] inv by (simp add: db_inv_def transition_where_def)
  then have "row_with_id i db' = Some (transition_row col (cx_now C) p r)"
    using r(2) by (simp add: row_with_id_def db' find_sql_update_key)
  with row r(2) ok show ?thesis
    by (simp add: version_of_def transition_cas_def qq transition_where_def)
qed

interpretation order_version: versioned_store
  transition_cas "version_of i" "\<lambda>q. tp_currentVersion (snd q)" "request_for i" db_inv for i
proof unfold_locales
  fix db :: database and q :: "db_ctx \<times> transition_params"
  show "db_inv db \<Longrightarrow> request_for i q \<Longrightarrow> db_inv (snd (transition_cas q db))"
    using transitionStatus_inv [of db "fst q" "snd q"]
    by (simp add: transition_cas_def request_for_def case_prod_beta)
  show "db_inv db \<Longrightarrow> request_for i q \<Longrightarrow> fst (transition_cas q db) \<Longrightarrow>
      tp_currentVersion (snd q) = version_of i db \<and>
      version_of i (snd (transition_cas q db)) = version_of i db + 1"
    by (rule transition_cas_True)
  show "\<not> fst (transition_cas q db) \<Longrightarrow> snd (transition_cas q db) = db"
    using transitionStatus_Inl [of "fst q" "snd q" db]
    by (cases "fst (transitionStatus (fst q) (snd q) db)")
      (auto simp: transition_cas_def case_prod_beta)
qed

section \<open>Pages of failed orders\<close>

definition dlq_key :: "order_row \<Rightarrow> time" where
  "dlq_key r = (case o_dlqAt r of None \<Rightarrow> 0 | Some t \<Rightarrow> t)"

lemma order_by_dlqAt_desc_mset: "mset (order_by_dlqAt_desc rs) = mset rs"
  by (simp add: order_by_dlqAt_desc_def)

lemma order_by_dlqAt_desc_sorted: "sorted_wrt (\<ge>) (map dlq_key (order_by_dlqAt_desc rs))"
  unfolding order_by_dlqAt_desc_def dlq_key_def
  by (simp add: rev_map [symmetric] sorted_wrt_rev)

lemma concat_pages:
  "length xs \<le> n * l \<Longrightarrow> concat (map (\<lambda>k. take l (drop (k * l) xs)) [0..<n]) = xs"
proof (induction n arbitrary: xs)
  case (Suc n)
  have "[0..<Suc n] = 0 # map Suc [0..<n]" by (simp add: map_Suc_upt upt_conv_Cons)
  then have "concat (map (\<lambda>k. take l (drop (k * l) xs)) [0..<Suc n]) =
      take l xs @ concat (map (\<lambda>k. take l (drop (k * l) (drop l xs))) [0..<n])"
    by (simp add: o_def add.commute)
  also from Suc.prems have "\<dots> = take l xs @ drop l xs" by (subst Suc.IH) auto
  finally show ?case by simp
qed simp

definition page_query :: "nat \<Rightarrow> nat \<Rightarrow> failed_query" where
  "page_query l k = \<lparr>fq_storeId = None, fq_from = None, fq_to = None, fq_page = int k + 1,
     fq_limit = Some (int l)\<rparr>"

lemma findFailedOrders_page:
  assumes "statements_succeed C"
  shows "findFailedOrders C (page_query l k) db =
    Inr (take l (drop (k * l) (order_by_dlqAt_desc
          (sql_select (\<lambda>r. o_status r = FAILED \<and> o_dlqAt r \<noteq> None) (t_orders db)))),
         sql_count (\<lambda>r. o_status r = FAILED \<and> o_dlqAt r \<noteq> None) (t_orders db))"
proof -
  have "failed_where (page_query l k) None = (\<lambda>r. o_status r = FAILED \<and> o_dlqAt r \<noteq> None)"
    by (auto simp: failed_where_def page_query_def fun_eq_iff)
  then show ?thesis
    using assms
    by (simp add: findFailedOrders_def statements_succeedD Let_def)
      (simp add: page_query_def nat_mult_distrib)
qed

section \<open>Properties\<close>

text \<open>C8: transitionStatus, branch by branch: a transition that the table does not allow is
  rejected before the database is touched; a status or version that no longer matches is a
  StaleOrderVersionError and leaves the database as it is; otherwise exactly the row of the
  order gets the new status, the next version and its timestamp, and one log entry is added.\<close>

theorem transitionStatus_outcome:
  assumes "driver_counts C" and "statements_succeed C"
    and "cx_uuid_in C (tp_orderId p) = Some i"
    and "keys_ok db" and "row_with_id i db = Some r"
  shows "transitionStatus C p db =
    (case validate (tp_expectedStatus p) (tp_nextStatus p) False of
       Inl e \<Rightarrow> (Inl e, db)
     | Inr _ \<Rightarrow>
         if o_status r = tp_expectedStatus p \<and> o_version r = tp_currentVersion p
         then (Inr (), transition_done C p i (the (timestampColumn (tp_nextStatus p))) db)
         else (Inl (staleOrderVersionError (tp_orderId p) (tp_currentVersion p)), db)) \<and>
    (let db' = snd (transitionStatus C p db) in
       (\<forall>j. j \<noteq> i \<longrightarrow> row_with_id j db' = row_with_id j db) \<and>
       (fst (transitionStatus C p db) = Inr () \<longrightarrow>
          (\<exists>r'. row_with_id i db' = Some r' \<and> o_status r' = tp_nextStatus p \<and> o_version r' = o_version r + 1) \<and>
          length (t_transitions db') = length (t_transitions db) + 1))"
proof (cases "validate (tp_expectedStatus p) (tp_nextStatus p) False")
  case (Inl e)
  then show ?thesis by (simp add: transitionStatus_invalid)
next
  case (Inr u)
  then have v: "validate (tp_expectedStatus p) (tp_nextStatus p) False = Inr ()" by simp
  then obtain col where col: "timestampColumn (tp_nextStatus p) = Some col"
    by (auto dest: validate_timestampColumn)
  show ?thesis
  proof (cases "o_status r = tp_expectedStatus p \<and> o_version r = tp_currentVersion p")
    case True
    then have "transitionStatus C p db = (Inr (), transition_done C p i col db)"
      by (intro transitionStatus_hit [OF assms(1-3) v col assms(4,5)]) simp_all
    moreover have row: "row_with_id j (transition_done C p i col db) = map_option
        (\<lambda>x. if o_id x = i then transition_row col (cx_now C) p x else x) (row_with_id j db)" for j
      by (simp add: row_with_id_def transition_done_def find_sql_update_key)
    moreover have "row_with_id j (transition_done C p i col db) = row_with_id j db" if "j \<noteq> i" for j
      using that by (cases "row_with_id j db") (auto simp: row dest: row_with_id_Some)
    moreover have "o_id r = i" using row_with_id_Some [OF assms(5)] by simp
    moreover have "length (t_transitions (transition_done C p i col db)) = length (t_transitions db) + 1"
      by (simp add: transition_done_def)
    ultimately show ?thesis
      using True v col assms(5) by (simp add: Let_def)
  next
    case False
    then have "sql_count (transition_where i p) (t_orders db) = 0"
      by (simp add: transition_count [OF assms(4,5)])
    then have "transitionStatus C p db =
        (Inl (staleOrderVersionError (tp_orderId p) (tp_currentVersion p)), db)"
      by (rule transitionStatus_stale [OF assms(1-3) v])
    with False v show ?thesis by auto
  qed
qed

definition sample_transition :: "order_status \<Rightarrow> order_status \<Rightarrow> int \<Rightarrow> transition_params" where
  "sample_transition s t v = \<lparr>tp_orderId = ''o1'', tp_expectedStatus = s, tp_nextStatus = t,
     tp_currentVersion = v, tp_workerId = ''w1'', tp_jobId = None, tp_reason = None,
     tp_posResponse = None, tp_posErrorMessage = None\<rparr>"

lemma queued_row [simp]: "row_with_id ''o1'' queued_db = Some sample_row"
  by (simp add: row_with_id_def)

lemma queued_inv: "db_inv queued_db"
  by (rule repo_reachable_inv [OF queued_db_reachable])

lemma queued_keys [simp]: "keys_ok queued_db"
  using queued_inv by (simp add: db_inv_def)

theorem transitionStatus_outcome_witness:
  "fst (transitionStatus (quiet_ctx 20) (sample_transition QUEUED SAVED 0) queued_db) = Inr () \<and>
   transitionStatus (quiet_ctx 20) (sample_transition QUEUED SAVED 1) queued_db =
     (Inl (staleOrderVersionError ''o1'' 1), queued_db)"
  using transitionStatus_outcome
      [of "quiet_ctx 20" "sample_transition QUEUED SAVED 0" "''o1''" queued_db sample_row]
    transitionStatus_outcome
      [of "quiet_ctx 20" "sample_transition QUEUED SAVED 1" "''o1''" queued_db sample_row]
  by (simp add: sample_transition_def validate_def)

text \<open>Of any transitions of one order that read the same version, in any order and with
  any failures, at most one takes effect.\<close>

theorem optimistic_lock_one_winner:
  assumes "repo_reachable db" and "list_all (request_for i) qs"
    and "\<forall>q \<in> set qs. tp_currentVersion (snd q) = v"
  shows "winners (fst (cas_run transition_cas qs db)) \<le> 1"
  using repo_reachable_inv [OF assms(1)] assms(2,3)
  by (rule order_version.cas_run_same_version)

theorem optimistic_lock_one_winner_witness:
  "winners (fst (cas_run transition_cas
     [(quiet_ctx 20, sample_transition QUEUED SAVED 0),
      (quiet_ctx 21, sample_transition QUEUED FAILED 0)] queued_db)) \<le> 1"
  by (rule optimistic_lock_one_winner [OF queued_db_reachable, of "''o1''" _ 0])
    (simp_all add: request_for_def sample_transition_def)

text \<open>The pages of findFailedOrders, put one after the other, list every failed order of
  the dead letter queue exactly once, latest first, and each page reports their number.\<close>

theorem failed_orders_pages:
  assumes "statements_succeed C"
  shows "\<exists>rows. sorted_wrt (\<ge>) (map dlq_key rows) \<and>
    mset rows = mset (filter (\<lambda>r. o_status r = FAILED \<and> o_dlqAt r \<noteq> None) (t_orders db)) \<and>
    (\<forall>l k. findFailedOrders C (page_query l k) db =
       Inr (take l (drop (k * l) rows), length rows)) \<and>
    (\<forall>l n. length rows \<le> n * l \<longrightarrow>
       concat (map (\<lambda>k. take l (drop (k * l) rows)) [0..<n]) = rows)"
proof -
  let ?sel = "filter (\<lambda>r. o_status r = FAILED \<and> o_dlqAt r \<noteq> None) (t_orders db)"
  let ?rows = "order_by_dlqAt_desc ?sel"
  have "length ?rows = length ?sel" by (simp add: order_by_dlqAt_desc_def)
  then have pages: "findFailedOrders C (page_query l k) db =
      Inr (take l (drop (k * l) ?rows), length ?rows)" for l k
    using assms by (simp add: findFailedOrders_page sql_select_def sql_count_def)
  show ?thesis
    by (intro exI [of _ ?rows] conjI allI impI order_by_dlqAt_desc_sorted
        order_by_dlqAt_desc_mset pages concat_pages)
qed

theorem failed_orders_pages_witness:
  "findFailedOrders (quiet_ctx 5) (page_query 20 0) queued_db = Inr ([], 0)"
  using failed_orders_pages [of "quiet_ctx 5" queued_db] by auto

end
