(* ===== verification/Redis_Store.thy ===== *)
theory Redis_Store
  imports Prelude
begin

text \<open>
  The Redis commands the services issue, as an interface: SET with EX and with NX, GET and
  DEL, each at the time the server executes it. The locale states the documented laws; the
  services (Idempotency, Distributed_Lock) are written over the record of commands and their
  lemmas are proved from the laws. The store of the model is a map from keys to values with
  an expiry, and the interpretation at the end shows that it obeys the laws.
  Also here: the key prefixes of the three clients of src/order/order-shared.module.ts.
\<close>

section \<open>The interface\<close>

record ('v, 's) redis_cmds =
  r_get :: "time \<Rightarrow> string \<Rightarrow> 's \<Rightarrow> 'v option"
  r_set :: "time \<Rightarrow> nat \<Rightarrow> string \<Rightarrow> 'v \<Rightarrow> 's \<Rightarrow> 's"
  r_setnx :: "time \<Rightarrow> nat \<Rightarrow> string \<Rightarrow> 'v \<Rightarrow> 's \<Rightarrow> bool \<times> 's"
  r_del :: "string \<Rightarrow> 's \<Rightarrow> 's"

text \<open>A time to live is in seconds, the clock in milliseconds.\<close>

definition expires_at :: "time \<Rightarrow> nat \<Rightarrow> time" where
  "expires_at now ttl = now + 1000 * ttl"

locale redis =
  fixes R :: "('v, 's) redis_cmds"
  assumes get_set_same:
      "now \<le> t \<Longrightarrow> r_get R t k (r_set R now ttl k v s) =
         (if t < expires_at now ttl then Some v else None)"
    and get_set_other: "j \<noteq> k \<Longrightarrow> r_get R t j (r_set R now ttl k v s) = r_get R t j s"
    and setnx_free:
      "r_get R now k s = None \<Longrightarrow> r_setnx R now ttl k v s = (True, r_set R now ttl k v s)"
    and setnx_taken: "r_get R now k s = Some w \<Longrightarrow> r_setnx R now ttl k v s = (False, s)"
    and get_del_same: "r_get R t k (r_del R k s) = None"
    and get_del_other: "j \<noteq> k \<Longrightarrow> r_get R t j (r_del R k s) = r_get R t j s"
    and get_earlier: "r_get R u k s = Some v \<Longrightarrow> t \<le> u \<Longrightarrow> r_get R t k s = Some v"
begin

lemmas redis_laws = get_set_same get_set_other setnx_free setnx_taken get_del_same
  get_del_other

lemma get_later_None: "r_get R t k s = None \<Longrightarrow> t \<le> u \<Longrightarrow> r_get R u k s = None"
  using get_earlier by (metis not_None_eq)

lemma setnx_iff: "fst (r_setnx R now ttl k v s) \<longleftrightarrow> r_get R now k s = None"
  by (cases "r_get R now k s") (simp_all add: setnx_free setnx_taken)

lemma setnx_state:
  "snd (r_setnx R now ttl k v s) =
     (if r_get R now k s = None then r_set R now ttl k v s else s)"
  by (cases "r_get R now k s") (simp_all add: setnx_free setnx_taken)

lemma setnx_other: "j \<noteq> k \<Longrightarrow> r_get R t j (snd (r_setnx R now ttl k v s)) = r_get R t j s"
  by (simp add: setnx_state get_set_other)

end

section \<open>The store of the model\<close>

type_synonym 'v kv = "string \<rightharpoonup> 'v \<times> time"

definition kv_get :: "time \<Rightarrow> string \<Rightarrow> 'v kv \<Rightarrow> 'v option" where
  "kv_get now k s = (case s k of None \<Rightarrow> None | Some (v, e) \<Rightarrow> if now < e then Some v else None)"

definition kv_set :: "time \<Rightarrow> nat \<Rightarrow> string \<Rightarrow> 'v \<Rightarrow> 'v kv \<Rightarrow> 'v kv" where
  "kv_set now ttl k v s = s(k \<mapsto> (v, expires_at now ttl))"

definition kv_setnx :: "time \<Rightarrow> nat \<Rightarrow> string \<Rightarrow> 'v \<Rightarrow> 'v kv \<Rightarrow> bool \<times> 'v kv" where
  "kv_setnx now ttl k v s =
     (case kv_get now k s of None \<Rightarrow> (True, kv_set now ttl k v s) | Some _ \<Rightarrow> (False, s))"

definition kv_del :: "string \<Rightarrow> 'v kv \<Rightarrow> 'v kv" where
  "kv_del k s = s(k := None)"

definition kv_cmds :: "('v, 'v kv) redis_cmds" where
  "kv_cmds = \<lparr>r_get = kv_get, r_set = kv_set, r_setnx = kv_setnx, r_del = kv_del\<rparr>"

lemma kv_cmds_sel [simp]:
  "r_get kv_cmds = kv_get" "r_set kv_cmds = kv_set"
  "r_setnx kv_cmds = kv_setnx" "r_del kv_cmds = kv_del"
  by (simp_all add: kv_cmds_def)

lemmas kv_defs = kv_get_def kv_set_def kv_setnx_def kv_del_def expires_at_def

interpretation live: redis kv_cmds
  by unfold_locales (auto simp: kv_defs split: option.splits if_splits)

section \<open>Key prefixes of the three clients\<close>

text \<open>
  Each service has a client of its own with a key prefix, so their keys never meet and
  each service's keys are a store of their own in the model.
\<close>

datatype redis_client = IDEMPOTENCY_REDIS | LOCK_REDIS | CACHE_REDIS

fun keyPrefix :: "redis_client \<Rightarrow> string" where
  "keyPrefix IDEMPOTENCY_REDIS = ''idp:''"
| "keyPrefix LOCK_REDIS = ''lck:''"
| "keyPrefix CACHE_REDIS = ''cch:''"

definition client_key :: "redis_client \<Rightarrow> string \<Rightarrow> string" where
  "client_key c k = keyPrefix c @ k"

lemma client_key_inject: "client_key c k = client_key d l \<longleftrightarrow> c = d \<and> k = l"
  by (cases c; cases d) (simp_all add: client_key_def)

end
