(* ===== verification/Distributed_Lock.thy ===== *)
theory Distributed_Lock
  imports Redis_Store Order_Domain
begin

text \<open>
  DistributedLockService (src/order/infrastructure/lock/distributed-lock.service.ts): a lock
  per order with a time to live, taken by SET NX EX and released by the Lua script that
  deletes the key only while it still holds the caller's token. The locale lease states what
  such a lock promises; mutual exclusion under any interleaving is proved from it, and the
  service is shown to keep the promise.
\<close>

definition lockKey :: "string \<Rightarrow> string" where
  "lockKey orderId = ''lock:order:'' @ orderId"

definition acquire ::
  "(string, 's) redis_cmds \<Rightarrow> nat \<Rightarrow> time \<Rightarrow> string \<Rightarrow> string \<Rightarrow> 's \<Rightarrow> bool \<times> 's" where
  "acquire R ttl now orderId holderToken s =
     r_setnx R now ttl (lockKey orderId) holderToken s"

text \<open>GET and DEL of the script run as one step on the server.\<close>

definition RELEASE_SCRIPT ::
  "(string, 's) redis_cmds \<Rightarrow> time \<Rightarrow> string \<Rightarrow> string \<Rightarrow> 's \<Rightarrow> nat \<times> 's" where
  "RELEASE_SCRIPT R now k arg s =
     (if r_get R now k s = Some arg then (1, r_del R k s) else (0, s))"

definition release ::
  "(string, 's) redis_cmds \<Rightarrow> time \<Rightarrow> string \<Rightarrow> string \<Rightarrow> 's \<Rightarrow> 's" where
  "release R now orderId holderToken s =
     snd (RELEASE_SCRIPT R now (lockKey orderId) holderToken s)"

definition acquireOrThrow ::
  "(string, 's) redis_cmds \<Rightarrow> nat \<Rightarrow> time \<Rightarrow> string \<Rightarrow> string \<Rightarrow> 's \<Rightarrow> (error + unit) \<times> 's" where
  "acquireOrThrow R ttl now orderId holderToken s =
     (let (acquired, s') = acquire R ttl now orderId holderToken s
      in if \<not> acquired then (Inl (lockAcquisitionError orderId), s') else (Inr (), s'))"

text \<open>The token that holds the lock of an order at an instant.\<close>

definition lock_holder ::
  "(string, 's) redis_cmds \<Rightarrow> time \<Rightarrow> string \<Rightarrow> 's \<Rightarrow> string option" where
  "lock_holder R now orderId s = r_get R now (lockKey orderId) s"

lemma lockKey_inject [simp]: "lockKey a = lockKey b \<longleftrightarrow> a = b"
  by (simp add: lockKey_def)

section \<open>Leases\<close>

text \<open>
  The workers of one lock: the clock, the store and the workers that have acquired the lock
  and not yet released it, with the instant at which they did. A worker does not run the
  same job twice at once, so a token that is in use is not used to acquire again.
\<close>

type_synonym 's lease_state = "time \<times> 's \<times> (string \<times> time) set"

inductive lease_step ::
  "(time \<Rightarrow> string \<Rightarrow> 's \<Rightarrow> bool \<times> 's) \<Rightarrow> (time \<Rightarrow> string \<Rightarrow> 's \<Rightarrow> 's) \<Rightarrow>
   's lease_state \<Rightarrow> 's lease_state \<Rightarrow> bool"
  for acq rel where
  acquired: "now \<le> t \<Longrightarrow> tok \<notin> fst ` B \<Longrightarrow> acq t tok s = (True, s') \<Longrightarrow>
     lease_step acq rel (now, s, B) (t, s', insert (tok, t) B)"
| refused: "now \<le> t \<Longrightarrow> tok \<notin> fst ` B \<Longrightarrow> acq t tok s = (False, s') \<Longrightarrow>
     lease_step acq rel (now, s, B) (t, s', B)"
| released: "now \<le> t \<Longrightarrow> (tok, t0) \<in> B \<Longrightarrow>
     lease_step acq rel (now, s, B) (t, rel t tok s, B - {(tok, t0)})"

inductive lease_reach ::
  "(time \<Rightarrow> string \<Rightarrow> 's \<Rightarrow> bool \<times> 's) \<Rightarrow> (time \<Rightarrow> string \<Rightarrow> 's \<Rightarrow> 's) \<Rightarrow> 's lease_state \<Rightarrow> bool"
  for acq rel where
  start: "lease_reach acq rel (now, s, {})"
| step: "lease_reach acq rel x \<Longrightarrow> lease_step acq rel x y \<Longrightarrow> lease_reach acq rel y"

inductive_cases lease_stepE: "lease_step acq rel (now, s, B) y"

locale lease =
  fixes acq :: "time \<Rightarrow> string \<Rightarrow> 's \<Rightarrow> bool \<times> 's"
    and rel :: "time \<Rightarrow> string \<Rightarrow> 's \<Rightarrow> 's"
    and hold :: "time \<Rightarrow> 's \<Rightarrow> string option"
    and ttl :: nat
  assumes acq_free:
      "hold t s = None \<Longrightarrow> acq t tok s = (True, s') \<Longrightarrow> t \<le> u \<Longrightarrow>
         hold u s' = (if u < expires_at t ttl then Some tok else None)"
    and acq_free_True: "hold t s = None \<Longrightarrow> fst (acq t tok s)"
    and acq_taken: "hold t s = Some h \<Longrightarrow> acq t tok s = (False, s)"
    and rel_foreign: "hold t s \<noteq> Some tok \<Longrightarrow> rel t tok s = s"
    and rel_mine: "hold t s = Some tok \<Longrightarrow> hold u (rel t tok s) = None"
begin

lemma acq_True_free: "acq t tok s = (True, s') \<Longrightarrow> hold t s = None"
  by (metis acq_taken not_None_eq prod.inject)

lemma acq_False: "acq t tok s = (False, s') \<Longrightarrow> s' = s"
  by (metis acq_free_True acq_taken fst_conv not_None_eq prod.inject)

text \<open>
  Whoever believes to hold the lock does hold it, at every later instant of its lease.
\<close>

definition lease_inv :: "'s lease_state \<Rightarrow> bool" where
  "lease_inv x = (case x of (now, s, B) \<Rightarrow>
     \<forall>(tok, t0) \<in> B. \<forall>u. now \<le> u \<and> u < expires_at t0 ttl \<longrightarrow> hold u s = Some tok)"

lemma lease_invD:
  "lease_inv (now, s, B) \<Longrightarrow> (tok, t0) \<in> B \<Longrightarrow> now \<le> u \<Longrightarrow> u < expires_at t0 ttl \<Longrightarrow>
     hold u s = Some tok"
  by (auto simp: lease_inv_def)

lemma lease_invI:
  "(\<And>tok t0 u. (tok, t0) \<in> B \<Longrightarrow> now \<le> u \<Longrightarrow> u < expires_at t0 ttl \<Longrightarrow> hold u s = Some tok) \<Longrightarrow>
     lease_inv (now, s, B)"
  by (auto simp: lease_inv_def)

lemma lease_inv_acquired:
  assumes inv: "lease_inv (now, s, B)" and t: "now \<le> t" and acq: "acq t tok s = (True, s')"
  shows "lease_inv (t, s', insert (tok, t) B)"
proof (rule lease_invI)
  fix tok' t0 u
  assume b: "(tok', t0) \<in> insert (tok, t) B" and u: "t \<le> u" "u < expires_at t0 ttl"
  have free: "hold t s = None" using acq by (rule acq_True_free)
  show "hold u s' = Some tok'"
  proof (cases "(tok', t0) \<in> B")
    case True
    with inv t u have "hold t s = Some tok'" by (auto dest: lease_invD)
    with free show ?thesis by simp
  next
    case False
    with b u show ?thesis by (simp add: acq_free [OF free acq])
  qed
qed

lemma lease_inv_released:
  assumes inv: "lease_inv (now, s, B)" and t: "now \<le> t" and tok: "(tok, t0) \<in> B"
    and uniq: "inj_on fst B"
  shows "lease_inv (t, rel t tok s, B - {(tok, t0)})"
proof (rule lease_invI)
  fix tok' t1 u
  assume b: "(tok', t1) \<in> B - {(tok, t0)}" and u: "t \<le> u" "u < expires_at t1 ttl"
  with uniq tok have neq: "tok' \<noteq> tok" by (auto dest: inj_on_fstD)
  from b have "(tok', t1) \<in> B" by simp
  from lease_invD [OF inv this] t u have "hold t s = Some tok'" "hold u s = Some tok'"
    by simp_all
  with neq show "hold u (rel t tok s) = Some tok'" by (simp add: rel_foreign)
qed

lemma lease_step_inj:
  "lease_step acq rel x y \<Longrightarrow> inj_on fst (snd (snd x)) \<Longrightarrow> inj_on fst (snd (snd y))"
  by (induction rule: lease_step.induct) (auto intro: inj_on_diff)

lemma lease_step_inv:
  "lease_step acq rel x y \<Longrightarrow> lease_inv x \<Longrightarrow> inj_on fst (snd (snd x)) \<Longrightarrow> lease_inv y"
proof (induction rule: lease_step.induct)
  case (refused now t tok B s s')
  then have "s' = s" by (auto dest: acq_False)
  with refused show ?case by (auto simp: lease_inv_def)
qed (simp_all add: lease_inv_acquired lease_inv_released)

lemma lease_reach_inv: "lease_reach acq rel x \<Longrightarrow> lease_inv x \<and> inj_on fst (snd (snd x))"
proof (induction rule: lease_reach.induct)
  case (start now s)
  show ?case by (simp add: lease_inv_def)
next
  case (step x y)
  then show ?case by (blast intro: lease_step_inj lease_step_inv)
qed

lemma mutual_exclusion:
  assumes "lease_reach acq rel (now, s, B)"
    and "(a, t) \<in> B" "now < expires_at t ttl" and "(b, u) \<in> B" "now < expires_at u ttl"
  shows "a = b \<and> t = u"
proof -
  from assms(1) have inv: "lease_inv (now, s, B)" and inj: "inj_on fst B"
    by (auto dest: lease_reach_inv)
  from inv assms have "hold now s = Some a" "hold now s = Some b"
    by (auto dest: lease_invD)
  then have "a = b" by simp
  with inj assms(2,4) show ?thesis by (auto dest: inj_on_fstD)
qed

end

section \<open>The service keeps the promise\<close>

locale lock_redis = redis R for R :: "(string, 's) redis_cmds" +
  fixes oid :: string and ttl :: nat

sublocale lock_redis \<subseteq> order_lock: lease
  "\<lambda>t tok s. acquire R ttl t oid tok s" "\<lambda>t tok s. release R t oid tok s"
  "\<lambda>t s. lock_holder R t oid s" ttl
proof unfold_locales
  fix t u :: time and s s' and tok
  assume "lock_holder R t oid s = None" "acquire R ttl t oid tok s = (True, s')" "t \<le> u"
  then show "lock_holder R u oid s' = (if u < expires_at t ttl then Some tok else None)"
    by (simp add: acquire_def lock_holder_def setnx_free get_set_same flip: prod.inject)
       (metis get_set_same prod.inject)
next
  fix t :: time and s and tok
  show "lock_holder R t oid s = None \<Longrightarrow> fst (acquire R ttl t oid tok s)"
    by (simp add: acquire_def lock_holder_def setnx_iff)
next
  fix t :: time and s and tok h
  show "lock_holder R t oid s = Some h \<Longrightarrow> acquire R ttl t oid tok s = (False, s)"
    by (simp add: acquire_def lock_holder_def setnx_taken)
next
  fix t :: time and s and tok
  show "lock_holder R t oid s \<noteq> Some tok \<Longrightarrow> release R t oid tok s = s"
    by (simp add: release_def RELEASE_SCRIPT_def lock_holder_def)
next
  fix t u :: time and s and tok
  show "lock_holder R t oid s = Some tok \<Longrightarrow> lock_holder R u oid (release R t oid tok s) = None"
    by (simp add: release_def RELEASE_SCRIPT_def lock_holder_def get_del_same)
qed

interpretation lk: lock_redis kv_cmds oid ttl for oid ttl
  by unfold_locales

lemma acquireOrThrow_result:
  "acquireOrThrow kv_cmds ttl now oid tok s =
     (case lock_holder kv_cmds now oid s of
        Some _ \<Rightarrow> (Inl (lockAcquisitionError oid), s)
      | None \<Rightarrow> (Inr (), kv_set now ttl (lockKey oid) tok s))"
  by (auto simp: acquireOrThrow_def acquire_def lock_holder_def kv_setnx_def split: option.splits)

section \<open>Properties\<close>

text \<open>C9: whatever the workers' interleaving of lock acquisitions and releases, at most one of
  them holds the lock of an order within its time to live.\<close>

theorem lock_mutual_exclusion:
  assumes "lease_reach (\<lambda>t tok s. acquire kv_cmds ttl t oid tok s)
      (\<lambda>t tok s. release kv_cmds t oid tok s) (now, s, B)"
    and "(a, t) \<in> B" "now < expires_at t ttl" and "(b, u) \<in> B" "now < expires_at u ttl"
  shows "a = b \<and> t = u"
  using assms by (rule lk.order_lock.mutual_exclusion)

theorem lock_mutual_exclusion_witness:
  "lease_reach (\<lambda>t tok s. acquire kv_cmds 60 t ''o'' tok s)
      (\<lambda>t tok s. release kv_cmds t ''o'' tok s)
      (5, kv_set 5 60 (lockKey ''o'') ''w1:j'' Map.empty, {(''w1:j'', 5)}) \<and> (5 :: nat) = 5"
proof -
  let ?acq = "\<lambda>t tok s. acquire kv_cmds 60 t ''o'' tok s"
  let ?rel = "\<lambda>t tok s. release kv_cmds t ''o'' tok s"
  let ?s = "kv_set 5 60 (lockKey ''o'') ''w1:j'' Map.empty"
  have "lease_step ?acq ?rel (0, Map.empty, {}) (5, ?s, insert (''w1:j'', 5) {})"
    by (rule lease_step.acquired) (simp_all add: acquire_def kv_setnx_def kv_get_def)
  with lease_reach.start have r: "lease_reach ?acq ?rel (5, ?s, {(''w1:j'', 5)})"
    by (rule lease_reach.step)
  from lock_mutual_exclusion [OF r, of "''w1:j''" 5 "''w1:j''" 5] r
  show ?thesis by (simp add: expires_at_def)
qed

text \<open>Releasing a lock that is held by another token, for instance after the time to live
  of the caller's lock ran out and the lock was taken again, changes nothing.\<close>

theorem lock_release_foreign:
  assumes "lock_holder kv_cmds now oid s \<noteq> Some tok"
  shows "release kv_cmds now oid tok s = s"
  using assms by (rule lk.order_lock.rel_foreign)

theorem lock_release_foreign_witness:
  "release kv_cmds 70000 ''o'' ''w1:j'' (kv_set 61000 60 (lockKey ''o'') ''w2:j'' Map.empty) =
     kv_set 61000 60 (lockKey ''o'') ''w2:j'' Map.empty"
  by (rule lock_release_foreign) (simp add: lock_holder_def kv_defs)

end
