(* ===== verification/Js_Text.thy ===== *)
theory Js_Text
  imports Prelude
begin

text \<open>
  The text functions of JavaScript that the program uses: integers in decimal, toFixed(2) and
  its inverse on amounts in hundredths, removal of a character by a global replace, ASCII
  toUpperCase, toISOString, and tests of fixed substrings.
\<close>

section \<open>Decimal numbers\<close>

definition digit_char :: "nat \<Rightarrow> char" where
  "digit_char d = char_of (48 + d)"

definition char_digit :: "char \<Rightarrow> nat option" where
  "char_digit c =
     (let n = of_char c :: nat in if 48 \<le> n \<and> n \<le> 57 then Some (n - 48) else None)"

fun show_nat :: "nat \<Rightarrow> string" where
  "show_nat n = (if n < 10 then [digit_char n] else show_nat (n div 10) @ [digit_char (n mod 10)])"

declare show_nat.simps [simp del]

definition show_int :: "int \<Rightarrow> string" where
  "show_int i = (if i < 0 then CHR ''-'' # show_nat (nat (- i)) else show_nat (nat i))"

fun read_digits :: "nat \<Rightarrow> string \<Rightarrow> nat option" where
  "read_digits acc [] = Some acc"
| "read_digits acc (c # cs) =
     (case char_digit c of None \<Rightarrow> None | Some d \<Rightarrow> read_digits (10 * acc + d) cs)"

definition read_nat :: "string \<Rightarrow> nat option" where
  "read_nat s = (if s = [] then None else read_digits 0 s)"

text \<open>An amount with two decimals: toFixed(2), and parseFloat of such a text times 100.\<close>

definition fixed2 :: "nat \<Rightarrow> string" where
  "fixed2 h = show_nat (h div 100) @ CHR ''.'' #
     [digit_char (h mod 100 div 10), digit_char (h mod 10)]"

definition amount_hundredths :: "string \<Rightarrow> nat option" where
  "amount_hundredths s =
     (let whole = takeWhile (\<lambda>c. c \<noteq> CHR ''.'') s; rest = dropWhile (\<lambda>c. c \<noteq> CHR ''.'') s
      in case read_nat whole of
           None \<Rightarrow> None
         | Some w \<Rightarrow>
             (case rest of
                [] \<Rightarrow> Some (100 * w)
              | [dot, a, b] \<Rightarrow>
                  (case read_nat [a, b] of None \<Rightarrow> None | Some f \<Rightarrow> Some (100 * w + f))
              | _ \<Rightarrow> None))"

section \<open>Characters\<close>

definition remove_char :: "char \<Rightarrow> string \<Rightarrow> string" where
  "remove_char c s = filter (\<lambda>x. x \<noteq> c) s"

definition upper_char :: "char \<Rightarrow> char" where
  "upper_char c =
     (let n = of_char c :: nat in if 97 \<le> n \<and> n \<le> 122 then char_of (n - 32) else c)"

definition toUpperCase :: "string \<Rightarrow> string" where
  "toUpperCase s = map upper_char s"

definition starts_with :: "string \<Rightarrow> string \<Rightarrow> bool" where
  "starts_with p s = (take (length p) s = p)"

section \<open>Dates\<close>

text \<open>
  The proleptic Gregorian date of a day number (days since 1970-01-01), counted in eras of
  400 years that begin on the first of March.
\<close>

definition civil_of_days :: "nat \<Rightarrow> nat \<times> nat \<times> nat" where
  "civil_of_days z0 =
     (let z = z0 + 719468;
          era = z div 146097;
          doe = z mod 146097;
          yoe = (doe - doe div 1460 + doe div 36524 - doe div 146096) div 365;
          doy = doe - (365 * yoe + yoe div 4 - yoe div 100);
          mp = (5 * doy + 2) div 153;
          d = doy - (153 * mp + 2) div 5 + 1;
          m = (if mp < 10 then mp + 3 else mp - 9);
          y = yoe + era * 400 + (if m \<le> 2 then 1 else 0)
      in (y, m, d))"

definition pad2 :: "nat \<Rightarrow> string" where
  "pad2 n = [digit_char (n div 10 mod 10), digit_char (n mod 10)]"

definition pad4 :: "nat \<Rightarrow> string" where
  "pad4 n = pad2 (n div 100) @ pad2 n"

text \<open>toISOString().slice(0, 10), for the years with four digits.\<close>

definition iso_date :: "time \<Rightarrow> string" where
  "iso_date t = (case civil_of_days (t div 86400000) of
     (y, m, d) \<Rightarrow> pad4 y @ ''-'' @ pad2 m @ ''-'' @ pad2 d)"

definition iso_datetime :: "time \<Rightarrow> string" where
  "iso_datetime t =
     (let ms = t mod 86400000
      in iso_date t @ ''T'' @ pad2 (ms div 3600000) @ '':'' @ pad2 (ms div 60000 mod 60) @ '':'' @
         pad2 (ms div 1000 mod 60) @ ''.'' @ [digit_char (ms mod 1000 div 100)] @
         pad2 (ms mod 100) @ ''Z'')"

section \<open>Lemmas\<close>

lemma char_digit_digit_char [simp]: "d < 10 \<Longrightarrow> char_digit (digit_char d) = Some d"
  by (simp add: char_digit_def digit_char_def)

lemma digit_char_neq: "d < 10 \<Longrightarrow> char_digit c = None \<Longrightarrow> digit_char d \<noteq> c"
  by (metis char_digit_digit_char option.distinct(1))

lemma char_digit_punct [simp]: "char_digit (CHR ''.'') = None" "char_digit (CHR ''-'') = None"
  by (simp_all add: char_digit_def)

lemma read_digits_append:
  "read_digits a (s @ t) = (case read_digits a s of None \<Rightarrow> None | Some b \<Rightarrow> read_digits b t)"
  by (induction a s rule: read_digits.induct) (auto split: option.splits)

lemma show_nat_nonempty [simp]: "show_nat n \<noteq> []"
  by (subst show_nat.simps) simp

lemma read_digits_show_nat: "read_digits 0 (show_nat n) = Some n"
proof (induction n rule: show_nat.induct)
  case (1 n)
  show ?case
  proof (cases "n < 10")
    case True
    then show ?thesis by (subst show_nat.simps) simp
  next
    case False
    with 1 have "read_digits 0 (show_nat (n div 10)) = Some (n div 10)" by simp
    with False show ?thesis by (subst show_nat.simps) (simp add: read_digits_append)
  qed
qed

lemma read_show_nat [simp]: "read_nat (show_nat n) = Some n"
  by (simp add: read_nat_def read_digits_show_nat)

lemma show_nat_inject [simp]: "show_nat m = show_nat n \<longleftrightarrow> m = n"
  by (metis option.inject read_show_nat)

lemma show_nat_digits: "c \<in> set (show_nat n) \<Longrightarrow> \<exists>d < 10. c = digit_char d"
proof (induction n rule: show_nat.induct)
  case (1 n)
  then show ?case
    by (cases "n < 10") (auto simp: show_nat.simps [of n] intro: exI [of _ "n mod 10"])
qed

lemma dot_not_in_show_nat: "CHR ''.'' \<notin> set (show_nat n)"
  using show_nat_digits [of "CHR ''.''" n] by (metis digit_char_neq char_digit_punct(1))

lemma takeWhile_no: "c \<notin> set s \<Longrightarrow> takeWhile (\<lambda>x. x \<noteq> c) (s @ c # t) = s"
  by (induction s) auto

lemma dropWhile_no: "c \<notin> set s \<Longrightarrow> dropWhile (\<lambda>x. x \<noteq> c) (s @ c # t) = c # t"
  by (induction s) auto

lemma amount_hundredths_fixed2: "amount_hundredths (fixed2 h) = Some h"
proof -
  have "h mod 100 div 10 < 10" by simp
  then have "read_nat [digit_char (h mod 100 div 10), digit_char (h mod 10)] = Some (h mod 100)"
    by (simp add: read_nat_def) (simp add: mod_mod_cancel [of 10 100 h, symmetric] del: mod_mod_cancel)
  then show ?thesis
    by (simp add: amount_hundredths_def fixed2_def takeWhile_no dropWhile_no dot_not_in_show_nat)
qed

lemma fixed2_inject: "fixed2 a = fixed2 b \<longleftrightarrow> a = b"
  by (metis amount_hundredths_fixed2 option.inject)

section \<open>Trimming and searching\<close>

text \<open>The white space of trim that a character of eight bits can be.\<close>

definition js_space :: "char \<Rightarrow> bool" where
  "js_space c = ((of_char c :: nat) \<in> {9, 10, 11, 12, 13, 32, 160})"

definition trim :: "string \<Rightarrow> string" where
  "trim s = rev (dropWhile js_space (rev (dropWhile js_space s)))"

text \<open>s.includes(t): t is a prefix of some suffix of s.\<close>

fun has_text :: "string \<Rightarrow> string \<Rightarrow> bool" where
  "has_text [] t = (t = [])"
| "has_text (c # s) t = (take (length t) (c # s) = t \<or> has_text s t)"

lemma has_text_iff: "has_text s t \<longleftrightarrow> (\<exists>u v. s = u @ t @ v)"
proof (induction s)
  case Nil
  show ?case by auto
next
  case (Cons c s)
  have "take (length t) (c # s) = t \<longleftrightarrow> (\<exists>v. c # s = t @ v)"
    by (metis append_eq_conv_conj append_take_drop_id)
  moreover have "(\<exists>u v. c # s = u @ t @ v) \<longleftrightarrow> (\<exists>v. c # s = t @ v) \<or> (\<exists>u v. s = u @ t @ v)"
    by (metis append_Cons append_Nil list.sel(3) neq_Nil_conv tl_append2)
  ultimately show ?case by (simp add: Cons.IH)
qed

lemma trim_idem: "trim (trim s) = trim s"
proof -
  let ?d = "dropWhile js_space"
  have idem: "?d (?d u) = ?d u" for u by (metis dropWhile_idem)
  have "?d (rev (?d (rev (?d s)))) = rev (?d (rev (?d s)))"
  proof (cases "?d s")
    case (Cons c u)
    then have c: "\<not> js_space c" by (metis hd_dropWhile list.distinct(1) list.sel(1))
    then show ?thesis by (simp add: Cons dropWhile_append)
  next
    case Nil
    show ?thesis unfolding Nil by simp
  qed
  then show ?thesis by (simp add: trim_def idem)
qed

end
