(* ===== verification/Pos_Adapter.thy ===== *)
theory Pos_Adapter
  imports Js_Text Order_Queue
begin

text \<open>
  The anti-corruption layer towards the POS systems (src/order/infrastructure/pos): the
  common interface, the XML adapter LEGACY_V1, the JSON adapter MODERN_V2 and the factory
  that picks one. The HTTP client is a parameter: a function from the request to the
  response's data or to the message of the error it throws.
\<close>

section \<open>The interface\<close>

type_synonym domain_order_item = order_job_item

record domain_order =
  do_orderId :: string
  do_traceId :: string
  do_storeId :: string
  do_idempotencyKey :: string
  do_totalAmount :: string
  do_items :: "domain_order_item list"
  do_createdAt :: time

datatype pos_status = POS_ACCEPTED | POS_REJECTED

text \<open>posOrderId is what the response has in that place; None is undefined.\<close>

record pos_order_result =
  pr_posOrderId :: "json option"
  pr_status :: pos_status
  pr_message :: "string option"
  pr_rawResponse :: "json option"

datatype http_method = HTTP_POST | HTTP_DELETE

datatype http_body = XmlBody string | JsonBody json | NoBody

record http_request =
  rq_baseURL :: string
  rq_timeout :: nat
  rq_method :: http_method
  rq_path :: string
  rq_body :: http_body
  rq_headers :: "(string \<times> string) list"

type_synonym http_client = "http_request \<Rightarrow> string + json"

text \<open>An adapter is its class with the constructor's arguments.\<close>

datatype pos_adapter =
    LegacyV1PosAdapter string "string option"
  | ModernV2PosAdapter string "string option"

definition unknownPosType :: "string \<Rightarrow> error" where
  "unknownPosType t = mk_error Error (UnknownPosTypeMsg t)"

definition pos_create :: "string \<Rightarrow> string \<Rightarrow> string option \<Rightarrow> error + pos_adapter" where
  "pos_create posType endpoint apiKey =
     (if posType = ''LEGACY_V1'' then Inr (LegacyV1PosAdapter endpoint apiKey)
      else if posType = ''MODERN_V2'' \<or> posType = ''TABLET_V3''
      then Inr (ModernV2PosAdapter endpoint apiKey)
      else Inl (unknownPosType posType))"

text \<open>apiKey && {...}: an absent or empty key adds no header.\<close>

definition key_header :: "string \<Rightarrow> string \<Rightarrow> string option \<Rightarrow> (string \<times> string) list" where
  "key_header name prefix apiKey =
     (case apiKey of None \<Rightarrow> [] | Some k \<Rightarrow> if k = [] then [] else [(name, prefix @ k)])"

section \<open>LEGACY_V1\<close>

definition legacy_key :: "string \<Rightarrow> string" where
  "legacy_key k = toUpperCase (remove_char (CHR ''-'') k)"

definition legacy_headers :: "string option \<Rightarrow> string \<Rightarrow> (string \<times> string) list" where
  "legacy_headers apiKey k =
     (''Content-Type'', ''application/xml'') # key_header ''X-Api-Key'' [] apiKey @
     [(''X-IDEMPOTENCY'', legacy_key k)]"

definition xml_item :: "domain_order_item \<Rightarrow> string" where
  "xml_item it =
     ''<ITEM>'' @
     ''<MENU_CODE>'' @ ji_menuId it @ ''</MENU_CODE>'' @
     ''<QTY>'' @ show_int (ji_quantity it) @ ''</QTY>'' @
     ''<PRICE>'' @ show_int (ji_unitPrice it) @ ''</PRICE>'' @
     ''</ITEM>''"

text \<open>
  A price times 100 is its hundredths; parseFloat of a total that is no amount is NaN, which
  prints as such.
\<close>

definition xml_total :: "string \<Rightarrow> string" where
  "xml_total amount = (case amount_hundredths amount of None \<Rightarrow> ''NaN'' | Some h \<Rightarrow> show_nat h)"

definition buildXml :: "domain_order \<Rightarrow> string" where
  "buildXml ord =
     (let dateStr = remove_char (CHR ''-'') (iso_date (do_createdAt ord));
          itemsXml = concat (map xml_item (do_items ord))
      in ''<ORDER>'' @
         ''<STORE_ID>'' @ do_storeId ord @ ''</STORE_ID>'' @
         ''<ORDER_DATE>'' @ dateStr @ ''</ORDER_DATE>'' @
         ''<TOTAL>'' @ xml_total (do_totalAmount ord) @ ''</TOTAL>'' @
         ''<ITEMS>'' @ itemsXml @ ''</ITEMS>'' @
         ''</ORDER>'')"

text \<open>
  The first match of the regular expression: an opening tag followed by a nonempty run
  without an angle bracket and the closing tag.
\<close>

definition match_order_id :: "string \<Rightarrow> string option" where
  "match_order_id s =
     (if starts_with ''<ORDER_ID>'' s then
        (let rest = drop 10 s; body = takeWhile (\<lambda>c. c \<noteq> CHR ''<'') rest
         in if body \<noteq> [] \<and> starts_with ''</ORDER_ID>'' (drop (length body) rest)
            then Some body else None)
      else None)"

fun search_order_id :: "string \<Rightarrow> string option" where
  "search_order_id [] = None"
| "search_order_id (c # cs) =
     (case match_order_id (c # cs) of Some b \<Rightarrow> Some b | None \<Rightarrow> search_order_id cs)"

definition parseOrderId :: "time \<Rightarrow> string \<Rightarrow> string" where
  "parseOrderId now xml =
     (case search_order_id xml of Some b \<Rightarrow> b | None \<Rightarrow> ''legacy-'' @ show_nat now)"

text \<open>match is a method of strings; on any other data the call is a TypeError.\<close>

definition legacy_result :: "time \<Rightarrow> json \<Rightarrow> string + pos_order_result" where
  "legacy_result now data =
     (case data of
        JStr xml \<Rightarrow> Inr \<lparr>pr_posOrderId = Some (JStr (parseOrderId now xml)),
          pr_status = POS_ACCEPTED, pr_message = None,
          pr_rawResponse = Some (JObj [(''xml'', data)])\<rparr>
      | _ \<Rightarrow> Inl ''xml.match is not a function'')"

section \<open>MODERN_V2\<close>

definition modern_headers :: "string option \<Rightarrow> (string \<times> string) list" where
  "modern_headers apiKey =
     (''Content-Type'', ''application/json'') # key_header ''Authorization'' ''Bearer '' apiKey"

definition modern_item :: "domain_order_item \<Rightarrow> json" where
  "modern_item it = JObj [(''code'', JStr (ji_menuId it)), (''name'', JStr (ji_menuName it)),
     (''count'', JNum (ji_quantity it)), (''priceKrw'', JPrice (ji_unitPrice it))]"

definition modern_body :: "domain_order \<Rightarrow> json" where
  "modern_body ord = JObj [(''storeCode'', JStr (do_storeId ord)),
     (''orderTime'', JStr (iso_datetime (do_createdAt ord))),
     (''totalAmountKrw'', JStr (do_totalAmount ord)),
     (''menuItems'', JArr (map modern_item (do_items ord)))]"

text \<open>Property access: undefined is None, and null has no properties.\<close>

definition json_id :: "json \<Rightarrow> string + json option" where
  "json_id data =
     (case data of
        JNull \<Rightarrow> Inl ''Cannot read properties of null''
      | JObj props \<Rightarrow> Inr (map_of props ''id'')
      | _ \<Rightarrow> Inr None)"

definition modern_result :: "json \<Rightarrow> string + pos_order_result" where
  "modern_result data =
     bind_res (json_id data) (\<lambda>i. Inr \<lparr>pr_posOrderId = i, pr_status = POS_ACCEPTED,
       pr_message = None, pr_rawResponse = Some data\<rparr>)"

section \<open>sendOrder and cancelOrder\<close>

fun send_request :: "pos_adapter \<Rightarrow> domain_order \<Rightarrow> http_request" where
  "send_request (LegacyV1PosAdapter endpoint apiKey) ord =
     \<lparr>rq_baseURL = endpoint, rq_timeout = 8000, rq_method = HTTP_POST,
      rq_path = ''/order/receive'', rq_body = XmlBody (buildXml ord),
      rq_headers = legacy_headers apiKey (do_idempotencyKey ord)\<rparr>"
| "send_request (ModernV2PosAdapter endpoint apiKey) ord =
     \<lparr>rq_baseURL = endpoint, rq_timeout = 5000, rq_method = HTTP_POST,
      rq_path = ''/orders'', rq_body = JsonBody (modern_body ord),
      rq_headers = modern_headers apiKey @
        [(''X-Idempotency-Key'', do_idempotencyKey ord), (''X-Trace-Id'', do_traceId ord)]\<rparr>"

fun read_response :: "pos_adapter \<Rightarrow> time \<Rightarrow> json \<Rightarrow> string + pos_order_result" where
  "read_response (LegacyV1PosAdapter _ _) now data = legacy_result now data"
| "read_response (ModernV2PosAdapter _ _) now data = modern_result data"

text \<open>Whatever is thrown becomes a PosUnavailableError of the store.\<close>

definition sendOrder :: "http_client \<Rightarrow> time \<Rightarrow> pos_adapter \<Rightarrow> domain_order \<Rightarrow> error + pos_order_result"
where
  "sendOrder http now a ord =
     (case bind_res (http (send_request a ord)) (read_response a now) of
        Inl why \<Rightarrow> Inl (posUnavailableError (do_storeId ord) why)
      | Inr res \<Rightarrow> Inr res)"

fun cancel_request :: "pos_adapter \<Rightarrow> string \<Rightarrow> string \<Rightarrow> http_request" where
  "cancel_request (LegacyV1PosAdapter endpoint apiKey) orderId idempotencyKey =
     \<lparr>rq_baseURL = endpoint, rq_timeout = 8000, rq_method = HTTP_POST,
      rq_path = ''/order/cancel'',
      rq_body = XmlBody (''<CANCEL><ORDER_ID>'' @ orderId @ ''</ORDER_ID></CANCEL>''),
      rq_headers = legacy_headers apiKey idempotencyKey\<rparr>"
| "cancel_request (ModernV2PosAdapter endpoint apiKey) orderId idempotencyKey =
     \<lparr>rq_baseURL = endpoint, rq_timeout = 5000, rq_method = HTTP_DELETE,
      rq_path = ''/orders/'' @ orderId, rq_body = NoBody,
      rq_headers = modern_headers apiKey @ [(''X-Idempotency-Key'', idempotencyKey)]\<rparr>"

definition cancelOrder :: "http_client \<Rightarrow> pos_adapter \<Rightarrow> string \<Rightarrow> string \<Rightarrow> error + unit" where
  "cancelOrder http a orderId idempotencyKey =
     (case http (cancel_request a orderId idempotencyKey) of
        Inl why \<Rightarrow> Inl (posUnavailableError orderId why)
      | Inr _ \<Rightarrow> Inr ())"

section \<open>Lemmas\<close>

lemma read_response_accepts: "read_response a now data = Inr res \<Longrightarrow> pr_status res = POS_ACCEPTED"
  by (cases a; cases data)
    (auto simp: legacy_result_def modern_result_def bind_res_Inr)

lemma sendOrder_accepts: "sendOrder http now a ord = Inr res \<Longrightarrow> pr_status res = POS_ACCEPTED"
  by (auto simp: sendOrder_def bind_res_Inr split: sum.splits dest: read_response_accepts)

lemma sendOrder_error:
  "sendOrder http now a ord = Inl e \<Longrightarrow>
     err_class e = PosUnavailableError \<and> instanceof e RetryableError"
  by (auto simp: sendOrder_def posUnavailableError_def mk_error_def instanceof_def split: sum.splits)

lemma starts_with_append [simp]: "starts_with p (p @ s)"
  by (simp add: starts_with_def)

lemma match_order_id_hit:
  assumes "b \<noteq> []" and "CHR ''<'' \<notin> set b"
  shows "match_order_id (''<ORDER_ID>'' @ b @ ''</ORDER_ID>'' @ post) = Some b"
proof -
  have tw: "takeWhile (\<lambda>c. c \<noteq> CHR ''<'') (b @ ''</ORDER_ID>'' @ post) = b"
    using takeWhile_no [OF assms(2), of "''/ORDER_ID>'' @ post"] by simp
  have "starts_with ''</ORDER_ID>'' (drop (length b) (b @ ''</ORDER_ID>'' @ post))"
    using starts_with_append [of "''</ORDER_ID>''" post] by simp
  with assms(1) tw show ?thesis
    using starts_with_append [of "''<ORDER_ID>''" "b @ ''</ORDER_ID>'' @ post"]
    by (simp add: match_order_id_def Let_def)
qed

lemma search_order_id_skip:
  assumes "\<forall>k < length pre. match_order_id (drop k (pre @ s)) = None"
  shows "search_order_id (pre @ s) = search_order_id s"
  using assms
proof (induction pre)
  case (Cons c pre)
  from Cons.prems have "match_order_id (c # pre @ s) = None" by force
  moreover have "\<forall>k < length pre. match_order_id (drop k (pre @ s)) = None"
    using Cons.prems by (metis Suc_less_eq append_Cons drop_Suc_Cons length_Cons)
  ultimately show ?case using Cons.IH by simp
qed simp

lemma search_order_id_hit: "match_order_id s = Some b \<Longrightarrow> search_order_id s = Some b"
  by (cases s) (simp_all add: match_order_id_def starts_with_def)

section \<open>Idempotency keys at the legacy POS\<close>

definition hex_digits :: string where
  "hex_digits = ''0123456789abcdef''"

definition hex_lower :: "string \<Rightarrow> bool" where
  "hex_lower s = list_all (\<lambda>c. c \<in> set hex_digits) s"

lemma upper_hex_inject:
  "\<forall>c \<in> set hex_digits. \<forall>d \<in> set hex_digits. upper_char c = upper_char d \<longrightarrow> c = d"
  by code_simp

lemma dash_not_hex: "CHR ''-'' \<notin> set hex_digits"
  by code_simp

text \<open>A UUID as uuidv4 prints it: five groups of lower case hexadecimal digits.\<close>

definition canonical_uuid :: "string \<Rightarrow> bool" where
  "canonical_uuid s \<longleftrightarrow> length s = 36 \<and>
     s ! 8 = CHR ''-'' \<and> s ! 13 = CHR ''-'' \<and> s ! 18 = CHR ''-'' \<and> s ! 23 = CHR ''-'' \<and>
     hex_lower (take 8 s) \<and> hex_lower (take 4 (drop 9 s)) \<and> hex_lower (take 4 (drop 14 s)) \<and>
     hex_lower (take 4 (drop 19 s)) \<and> hex_lower (drop 24 s)"

lemma hex_lower_no_dash: "hex_lower s \<Longrightarrow> remove_char (CHR ''-'') s = s"
  using dash_not_hex by (induction s) (auto simp: hex_lower_def remove_char_def)

lemma hex_lower_upper_inject:
  "hex_lower s \<Longrightarrow> hex_lower t \<Longrightarrow> toUpperCase s = toUpperCase t \<Longrightarrow> s = t"
proof (induction s arbitrary: t)
  case Nil
  then show ?case by (simp add: toUpperCase_def)
next
  case (Cons c s)
  then obtain d u where t: "t = d # u" "upper_char c = upper_char d" "toUpperCase s = toUpperCase u"
    by (cases t) (simp_all add: toUpperCase_def)
  from Cons.prems t(1) have "c \<in> set hex_digits" "d \<in> set hex_digits"
    and h: "hex_lower s" "hex_lower u"
    by (simp_all add: hex_lower_def)
  with t(2) upper_hex_inject have "c = d" by blast
  moreover have "s = u" using h t(3) by (rule Cons.IH)
  ultimately show ?case by (simp add: t)
qed

lemma split_at_dash:
  "i < length s \<Longrightarrow> s ! i = CHR ''-'' \<Longrightarrow>
     remove_char (CHR ''-'') s = remove_char (CHR ''-'') (take i s) @ remove_char (CHR ''-'') (drop (Suc i) s)"
  by (subst id_take_nth_drop [of i s]) (simp_all add: remove_char_def)

lemma canonical_uuid_groups:
  assumes "canonical_uuid s"
  shows "remove_char (CHR ''-'') s = take 8 s @ take 4 (drop 9 s) @ take 4 (drop 14 s) @
    take 4 (drop 19 s) @ drop 24 s"
proof -
  have s: "length s = 36" "s ! 8 = CHR ''-''" "s ! 13 = CHR ''-''" "s ! 18 = CHR ''-''"
    "s ! 23 = CHR ''-''"
    and g: "hex_lower (take 8 s)" "hex_lower (take 4 (drop 9 s))" "hex_lower (take 4 (drop 14 s))"
    "hex_lower (take 4 (drop 19 s))" "hex_lower (drop 24 s)"
    using assms by (simp_all add: canonical_uuid_def)
  have "remove_char (CHR ''-'') s = take 8 s @ remove_char (CHR ''-'') (drop 9 s)"
    using split_at_dash [of 8 s] s g by (simp add: hex_lower_no_dash)
  also have "remove_char (CHR ''-'') (drop 9 s) = take 4 (drop 9 s) @ remove_char (CHR ''-'') (drop 14 s)"
    using split_at_dash [of 4 "drop 9 s"] s g by (simp add: hex_lower_no_dash)
  also have "remove_char (CHR ''-'') (drop 14 s) = take 4 (drop 14 s) @ remove_char (CHR ''-'') (drop 19 s)"
    using split_at_dash [of 4 "drop 14 s"] s g by (simp add: hex_lower_no_dash)
  also have "remove_char (CHR ''-'') (drop 19 s) = take 4 (drop 19 s) @ drop 24 s"
    using split_at_dash [of 4 "drop 19 s"] s g by (simp add: hex_lower_no_dash)
  finally show ?thesis .
qed

lemma hex_lower_append [simp]: "hex_lower (s @ t) \<longleftrightarrow> hex_lower s \<and> hex_lower t"
  by (simp add: hex_lower_def)

lemma nth_as_drop: "i < length s \<Longrightarrow> drop i s = s ! i # drop (Suc i) s"
  by (rule Cons_nth_drop_Suc [symmetric])

lemma canonical_uuid_rebuild:
  assumes "canonical_uuid s"
  shows "s = take 8 s @ ''-'' @ take 4 (drop 9 s) @ ''-'' @ take 4 (drop 14 s) @ ''-'' @
    take 4 (drop 19 s) @ ''-'' @ drop 24 s"
proof -
  have s: "length s = 36" "s ! 8 = CHR ''-''" "s ! 13 = CHR ''-''" "s ! 18 = CHR ''-''"
    "s ! 23 = CHR ''-''"
    using assms by (simp_all add: canonical_uuid_def)
  have d: "drop 8 s = ''-'' @ drop 9 s" "drop 13 s = ''-'' @ drop 14 s"
    "drop 18 s = ''-'' @ drop 19 s" "drop 23 s = ''-'' @ drop 24 s"
    using nth_as_drop [of 8 s] nth_as_drop [of 13 s] nth_as_drop [of 18 s] nth_as_drop [of 23 s] s
    by simp_all
  have "s = take 8 s @ drop 8 s" by simp
  also have "drop 8 s = ''-'' @ take 4 (drop 9 s) @ drop 13 s"
    unfolding d(1) using append_take_drop_id [of 4 "drop 9 s"] by (simp del: append_take_drop_id)
  also have "drop 13 s = ''-'' @ take 4 (drop 14 s) @ drop 18 s"
    unfolding d(2) using append_take_drop_id [of 4 "drop 14 s"] by (simp del: append_take_drop_id)
  also have "drop 18 s = ''-'' @ take 4 (drop 19 s) @ drop 23 s"
    unfolding d(3) using append_take_drop_id [of 4 "drop 19 s"] by (simp del: append_take_drop_id)
  also note d(4)
  finally show ?thesis by simp
qed

section \<open>Properties\<close>

text \<open>The id that a legacy POS returns between its tags is found, whatever surrounds it, as
  long as no earlier place of the response matches.\<close>

theorem parseOrderId_finds:
  assumes "b \<noteq> []" and "CHR ''<'' \<notin> set b"
    and "\<forall>k < length pre. match_order_id
      (drop k (pre @ ''<ORDER_ID>'' @ b @ ''</ORDER_ID>'' @ post)) = None"
  shows "parseOrderId now (pre @ ''<ORDER_ID>'' @ b @ ''</ORDER_ID>'' @ post) = b"
  using search_order_id_skip [OF assms(3)]
    search_order_id_hit [OF match_order_id_hit [OF assms(1,2)]]
  by (simp add: parseOrderId_def)

theorem parseOrderId_finds_witness:
  "parseOrderId 5 ''<R><ORDER_ID>A17</ORDER_ID></R>'' = ''A17''"
proof -
  have "\<forall>k < length ''<R>''. match_order_id
      (drop k (''<R>'' @ ''<ORDER_ID>'' @ ''A17'' @ ''</ORDER_ID>'' @ ''</R>'')) = None"
    by code_simp
  from parseOrderId_finds [OF _ _ this] show ?thesis by simp
qed

text \<open>The total in the XML of an order is its amount in hundredths, digit for digit, so the
  conversion to the unit of the legacy POS loses nothing.\<close>

theorem legacy_total_exact:
  "xml_total (fixed2 h) = show_nat h \<and> read_nat (xml_total (fixed2 h)) = Some h"
  by (simp add: xml_total_def amount_hundredths_fixed2)

text \<open>On UUIDs as the server generates them the header of the legacy POS tells idempotency
  keys apart, although dashes and case are dropped.\<close>

theorem legacy_key_injective:
  assumes "canonical_uuid a" and "canonical_uuid b" and "legacy_key a = legacy_key b"
  shows "a = b"
proof -
  have hex: "hex_lower (remove_char (CHR ''-'') s)" if "canonical_uuid s" for s
    using that by (simp add: canonical_uuid_groups) (simp add: canonical_uuid_def)
  have "remove_char (CHR ''-'') a = remove_char (CHR ''-'') b"
    using assms(3) hex_lower_upper_inject [OF hex [OF assms(1)] hex [OF assms(2)]]
    by (simp add: legacy_key_def)
  then have "take 8 a @ take 4 (drop 9 a) @ take 4 (drop 14 a) @ take 4 (drop 19 a) @ drop 24 a =
      take 8 b @ take 4 (drop 9 b) @ take 4 (drop 14 b) @ take 4 (drop 19 b) @ drop 24 b"
    by (simp only: canonical_uuid_groups assms(1,2))
  moreover have "length a = 36" "length b = 36"
    using assms(1,2) by (simp_all add: canonical_uuid_def)
  ultimately have "take 8 a = take 8 b" "take 4 (drop 9 a) = take 4 (drop 9 b)"
    "take 4 (drop 14 a) = take 4 (drop 14 b)" "take 4 (drop 19 a) = take 4 (drop 19 b)"
    "drop 24 a = drop 24 b"
    by simp_all
  then show ?thesis
    using canonical_uuid_rebuild [OF assms(1)] canonical_uuid_rebuild [OF assms(2)] by metis
qed

theorem legacy_key_injective_witness:
  "legacy_key ''11111111-1111-4111-8111-11111111111a'' =
     ''11111111111141118111'' @ ''11111111111A'' \<and>
   ''11111111-1111-4111-8111-11111111111a'' = ''11111111-1111-4111-8111-11111111111a''"
proof -
  let ?u = "''11111111-1111-4111-8111-11111111111a''"
  have c: "canonical_uuid ?u" by code_simp
  have k: "legacy_key ?u = ''11111111111141118111'' @ ''11111111111A''" by code_simp
  from legacy_key_injective [OF c c refl] k show ?thesis by blast
qed

text \<open>On keys that a client chooses freely it does not: a key and the same key without
  its dashes have one header, and so have keys that differ in case.\<close>

theorem legacy_key_collisions:
  "legacy_key k = legacy_key (remove_char (CHR ''-'') k) \<and> legacy_key ''ab-1'' = legacy_key ''AB1'' \<and>
   ''ab-1'' \<noteq> ''AB1''"
proof -
  have "legacy_key ''ab-1'' = legacy_key ''AB1''" "''ab-1'' \<noteq> ''AB1''" by code_simp+
  then show ?thesis by (simp add: legacy_key_def remove_char_def)
qed

text \<open>An adapter reports every response it can read as ACCEPTED, and every failure as a
  retryable PosUnavailableError of the store; a rejection by the POS is never reported.\<close>

theorem sendOrder_result:
  "case sendOrder http now a ord of
     Inr res \<Rightarrow> pr_status res = POS_ACCEPTED
   | Inl e \<Rightarrow> (\<exists>why. e = posUnavailableError (do_storeId ord) why) \<and>
       instanceof e RetryableError \<and> \<not> instanceof e BusinessLogicError"
  by (auto simp: sendOrder_def bind_res_Inr instanceof_def posUnavailableError_def mk_error_def
      split: sum.splits dest: read_response_accepts)

end
