(* ===== verification/Circuit_Breaker.thy ===== *)
theory Circuit_Breaker
  imports Pos_Adapter Redis_Store
begin

text \<open>
  PosCircuitBreakerService (src/order/infrastructure/pos/circuit-breaker): one policy per
  store, kept in a registry, and the hash under cb:store:<id> that the policy's events keep.
  The policy library is a parameter: how it makes a policy and what an execution of a policy
  does. What the service relies on is the hypothesis policy_sound.
\<close>

section \<open>The policy library\<close>

text \<open>What makeCircuitBreaker, ConsecutiveBreaker, makeRetry and ExponentialBackoff are given.\<close>

record policy_config =
  pc_halfOpenAfter :: nat
  pc_threshold :: nat
  pc_maxAttempts :: nat
  pc_initialDelay :: nat
  pc_maxDelay :: nat

datatype breaker_event = OnBreak time | OnReset time

text \<open>
  An execution: its result, how many times it called the function, how long it waited before each
  retry, the policy afterwards and the events raised. The function is what its n-th call returns
  or throws. A policy object holds its options and a state that executions change; the state is
  what the registry keeps here, and an execution is given the options as well.
\<close>

record ('p, 'a) execution =
  ex_result :: "error + 'a"
  ex_calls :: nat
  ex_waits :: "nat list"
  ex_policy :: 'p
  ex_events :: "breaker_event list"

record ('p, 'a) policy_library =
  pl_make :: "policy_config \<Rightarrow> 'p"
  pl_execute :: "policy_config \<Rightarrow> 'p \<Rightarrow> time \<Rightarrow> (nat \<Rightarrow> error + 'a) \<Rightarrow> ('p, 'a) execution"

section \<open>The service\<close>

record 'p breaker_state =
  bs_registry :: "string \<rightharpoonup> 'p"
  bs_hash :: "string \<rightharpoonup> string \<times> string"

datatype circuit_status = STATUS_CLOSED | STATUS_OPEN | STATUS_UNKNOWN

definition breaker_key :: "string \<Rightarrow> string" where
  "breaker_key storeId = ''cb:store:'' @ storeId"

definition store_policy_config :: "nat \<Rightarrow> nat \<Rightarrow> policy_config" where
  "store_policy_config failureThreshold openDurationMs =
     \<lparr>pc_halfOpenAfter = openDurationMs, pc_threshold = failureThreshold, pc_maxAttempts = 3,
      pc_initialDelay = 1000, pc_maxDelay = 4000\<rparr>"

definition getOrCreate ::
  "('p, 'a) policy_library \<Rightarrow> nat \<Rightarrow> nat \<Rightarrow> string \<Rightarrow> 'p breaker_state \<Rightarrow> 'p \<times> 'p breaker_state"
where
  "getOrCreate L failureThreshold openDurationMs storeId s =
     (case bs_registry s storeId of
        Some policy \<Rightarrow> (policy, s)
      | None \<Rightarrow>
          (let combined = pl_make L (store_policy_config failureThreshold openDurationMs)
           in (combined, s\<lparr>bs_registry := (bs_registry s)(storeId \<mapsto> combined)\<rparr>)))"

fun on_event :: "string \<Rightarrow> breaker_event \<Rightarrow> 'p breaker_state \<Rightarrow> 'p breaker_state" where
  "on_event storeId (OnBreak t) s =
     s\<lparr>bs_hash := (bs_hash s)(breaker_key storeId \<mapsto> (''OPEN'', iso_datetime t))\<rparr>"
| "on_event storeId (OnReset t) s =
     s\<lparr>bs_hash := (bs_hash s)(breaker_key storeId \<mapsto> (''CLOSED'', iso_datetime t))\<rparr>"

text \<open>
  The policy object of the registry is the one the execution changes. The result comes with
  the number of calls of the function that were made.
\<close>

definition breaker_execute ::
  "('p, 'a) policy_library \<Rightarrow> nat \<Rightarrow> nat \<Rightarrow> string \<Rightarrow> time \<Rightarrow> (nat \<Rightarrow> error + 'a) \<Rightarrow>
   'p breaker_state \<Rightarrow> (error + 'a) \<times> nat \<times> 'p breaker_state" where
  "breaker_execute L failureThreshold openDurationMs storeId now fn s =
     (let (policy, s1) = getOrCreate L failureThreshold openDurationMs storeId s;
          ex = pl_execute L (store_policy_config failureThreshold openDurationMs) policy now fn;
          s2 = s1\<lparr>bs_registry := (bs_registry s1)(storeId \<mapsto> ex_policy ex)\<rparr>;
          s3 = fold (on_event storeId) (ex_events ex) s2
      in (case ex_result ex of
            Inr a \<Rightarrow> Inr a
          | Inl e \<Rightarrow> if instanceof e BrokenCircuitError
                     then Inl (circuitBreakerOpenError storeId) else Inl e,
          ex_calls ex, s3))"

definition getStatus :: "string \<Rightarrow> 'p breaker_state \<Rightarrow> circuit_status" where
  "getStatus storeId s =
     (case bs_hash s (breaker_key storeId) of
        None \<Rightarrow> STATUS_UNKNOWN
      | Some (state, updatedAt) \<Rightarrow> if state = ''OPEN'' then STATUS_OPEN else STATUS_CLOSED)"

section \<open>What the service relies on\<close>

text \<open>
  Documented behaviour of a retry policy around a breaker, for whatever options it was made with:
  at most maxAttempts retries, none after more than maxDelay milliseconds; each attempt calls the
  function once or is rejected by the breaker without a call; what is thrown, the breaker's own
  error included, is retried until the retries are spent (handleAll); a value is that of the last
  call, all calls before it having thrown; an error is that of the last call or the breaker's own.
\<close>

definition execution_sound ::
  "policy_config \<Rightarrow> (nat \<Rightarrow> error + 'a) \<Rightarrow> ('p, 'a) execution \<Rightarrow> bool" where
  "execution_sound c fn ex \<longleftrightarrow>
     length (ex_waits ex) \<le> pc_maxAttempts c \<and>
     (\<forall>w \<in> set (ex_waits ex). w \<le> pc_maxDelay c) \<and>
     ex_calls ex \<le> Suc (length (ex_waits ex)) \<and>
     (\<forall>i. Suc i < ex_calls ex \<longrightarrow> (\<exists>e. fn i = Inl e)) \<and>
     (case ex_result ex of
        Inr a \<Rightarrow> 0 < ex_calls ex \<and> fn (ex_calls ex - 1) = Inr a
      | Inl e \<Rightarrow> length (ex_waits ex) = pc_maxAttempts c \<and>
          (0 < ex_calls ex \<longrightarrow> (\<exists>e'. fn (ex_calls ex - 1) = Inl e')) \<and>
          (err_class e = BrokenCircuitError \<or>
           0 < ex_calls ex \<and> fn (ex_calls ex - 1) = Inl e))"

definition policy_sound :: "('p, 'a) policy_library \<Rightarrow> bool" where
  "policy_sound L \<longleftrightarrow> (\<forall>c p now fn. execution_sound c fn (pl_execute L c p now fn))"

text \<open>A library that has the property: as many tries as configured, the delay doubled each time
  up to the longest, no breaker.\<close>

fun try_times :: "nat \<Rightarrow> (nat \<Rightarrow> error + 'a) \<Rightarrow> nat \<Rightarrow> (error + 'a) \<times> nat" where
  "try_times 0 fn i = (fn i, Suc i)"
| "try_times (Suc k) fn i =
     (case fn i of Inr a \<Rightarrow> (Inr a, Suc i) | Inl _ \<Rightarrow> try_times k fn (Suc i))"

definition plain_library :: "(nat, 'a) policy_library" where
  "plain_library = \<lparr>pl_make = (\<lambda>_. 0),
     pl_execute = (\<lambda>c p now fn. case try_times (pc_maxAttempts c) fn 0 of (r, n) \<Rightarrow>
       \<lparr>ex_result = r, ex_calls = n,
        ex_waits = map (\<lambda>i. min (pc_maxDelay c) (pc_initialDelay c * 2 ^ i)) [0..<n - 1],
        ex_policy = p + n,
        ex_events = (case r of Inl _ \<Rightarrow> [OnBreak now] | Inr _ \<Rightarrow> [])\<rparr>)\<rparr>"

lemma try_times_sound:
  "(\<forall>j < i. \<exists>e. fn j = Inl e) \<Longrightarrow> try_times k fn i = (r, n) \<Longrightarrow>
     i < n \<and> n \<le> i + k + 1 \<and> fn (n - 1) = r \<and> (\<forall>j. Suc j < n \<longrightarrow> (\<exists>e. fn j = Inl e)) \<and>
     (\<forall>e. r = Inl e \<longrightarrow> n = i + k + 1)"
proof (induction k arbitrary: i)
  case (Suc k)
  show ?case
  proof (cases "fn i")
    case (Inl e)
    with Suc.prems(1) have "\<forall>j < Suc i. \<exists>e. fn j = Inl e" by (auto simp: less_Suc_eq)
    from Suc.IH [OF this] Inl Suc.prems(2) show ?thesis by fastforce
  next
    case (Inr a)
    with Suc.prems show ?thesis by auto
  qed
qed auto

lemma plain_library_sound: "policy_sound plain_library"
proof -
  have "execution_sound c fn (pl_execute plain_library c p now fn)"
    for c p now and fn :: "nat \<Rightarrow> error + 'a"
  proof -
    obtain r n where t: "try_times (pc_maxAttempts c) fn 0 = (r, n)" by force
    from try_times_sound [OF _ t] have "0 < n" "n \<le> Suc (pc_maxAttempts c)" "fn (n - 1) = r"
      "\<forall>j. Suc j < n \<longrightarrow> (\<exists>e. fn j = Inl e)" "\<forall>e. r = Inl e \<longrightarrow> n = Suc (pc_maxAttempts c)" by auto
    then show ?thesis
      by (cases r) (auto simp: execution_sound_def plain_library_def t)
  qed
  then show ?thesis by (simp add: policy_sound_def)
qed

section \<open>Lemmas\<close>

lemma breaker_key_inject [simp]: "breaker_key a = breaker_key b \<longleftrightarrow> a = b"
  by (simp add: breaker_key_def)

text \<open>What the service keeps of one store.\<close>

definition store_view :: "string \<Rightarrow> 'p breaker_state \<Rightarrow> 'p option \<times> (string \<times> string) option" where
  "store_view st s = (bs_registry s st, bs_hash s (breaker_key st))"

lemma on_event_view: "a \<noteq> b \<Longrightarrow> store_view a (on_event b ev s) = store_view a s"
  by (cases ev) (simp_all add: store_view_def)

lemma on_events_view:
  "a \<noteq> b \<Longrightarrow> store_view a (fold (on_event b) evs s) = store_view a s"
  by (induction evs arbitrary: s) (simp_all add: on_event_view)

lemma on_event_cong:
  "store_view a s = store_view a t \<Longrightarrow> store_view a (on_event a ev s) = store_view a (on_event a ev t)"
  by (cases ev) (simp_all add: store_view_def)

lemma on_events_cong:
  "store_view a s = store_view a t \<Longrightarrow>
     store_view a (fold (on_event a) evs s) = store_view a (fold (on_event a) evs t)"
proof (induction evs arbitrary: s t)
  case (Cons ev evs)
  from on_event_cong [OF Cons.prems] have
    "store_view a (fold (on_event a) evs (on_event a ev s)) =
     store_view a (fold (on_event a) evs (on_event a ev t))" by (rule Cons.IH)
  then show ?case by simp
qed simp

lemma getOrCreate_cases:
  "getOrCreate L th op a s =
     (case bs_registry s a of
        Some p \<Rightarrow> (p, s)
      | None \<Rightarrow> (pl_make L (store_policy_config th op),
          s\<lparr>bs_registry := (bs_registry s)(a \<mapsto> pl_make L (store_policy_config th op))\<rparr>))"
  unfolding getOrCreate_def Let_def ..

definition current_policy :: "('p, 'a) policy_library \<Rightarrow> nat \<Rightarrow> nat \<Rightarrow> string \<Rightarrow> 'p breaker_state \<Rightarrow> 'p"
where
  "current_policy L th op a s = fst (getOrCreate L th op a s)"

lemma current_policy_view:
  "store_view a s = store_view a t \<Longrightarrow> current_policy L th op a s = current_policy L th op a t"
  by (simp add: current_policy_def getOrCreate_cases store_view_def split: option.splits)

lemma breaker_execute_eq:
  "breaker_execute L th op a now fn s =
     (let ex = pl_execute L (store_policy_config th op) (current_policy L th op a s) now fn
      in (case ex_result ex of
            Inr v \<Rightarrow> Inr v
          | Inl e \<Rightarrow> if instanceof e BrokenCircuitError
                     then Inl (circuitBreakerOpenError a) else Inl e,
          ex_calls ex,
          fold (on_event a) (ex_events ex)
            (s\<lparr>bs_registry := (bs_registry s)(a \<mapsto> ex_policy ex)\<rparr>)))"
  by (simp add: breaker_execute_def current_policy_def getOrCreate_cases Let_def split: option.splits)

lemma breaker_execute_local:
  assumes "store_view a s = store_view a t"
  shows "fst (breaker_execute L th op a now fn s) = fst (breaker_execute L th op a now fn t)"
    and "store_view a (snd (snd (breaker_execute L th op a now fn s))) =
      store_view a (snd (snd (breaker_execute L th op a now fn t)))"
proof -
  from assms have reg: "bs_registry s a = bs_registry t a" by (simp add: store_view_def)
  then have p: "current_policy L th op a s = current_policy L th op a t"
    by (simp add: current_policy_def getOrCreate_cases split: option.splits)
  then show "fst (breaker_execute L th op a now fn s) = fst (breaker_execute L th op a now fn t)"
    by (simp add: breaker_execute_eq Let_def)
  have "store_view a (s\<lparr>bs_registry := (bs_registry s)(a \<mapsto> q)\<rparr>) =
      store_view a (t\<lparr>bs_registry := (bs_registry t)(a \<mapsto> q)\<rparr>)" for q
    using assms by (simp add: store_view_def)
  then show "store_view a (snd (snd (breaker_execute L th op a now fn s))) =
      store_view a (snd (snd (breaker_execute L th op a now fn t)))"
    unfolding breaker_execute_eq Let_def p snd_conv by (rule on_events_cong)
qed

lemma breaker_execute_other:
  assumes "a \<noteq> b"
  shows "store_view a (snd (snd (breaker_execute L th op b now fn s))) = store_view a s"
  using assms by (simp add: breaker_execute_eq Let_def on_events_view) (simp add: store_view_def)

text \<open>Calls for several stores in the order in which the worker makes them.\<close>

fun breaker_calls ::
  "('p, 'a) policy_library \<Rightarrow> nat \<Rightarrow> nat \<Rightarrow> (string \<times> time \<times> (nat \<Rightarrow> error + 'a)) list \<Rightarrow>
   'p breaker_state \<Rightarrow> (string \<times> (error + 'a) \<times> nat) list \<times> 'p breaker_state" where
  "breaker_calls L th op [] s = ([], s)"
| "breaker_calls L th op ((a, now, fn) # cs) s =
     (let (r, n, s') = breaker_execute L th op a now fn s;
          (rs, s'') = breaker_calls L th op cs s'
      in ((a, r, n) # rs, s''))"

lemma breaker_calls_Cons:
  "breaker_calls L th op ((a, now, fn) # cs) s =
     (let x = breaker_execute L th op a now fn s;
          y = breaker_calls L th op cs (snd (snd x))
      in ((a, fst x, fst (snd x)) # fst y, snd y))"
  by (simp add: case_prod_beta Let_def)

lemma breaker_execute_calls:
  "store_view a s = store_view a t \<Longrightarrow>
     fst (snd (breaker_execute L th op a now fn s)) = fst (snd (breaker_execute L th op a now fn t))"
  unfolding breaker_execute_eq Let_def by (drule current_policy_view [of _ _ _ L th op]) simp

lemma breaker_calls_local:
  "store_view st s = store_view st t \<Longrightarrow>
     filter (\<lambda>x. fst x = st) (fst (breaker_calls L th op cs s)) =
       fst (breaker_calls L th op (filter (\<lambda>x. fst x = st) cs) t) \<and>
     store_view st (snd (breaker_calls L th op cs s)) =
       store_view st (snd (breaker_calls L th op (filter (\<lambda>x. fst x = st) cs) t))"
proof (induction cs arbitrary: s t)
  case (Cons c cs)
  obtain a now fn where c: "c = (a, now, fn)" by (cases c)
  let ?s = "snd (snd (breaker_execute L th op a now fn s))"
  let ?t = "snd (snd (breaker_execute L th op a now fn t))"
  show ?case
  proof (cases "a = st")
    case True
    note local = breaker_execute_local [of st s t L th op now fn, OF Cons.prems]
    from local(2) True have v: "store_view st ?s = store_view st ?t" by simp
    from local(1) True
    have r: "fst (breaker_execute L th op a now fn s) = fst (breaker_execute L th op a now fn t)"
      "fst (snd (breaker_execute L th op a now fn s)) = fst (snd (breaker_execute L th op a now fn t))"
      using breaker_execute_calls [OF Cons.prems] by simp_all
    from Cons.IH [OF v] True r show ?thesis
      by (simp add: c breaker_calls_Cons Let_def del: breaker_calls.simps(2))
  next
    case False
    then have "store_view st ?s = store_view st t"
      using Cons.prems by (simp add: breaker_execute_other)
    from Cons.IH [OF this] False show ?thesis
      by (simp add: c breaker_calls_Cons Let_def del: breaker_calls.simps(2))
  qed
qed simp

lemma getStatus_view: "store_view a s = store_view a t \<Longrightarrow> getStatus a s = getStatus a t"
  by (simp add: store_view_def getStatus_def)

text \<open>How long an execution waits before its retries.\<close>

definition breaker_waits ::
  "('p, 'a) policy_library \<Rightarrow> nat \<Rightarrow> nat \<Rightarrow> string \<Rightarrow> time \<Rightarrow> (nat \<Rightarrow> error + 'a) \<Rightarrow>
   'p breaker_state \<Rightarrow> nat list" where
  "breaker_waits L failureThreshold openDurationMs storeId now fn s =
     ex_waits (pl_execute L (store_policy_config failureThreshold openDurationMs)
       (fst (getOrCreate L failureThreshold openDurationMs storeId s)) now fn)"

lemma store_policy_retries [simp]:
  "pc_maxAttempts (store_policy_config th op) = 3" "pc_maxDelay (store_policy_config th op) = 4000"
  by (simp_all add: store_policy_config_def)

lemma breaker_waits_sound:
  assumes "policy_sound L"
  shows "length (breaker_waits L th op a now fn s) \<le> 3"
    and "w \<in> set (breaker_waits L th op a now fn s) \<Longrightarrow> w \<le> 4000"
proof -
  let ?c = "store_policy_config th op"
  from assms have "execution_sound ?c fn (pl_execute L ?c (fst (getOrCreate L th op a s)) now fn)"
    by (simp add: policy_sound_def)
  then show "length (breaker_waits L th op a now fn s) \<le> 3"
    and "w \<in> set (breaker_waits L th op a now fn s) \<Longrightarrow> w \<le> 4000"
    by (simp_all add: execution_sound_def breaker_waits_def)
qed

lemma breaker_execute_spent:
  assumes "policy_sound L" and "breaker_execute L th op a now fn s = (Inl e, n, s')"
  shows "length (breaker_waits L th op a now fn s) = 3"
proof -
  let ?c = "store_policy_config th op"
  let ?ex = "pl_execute L ?c (current_policy L th op a s) now fn"
  from assms(1) have x: "execution_sound ?c fn ?ex" by (simp add: policy_sound_def)
  from assms(2) obtain e' where "ex_result ?ex = Inl e'"
    by (auto simp: breaker_execute_eq Let_def split: sum.splits)
  with x show ?thesis by (simp add: execution_sound_def breaker_waits_def current_policy_def)
qed

lemma breaker_execute_sound:
  assumes "policy_sound L" and "breaker_execute L th op a now fn s = (r, n, s')"
  shows "n \<le> 4 \<and> (\<forall>i. Suc i < n \<longrightarrow> (\<exists>e. fn i = Inl e)) \<and>
    (case r of
       Inr v \<Rightarrow> 0 < n \<and> fn (n - 1) = Inr v
     | Inl e \<Rightarrow> (0 < n \<longrightarrow> (\<exists>e'. fn (n - 1) = Inl e')) \<and>
         (e = circuitBreakerOpenError a \<or> 0 < n \<and> fn (n - 1) = Inl e))"
proof -
  let ?c = "store_policy_config th op"
  let ?ex = "pl_execute L ?c (current_policy L th op a s) now fn"
  from assms(1) have x: "execution_sound ?c fn ?ex" by (simp add: policy_sound_def)
  from assms(2) have r: "r = (case ex_result ?ex of Inr v \<Rightarrow> Inr v
      | Inl e \<Rightarrow> if instanceof e BrokenCircuitError then Inl (circuitBreakerOpenError a) else Inl e)"
    and n: "n = ex_calls ?ex"
    by (simp_all add: breaker_execute_eq Let_def)
  from x have le: "n \<le> 4" unfolding n by (simp add: execution_sound_def)
  have b: "err_class e = BrokenCircuitError \<Longrightarrow> instanceof e BrokenCircuitError" for e
    by (simp add: instanceof_def class_extends.simps)
  show ?thesis
  proof (cases "ex_result ?ex")
    case (Inl e)
    with x b [of e] le show ?thesis unfolding r n by (simp add: execution_sound_def) blast
  next
    case (Inr v)
    with x le show ?thesis unfolding r n by (simp add: execution_sound_def)
  qed
qed

text \<open>What the answer to an order's request is read as: the POS's confirmation, or why there is none.\<close>

definition pos_answer :: "http_client \<Rightarrow> time \<Rightarrow> pos_adapter \<Rightarrow> domain_order \<Rightarrow> string + pos_order_result"
where
  "pos_answer http now a ord = bind_res (http (send_request a ord)) (read_response a now)"

lemma sendOrder_answer:
  "sendOrder http now a ord =
     (case pos_answer http now a ord of
        Inl why \<Rightarrow> Inl (posUnavailableError (do_storeId ord) why) | Inr res \<Rightarrow> Inr res)"
  by (simp add: sendOrder_def pos_answer_def)

lemma pos_answer_accepted: "pos_answer http now a ord = Inr res \<Longrightarrow> pr_status res = POS_ACCEPTED"
  by (auto simp: pos_answer_def bind_res_Inr dest: read_response_accepts)

text \<open>The samples: a store's POS that fails once and then answers.\<close>

definition sample_order :: domain_order where
  "sample_order = \<lparr>do_orderId = ''o1'', do_traceId = ''t1'', do_storeId = ''s1'',
     do_idempotencyKey = ''k1'', do_totalAmount = ''36000.00'', do_items = [], do_createdAt = 10\<rparr>"

definition flaky_http :: "nat \<Rightarrow> http_client" where
  "flaky_http i rq = (if i = 0 then Inl ''timeout'' else Inr (JObj [(''id'', JStr ''p7'')]))"

section \<open>Properties\<close>

text \<open>C23: each store has a circuit breaker of its own: whatever calls for other stores are made
  in between, the results, the number of POS calls and the reported status of a store are those
  of its own calls alone.\<close>

theorem breaker_isolation:
  "filter (\<lambda>x. fst x = st) (fst (breaker_calls L th op cs s)) =
     fst (breaker_calls L th op (filter (\<lambda>x. fst x = st) cs) s) \<and>
   getStatus st (snd (breaker_calls L th op cs s)) =
     getStatus st (snd (breaker_calls L th op (filter (\<lambda>x. fst x = st) cs) s))"
  using breaker_calls_local [OF refl] by (metis getStatus_view)

text \<open>C24: the order is sent to the POS at most four times, by the same request each time, and it
  counts as delivered only when the answer to the last one can be read, whatever the POS says in
  it: no answer is a refusal. Every other outcome of a request, an HTTP 4xx included, is retried;
  a failure is reported only after three retries, as the open circuit or as the
  PosUnavailableError of the last request, so the job stays retryable.\<close>

theorem pos_delivery_result:
  assumes "policy_sound L"
    and "breaker_execute L th op (do_storeId ord) now (\<lambda>i. sendOrder (http i) (at i) a ord) s =
      (r, n, s')"
  shows "n \<le> 4 \<and>
    (\<forall>i. Suc i < n \<longrightarrow> (\<exists>why. pos_answer (http i) (at i) a ord = Inl why)) \<and>
    (case r of
       Inr res \<Rightarrow> 0 < n \<and> pr_status res = POS_ACCEPTED \<and>
         pos_answer (http (n - 1)) (at (n - 1)) a ord = Inr res
     | Inl e \<Rightarrow>
         length (breaker_waits L th op (do_storeId ord) now (\<lambda>i. sendOrder (http i) (at i) a ord) s) = 3 \<and>
         (e = circuitBreakerOpenError (do_storeId ord) \<or>
          (\<exists>why. 0 < n \<and> pos_answer (http (n - 1)) (at (n - 1)) a ord = Inl why \<and>
             e = posUnavailableError (do_storeId ord) why)) \<and>
         instanceof e RetryableError \<and> \<not> instanceof e BusinessLogicError)"
proof -
  note sound = breaker_execute_sound [OF assms] and spent = breaker_execute_spent [OF assms(1)]
  have f: "sendOrder h t a ord = Inl e \<longleftrightarrow>
      (\<exists>why. pos_answer h t a ord = Inl why \<and> e = posUnavailableError (do_storeId ord) why)" for h t e
    by (auto simp: sendOrder_answer split: sum.splits)
  have o: "sendOrder h t a ord = Inr res \<longleftrightarrow> pos_answer h t a ord = Inr res" for h t res
    by (auto simp: sendOrder_answer split: sum.splits)
  have retry: "instanceof (posUnavailableError st why) RetryableError"
    "\<not> instanceof (posUnavailableError st why) BusinessLogicError"
    "instanceof (circuitBreakerOpenError st) RetryableError"
    "\<not> instanceof (circuitBreakerOpenError st) BusinessLogicError" for st why
    by (simp_all add: instanceof_def entity_simps)
  show ?thesis
  proof (cases r)
    case (Inl e)
    with sound spent [of th op _ now _ s e] assms(2) retry show ?thesis by (auto simp: f)
  next
    case (Inr res)
    with sound show ?thesis by (auto simp: f o pos_answer_accepted)
  qed
qed

theorem pos_delivery_result_witness:
  "\<exists>res s'. breaker_execute plain_library 5 30000 ''s1'' 10
     (\<lambda>i. sendOrder (flaky_http i) 10 (ModernV2PosAdapter ''http://pos'' None) sample_order)
     \<lparr>bs_registry = Map.empty, bs_hash = Map.empty\<rparr> = (Inr res, 2, s') \<and>
   pos_answer (flaky_http 1) 10 (ModernV2PosAdapter ''http://pos'' None) sample_order = Inr res"
proof -
  let ?a = "ModernV2PosAdapter ''http://pos'' None"
  let ?fn = "\<lambda>i. sendOrder (flaky_http i) 10 ?a sample_order"
  let ?s = "\<lparr>bs_registry = Map.empty, bs_hash = Map.empty\<rparr> :: nat breaker_state"
  have 0: "?fn 0 = Inl (posUnavailableError ''s1'' ''timeout'')"
    by (simp add: sendOrder_def flaky_http_def sample_order_def)
  obtain res where 1: "?fn (Suc 0) = Inr res"
    by (simp add: sendOrder_def flaky_http_def modern_result_def json_id_def)
  obtain s' where x: "breaker_execute plain_library 5 30000 ''s1'' 10 ?fn ?s = (Inr res, 2, s')"
    by (simp add: breaker_execute_eq Let_def plain_library_def numeral_3_eq_3 0 1)
  have "do_storeId sample_order = ''s1''" by (simp add: sample_order_def)
  with pos_delivery_result [OF plain_library_sound, of 5 30000 sample_order 10 flaky_http "\<lambda>_. 10" ?a ?s] x
  show ?thesis by fastforce
qed

end
