(* ===== verification/Notification.thy ===== *)
theory Notification
  imports Order_Domain
begin

text \<open>
  NotificationService (src/notification/notification.service.ts): the Slack alert for an
  order that was given up. The web client is a parameter; the text is kept as the values its
  template interpolates. The state is what the service did, in order.
\<close>

record alert_payload =
  al_orderId :: string
  al_traceId :: string
  al_storeId :: string
  al_reason :: message
  al_attempts :: int
  al_dashboardUrl :: "string option"

record alert_text =
  at_orderId :: string
  at_storeId :: string
  at_reason :: message
  at_attempts :: int
  at_traceId :: string
  at_dashboard :: "string option"

datatype alert_event =
    SLACK_NOT_CONFIGURED string
  | SLACK_POSTED string alert_text
  | SLACK_ALERT_FAILED string string

text \<open>An empty dashboardUrl is falsy: no line for it.\<close>

definition alert_text_of :: "alert_payload \<Rightarrow> alert_text" where
  "alert_text_of p =
     \<lparr>at_orderId = al_orderId p, at_storeId = al_storeId p, at_reason = al_reason p,
      at_attempts = al_attempts p, at_traceId = al_traceId p,
      at_dashboard = (case al_dashboardUrl p of None \<Rightarrow> None
        | Some u \<Rightarrow> if u = [] then None else Some u)\<rparr>"

definition sendDlqAlert ::
  "string \<Rightarrow> (string \<Rightarrow> alert_text \<Rightarrow> string + unit) \<Rightarrow> alert_payload \<Rightarrow>
   (alert_event list, error, unit) comp" where
  "sendDlqAlert webhookUrl post payload log =
     (if webhookUrl = [] then (Inr (), log @ [SLACK_NOT_CONFIGURED (al_orderId payload)])
      else
        (let text = alert_text_of payload
         in case post webhookUrl text of
              Inr _ \<Rightarrow> (Inr (), log @ [SLACK_POSTED webhookUrl text])
            | Inl why \<Rightarrow> (Inr (), log @ [SLACK_ALERT_FAILED (al_orderId payload) why])))"

text \<open>An alert never fails, and it leaves exactly one trace.\<close>

lemma sendDlqAlert_total:
  "\<exists>ev. sendDlqAlert webhookUrl post payload log = (Inr (), log @ [ev])"
  by (auto simp: sendDlqAlert_def Let_def split: sum.splits)

end
