(* ===== verification/Process_Order.thy ===== *)
theory Process_Order
  imports Repository_Properties Distributed_Lock Circuit_Breaker Notification
begin

text \<open>
  ProcessOrderService (src/order/application/process-order.service.ts) and the two queue
  workers that call it (src/order/worker). The worker's state is the database, the lock
  store, the circuit breakers, the dead letter queue, and the POS requests and alerts sent so
  far. What surrounds one job is its environment: the clocks, the faults, the POS, and what
  other clients of the database and of the lock store do before each of its steps.
\<close>

section \<open>State and environment\<close>

record 'p worker_state =
  w_db :: database
  w_locks :: "string kv"
  w_breaker :: "'p breaker_state"
  w_calls :: "http_request list"
  w_dlq :: "dlq_payload bull_queue"
  w_alerts :: "alert_event list"

datatype db_call =
    CallCreate | CallSaved | CallStore | CallFindSaved | CallSent | CallFindSent
  | CallCompleted | CallRetryCount | CallFindFailed | CallFailed | CallMarkDlq

record 'p worker_env =
  we_ctx :: "db_call \<Rightarrow> db_ctx"
  we_others :: "db_call \<Rightarrow> database \<Rightarrow> database"
  we_lockTtl :: nat
  we_lockTime :: time
  we_lockFault :: "error option"
  we_otherLocks :: "string kv \<Rightarrow> string kv"
  we_releaseTime :: time
  we_releaseFault :: "error option"
  we_policies :: "('p, pos_order_result) policy_library"
  we_failureThreshold :: nat
  we_openDurationMs :: nat
  we_posTime :: "nat \<Rightarrow> time"
  we_http :: "nat \<Rightarrow> http_client"
  we_queueFault :: "error option"
  we_dlqTime :: time
  we_adminBaseUrl :: string
  we_webhookUrl :: string
  we_post :: "string \<Rightarrow> alert_text \<Rightarrow> string + unit"

record job_meta =
  jm_jobId :: string
  jm_workerId :: string
  jm_attemptsMade :: nat

type_synonym ('p, 'a) worker = "('p worker_state, error, 'a) comp"

text \<open>A statement or transaction on the database, after what other clients did to it.\<close>

definition on_db ::
  "'p worker_env \<Rightarrow> db_call \<Rightarrow> (db_ctx \<Rightarrow> database \<Rightarrow> (error + 'a) \<times> database) \<Rightarrow> ('p, 'a) worker"
where
  "on_db E c f s =
     (case f (we_ctx E c) (we_others E c (w_db s)) of (r, db) \<Rightarrow> (r, s\<lparr>w_db := db\<rparr>))"

definition read_db ::
  "'p worker_env \<Rightarrow> db_call \<Rightarrow> (db_ctx \<Rightarrow> database \<Rightarrow> error + 'a) \<Rightarrow> ('p, 'a) worker" where
  "read_db E c q = on_db E c (\<lambda>C db. (q C db, db))"

definition lock_acquire :: "'p worker_env \<Rightarrow> string \<Rightarrow> string \<Rightarrow> ('p, unit) worker" where
  "lock_acquire E orderId token s =
     (case we_lockFault E of
        Some e \<Rightarrow> (Inl e, s)
      | None \<Rightarrow> (case acquireOrThrow kv_cmds (we_lockTtl E) (we_lockTime E) orderId token (w_locks s) of
                  (r, locks) \<Rightarrow> (r, s\<lparr>w_locks := locks\<rparr>)))"

definition lock_release :: "'p worker_env \<Rightarrow> string \<Rightarrow> string \<Rightarrow> ('p, unit) worker" where
  "lock_release E orderId token s =
     (let locks = we_otherLocks E (w_locks s)
      in case we_releaseFault E of
           Some e \<Rightarrow> (Inl e, s\<lparr>w_locks := locks\<rparr>)
         | None \<Rightarrow> (Inr (), s\<lparr>w_locks := release kv_cmds (we_releaseTime E) orderId token locks\<rparr>))"

section \<open>process\<close>

definition create_params :: "order_job_payload \<Rightarrow> job_meta \<Rightarrow> create_order_params" where
  "create_params payload jobMeta =
     \<lparr>cp_id = jp_orderId payload, cp_idempotencyKey = jp_idempotencyKey payload,
      cp_traceId = jp_traceId payload, cp_storeId = jp_storeId payload,
      cp_userId = jp_userId payload, cp_requestedAmount = jp_requestedAmount payload,
      cp_calculatedAmount = jp_calculatedAmount payload, cp_items = jp_items payload,
      cp_workerId = jm_workerId jobMeta, cp_jobId = jm_jobId jobMeta\<rparr>"

definition step_params ::
  "string \<Rightarrow> order_status \<Rightarrow> order_status \<Rightarrow> int \<Rightarrow> job_meta \<Rightarrow> json option \<Rightarrow> message option \<Rightarrow>
   transition_params" where
  "step_params orderId expected nxt version jobMeta response reason =
     \<lparr>tp_orderId = orderId, tp_expectedStatus = expected, tp_nextStatus = nxt,
      tp_currentVersion = version, tp_workerId = jm_workerId jobMeta,
      tp_jobId = Some (jm_jobId jobMeta), tp_reason = reason,
      tp_posResponse = response, tp_posErrorMessage = None\<rparr>"

definition transitionToSaved :: "'p worker_env \<Rightarrow> order_entity \<Rightarrow> job_meta \<Rightarrow> ('p, unit) worker" where
  "transitionToSaved E order jobMeta =
     on_db E CallSaved (\<lambda>C. transitionStatus C
       (step_params (o_id (oe_row order)) QUEUED SAVED (o_version (oe_row order)) jobMeta None None))"

text \<open>SELECT pos_type, pos_endpoint, pos_api_key_enc FROM stores WHERE id = $1\<close>

definition selectStore :: "string \<Rightarrow> db_ctx \<Rightarrow> database \<Rightarrow> error + store_entity option" where
  "selectStore storeId C db =
     bind_res (run_stmt C SelectStore) (\<lambda>_.
     bind_res (uuid_arg C storeId) (\<lambda>i. Inr (find (\<lambda>st. st_id st = i) (t_stores db))))"

definition storeMissing :: "string \<Rightarrow> error" where
  "storeMissing storeId = mk_error BusinessLogicError (StoreMissingMsg storeId)"

definition orderMissing :: "string \<Rightarrow> error" where
  "orderMissing orderId = mk_error Error (OrderMissingMsg orderId)"

definition domain_order_of :: "order_job_payload \<Rightarrow> time \<Rightarrow> domain_order" where
  "domain_order_of payload now =
     \<lparr>do_orderId = jp_orderId payload, do_traceId = jp_traceId payload,
      do_storeId = jp_storeId payload, do_idempotencyKey = jp_idempotencyKey payload,
      do_totalAmount = jp_calculatedAmount payload, do_items = jp_items payload,
      do_createdAt = now\<rparr>"

text \<open>The n-th call of the function that circuitBreaker.execute is given.\<close>

definition pos_attempt ::
  "'p worker_env \<Rightarrow> pos_adapter \<Rightarrow> order_job_payload \<Rightarrow> nat \<Rightarrow> error + pos_order_result" where
  "pos_attempt E a payload n =
     sendOrder (we_http E n) (we_posTime E n) a (domain_order_of payload (we_posTime E n))"

definition call_pos :: "'p worker_env \<Rightarrow> pos_adapter \<Rightarrow> order_job_payload \<Rightarrow> ('p, pos_order_result) worker"
where
  "call_pos E a payload s =
     (case breaker_execute (we_policies E) (we_failureThreshold E) (we_openDurationMs E)
             (jp_storeId payload) (we_posTime E 0) (pos_attempt E a payload) (w_breaker s) of
        (r, n, b) \<Rightarrow> (r, s\<lparr>w_breaker := b, w_calls := w_calls s @
           map (\<lambda>i. send_request a (domain_order_of payload (we_posTime E i))) [0..<n]\<rparr>))"

definition confirm_sent ::
  "'p worker_env \<Rightarrow> order_job_payload \<Rightarrow> job_meta \<Rightarrow> pos_order_result \<Rightarrow> ('p, unit) worker" where
  "confirm_sent E payload jobMeta posResult =
     (let orderId = jp_orderId payload in
      st_bind (read_db E CallFindSaved (\<lambda>C. findById C orderId)) (\<lambda>savedOrder.
        case savedOrder of
          None \<Rightarrow> st_throw (orderMissing orderId)
        | Some saved \<Rightarrow>
      st_bind (on_db E CallSent (\<lambda>C. transitionStatus C
          (step_params orderId SAVED SENT_TO_POS (o_version (oe_row saved)) jobMeta
            (pr_rawResponse posResult) None))) (\<lambda>_.
      st_bind (read_db E CallFindSent (\<lambda>C. findById C orderId)) (\<lambda>sentOrder.
        case sentOrder of
          None \<Rightarrow> st_throw (orderMissing orderId)
        | Some sent \<Rightarrow>
            on_db E CallCompleted (\<lambda>C. transitionStatus C
              (step_params orderId SENT_TO_POS COMPLETED (o_version (oe_row sent)) jobMeta
                None None))))))"

definition sendToPos :: "'p worker_env \<Rightarrow> order_job_payload \<Rightarrow> job_meta \<Rightarrow> ('p, unit) worker" where
  "sendToPos E payload jobMeta =
     st_bind (read_db E CallStore (selectStore (jp_storeId payload))) (\<lambda>storeRow.
       case storeRow of
         None \<Rightarrow> st_throw (storeMissing (jp_storeId payload))
       | Some store \<Rightarrow>
     st_bind (st_lift (pos_create (st_posType store) (st_posEndpoint store)
         (st_posApiKeyEnc store))) (\<lambda>posAdapter.
     st_bind (call_pos E posAdapter payload) (\<lambda>posResult.
       confirm_sent E payload jobMeta posResult)))"

definition processWithLock :: "'p worker_env \<Rightarrow> order_job_payload \<Rightarrow> job_meta \<Rightarrow> ('p, unit) worker" where
  "processWithLock E payload jobMeta =
     st_bind (on_db E CallCreate (\<lambda>C. createOrder C (create_params payload jobMeta))) (\<lambda>created.
       case created of
         None \<Rightarrow> st_return ()
       | Some order \<Rightarrow>
           st_bind (transitionToSaved E order jobMeta) (\<lambda>_. sendToPos E payload jobMeta))"

definition lock_token :: "job_meta \<Rightarrow> string" where
  "lock_token jobMeta = jm_workerId jobMeta @ '':'' @ jm_jobId jobMeta"

definition process :: "'p worker_env \<Rightarrow> order_job_payload \<Rightarrow> job_meta \<Rightarrow> ('p, unit) worker" where
  "process E payload jobMeta =
     st_bind (lock_acquire E (jp_orderId payload) (lock_token jobMeta)) (\<lambda>_.
       st_finally (processWithLock E payload jobMeta)
         (lock_release E (jp_orderId payload) (lock_token jobMeta)))"

section \<open>handleFailure\<close>

definition fail_order ::
  "'p worker_env \<Rightarrow> order_job_payload \<Rightarrow> error \<Rightarrow> job_meta \<Rightarrow> ('p, unit) worker" where
  "fail_order E payload err jobMeta =
     st_bind (read_db E CallFindFailed (\<lambda>C. findById C (jp_orderId payload))) (\<lambda>order.
       case order of
         None \<Rightarrow> st_return ()
       | Some ord \<Rightarrow>
           if o_status (oe_row ord) \<noteq> FAILED \<and> o_status (oe_row ord) \<noteq> COMPLETED
           then on_db E CallFailed (\<lambda>C. transitionStatus C
                  (step_params (jp_orderId payload) (o_status (oe_row ord)) FAILED
                    (o_version (oe_row ord)) jobMeta None (Some (err_message err))))
           else st_return ())"

definition publish_dlq ::
  "'p worker_env \<Rightarrow> order_job_payload \<Rightarrow> error \<Rightarrow> job_meta \<Rightarrow> ('p, unit) worker" where
  "publish_dlq E payload err jobMeta s =
     (case we_queueFault E of
        Some e \<Rightarrow> (Inl e, s)
      | None \<Rightarrow> (Inr (), s\<lparr>w_dlq := publishToDlq bull_add show_nat (we_dlqTime E)
          \<lparr>dp_payload = payload, dp_failureReason = err_message err,
           dp_attempts = int (jm_attemptsMade jobMeta)\<rparr> (w_dlq s)\<rparr>))"

definition send_alert :: "'p worker_env \<Rightarrow> alert_payload \<Rightarrow> ('p, unit) worker" where
  "send_alert E alert s =
     (case sendDlqAlert (we_webhookUrl E) (we_post E) alert (w_alerts s) of
        (r, log) \<Rightarrow> (r, s\<lparr>w_alerts := log\<rparr>))"

definition moveToDlq ::
  "'p worker_env \<Rightarrow> order_job_payload \<Rightarrow> error \<Rightarrow> job_meta \<Rightarrow> ('p, unit) worker" where
  "moveToDlq E payload err jobMeta =
     st_bind (st_catch (fail_order E payload err jobMeta)
       (\<lambda>transitionErr. if \<not> instanceof transitionErr StaleOrderVersionError
          then st_throw transitionErr else st_return ())) (\<lambda>_.
     st_bind (on_db E CallMarkDlq (\<lambda>C. markDlq C (jp_orderId payload) (err_message err))) (\<lambda>_.
     st_bind (publish_dlq E payload err jobMeta) (\<lambda>_.
     send_alert E
       \<lparr>al_orderId = jp_orderId payload, al_traceId = jp_traceId payload,
        al_storeId = jp_storeId payload, al_reason = err_message err,
        al_attempts = int (jm_attemptsMade jobMeta),
        al_dashboardUrl = Some (we_adminBaseUrl E @ ''/admin/orders/'' @ jp_orderId payload)\<rparr>)))"

definition handleFailure ::
  "'p worker_env \<Rightarrow> order_job_payload \<Rightarrow> error \<Rightarrow> job_meta \<Rightarrow> ('p, unit) worker" where
  "handleFailure E payload err jobMeta =
     (let isRetryable = \<not> instanceof err BusinessLogicError;
          isExhausted = 2 \<le> jm_attemptsMade jobMeta
      in if \<not> isRetryable \<or> isExhausted then moveToDlq E payload err jobMeta
         else on_db E CallRetryCount (\<lambda>C. incrementRetryCount C (jp_orderId payload)))"

section \<open>The queue workers\<close>

text \<open>
  OrderProcessor hands the job on and rethrows whatever is thrown; its failed event calls
  handleFailure. DlqProcessor only alerts.
\<close>

definition order_processor_process ::
  "'p worker_env \<Rightarrow> string \<Rightarrow> string \<Rightarrow> nat \<Rightarrow> order_job_payload \<Rightarrow> ('p, unit) worker" where
  "order_processor_process E WORKER_ID jobId attemptsMade payload =
     st_catch (process E payload
         \<lparr>jm_jobId = jobId, jm_workerId = WORKER_ID, jm_attemptsMade = attemptsMade\<rparr>)
       (\<lambda>err. if instanceof err LockAcquisitionError then st_throw err else st_throw err)"

definition onFailed ::
  "'p worker_env \<Rightarrow> string \<Rightarrow> string \<Rightarrow> nat \<Rightarrow> order_job_payload \<Rightarrow> error \<Rightarrow> ('p, unit) worker" where
  "onFailed E WORKER_ID jobId attemptsMade payload err =
     handleFailure E payload err
       \<lparr>jm_jobId = jobId, jm_workerId = WORKER_ID, jm_attemptsMade = attemptsMade\<rparr>"

definition dlq_processor_process :: "'p worker_env \<Rightarrow> dlq_payload \<Rightarrow> ('p, unit) worker" where
  "dlq_processor_process E data =
     send_alert E
       \<lparr>al_orderId = jp_orderId (dp_payload data), al_traceId = jp_traceId (dp_payload data),
        al_storeId = jp_storeId (dp_payload data), al_reason = dp_failureReason data,
        al_attempts = dp_attempts data, al_dashboardUrl = None\<rparr>"

end
