(* ===== verification/Worker_Properties.thy ===== *)
theory Worker_Properties
  imports Process_Order
begin

text \<open>
  The worker: what each of its parts keeps, when the lock is free again, what a finished job
  has done, how a failure is filed, and what a retried job does.
\<close>

section \<open>Parts of the state that a step leaves alone\<close>

lemma on_db_frame [simp]:
  "w_locks (snd (on_db E c f s)) = w_locks s" "w_breaker (snd (on_db E c f s)) = w_breaker s"
  "w_calls (snd (on_db E c f s)) = w_calls s" "w_dlq (snd (on_db E c f s)) = w_dlq s"
  "w_alerts (snd (on_db E c f s)) = w_alerts s"
  "w_db (snd (on_db E c f s)) = snd (f (we_ctx E c) (we_others E c (w_db s)))"
  "fst (on_db E c f s) = fst (f (we_ctx E c) (we_others E c (w_db s)))"
  by (simp_all add: on_db_def case_prod_beta)

lemma call_pos_frame [simp]:
  "w_db (snd (call_pos E a p s)) = w_db s" "w_locks (snd (call_pos E a p s)) = w_locks s"
  "w_dlq (snd (call_pos E a p s)) = w_dlq s" "w_alerts (snd (call_pos E a p s)) = w_alerts s"
  by (simp_all add: call_pos_def case_prod_beta)

lemma lock_release_frame [simp]:
  "w_db (snd (lock_release E i t s)) = w_db s" "w_calls (snd (lock_release E i t s)) = w_calls s"
  "w_dlq (snd (lock_release E i t s)) = w_dlq s" "w_alerts (snd (lock_release E i t s)) = w_alerts s"
  by (simp_all add: lock_release_def Let_def split: option.splits)

lemma lock_acquire_frame [simp]:
  "w_db (snd (lock_acquire E i t s)) = w_db s" "w_calls (snd (lock_acquire E i t s)) = w_calls s"
  "w_dlq (snd (lock_acquire E i t s)) = w_dlq s" "w_alerts (snd (lock_acquire E i t s)) = w_alerts s"
  by (simp_all add: lock_acquire_def case_prod_beta split: option.splits)

lemma publish_dlq_frame [simp]:
  "w_db (snd (publish_dlq E p err m s)) = w_db s"
  by (simp add: publish_dlq_def split: option.splits)

lemma send_alert_frame [simp]: "w_db (snd (send_alert E al s)) = w_db s"
  by (simp add: send_alert_def case_prod_beta)

lemma keeps_on_db:
  "(\<And>s. P s \<Longrightarrow> P (s\<lparr>w_db := snd (f (we_ctx E c) (we_others E c (w_db s)))\<rparr>)) \<Longrightarrow> keeps P (on_db E c f)"
  by (simp add: keeps_def on_db_def case_prod_beta)

section \<open>Invariants of the database\<close>

text \<open>
  A property of the database that other clients and the repository's writing operations keep,
  under environments and payloads of a kind: every method of the worker keeps it.
\<close>

locale db_invariant =
  fixes P :: "database \<Rightarrow> bool"
    and ok :: "'p worker_env \<Rightarrow> bool"
    and accepts :: "order_job_payload \<Rightarrow> bool"
  assumes others: "ok E \<Longrightarrow> P db \<Longrightarrow> P (we_others E c db)"
    and create: "ok E \<Longrightarrow> accepts p \<Longrightarrow> P db \<Longrightarrow> P (snd (createOrder (we_ctx E c) (create_params p m) db))"
    and transition: "ok E \<Longrightarrow> P db \<Longrightarrow> P (snd (transitionStatus (we_ctx E c) tp db))"
    and dlq: "ok E \<Longrightarrow> P db \<Longrightarrow> P (snd (markDlq (we_ctx E c) i msg db))"
    and retry: "ok E \<Longrightarrow> P db \<Longrightarrow> P (snd (incrementRetryCount (we_ctx E c) i db))"
begin

abbreviation keeps_P :: "('p, 'a) worker \<Rightarrow> bool" where
  "keeps_P m \<equiv> keeps (\<lambda>s. P (w_db s)) m"

lemma on_db_step:
  "ok E \<Longrightarrow> (\<And>db. P db \<Longrightarrow> P (snd (f (we_ctx E c) db))) \<Longrightarrow> keeps_P (on_db E c f)"
  by (intro keeps_on_db) (simp add: others)

lemma transition_step: "ok E \<Longrightarrow> keeps_P (on_db E c (\<lambda>C. transitionStatus C tp))"
  by (rule on_db_step) (simp_all add: transition)

lemma read_step: "ok E \<Longrightarrow> keeps_P (read_db E c q)"
  unfolding read_db_def by (rule on_db_step) simp_all

lemma create_step: "ok E \<Longrightarrow> accepts p \<Longrightarrow> keeps_P (on_db E c (\<lambda>C. createOrder C (create_params p m)))"
  by (rule on_db_step) (simp_all add: create)

lemma frame_step: "(\<And>s. w_db (snd (m s)) = w_db s) \<Longrightarrow> keeps_P m"
  by (simp add: keeps_def)

lemmas steps = keeps_intros transition_step read_step create_step

lemma confirm_sent: "ok E \<Longrightarrow> keeps_P (confirm_sent E p m res)"
  unfolding confirm_sent_def Let_def by (intro steps)

lemma sendToPos: "ok E \<Longrightarrow> keeps_P (sendToPos E p m)"
  unfolding sendToPos_def
  by (intro steps confirm_sent frame_step [of "call_pos E _ _"]) simp_all

lemma processWithLock: "ok E \<Longrightarrow> accepts p \<Longrightarrow> keeps_P (processWithLock E p m)"
  unfolding processWithLock_def transitionToSaved_def by (intro steps sendToPos)

lemma process: "ok E \<Longrightarrow> accepts p \<Longrightarrow> keeps_P (process E p m)"
  unfolding process_def
  by (intro keeps_bind keeps_finally processWithLock
      frame_step [of "lock_acquire E _ _"] frame_step [of "lock_release E _ _"]) simp_all

lemma moveToDlq: "ok E \<Longrightarrow> keeps_P (moveToDlq E p err m)"
  unfolding moveToDlq_def fail_order_def
  by (intro steps frame_step [of "publish_dlq E _ _ _"] frame_step [of "send_alert E _"]
      on_db_step) (simp_all add: dlq)

lemma handleFailure: "ok E \<Longrightarrow> keeps_P (handleFailure E p err m)"
  unfolding handleFailure_def Let_def
  by (intro keeps_if moveToDlq on_db_step) (simp_all add: retry)

lemma queue_workers:
  "ok E \<Longrightarrow> accepts p \<Longrightarrow> keeps_P (order_processor_process E w j n p)"
  "ok E \<Longrightarrow> keeps_P (onFailed E w j n p err)"
  "keeps_P (dlq_processor_process E d)"
  unfolding order_processor_process_def onFailed_def dlq_processor_process_def
  by (intro keeps_catch process keeps_if keeps_throw handleFailure frame_step [of "send_alert E _"]; simp)+

end

section \<open>The audit invariant\<close>

definition env_ok :: "'p worker_env \<Rightarrow> bool" where
  "env_ok E \<longleftrightarrow> (\<forall>c. driver_counts (we_ctx E c)) \<and>
     (\<forall>c db. db_inv db \<longrightarrow> db_inv (we_others E c db))"

abbreviation inv_state :: "'p worker_state \<Rightarrow> bool" where
  "inv_state s \<equiv> db_inv (w_db s)"

interpretation audited: db_invariant db_inv env_ok "\<lambda>_. True"
  by unfold_locales (simp_all add: env_ok_def createOrder_inv transitionStatus_inv markDlq_inv
      incrementRetryCount_inv)

lemmas process_inv = audited.process [OF _ TrueI]
  and handleFailure_inv = audited.handleFailure
  and keeps_inv_read = audited.read_step
  and keeps_inv_transition = audited.transition_step
  and keeps_inv_create = audited.create_step [OF _ TrueI]

section \<open>Locks\<close>

lemma keeps_locks_frame: "(\<And>s. w_locks (snd (m s)) = w_locks s) \<Longrightarrow> keeps (\<lambda>s. Q (w_locks s)) m"
  by (simp add: keeps_def)

lemma read_db_locks: "w_locks (snd (read_db E c q s)) = w_locks s"
  by (simp add: read_db_def)

lemma processWithLock_keeps_locks: "keeps (\<lambda>s. w_locks s = l) (processWithLock E p m)"
  unfolding processWithLock_def transitionToSaved_def sendToPos_def confirm_sent_def Let_def
  by (intro keeps_intros keeps_locks_frame [of "on_db E _ _"] keeps_locks_frame [of "read_db E _ _"]
      keeps_locks_frame [of "call_pos E _ _"]) (simp_all add: read_db_locks)

lemma processWithLock_locks [simp]: "w_locks (snd (processWithLock E p m s)) = w_locks s"
  using keepsD [OF processWithLock_keeps_locks [of "w_locks s" E p m]] by simp

text \<open>No Redis fault, nobody else at the lock store, and a job that ends within its lease.\<close>

definition lock_undisturbed :: "'p worker_env \<Rightarrow> bool" where
  "lock_undisturbed E \<longleftrightarrow> we_lockFault E = None \<and> we_releaseFault E = None \<and>
     (\<forall>l. we_otherLocks E l = l) \<and> we_lockTime E \<le> we_releaseTime E \<and>
     we_releaseTime E < expires_at (we_lockTime E) (we_lockTtl E)"

definition with_lock :: "'p worker_env \<Rightarrow> order_job_payload \<Rightarrow> job_meta \<Rightarrow> 'p worker_state \<Rightarrow> 'p worker_state"
where
  "with_lock E p m s = s\<lparr>w_locks :=
     kv_set (we_lockTime E) (we_lockTtl E) (lockKey (jp_orderId p)) (lock_token m) (w_locks s)\<rparr>"

lemma with_lock_sel [simp]:
  "w_db (with_lock E p m s) = w_db s" "w_calls (with_lock E p m s) = w_calls s"
  "w_breaker (with_lock E p m s) = w_breaker s" "w_dlq (with_lock E p m s) = w_dlq s"
  "w_alerts (with_lock E p m s) = w_alerts s"
  by (simp_all add: with_lock_def)

lemma lock_acquire_cases:
  "we_lockFault E = None \<Longrightarrow> lock_acquire E (jp_orderId p) (lock_token m) s =
     (case lock_holder kv_cmds (we_lockTime E) (jp_orderId p) (w_locks s) of
        Some _ \<Rightarrow> (Inl (lockAcquisitionError (jp_orderId p)), s)
      | None \<Rightarrow> (Inr (), with_lock E p m s))"
  by (simp add: lock_acquire_def acquireOrThrow_result with_lock_def split: option.splits)

lemma lock_release_own:
  assumes "lock_undisturbed E" and "w_locks t = w_locks (with_lock E p m s)"
  shows "lock_release E (jp_orderId p) (lock_token m) t =
    (Inr (), t\<lparr>w_locks := kv_del (lockKey (jp_orderId p)) (w_locks t)\<rparr>)"
  using assms
  by (simp add: lock_release_def lock_undisturbed_def release_def RELEASE_SCRIPT_def with_lock_def
      kv_get_def kv_set_def)

lemma process_refused:
  assumes "we_lockFault E = None"
    and "lock_holder kv_cmds (we_lockTime E) (jp_orderId p) (w_locks s) = Some h"
  shows "process E p m s = (Inl (lockAcquisitionError (jp_orderId p)), s)"
  by (simp add: process_def st_bind_def lock_acquire_cases assms)

lemma process_admitted:
  assumes "lock_undisturbed E"
    and "lock_holder kv_cmds (we_lockTime E) (jp_orderId p) (w_locks s) = None"
  shows "process E p m s =
    (fst (processWithLock E p m (with_lock E p m s)),
     (snd (processWithLock E p m (with_lock E p m s)))\<lparr>w_locks :=
        kv_del (lockKey (jp_orderId p)) (w_locks (with_lock E p m s))\<rparr>)"
proof -
  have "we_lockFault E = None" using assms(1) by (simp add: lock_undisturbed_def)
  note acq = lock_acquire_cases [OF this, of p m s]
  show ?thesis
    using lock_release_own [OF assms(1), of "snd (processWithLock E p m (with_lock E p m s))" p m s]
    by (simp add: process_def st_bind_def acq assms(2) st_finally_def case_prod_beta)
qed

text \<open>What a process call leaves in the database, the calls and the dead letter queue.\<close>

lemma process_outcome:
  obtains (no_lock) e where "process E p m s = (Inl e, s)"
  | (ran) t r where "process E p m s = (r, snd (process E p m s))"
      "w_db t = w_db s" "w_calls t = w_calls s"
      "w_db (snd (process E p m s)) = w_db (snd (processWithLock E p m t))"
      "w_calls (snd (process E p m s)) = w_calls (snd (processWithLock E p m t))"
      "r = Inr () \<Longrightarrow> fst (processWithLock E p m t) = Inr ()"
proof -
  let ?acq = "lock_acquire E (jp_orderId p) (lock_token m)"
  show thesis
  proof (cases "fst (?acq s)")
    case (Inl e)
    then have "snd (?acq s) = s"
      by (auto simp: lock_acquire_def acquireOrThrow_result split: option.splits)
    with Inl have "?acq s = (Inl e, s)" by (simp add: prod_eq_iff)
    then have "process E p m s = (Inl e, s)" by (simp add: process_def st_bind_def)
    then show thesis by (rule no_lock)
  next
    case (Inr u)
    let ?t = "snd (?acq s)" and ?run = "processWithLock E p m (snd (?acq s))"
    let ?rel = "lock_release E (jp_orderId p) (lock_token m) (snd ?run)"
    have "process E p m s =
        (case fst ?rel of Inl e \<Rightarrow> Inl e | Inr _ \<Rightarrow> fst ?run, snd ?rel)"
      using Inr
      by (simp add: process_def st_bind_def st_finally_def case_prod_beta split: sum.splits)
    then show thesis
      by (intro ran [of "case fst ?rel of Inl e \<Rightarrow> Inl e | Inr _ \<Rightarrow> fst ?run" ?t])
        (auto split: sum.splits)
  qed
qed

section \<open>A job that succeeds\<close>

lemma transitionStatus_reaches:
  assumes "transitionStatus C tp db = (Inr (), db')" and "driver_counts C" and "db_inv db"
  shows "\<exists>i r. cx_uuid_in C (tp_orderId tp) = Some i \<and> row_with_id i db' = Some r \<and>
    o_status r = tp_nextStatus tp"
proof -
  from transitionStatus_Inr [OF assms(1,2)] obtain i col tr where
    i: "cx_uuid_in C (tp_orderId tp) = Some i"
    and hit: "0 < sql_count (transition_where i tp) (t_orders db)"
    and db': "db' = db\<lparr>t_orders := sql_update (transition_where i tp)
       (transition_row col (cx_now C) tp) (t_orders db), t_transitions := t_transitions db @ [tr]\<rparr>"
    by auto
  from hit obtain r where r: "r \<in> set (t_orders db)" "transition_where i tp r"
    by (auto simp: sql_count_def filter_empty_conv)
  then have "row_with_id i db = Some r"
    using row_with_id_in [of db r] assms(3) by (simp add: db_inv_def transition_where_def)
  with r(2) have "row_with_id i db' = Some (transition_row col (cx_now C) tp r)"
    by (simp add: row_with_id_def db' find_sql_update_key)
  with i show ?thesis by auto
qed

lemma createOrder_None:
  assumes "createOrder C p db = (Inr None, db')"
  shows "db' = db \<and> cp_idempotencyKey p \<in> o_idempotencyKey ` set (t_orders db)"
proof (cases "\<exists>db1. createOrder_tx C p db = Inr (True, db1)")
  case True
  then obtain db1 where tx: "createOrder_tx C p db = Inr (True, db1)" by blast
  from createOrder_tx_True [OF tx] obtain i row its tr where
    i: "cx_uuid_in C (cp_id p) = Some i" "fresh_row_of p i row"
    and db1: "db1 = db\<lparr>t_orders := t_orders db @ [row], t_items := t_items db @ its,
       t_transitions := t_transitions db @ [tr]\<rparr>"
    by blast
  then have "row_with_id i db1 \<noteq> None"
    by (simp add: row_with_id_def find_None_key fresh_row_of_def)
  with i(1) have "findById C (cp_id p) db1 \<noteq> Inr None"
    by (auto simp: findById_def bind_res_Inr)
  with assms tx show ?thesis by (simp add: createOrder_def transaction_def)
next
  case False
  with assms show ?thesis
    by (cases "createOrder_tx C p db")
      (auto simp: createOrder_def transaction_def split: prod.splits bool.splits
        dest: createOrder_tx_False)
qed

lemma on_db_Inr:
  "on_db E c f s = (Inr a, s') \<longleftrightarrow>
     (\<exists>db'. f (we_ctx E c) (we_others E c (w_db s)) = (Inr a, db') \<and> s' = s\<lparr>w_db := db'\<rparr>)"
  by (auto simp: on_db_def split: prod.splits)

lemma on_db_inv:
  "env_ok E \<Longrightarrow> db_inv (w_db s) \<Longrightarrow> db_inv (we_others E c (w_db s))"
  by (simp add: env_ok_def)

lemma confirm_sent_done:
  assumes E: "env_ok E" and inv: "db_inv (w_db s)"
    and run: "confirm_sent E p m res s = (Inr (), s')"
  shows "\<exists>i r. cx_uuid_in (we_ctx E CallCompleted) (jp_orderId p) = Some i \<and>
    row_with_id i (w_db s') = Some r \<and> o_status r = COMPLETED \<and> w_calls s' = w_calls s"
proof -
  let ?orderId = "jp_orderId p"
  from run obtain saved s1 s2 sent s3 where
    f1: "read_db E CallFindSaved (\<lambda>C. findById C ?orderId) s = (Inr (Some saved), s1)" and
    t1: "on_db E CallSent (\<lambda>C. transitionStatus C (step_params ?orderId SAVED SENT_TO_POS
       (o_version (oe_row saved)) m (pr_rawResponse res) None)) s1 = (Inr (), s2)" and
    f2: "read_db E CallFindSent (\<lambda>C. findById C ?orderId) s2 = (Inr (Some sent), s3)" and
    t2: "on_db E CallCompleted (\<lambda>C. transitionStatus C (step_params ?orderId SENT_TO_POS COMPLETED
       (o_version (oe_row sent)) m None None)) s3 = (Inr (), s')"
    by (auto simp: confirm_sent_def Let_def st_bind_eq_Inr split: option.splits)
  have "db_inv (w_db s1)" using keepsD [OF keeps_inv_read [OF E], of s] inv f1 by (metis snd_conv)
  then have "db_inv (w_db s2)" using keepsD [OF keeps_inv_transition [OF E], of s1] t1 by (metis snd_conv)
  then have "db_inv (w_db s3)" using keepsD [OF keeps_inv_read [OF E], of s2] f2 by (metis snd_conv)
  then have inv3: "db_inv (we_others E CallCompleted (w_db s3))" using E by (rule on_db_inv [rotated])
  from t2 obtain db' where
    "transitionStatus (we_ctx E CallCompleted) (step_params ?orderId SENT_TO_POS COMPLETED
       (o_version (oe_row sent)) m None None) (we_others E CallCompleted (w_db s3)) = (Inr (), db')"
    and "s' = s3\<lparr>w_db := db'\<rparr>" by (auto simp: on_db_Inr)
  moreover have "w_calls s1 = w_calls s" "w_calls s2 = w_calls s1" "w_calls s3 = w_calls s2"
    using f1 t1 f2 unfolding read_db_def by (auto simp: on_db_Inr)
  moreover have "driver_counts (we_ctx E CallCompleted)" using E by (simp add: env_ok_def)
  ultimately show ?thesis
    using transitionStatus_reaches [OF _ _ inv3] by (fastforce simp: step_params_def)
qed

text \<open>The POS was called and its last call was answered.\<close>

definition pos_answered ::
  "'p worker_env \<Rightarrow> order_job_payload \<Rightarrow> http_request list \<Rightarrow> http_request list \<Rightarrow> bool" where
  "pos_answered E p before after \<longleftrightarrow>
     (\<exists>a n. 0 < n \<and> n \<le> 4 \<and> (\<exists>res. pos_attempt E a p (n - 1) = Inr res) \<and>
        (\<forall>i. Suc i < n \<longrightarrow> (\<exists>e. pos_attempt E a p i = Inl e)) \<and>
        after = before @ map (\<lambda>i. send_request a (domain_order_of p (we_posTime E i))) [0..<n])"

lemma call_pos_answered:
  assumes "policy_sound (we_policies E)" and "call_pos E a p s = (Inr res, s')"
  shows "pos_answered E p (w_calls s) (w_calls s')"
proof -
  let ?ex = "breaker_execute (we_policies E) (we_failureThreshold E) (we_openDurationMs E)
    (jp_storeId p) (we_posTime E 0) (pos_attempt E a p) (w_breaker s)"
  obtain r n b where x: "?ex = (r, n, b)" by (cases ?ex)
  with assms(2) have r: "r = Inr res" and calls: "w_calls s' = w_calls s @
      map (\<lambda>i. send_request a (domain_order_of p (we_posTime E i))) [0..<n]"
    by (auto simp: call_pos_def)
  from breaker_execute_sound [OF assms(1) x] r calls show ?thesis
    unfolding pos_answered_def by (intro exI [of _ a] exI [of _ n]) simp
qed

lemma sendToPos_done:
  assumes E: "env_ok E" and L: "policy_sound (we_policies E)" and inv: "db_inv (w_db s)"
    and run: "sendToPos E p m s = (Inr (), s')"
  shows "pos_answered E p (w_calls s) (w_calls s') \<and>
    (\<exists>i r. cx_uuid_in (we_ctx E CallCompleted) (jp_orderId p) = Some i \<and>
       row_with_id i (w_db s') = Some r \<and> o_status r = COMPLETED)"
proof -
  from run obtain store s1 a res s2 where
    q: "read_db E CallStore (selectStore (jp_storeId p)) s = (Inr (Some store), s1)" and
    c: "call_pos E a p s1 = (Inr res, s2)" and
    d: "confirm_sent E p m res s2 = (Inr (), s')"
    by (auto simp: sendToPos_def st_bind_eq_Inr split: option.splits)
  have 1: "db_inv (w_db s1)" using keepsD [OF keeps_inv_read [OF E], of s] inv q by (metis snd_conv)
  have "w_db s2 = w_db s1" using call_pos_frame(1) [of E a p s1] c by simp
  with 1 have "db_inv (w_db s2)" by simp
  from confirm_sent_done [OF E this d] call_pos_answered [OF L c] show ?thesis
    using q unfolding read_db_def by (auto simp: on_db_Inr)
qed

lemma completed_history:
  assumes "db_inv db" and "row_with_id i db = Some r" and "o_status r = COMPLETED"
  shows "visits (trail i db) = [QUEUED, SAVED, SENT_TO_POS, COMPLETED] \<and> o_version r = 3"
proof -
  from assms(2) have r: "r \<in> set (t_orders db)" "o_id r = i" by (auto dest: row_with_id_Some)
  with assms(1) have "audit_ok r (trail i db)" by (auto simp: db_inv_def audit_inv_def)
  from audit_ok_visits [OF this] assms(3) show ?thesis by auto
qed

lemma processWithLock_done:
  assumes E: "env_ok E" and L: "policy_sound (we_policies E)" and inv: "db_inv (w_db s)"
    and run: "processWithLock E p m s = (Inr (), s')"
  shows "(jp_idempotencyKey p \<in> o_idempotencyKey ` set (t_orders (we_others E CallCreate (w_db s))) \<and>
      w_db s' = we_others E CallCreate (w_db s) \<and> w_calls s' = w_calls s) \<or>
    (pos_answered E p (w_calls s) (w_calls s') \<and>
     (\<exists>i r. cx_uuid_in (we_ctx E CallCompleted) (jp_orderId p) = Some i \<and>
        row_with_id i (w_db s') = Some r \<and> o_status r = COMPLETED))"
proof -
  from run obtain created s1 where
    c: "on_db E CallCreate (\<lambda>C. createOrder C (create_params p m)) s = (Inr created, s1)"
    and rest: "(case created of None \<Rightarrow> st_return ()
      | Some ord \<Rightarrow> st_bind (transitionToSaved E ord m) (\<lambda>_. sendToPos E p m)) s1 = (Inr (), s')"
    by (auto simp: processWithLock_def st_bind_eq_Inr)
  show ?thesis
  proof (cases created)
    case None
    with c rest show ?thesis
      by (auto simp: on_db_Inr create_params_def dest!: createOrder_None)
  next
    case (Some ord)
    with rest obtain s2 where t: "transitionToSaved E ord m s1 = (Inr (), s2)"
      and d: "sendToPos E p m s2 = (Inr (), s')" by (auto simp: st_bind_eq_Inr)
    have "db_inv (w_db s1)" using keepsD [OF keeps_inv_create [OF E], of s] inv c by (metis snd_conv)
    then have 2: "db_inv (w_db s2)"
      using keepsD [OF keeps_inv_transition [OF E], of s1] t unfolding transitionToSaved_def
      by (metis snd_conv)
    have "w_calls s2 = w_calls s"
      using c t unfolding transitionToSaved_def by (auto simp: on_db_Inr)
    with sendToPos_done [OF E L 2 d] show ?thesis by auto
  qed
qed

section \<open>An order counts as sent only when the POS has answered\<close>

definition sent_ids :: "database \<Rightarrow> uuid set" where
  "sent_ids db = o_id ` {r \<in> set (t_orders db). o_status r \<in> {SENT_TO_POS, COMPLETED}}"

definition others_send_nothing :: "'p worker_env \<Rightarrow> bool" where
  "others_send_nothing E \<longleftrightarrow> (\<forall>c db. sent_ids (we_others E c db) \<subseteq> sent_ids db)"

lemma createOrder_sent: "sent_ids (snd (createOrder C p db)) \<subseteq> sent_ids db"
proof (cases "\<exists>db'. createOrder_tx C p db = Inr (True, db')")
  case True
  then obtain db' where tx: "createOrder_tx C p db = Inr (True, db')" by blast
  from createOrder_tx_True [OF tx] show ?thesis
    by (auto simp: createOrder_state tx sent_ids_def fresh_row_of_def)
next
  case False
  then show ?thesis by (auto simp: createOrder_state split: sum.splits prod.splits bool.splits)
qed

lemma transitionStatus_sent:
  assumes "driver_counts C" and "tp_nextStatus tp \<notin> {SENT_TO_POS, COMPLETED}"
  shows "sent_ids (snd (transitionStatus C tp db)) \<subseteq> sent_ids db"
proof (cases "fst (transitionStatus C tp db)")
  case (Inl e)
  then show ?thesis by (simp add: transitionStatus_Inl)
next
  case (Inr u)
  then have "transitionStatus C tp db = (Inr (), snd (transitionStatus C tp db))"
    by (simp add: prod_eq_iff)
  from transitionStatus_Inr [OF this assms(1)] obtain i col tr where
    db': "snd (transitionStatus C tp db) = db\<lparr>t_orders := sql_update (transition_where i tp)
      (transition_row col (cx_now C) tp) (t_orders db), t_transitions := t_transitions db @ [tr]\<rparr>"
    by auto
  show ?thesis
    using assms(2) unfolding db' sent_ids_def by (auto simp: set_sql_update split: if_splits)
qed

lemma keeps_sent_db:
  assumes "others_send_nothing E" and "\<And>db. sent_ids (snd (f (we_ctx E c) db)) \<subseteq> sent_ids db"
  shows "keeps (\<lambda>s. sent_ids (w_db s) \<subseteq> X) (on_db E c f)"
  using assms by (intro keeps_on_db) (force simp: others_send_nothing_def)

lemma transitionToSaved_sent:
  "others_send_nothing E \<Longrightarrow> driver_counts (we_ctx E CallSaved) \<Longrightarrow>
     keeps (\<lambda>s. sent_ids (w_db s) \<subseteq> X) (transitionToSaved E ord m)"
  unfolding transitionToSaved_def
  by (rule keeps_sent_db) (simp_all add: transitionStatus_sent step_params_def)

lemma confirm_sent_calls: "w_calls (snd (confirm_sent E p m res s)) = w_calls s"
proof -
  have frame: "keeps (\<lambda>s. w_calls s = l) (on_db E c f)" for l c and f :: "db_ctx \<Rightarrow> database \<Rightarrow> (error + 'b) \<times> database"
    by (simp add: keeps_def)
  have "keeps (\<lambda>t. w_calls t = w_calls s) (confirm_sent E p m res)"
    unfolding confirm_sent_def Let_def read_db_def by (intro keeps_intros frame)
  then show ?thesis by (auto dest: keepsD)
qed

lemma call_pos_not_answered:
  assumes "policy_sound (we_policies E)" and "\<not> pos_answered E p (w_calls s) (w_calls (snd (call_pos E a p s)))"
  shows "\<exists>e. call_pos E a p s = (Inl e, snd (call_pos E a p s))"
proof (cases "fst (call_pos E a p s)")
  case (Inr res)
  then have "call_pos E a p s = (Inr res, snd (call_pos E a p s))" by (simp add: prod_eq_iff)
  from call_pos_answered [OF assms(1) this] assms(2) show ?thesis by simp
qed (auto simp: prod_eq_iff)

lemma sendToPos_sent:
  assumes E: "env_ok E" "others_send_nothing E" "policy_sound (we_policies E)"
    and no: "\<not> pos_answered E p (w_calls s) (w_calls (snd (sendToPos E p m s)))"
  shows "sent_ids (w_db (snd (sendToPos E p m s))) \<subseteq> sent_ids (w_db s)"
proof -
  let ?q = "read_db E CallStore (selectStore (jp_storeId p))"
  have q: "sent_ids (w_db (snd (?q s))) \<subseteq> sent_ids (w_db s)" "w_calls (snd (?q s)) = w_calls s"
    using E(2) by (simp_all add: read_db_def others_send_nothing_def)
  let ?rest = "\<lambda>a. st_bind (call_pos E a p) (\<lambda>posResult. confirm_sent E p m posResult)"
  have rest: "w_db (snd (?rest a t)) = w_db t"
    if "\<not> pos_answered E p (w_calls t) (w_calls (snd (?rest a t)))" for a t
  proof (cases rule: st_bind_cases [of "call_pos E a p" t "\<lambda>r. confirm_sent E p m r"])
    case (err e)
    then show ?thesis by (metis call_pos_frame(1) snd_conv)
  next
    case (ok res)
    then have "w_calls (snd (?rest a t)) = w_calls (snd (call_pos E a p t))"
      by (simp add: confirm_sent_calls)
    with that have "\<not> pos_answered E p (w_calls t) (w_calls (snd (call_pos E a p t)))" by simp
    from call_pos_not_answered [OF E(3) this] ok(1) show ?thesis by (metis Inl_Inr_False fst_conv)
  qed
  show ?thesis
  proof (cases rule: st_bind_cases [of ?q s "\<lambda>_. st_return ()"])
    case (err e)
    with q show ?thesis by (simp add: sendToPos_def st_bind_Inl)
  next
    case (ok row)
    show ?thesis
    proof (cases row)
      case None
      with ok(1) q show ?thesis by (simp add: sendToPos_def st_bind_Inr)
    next
      case (Some store)
      let ?a = "pos_create (st_posType store) (st_posEndpoint store) (st_posApiKeyEnc store)"
      have run: "sendToPos E p m s = st_bind (st_lift ?a) ?rest (snd (?q s))"
        using ok(1) Some by (simp add: sendToPos_def st_bind_Inr)
      show ?thesis
      proof (cases ?a)
        case (Inl e)
        with run q show ?thesis by (simp add: st_bind_def)
      next
        case (Inr a)
        with run have "sendToPos E p m s = ?rest a (snd (?q s))" by (simp add: st_bind_def)
        with no q rest [of "snd (?q s)" a] show ?thesis by simp
      qed
    qed
  qed
qed

lemma processWithLock_sent:
  assumes E: "env_ok E" "others_send_nothing E" "policy_sound (we_policies E)"
    and no: "\<not> pos_answered E p (w_calls s) (w_calls (snd (processWithLock E p m s)))"
  shows "sent_ids (w_db (snd (processWithLock E p m s))) \<subseteq> sent_ids (w_db s)"
proof -
  let ?c = "on_db E CallCreate (\<lambda>C. createOrder C (create_params p m))"
  let ?X = "sent_ids (w_db s)"
  have C: "driver_counts (we_ctx E CallSaved)" using E(1) by (simp add: env_ok_def)
  have c: "sent_ids (w_db (snd (?c s))) \<subseteq> ?X" "w_calls (snd (?c s)) = w_calls s"
    using E(2) createOrder_sent [of "we_ctx E CallCreate" "create_params p m"]
    by (simp_all add: others_send_nothing_def) (meson order_trans)
  show ?thesis
  proof (cases rule: st_bind_cases [of ?c s "\<lambda>_. st_return ()"])
    case (err e)
    with c show ?thesis by (simp add: processWithLock_def st_bind_Inl)
  next
    case (ok created)
    show ?thesis
    proof (cases created)
      case None
      with ok(1) c show ?thesis by (simp add: processWithLock_def st_bind_Inr)
    next
      case (Some ord)
      let ?t = "transitionToSaved E ord m"
      have run: "processWithLock E p m s = st_bind ?t (\<lambda>_. sendToPos E p m) (snd (?c s))"
        using ok(1) Some by (simp add: processWithLock_def st_bind_Inr)
      have t: "sent_ids (w_db (snd (?t (snd (?c s))))) \<subseteq> ?X"
        using keepsD [OF transitionToSaved_sent [OF E(2) C, of ?X ord m] c(1)] .
      have tc: "w_calls (snd (?t (snd (?c s)))) = w_calls s"
        using c(2) by (simp add: transitionToSaved_def)
      show ?thesis
      proof (cases rule: st_bind_cases [of ?t "snd (?c s)" "\<lambda>_. sendToPos E p m"])
        case (err e)
        with t run show ?thesis by (simp only:)
      next
        case (ok u)
        with run have "processWithLock E p m s = sendToPos E p m (snd (?t (snd (?c s))))" by simp
        then have "w_db (snd (processWithLock E p m s)) = w_db (snd (sendToPos E p m (snd (?t (snd (?c s))))))"
          "\<not> pos_answered E p (w_calls (snd (?t (snd (?c s)))))
             (w_calls (snd (sendToPos E p m (snd (?t (snd (?c s)))))))"
          using no tc by simp_all
        with sendToPos_sent [OF E this(2)] t show ?thesis by (simp only: subset_trans)
      qed
    qed
  qed
qed

section \<open>Failures\<close>

text \<open>No fault of the database or the queue, and no other client of the database.\<close>

definition env_quiet :: "'p worker_env \<Rightarrow> string \<Rightarrow> uuid \<Rightarrow> bool" where
  "env_quiet E orderId i \<longleftrightarrow>
     (\<forall>c. statements_succeed (we_ctx E c) \<and> driver_counts (we_ctx E c) \<and>
        cx_uuid_in (we_ctx E c) orderId = Some i \<and> cx_uuid_in (we_ctx E c) i = Some i \<and>
        (\<forall>db. we_others E c db = db)) \<and>
     we_queueFault E = None"

lemma env_quietD:
  assumes "env_quiet E orderId i"
  shows "statements_succeed (we_ctx E c)" "driver_counts (we_ctx E c)"
    "cx_uuid_in (we_ctx E c) orderId = Some i" "we_others E c db = db" "we_queueFault E = None"
    "cx_uuid_in (we_ctx E c) i = Some i"
  using assms by (simp_all add: env_quiet_def)

lemma findById_quiet:
  "statements_succeed C \<Longrightarrow> cx_uuid_in C oid = Some i \<Longrightarrow>
     findById C oid db =
       Inr (map_option (\<lambda>r. \<lparr>oe_row = r, oe_items = items_of i db\<rparr>) (row_with_id i db))"
  by (simp add: findById_def statements_succeedD uuid_arg_def)

lemma markDlq_quiet:
  "statements_succeed C \<Longrightarrow> cx_uuid_in C oid = Some i \<Longrightarrow>
     markDlq C oid reason db = (Inr (), db\<lparr>t_orders := sql_update (\<lambda>r. o_id r = i)
       (\<lambda>r. r\<lparr>o_dlqAt := Some (cx_now C), o_failureReason := Some reason\<rparr>) (t_orders db)\<rparr>)"
  by (simp add: markDlq_def statements_succeedD uuid_arg_def)

lemma incrementRetryCount_quiet:
  "statements_succeed C \<Longrightarrow> cx_uuid_in C oid = Some i \<Longrightarrow>
     incrementRetryCount C oid db = (Inr (), db\<lparr>t_orders := sql_update (\<lambda>r. o_id r = i)
       (\<lambda>r. r\<lparr>o_retryCount := o_retryCount r + 1\<rparr>) (t_orders db)\<rparr>)"
  by (simp add: incrementRetryCount_def statements_succeedD uuid_arg_def)

definition fail_params :: "order_job_payload \<Rightarrow> error \<Rightarrow> job_meta \<Rightarrow> order_row \<Rightarrow> transition_params" where
  "fail_params p err m r = step_params (jp_orderId p) (o_status r) FAILED (o_version r) m None
     (Some (err_message err))"

lemma fail_order_quiet:
  assumes E: "env_quiet E (jp_orderId p) i" and row: "row_with_id i (w_db s) = Some r"
  shows "fail_order E p err m s =
    (if o_status r \<noteq> FAILED \<and> o_status r \<noteq> COMPLETED
     then on_db E CallFailed (\<lambda>C. transitionStatus C (fail_params p err m r)) s
     else (Inr (), s))"
proof -
  have "read_db E CallFindFailed (\<lambda>C. findById C (jp_orderId p)) s =
      (Inr (Some \<lparr>oe_row = r, oe_items = items_of i (w_db s)\<rparr>), s)"
    by (simp add: read_db_def on_db_def env_quietD [OF E] findById_quiet [OF env_quietD(1) [OF E] env_quietD(3) [OF E]] row)
  then show ?thesis by (simp add: fail_order_def st_bind_Inr fail_params_def)
qed

text \<open>What moveToDlq does once the order's row is as it has to be.\<close>

definition filed :: "'p worker_env \<Rightarrow> order_job_payload \<Rightarrow> error \<Rightarrow> job_meta \<Rightarrow> uuid \<Rightarrow>
    'p worker_state \<Rightarrow> 'p worker_state \<Rightarrow> bool" where
  "filed E p err m i s s' \<longleftrightarrow>
     t_orders (w_db s') = sql_update (\<lambda>r. o_id r = i)
       (\<lambda>r. r\<lparr>o_dlqAt := Some (cx_now (we_ctx E CallMarkDlq)),
             o_failureReason := Some (err_message err)\<rparr>) (t_orders (w_db s)) \<and>
     w_dlq s' = publishToDlq bull_add show_nat (we_dlqTime E)
       \<lparr>dp_payload = p, dp_failureReason = err_message err,
        dp_attempts = int (jm_attemptsMade m)\<rparr> (w_dlq s) \<and>
     length (w_alerts s') = length (w_alerts s) + 1 \<and> w_calls s' = w_calls s"

lemma move_rest_quiet:
  assumes E: "env_quiet E (jp_orderId p) i"
  shows "\<exists>s'. st_bind (on_db E CallMarkDlq (\<lambda>C. markDlq C (jp_orderId p) (err_message err))) (\<lambda>_.
      st_bind (publish_dlq E p err m) (\<lambda>_. send_alert E al)) s = (Inr (), s') \<and> filed E p err m i s s'"
proof -
  note d = env_quietD [OF E]
  obtain ev where "sendDlqAlert (we_webhookUrl E) (we_post E) al (w_alerts s) =
      (Inr (), w_alerts s @ [ev])"
    using sendDlqAlert_total by blast
  then show ?thesis
    by (simp add: st_bind_def on_db_def publish_dlq_def send_alert_def d filed_def
        markDlq_quiet [OF d(1) d(3)])
qed

lemma moveToDlq_caught:
  assumes E: "env_quiet E (jp_orderId p) i"
    and f: "fail_order E p err m s = (r, t)"
    and r: "r = Inr () \<or> (\<exists>e. r = Inl e \<and> instanceof e StaleOrderVersionError)"
  shows "\<exists>s'. moveToDlq E p err m s = (Inr (), s') \<and> filed E p err m i t s'"
proof -
  have "st_catch (fail_order E p err m) (\<lambda>e. if \<not> instanceof e StaleOrderVersionError
      then st_throw e else st_return ()) s = (Inr (), t)"
    using f r by (auto simp: st_catch_def)
  then show ?thesis
    using move_rest_quiet [OF E] by (simp add: moveToDlq_def st_bind_Inr)
qed

lemma moveToDlq_thrown:
  assumes "fail_order E p err m s = (Inl e, s)" and "\<not> instanceof e StaleOrderVersionError"
  shows "moveToDlq E p err m s = (Inl e, s)"
  using assms by (simp add: moveToDlq_def st_bind_def st_catch_def)

lemma handleFailure_final:
  "instanceof err BusinessLogicError \<or> 2 \<le> jm_attemptsMade m \<Longrightarrow>
     handleFailure E p err m = moveToDlq E p err m"
  by (auto simp: handleFailure_def Let_def)

section \<open>A fresh order, step by step\<close>

lemma env_quiet_ok: "env_quiet E oid i \<Longrightarrow> env_ok E"
  by (simp add: env_quiet_def env_ok_def)

text \<open>A transition of an order that has its row to itself; the audit log need not agree with the row.\<close>

lemma transition_taken:
  assumes E: "env_quiet E oid i" and t: "t \<in> {oid, i}" and keys: "keys_ok (w_db s)"
    and row: "row_with_id i (w_db s) = Some r" "o_status r = src"
    and v: "validate src dst False = Inr ()"
  shows "\<exists>s' r'. on_db E c (\<lambda>C. transitionStatus C
        (step_params t src dst (o_version r) m resp reason)) s = (Inr (), s') \<and>
      row_with_id i (w_db s') = Some r' \<and> o_status r' = dst \<and>
      o_idempotencyKey r' = o_idempotencyKey r \<and> t_stores (w_db s') = t_stores (w_db s) \<and>
      w_breaker s' = w_breaker s \<and> w_dlq s' = w_dlq s"
proof -
  let ?tp = "step_params t src dst (o_version r) m resp reason"
  note d = env_quietD [OF E]
  obtain col where col: "timestampColumn dst = Some col" using validate_timestampColumn [OF v] by blast
  from t have i: "cx_uuid_in (we_ctx E c) (tp_orderId ?tp) = Some i"
    using d(3,6) by (auto simp: step_params_def)
  from keys have hit: "transitionStatus (we_ctx E c) ?tp (w_db s) =
      (Inr (), transition_done (we_ctx E c) ?tp i col (w_db s))"
    using row v col by (intro transitionStatus_hit [OF d(2) d(1) i]) (simp_all add: step_params_def)
  have "row_with_id i (transition_done (we_ctx E c) ?tp i col (w_db s)) =
      Some (transition_row col (cx_now (we_ctx E c)) ?tp r)"
    using row row_with_id_Some [OF row(1)]
    by (simp add: row_with_id_def transition_done_def find_sql_update_key)
  moreover have "o_status (transition_row col (cx_now (we_ctx E c)) ?tp r) = dst"
    by (simp add: step_params_def)
  ultimately show ?thesis
    by (simp add: on_db_def d(4) hit) (simp add: transition_done_def)
qed

lemma transition_quiet:
  assumes E: "env_quiet E oid i" and t: "t \<in> {oid, i}" and inv: "db_inv (w_db s)"
    and row: "row_with_id i (w_db s) = Some r" "o_status r = src"
    and v: "validate src dst False = Inr ()"
  shows "\<exists>s' r'. on_db E c (\<lambda>C. transitionStatus C
        (step_params t src dst (o_version r) m resp reason)) s = (Inr (), s') \<and>
      db_inv (w_db s') \<and> row_with_id i (w_db s') = Some r' \<and> o_status r' = dst \<and>
      o_idempotencyKey r' = o_idempotencyKey r \<and> t_stores (w_db s') = t_stores (w_db s) \<and>
      w_breaker s' = w_breaker s \<and> w_dlq s' = w_dlq s"
proof -
  from inv have "keys_ok (w_db s)" by (simp add: db_inv_def)
  from transition_taken [OF E t this row v] obtain s' r' where
    s': "on_db E c (\<lambda>C. transitionStatus C (step_params t src dst (o_version r) m resp reason)) s = (Inr (), s')"
      "row_with_id i (w_db s') = Some r'" "o_status r' = dst" "o_idempotencyKey r' = o_idempotencyKey r"
      "t_stores (w_db s') = t_stores (w_db s)" "w_breaker s' = w_breaker s" "w_dlq s' = w_dlq s" by blast
  from keepsD [OF keeps_inv_transition [OF env_quiet_ok [OF E]] inv] s'(1) have "db_inv (w_db s')"
    by (metis snd_conv)
  with s' show ?thesis by blast
qed

lemma findById_step:
  assumes E: "env_quiet E oid i" and "row_with_id i (w_db s) = Some r"
  shows "read_db E c (\<lambda>C. findById C oid) s =
    (Inr (Some \<lparr>oe_row = r, oe_items = items_of i (w_db s)\<rparr>), s)"
  using assms(2)
  by (simp add: read_db_def on_db_def env_quietD(4) [OF E]
      findById_quiet [OF env_quietD(1) [OF E] env_quietD(3) [OF E]])

lemma createOrder_Some:
  assumes "createOrder C p db = (Inr (Some ord), db')"
  shows "createOrder_tx C p db = Inr (True, db') \<and> findById C (cp_id p) db' = Inr (Some ord)"
proof (cases "createOrder_tx C p db")
  case (Inl e)
  with assms show ?thesis by (simp add: createOrder_def transaction_def)
next
  case (Inr x)
  with assms show ?thesis
    by (cases x; cases "fst x") (simp_all add: createOrder_def transaction_def)
qed

lemma createOrder_fresh_row:
  assumes E: "env_quiet E oid i"
    and c: "createOrder (we_ctx E x) p db = (Inr (Some ord), db')" and oid: "cp_id p = oid"
  shows "row_with_id i db' = Some (oe_row ord) \<and> fresh_row_of p i (oe_row ord) \<and>
    t_stores db' = t_stores db"
proof -
  note d = env_quietD [OF E]
  obtain db1 where tx: "createOrder_tx (we_ctx E x) p db = Inr (True, db1)"
    and f: "findById (we_ctx E x) (cp_id p) db1 = Inr (Some ord)" "db' = db1"
    using createOrder_Some [OF c] by blast
  from createOrder_tx_True [OF tx] d(3) [of x] oid obtain row its tr where
    row: "fresh_row_of p i row" "i \<notin> o_id ` set (t_orders db)"
    and db1: "db1 = db\<lparr>t_orders := t_orders db @ [row], t_items := t_items db @ its,
       t_transitions := t_transitions db @ [tr]\<rparr>"
    by auto
  have "find (\<lambda>r. o_id r = i) (t_orders db) = None" using row(2) by (simp only: find_None_key) simp
  then have "row_with_id i db1 = Some row"
    using row(1) by (simp add: row_with_id_def db1 find_append fresh_row_of_def)
  moreover from f(1) have "Some ord =
      map_option (\<lambda>r. \<lparr>oe_row = r, oe_items = items_of i db1\<rparr>) (row_with_id i db1)"
    unfolding oid findById_quiet [OF d(1) d(3)] by auto
  ultimately have "oe_row ord = row" by simp
  with f(2) row(1) \<open>row_with_id i db1 = Some row\<close> show ?thesis by (simp add: db1)
qed

lemma confirm_sent_quiet:
  assumes E: "env_quiet E (jp_orderId p) i" and inv: "db_inv (w_db s)"
    and row: "row_with_id i (w_db s) = Some r" "o_status r = SAVED"
  shows "\<exists>s' r'. confirm_sent E p m res s = (Inr (), s') \<and> row_with_id i (w_db s') = Some r' \<and>
    o_status r' = COMPLETED"
proof -
  let ?o = "jp_orderId p"
  have v: "validate SAVED SENT_TO_POS False = Inr ()" "validate SENT_TO_POS COMPLETED False = Inr ()"
    by (simp_all add: validate_ok)
  have o: "?o \<in> {?o, i}" by simp
  obtain s1 r1 where 1: "on_db E CallSent (\<lambda>C. transitionStatus C (step_params ?o SAVED SENT_TO_POS
      (o_version r) m (pr_rawResponse res) None)) s = (Inr (), s1)" "db_inv (w_db s1)"
      "row_with_id i (w_db s1) = Some r1" "o_status r1 = SENT_TO_POS"
    using transition_quiet [OF E o inv row v(1)] by blast
  obtain s2 r2 where 2: "on_db E CallCompleted (\<lambda>C. transitionStatus C (step_params ?o SENT_TO_POS
      COMPLETED (o_version r1) m None None)) s1 = (Inr (), s2)"
      "row_with_id i (w_db s2) = Some r2" "o_status r2 = COMPLETED"
    using transition_quiet [OF E o 1(2-4) v(2)] by blast
  note f1 = findById_step [OF E row(1), of CallFindSaved]
    and f2 = findById_step [OF E 1(3), of CallFindSent]
  show ?thesis
    using 2 by (simp add: confirm_sent_def Let_def st_bind_def f1 1(1) f2)
qed

text \<open>
  What a fresh, valid order needs of its surroundings: the insertion succeeds and the store
  has a POS of a known type; the circuit breaker's outcome is r.
\<close>

definition fresh_job ::
  "'p worker_env \<Rightarrow> order_job_payload \<Rightarrow> job_meta \<Rightarrow> uuid \<Rightarrow> 'p worker_state \<Rightarrow>
   error + pos_order_result \<Rightarrow> bool" where
  "fresh_job E p m i s r \<longleftrightarrow>
     env_quiet E (jp_orderId p) i \<and> db_inv (w_db s) \<and>
     (\<exists>ord db1. createOrder (we_ctx E CallCreate) (create_params p m) (w_db s) = (Inr (Some ord), db1)) \<and>
     (\<exists>store a. selectStore (jp_storeId p) (we_ctx E CallStore) (w_db s) = Inr (Some store) \<and>
        pos_create (st_posType store) (st_posEndpoint store) (st_posApiKeyEnc store) = Inr a \<and>
        fst (breaker_execute (we_policies E) (we_failureThreshold E) (we_openDurationMs E)
          (jp_storeId p) (we_posTime E 0) (pos_attempt E a p) (w_breaker s)) = r)"

lemma processWithLock_fresh:
  assumes job: "fresh_job E p m i s r"
  shows "\<exists>row. fst (processWithLock E p m s) = map_sum id (\<lambda>_. ()) r \<and>
    row_with_id i (w_db (snd (processWithLock E p m s))) = Some row \<and>
    o_status row = (case r of Inl _ \<Rightarrow> SAVED | Inr _ \<Rightarrow> COMPLETED) \<and>
    (\<forall>e. r = Inl e \<longrightarrow> o_idempotencyKey row = jp_idempotencyKey p)"
proof -
  from job have E: "env_quiet E (jp_orderId p) i" and inv: "db_inv (w_db s)"
    by (simp_all add: fresh_job_def)
  note d = env_quietD [OF E]
  from job obtain ord db1 store a where
    c: "createOrder (we_ctx E CallCreate) (create_params p m) (w_db s) = (Inr (Some ord), db1)"
    and st: "selectStore (jp_storeId p) (we_ctx E CallStore) (w_db s) = Inr (Some store)"
    and a: "pos_create (st_posType store) (st_posEndpoint store) (st_posApiKeyEnc store) = Inr a"
    and r: "fst (breaker_execute (we_policies E) (we_failureThreshold E) (we_openDurationMs E)
      (jp_storeId p) (we_posTime E 0) (pos_attempt E a p) (w_breaker s)) = r"
    by (auto simp: fresh_job_def)
  have oid: "cp_id (create_params p m) = jp_orderId p" by (simp add: create_params_def)
  from createOrder_fresh_row [OF E c oid] have row0: "row_with_id i db1 = Some (oe_row ord)"
    "o_status (oe_row ord) = QUEUED" "o_id (oe_row ord) = i" "o_version (oe_row ord) = 0"
    "o_idempotencyKey (oe_row ord) = jp_idempotencyKey p"
    and stores: "t_stores db1 = t_stores (w_db s)"
    by (simp_all add: fresh_row_of_def create_params_def)
  let ?s1 = "s\<lparr>w_db := db1\<rparr>"
  have 1: "on_db E CallCreate (\<lambda>C. createOrder C (create_params p m)) s = (Inr (Some ord), ?s1)"
    by (simp add: on_db_def d(4) c)
  have "db_inv (w_db ?s1)" using createOrder_inv [OF inv, of "we_ctx E CallCreate" "create_params p m"] c
    by simp
  then obtain s2 row where 2: "transitionToSaved E ord m ?s1 = (Inr (), s2)" "db_inv (w_db s2)"
      "row_with_id i (w_db s2) = Some row" "o_status row = SAVED"
      "t_stores (w_db s2) = t_stores db1" "w_breaker s2 = w_breaker s"
      "o_idempotencyKey row = jp_idempotencyKey p"
    using transition_quiet [OF E, of "o_id (oe_row ord)" ?s1 "oe_row ord" QUEUED SAVED CallSaved m None None]
      row0
    by (auto simp: transitionToSaved_def validate_ok)
  have 3: "read_db E CallStore (selectStore (jp_storeId p)) s2 = (Inr (Some store), s2)"
    using st by (simp add: read_db_def on_db_def d(4) selectStore_def 2(5) stores)
  have r2: "fst (call_pos E a p s2) = r"
    using r by (simp add: call_pos_def case_prod_beta 2(6))
  have send: "sendToPos E p m s2 = st_bind (call_pos E a p) (\<lambda>res. confirm_sent E p m res) s2"
    by (simp add: sendToPos_def st_bind_def 3 a)
  have run: "processWithLock E p m s = sendToPos E p m s2"
    by (simp add: processWithLock_def st_bind_def 1 2(1))
  show ?thesis
  proof (cases r)
    case (Inl e)
    obtain t where c2: "call_pos E a p s2 = (Inl e, t)" "w_db t = w_db s2"
      using r2 Inl call_pos_frame(1) [of E a p s2] by (cases "call_pos E a p s2") simp
    with 2 Inl show ?thesis by (simp add: run send st_bind_def)
  next
    case (Inr res)
    obtain t where c2: "call_pos E a p s2 = (Inr res, t)" "w_db t = w_db s2"
      using r2 Inr call_pos_frame(1) [of E a p s2] by (cases "call_pos E a p s2") simp
    obtain s4 row' where "confirm_sent E p m res t = (Inr (), s4)"
      "row_with_id i (w_db s4) = Some row'" "o_status row' = COMPLETED"
      using confirm_sent_quiet [OF E, of t row m res] 2 c2(2) by auto
    with c2(1) Inr show ?thesis by (simp add: run send st_bind_def)
  qed
qed

section \<open>Retries\<close>

text \<open>The server can read the arguments of the insertion.\<close>

definition readable :: "db_ctx \<Rightarrow> create_order_params \<Rightarrow> bool" where
  "readable C p \<longleftrightarrow> cx_uuid_in C (cp_id p) \<noteq> None \<and> cx_uuid_in C (cp_storeId p) \<noteq> None \<and>
     (\<forall>u. cp_userId p = Some u \<longrightarrow> cx_uuid_in C u \<noteq> None) \<and>
     cx_numeric_in C (cp_requestedAmount p) \<noteq> None \<and> cx_numeric_in C (cp_calculatedAmount p) \<noteq> None"

lemma createOrder_duplicate:
  assumes "statements_succeed C" "readable C p"
    and "cp_idempotencyKey p \<in> o_idempotencyKey ` set (t_orders db)"
  shows "createOrder C p db = (Inr None, db)"
proof -
  have "insertOrder C p db = Inr None"
    using assms
    by (cases "cp_userId p")
      (auto simp: insertOrder_def statements_succeedD readable_def uuid_arg_def numeric_arg_def)
  then show ?thesis by (simp add: createOrder_def transaction_def createOrder_tx_def)
qed

lemma process_duplicate:
  assumes E: "env_quiet E (jp_orderId p) i" "lock_undisturbed E"
    and free: "lock_holder kv_cmds (we_lockTime E) (jp_orderId p) (w_locks s) = None"
    and args: "readable (we_ctx E CallCreate) (create_params p m)"
    and key: "jp_idempotencyKey p \<in> o_idempotencyKey ` set (t_orders (w_db s))"
  shows "fst (process E p m s) = Inr () \<and> w_db (snd (process E p m s)) = w_db s \<and>
    w_calls (snd (process E p m s)) = w_calls s \<and> w_dlq (snd (process E p m s)) = w_dlq s"
proof -
  have "cp_idempotencyKey (create_params p m) = jp_idempotencyKey p" by (simp add: create_params_def)
  then have c: "createOrder (we_ctx E CallCreate) (create_params p m) (w_db s) = (Inr None, w_db s)"
    using createOrder_duplicate [OF env_quietD(1) [OF E(1)] args] key by simp
  have "processWithLock E p m (with_lock E p m s) = (Inr (), with_lock E p m s)"
    by (simp add: processWithLock_def st_bind_def on_db_def env_quietD(4) [OF E(1)] c)
  then show ?thesis by (simp add: process_admitted [OF E(2) free])
qed

lemma handleFailure_retry:
  assumes E: "env_quiet E (jp_orderId p) i"
    and "\<not> instanceof err BusinessLogicError" and "jm_attemptsMade m < 2"
  shows "handleFailure E p err m s = (Inr (), s\<lparr>w_db := (w_db s)\<lparr>t_orders :=
    sql_update (\<lambda>r. o_id r = i) (\<lambda>r. r\<lparr>o_retryCount := o_retryCount r + 1\<rparr>) (t_orders (w_db s))\<rparr>\<rparr>)"
  using assms(2,3)
  by (simp add: handleFailure_def on_db_def env_quietD(4) [OF E]
      incrementRetryCount_quiet [OF env_quietD(1) [OF E] env_quietD(3) [OF E]])

lemma process_fresh:
  assumes job: "fresh_job E p m i s r" and E: "lock_undisturbed E"
    and free: "lock_holder kv_cmds (we_lockTime E) (jp_orderId p) (w_locks s) = None"
  shows "fst (process E p m s) = map_sum id (\<lambda>_. ()) r \<and>
    (\<exists>row. row_with_id i (w_db (snd (process E p m s))) = Some row \<and>
       o_status row = (case r of Inl _ \<Rightarrow> SAVED | Inr _ \<Rightarrow> COMPLETED) \<and>
       (\<forall>e. r = Inl e \<longrightarrow> o_idempotencyKey row = jp_idempotencyKey p)) \<and>
    (\<forall>t. lock_holder kv_cmds t (jp_orderId p) (w_locks (snd (process E p m s))) = None)"
proof -
  have "fresh_job E p m i (with_lock E p m s) r" using job by (simp add: fresh_job_def)
  from processWithLock_fresh [OF this] show ?thesis
    by (auto simp: process_admitted [OF E free] lock_holder_def kv_get_def kv_del_def)
qed

section \<open>Samples\<close>

definition sample_env :: "time \<Rightarrow> (nat \<Rightarrow> http_client) \<Rightarrow> nat worker_env" where
  "sample_env now http = \<lparr>we_ctx = (\<lambda>_. quiet_ctx now), we_others = (\<lambda>_ db. db),
     we_lockTtl = 60, we_lockTime = now, we_lockFault = None, we_otherLocks = (\<lambda>l. l),
     we_releaseTime = now + 1, we_releaseFault = None, we_policies = plain_library,
     we_failureThreshold = 5, we_openDurationMs = 30000, we_posTime = (\<lambda>_. now), we_http = http,
     we_queueFault = None, we_dlqTime = now, we_adminBaseUrl = ''http://admin'',
     we_webhookUrl = [], we_post = (\<lambda>_ _. Inr ())\<rparr>"

definition sample_payload :: order_job_payload where
  "sample_payload = \<lparr>jp_orderId = ''o1'', jp_traceId = ''t1'', jp_storeId = ''s1'',
     jp_userId = None, jp_idempotencyKey = ''k1'', jp_requestedAmount = ''36000'',
     jp_calculatedAmount = ''36000.00'', jp_items = [sample_item], jp_isRedrive = None,
     jp_redriveAt = None\<rparr>"

definition sample_meta :: "nat \<Rightarrow> job_meta" where
  "sample_meta n = \<lparr>jm_jobId = ''order-o1'', jm_workerId = ''w1'', jm_attemptsMade = n\<rparr>"

definition sample_start :: "nat worker_state" where
  "sample_start = \<lparr>w_db = seed_db, w_locks = Map.empty,
     w_breaker = \<lparr>bs_registry = Map.empty, bs_hash = Map.empty\<rparr>, w_calls = [], w_dlq = [],
     w_alerts = []\<rparr>"

definition dead_http :: "nat \<Rightarrow> http_client" where
  "dead_http i rq = Inl ''timeout''"

lemma sample_env_ok [simp]: "env_ok (sample_env now http)"
  by (simp add: env_ok_def sample_env_def)

lemma sample_env_quiet [simp]: "env_quiet (sample_env now http) oid oid"
  by (simp add: env_quiet_def sample_env_def)

lemma sample_env_lock [simp]: "lock_undisturbed (sample_env now http)"
  by (simp add: lock_undisturbed_def sample_env_def expires_at_def)

lemma sample_env_policies [simp]: "we_policies (sample_env now http) = plain_library"
  by (simp add: sample_env_def)

lemma sample_env_db [simp]:
  "we_ctx (sample_env now http) c = quiet_ctx now" "we_others (sample_env now http) c db = db"
  "we_lockTime (sample_env now http) = now"
  by (simp_all add: sample_env_def)

lemma sample_env_sent [simp]: "others_send_nothing (sample_env now http)"
  by (simp add: others_send_nothing_def sample_env_def)

end
