(* ===== verification/Worker_Correctness.thy ===== *)
theory Worker_Correctness
  imports Worker_Properties
begin

text \<open>
  The properties of the worker: the lock, what success means, how failures are filed, and what
  becomes of a job that is tried again. The states that jobs can reach are in Life_Histories.
\<close>

section \<open>The queue's processor\<close>

lemma order_processor_rethrows: "order_processor_process E w j n p =
    process E p \<lparr>jm_jobId = j, jm_workerId = w, jm_attemptsMade = n\<rparr>"
  by (auto simp: order_processor_process_def st_catch_def fun_eq_iff split: prod.splits sum.splits)

section \<open>The sample run\<close>

lemma sample_start_sel [simp]:
  "w_db sample_start = seed_db" "w_locks sample_start = Map.empty" "w_calls sample_start = []"
  "w_dlq sample_start = []" "w_alerts sample_start = []"
  "w_breaker sample_start = \<lparr>bs_registry = Map.empty, bs_hash = Map.empty\<rparr>"
  by (simp_all add: sample_start_def)

lemma sample_payload_sel [simp]:
  "jp_orderId sample_payload = ''o1''" "jp_storeId sample_payload = ''s1''"
  "jp_idempotencyKey sample_payload = ''k1''"
  by (simp_all add: sample_payload_def)

lemma sample_create_params: "create_params sample_payload (sample_meta n) = sample_params"
  by (simp add: create_params_def sample_payload_def sample_meta_def sample_params_def)

lemma seed_db_inv: "db_inv seed_db"
  by (rule initial_inv) simp_all

lemma sample_free [simp]: "lock_holder kv_cmds t i Map.empty = None"
  by (simp add: lock_holder_def kv_get_def)

text \<open>The POS of the sample store is a MODERN_V2.\<close>

abbreviation sample_adapter :: pos_adapter where
  "sample_adapter \<equiv> ModernV2PosAdapter ''http://pos-modern:8080'' None"

lemma sample_fresh_job:
  assumes "fst (try_times 3 (pos_attempt (sample_env 10 http) sample_adapter sample_payload) 0) = r"
    and "\<forall>e. r = Inl e \<longrightarrow> \<not> instanceof e BrokenCircuitError"
  shows "fresh_job (sample_env 10 http) sample_payload (sample_meta n) ''o1'' sample_start r"
proof -
  have "createOrder (quiet_ctx 10) (create_params sample_payload (sample_meta n)) seed_db =
      (Inr (Some \<lparr>oe_row = sample_row, oe_items = [sample_item_row]\<rparr>), queued_db)"
    by (simp add: sample_create_params sample_created)
  moreover have "selectStore ''s1'' (quiet_ctx 10) seed_db = Inr (Some sample_store)"
    by (simp add: selectStore_def)
  moreover have "pos_create (st_posType sample_store) (st_posEndpoint sample_store)
      (st_posApiKeyEnc sample_store) = Inr sample_adapter"
    by (simp add: sample_store_def pos_create_def)
  moreover have "fst (breaker_execute plain_library 5 30000 ''s1'' 10
      (pos_attempt (sample_env 10 http) sample_adapter sample_payload)
      \<lparr>bs_registry = Map.empty, bs_hash = Map.empty\<rparr>) = r"
    using assms
    by (simp add: breaker_execute_eq plain_library_def Let_def case_prod_beta split: sum.splits)
  ultimately show ?thesis
    unfolding fresh_job_def using seed_db_inv
    by (simp add: sample_env_def env_quiet_def)
qed

lemma flaky_attempts:
  "\<exists>res. try_times 3 (pos_attempt (sample_env 10 flaky_http) sample_adapter p) 0 = (Inr res, 2)"
  by (simp add: numeral_3_eq_3 pos_attempt_def sample_env_def sendOrder_def flaky_http_def
      modern_result_def json_id_def)

lemma flaky_breaker:
  "\<exists>res. fst (breaker_execute plain_library 5 30000 i 10
     (pos_attempt (sample_env 10 flaky_http) sample_adapter p) b) = Inr res"
  using flaky_attempts [of p] by (auto simp: breaker_execute_eq plain_library_def Let_def)

lemma dead_attempts:
  "try_times 3 (pos_attempt (sample_env 10 dead_http) sample_adapter sample_payload) 0 =
     (Inl (posUnavailableError ''s1'' ''timeout''), 4)"
  by (simp add: numeral_3_eq_3 pos_attempt_def sample_env_def sendOrder_def dead_http_def
      domain_order_of_def)

lemma flaky_job:
  "\<exists>res. fresh_job (sample_env 10 flaky_http) sample_payload (sample_meta n) ''o1'' sample_start (Inr res)"
  using flaky_attempts [of sample_payload] sample_fresh_job [of flaky_http] by force

lemma dead_job:
  "fresh_job (sample_env 10 dead_http) sample_payload (sample_meta n) ''o1'' sample_start
     (Inl (posUnavailableError ''s1'' ''timeout''))"
  by (rule sample_fresh_job) (simp_all add: dead_attempts instanceof_def entity_simps class_extends.simps)

lemma flaky_success:
  "fst (process (sample_env 10 flaky_http) sample_payload (sample_meta 0) sample_start) = Inr ()"
proof -
  obtain res where
    "fresh_job (sample_env 10 flaky_http) sample_payload (sample_meta 0) ''o1'' sample_start (Inr res)"
    using flaky_job by blast
  from process_fresh [OF this] show ?thesis by simp
qed

section \<open>Properties\<close>

text \<open>C12: a job gets the lock of its order or fails without any effect; when it gets it, the
  lock is free again afterwards, whatever the job's outcome, and the outcome is the job's.\<close>

theorem process_lock_discipline:
  assumes "lock_undisturbed E"
  shows "(case lock_holder kv_cmds (we_lockTime E) (jp_orderId p) (w_locks s) of
      Some _ \<Rightarrow> process E p m s = (Inl (lockAcquisitionError (jp_orderId p)), s)
    | None \<Rightarrow> fst (process E p m s) = fst (processWithLock E p m (with_lock E p m s)) \<and>
        (\<forall>t. lock_holder kv_cmds t (jp_orderId p) (w_locks (snd (process E p m s))) = None) \<and>
        (\<forall>t j. j \<noteq> jp_orderId p \<longrightarrow> lock_holder kv_cmds t j (w_locks (snd (process E p m s))) =
           lock_holder kv_cmds t j (w_locks s)))"
proof (cases "lock_holder kv_cmds (we_lockTime E) (jp_orderId p) (w_locks s)")
  case None
  then show ?thesis
    by (simp add: process_admitted [OF assms] lock_holder_def kv_get_def kv_del_def with_lock_def
        kv_set_def)
next
  case (Some h)
  with assms show ?thesis by (simp add: process_refused lock_undisturbed_def)
qed

theorem process_lock_discipline_witness:
  "lock_holder kv_cmds 12 ''o1'' (w_locks (snd (process (sample_env 10 dead_http) sample_payload
     (sample_meta 0) sample_start))) = None"
  using process_lock_discipline
    [where E = "sample_env 10 dead_http" and p = sample_payload and s = sample_start
      and m = "sample_meta 0"]
  by simp

text \<open>C6: a job that ends without an error either met an order with its idempotency key, and then
  did nothing, or has taken its order through SAVED and SENT_TO_POS to COMPLETED, with one to
  four requests for it to the POS of which the last was answered.\<close>

theorem successful_job_completed:
  assumes "env_ok E" and "policy_sound (we_policies E)" and "inv_state s"
    and "process E p m s = (Inr (), s')"
  shows "(jp_idempotencyKey p \<in> o_idempotencyKey ` set (t_orders (we_others E CallCreate (w_db s))) \<and>
      w_db s' = we_others E CallCreate (w_db s) \<and> w_calls s' = w_calls s) \<or>
    (pos_answered E p (w_calls s) (w_calls s') \<and>
     (\<exists>i r. cx_uuid_in (we_ctx E CallCompleted) (jp_orderId p) = Some i \<and>
        row_with_id i (w_db s') = Some r \<and> o_status r = COMPLETED \<and>
        visits (trail i (w_db s')) = [QUEUED, SAVED, SENT_TO_POS, COMPLETED]))"
proof -
  have inv': "inv_state s'" using keepsD [OF process_inv [OF assms(1)] assms(3)] assms(4) by (metis snd_conv)
  show ?thesis
  proof (cases rule: process_outcome [of E p m s])
    case (no_lock e)
    with assms(4) show ?thesis by simp
  next
    case (ran t r)
    then have "fst (processWithLock E p m t) = Inr ()" using assms(4) by simp
    then have run: "processWithLock E p m t = (Inr (), snd (processWithLock E p m t))"
      by (simp add: prod_eq_iff)
    from processWithLock_done [OF assms(1,2) _ run] ran assms(3,4) inv' show ?thesis
      by (auto dest: completed_history)
  qed
qed

theorem successful_job_completed_witness:
  "\<exists>r. row_with_id ''o1'' (w_db (snd (process (sample_env 10 flaky_http) sample_payload
       (sample_meta 0) sample_start))) = Some r \<and> o_status r = COMPLETED"
proof -
  let ?E = "sample_env 10 flaky_http" and ?m = "sample_meta 0"
  have run: "process ?E sample_payload ?m sample_start =
      (Inr (), snd (process ?E sample_payload ?m sample_start))"
    using flaky_success by (simp add: prod_eq_iff)
  have "policy_sound (we_policies ?E)" by (simp add: plain_library_sound)
  from successful_job_completed [OF sample_env_ok this _ run] show ?thesis
    by (auto simp: seed_db_inv)
qed

text \<open>C11: whatever happens to a job, an order that was not recorded as sent to its POS before is
  so afterwards only if the POS was called for this job and its last call was answered. The other
  clients of the database are taken not to record orders as sent meanwhile (others_send_nothing):
  what they record is the outcome of their own jobs.\<close>

theorem sent_only_after_answer:
  assumes "env_ok E" and "others_send_nothing E" and "policy_sound (we_policies E)"
    and "i \<in> sent_ids (w_db (snd (process E p m s)))" and "i \<notin> sent_ids (w_db s)"
  shows "pos_answered E p (w_calls s) (w_calls (snd (process E p m s)))"
proof (cases rule: process_outcome [of E p m s])
  case (no_lock e)
  with assms(4,5) show ?thesis by simp
next
  case (ran t r)
  with processWithLock_sent [OF assms(1-3), of p t m] assms(4,5) show ?thesis by auto
qed

theorem sent_only_after_answer_witness:
  "pos_answered (sample_env 10 flaky_http) sample_payload []
     (w_calls (snd (process (sample_env 10 flaky_http) sample_payload (sample_meta 0) sample_start)))"
proof -
  let ?s = "snd (process (sample_env 10 flaky_http) sample_payload (sample_meta 0) sample_start)"
  obtain res where
    "fresh_job (sample_env 10 flaky_http) sample_payload (sample_meta 0) ''o1'' sample_start (Inr res)"
    using flaky_job by blast
  from process_fresh [OF this] obtain r where
    "row_with_id ''o1'' (w_db ?s) = Some r" "o_status r = COMPLETED" by auto
  then have "''o1'' \<in> sent_ids (w_db ?s)" by (force simp: sent_ids_def dest: row_with_id_Some)
  moreover have "''o1'' \<notin> sent_ids (w_db sample_start)" by (simp add: sent_ids_def)
  ultimately show ?thesis
    using sent_only_after_answer [of "sample_env 10 flaky_http" "''o1''" sample_payload "sample_meta 0" sample_start]
    by (simp add: plain_library_sound)
qed

text \<open>A fresh valid order is processed to an end: if the POS answers, the job succeeds and
  the order is COMPLETED; if not, the job fails with the POS error and the order stays SAVED.\<close>

theorem fresh_order_outcome:
  assumes "fresh_job E p m i s r" and "lock_undisturbed E"
    and "lock_holder kv_cmds (we_lockTime E) (jp_orderId p) (w_locks s) = None"
  shows "fst (process E p m s) = map_sum id (\<lambda>_. ()) r \<and>
    (\<exists>row. row_with_id i (w_db (snd (process E p m s))) = Some row \<and>
       o_status row = (case r of Inl _ \<Rightarrow> SAVED | Inr _ \<Rightarrow> COMPLETED))"
  using process_fresh [OF assms] by auto

theorem fresh_order_outcome_witness:
  "fst (process (sample_env 10 dead_http) sample_payload (sample_meta 0) sample_start) =
     Inl (posUnavailableError ''s1'' ''timeout'')"
  using fresh_order_outcome [OF dead_job, of 0] by simp

text \<open>C15: a job whose POS call failed is not tried again: the order is left SAVED, the failure
  handler only counts the attempt, and the next attempt takes the order for a duplicate, so it
  reports success without calling the POS, and nothing reaches the dead letter queue.\<close>

theorem pos_failure_never_retried:
  assumes first: "fresh_job E1 p m1 i s (Inl e)" "lock_undisturbed E1"
      "lock_holder kv_cmds (we_lockTime E1) (jp_orderId p) (w_locks s) = None"
    and failure: "env_quiet E2 (jp_orderId p) i" "\<not> instanceof e BusinessLogicError"
      "jm_attemptsMade m2 < 2"
    and again: "env_quiet E3 (jp_orderId p) i" "lock_undisturbed E3"
      "readable (we_ctx E3 CallCreate) (create_params p m3)"
  shows "let s1 = snd (process E1 p m1 s); s2 = snd (handleFailure E2 p e m2 s1);
             s3 = snd (process E3 p m3 s2)
    in fst (process E1 p m1 s) = Inl e \<and> fst (process E3 p m3 s2) = Inr () \<and>
       (\<exists>row. row_with_id i (w_db s3) = Some row \<and> o_status row = SAVED) \<and>
       w_calls s3 = w_calls s1 \<and> w_dlq s3 = w_dlq s1"
proof -
  let ?s1 = "snd (process E1 p m1 s)" and ?s2 = "snd (handleFailure E2 p e m2 (snd (process E1 p m1 s)))"
  from process_fresh [OF first] obtain row where
    r1: "fst (process E1 p m1 s) = Inl e" "row_with_id i (w_db ?s1) = Some row"
      "o_status row = SAVED" "o_idempotencyKey row = jp_idempotencyKey p"
    and free: "\<And>t. lock_holder kv_cmds t (jp_orderId p) (w_locks ?s1) = None"
    by auto
  note h = handleFailure_retry [OF failure, of ?s1]
  let ?row = "row\<lparr>o_retryCount := o_retryCount row + 1\<rparr>"
  have row2: "row_with_id i (w_db ?s2) = Some ?row"
    using r1(2) row_with_id_Some [OF r1(2)] by (simp add: h row_with_id_def find_sql_update_key)
  have "o_idempotencyKey row \<in> o_idempotencyKey ` set (t_orders (w_db ?s1))"
    using row_with_id_Some [OF r1(2)] by blast
  then have "jp_idempotencyKey p \<in> o_idempotencyKey ` set (t_orders (w_db ?s2))"
    by (simp add: h r1(4) image_sql_update)
  moreover have "lock_holder kv_cmds (we_lockTime E3) (jp_orderId p) (w_locks ?s2) = None"
    by (simp add: h free)
  ultimately have p3: "fst (process E3 p m3 ?s2) = Inr ()" "w_db (snd (process E3 p m3 ?s2)) = w_db ?s2"
    "w_calls (snd (process E3 p m3 ?s2)) = w_calls ?s2" "w_dlq (snd (process E3 p m3 ?s2)) = w_dlq ?s2"
    using process_duplicate [OF again(1,2) _ again(3)] by blast+
  have same: "w_calls ?s2 = w_calls ?s1" "w_dlq ?s2 = w_dlq ?s1" by (simp_all add: h)
  show ?thesis
    unfolding Let_def p3 same using r1(1,3) row2 by simp
qed

theorem pos_failure_never_retried_witness:
  "let s1 = snd (process (sample_env 10 dead_http) sample_payload (sample_meta 0) sample_start);
       s2 = snd (handleFailure (sample_env 11 dead_http) sample_payload
              (posUnavailableError ''s1'' ''timeout'') (sample_meta 1) s1)
   in fst (process (sample_env 20 flaky_http) sample_payload (sample_meta 1) s2) = Inr () \<and>
      w_calls (snd (process (sample_env 20 flaky_http) sample_payload (sample_meta 1) s2)) = w_calls s1"
proof -
  let ?err = "posUnavailableError ''s1'' ''timeout''"
  have 1: "\<not> instanceof ?err BusinessLogicError" by (simp add: instanceof_def entity_simps)
  have 2: "jm_attemptsMade (sample_meta 1) < 2" by (simp add: sample_meta_def)
  have 3: "readable (we_ctx (sample_env 20 flaky_http) CallCreate) (create_params sample_payload (sample_meta 1))"
    by (simp add: readable_def)
  have 4: "lock_holder kv_cmds (we_lockTime (sample_env 10 dead_http)) (jp_orderId sample_payload)
      (w_locks sample_start) = None" by simp
  have q: "env_quiet (sample_env t http) (jp_orderId sample_payload) ''o1''" for t http by simp
  from pos_failure_never_retried [OF dead_job [of 0] sample_env_lock 4 q [of 11 dead_http] 1 2
      q [of 20 flaky_http] sample_env_lock 3]
  show ?thesis unfolding Let_def by blast
qed

text \<open>C14: a failure that is final files the order: one that is QUEUED or SAVED becomes FAILED and,
  like one that is finished already, is marked with the reason, put into the dead letter queue
  and alerted. One that was sent to the POS, or whose status the POS has taken over (ACCEPTED,
  COOKING, DONE, CANCELLED), is not filed at all: the handler throws, in the second case a TypeError.
  Of the database only unique keys are assumed, so that all nine statuses are met.\<close>

theorem final_failure_filed:
  assumes E: "env_quiet E (jp_orderId p) i" and keys: "keys_ok (w_db s)"
    and row: "row_with_id i (w_db s) = Some r"
    and final: "instanceof err BusinessLogicError \<or> 2 \<le> jm_attemptsMade m"
  shows "(if o_status r \<in> {QUEUED, SAVED, FAILED, COMPLETED}
    then \<exists>t s' r'. handleFailure E p err m s = (Inr (), s') \<and> filed E p err m i t s' \<and>
       row_with_id i (w_db t) = Some r' \<and> w_dlq t = w_dlq s \<and>
       o_status r' = (if o_status r = COMPLETED then COMPLETED else FAILED)
    else \<exists>e. handleFailure E p err m s = (Inl e, s) \<and>
       err_class e = (if o_status r = SENT_TO_POS then InvalidStateTransitionError else TypeError))"
proof -
  note fail = fail_order_quiet [OF E row, of err m] and final = handleFailure_final [OF final]
  show ?thesis
  proof (cases "o_status r \<in> {FAILED, COMPLETED}")
    case True
    then have "fail_order E p err m s = (Inr (), s)" by (auto simp: fail)
    from moveToDlq_caught [OF E this] True row show ?thesis by (auto simp: final)
  next
    case fresh: False
    show ?thesis
    proof (cases "o_status r \<in> {QUEUED, SAVED}")
      case True
      then have "validate (o_status r) FAILED False = Inr ()" by (auto simp: validate_ok)
      from transition_taken [OF E _ keys row refl this, of "jp_orderId p" CallFailed m None
          "Some (err_message err)"]
      obtain t r' where t: "fail_order E p err m s = (Inr (), t)" "row_with_id i (w_db t) = Some r'"
        "o_status r' = FAILED" "w_dlq t = w_dlq s"
        using True by (auto simp: fail fail_params_def)
      from moveToDlq_caught [OF E t(1)] t True show ?thesis by (auto simp: final)
    next
      case False
      let ?e = "projl (validate (o_status r) FAILED False)"
      have v: "validate (o_status r) FAILED False = Inl ?e"
        "err_class ?e = (if o_status r = SENT_TO_POS then InvalidStateTransitionError else TypeError)"
        using fresh False by (cases "o_status r"; simp add: validate_def entity_simps)+
      then have "fail_order E p err m s = (Inl ?e, s)"
        using fresh by (simp add: fail fail_params_def step_params_def on_db_def env_quietD(4) [OF E]
            transitionStatus_invalid)
      moreover have "\<not> instanceof ?e StaleOrderVersionError" using v(2) by (simp add: instanceof_def)
      ultimately have "moveToDlq E p err m s = (Inl ?e, s)" by (rule moveToDlq_thrown)
      with v(2) fresh False show ?thesis by (auto simp: final)
    qed
  qed
qed

definition cooking_db :: database where
  "cooking_db = queued_db\<lparr>t_orders := [sample_row\<lparr>o_status := COOKING\<rparr>]\<rparr>"

lemma cooking_row: "row_with_id ''o1'' cooking_db = Some (sample_row\<lparr>o_status := COOKING\<rparr>)" "keys_ok cooking_db"
  using queued_inv by (simp_all add: cooking_db_def row_with_id_def keys_ok_def db_inv_def)

theorem final_failure_filed_witness:
  "(\<exists>t s'. handleFailure (sample_env 20 dead_http) sample_payload (menuNotFoundError ''m9'')
      (sample_meta 1) (sample_start\<lparr>w_db := queued_db\<rparr>) = (Inr (), s') \<and>
    filed (sample_env 20 dead_http) sample_payload (menuNotFoundError ''m9'') (sample_meta 1) ''o1'' t s') \<and>
   (\<exists>e. handleFailure (sample_env 20 dead_http) sample_payload (menuNotFoundError ''m9'')
      (sample_meta 1) (sample_start\<lparr>w_db := cooking_db\<rparr>) = (Inl e, sample_start\<lparr>w_db := cooking_db\<rparr>) \<and>
    err_class e = TypeError)"
proof
  note filed = final_failure_filed [of "sample_env 20 dead_http" sample_payload "''o1''" _ _
    "menuNotFoundError ''m9''" "sample_meta 1"]
  from filed [of "sample_start\<lparr>w_db := queued_db\<rparr>" sample_row] queued_inv
  show "\<exists>t s'. handleFailure (sample_env 20 dead_http) sample_payload (menuNotFoundError ''m9'')
      (sample_meta 1) (sample_start\<lparr>w_db := queued_db\<rparr>) = (Inr (), s') \<and>
    filed (sample_env 20 dead_http) sample_payload (menuNotFoundError ''m9'') (sample_meta 1) ''o1'' t s'"
    by (simp add: db_inv_def instanceof_def entity_simps) blast
  from filed [of "sample_start\<lparr>w_db := cooking_db\<rparr>" "sample_row\<lparr>o_status := COOKING\<rparr>"] cooking_row
  show "\<exists>e. handleFailure (sample_env 20 dead_http) sample_payload (menuNotFoundError ''m9'')
      (sample_meta 1) (sample_start\<lparr>w_db := cooking_db\<rparr>) = (Inl e, sample_start\<lparr>w_db := cooking_db\<rparr>) \<and>
    err_class e = TypeError"
    by (simp add: instanceof_def entity_simps)
qed

end
