(* ===== verification/Idempotency.thy ===== *)
theory Idempotency
  imports Redis_Store Order_Domain
begin

text \<open>
  IdempotencyService (src/order/infrastructure/idempotency/idempotency.service.ts), over any
  Redis that obeys the laws. A value under a key is either the order id that tryAcquire
  writes or the JSON text of a response; JSON.parse gives the response back and throws a
  SyntaxError on the text of a UUID.
\<close>

datatype 'r idem_value = PendingText string | ResponseJson 'r

definition pendingKey :: "string \<Rightarrow> string" where
  "pendingKey key = ''idempotency:'' @ key"

definition responseKey :: "string \<Rightarrow> string" where
  "responseKey key = ''idempotency:'' @ key @ '':response''"

definition tryAcquire ::
  "('r idem_value, 's) redis_cmds \<Rightarrow> nat \<Rightarrow> time \<Rightarrow> string \<Rightarrow> string \<Rightarrow> 's \<Rightarrow> bool \<times> 's" where
  "tryAcquire R ttl now key orderId s =
     r_setnx R now ttl (pendingKey key) (PendingText orderId) s"

definition idem_release :: "('r idem_value, 's) redis_cmds \<Rightarrow> string \<Rightarrow> 's \<Rightarrow> 's" where
  "idem_release R key s = r_del R (pendingKey key) s"

definition setCompleted ::
  "('r idem_value, 's) redis_cmds \<Rightarrow> nat \<Rightarrow> time \<Rightarrow> string \<Rightarrow> 'r \<Rightarrow> 's \<Rightarrow> 's" where
  "setCompleted R ttl now key response s =
     r_set R now ttl (responseKey key) (ResponseJson response) s"

fun json_parse :: "'r idem_value \<Rightarrow> error + 'r" where
  "json_parse (ResponseJson r) = Inr r"
| "json_parse (PendingText t) = Inl (mk_error SyntaxError (TextMsg t))"

definition getCachedResponse ::
  "('r idem_value, 's) redis_cmds \<Rightarrow> time \<Rightarrow> string \<Rightarrow> 's \<Rightarrow> error + 'r option" where
  "getCachedResponse R now key s =
     (case r_get R now (responseKey key) s of
        None \<Rightarrow> Inr None
      | Some raw \<Rightarrow> (case json_parse raw of Inl e \<Rightarrow> Inl e | Inr r \<Rightarrow> Inr (Some r)))"

definition isPending :: "('r idem_value, 's) redis_cmds \<Rightarrow> time \<Rightarrow> string \<Rightarrow> 's \<Rightarrow> bool" where
  "isPending R now key s = (r_get R now (pendingKey key) s \<noteq> None)"

text \<open>
  Requests with one key, in the order in which Redis executes their SET NX: the instant and
  the fresh order id of each.
\<close>

fun admit ::
  "('r idem_value, 's) redis_cmds \<Rightarrow> nat \<Rightarrow> string \<Rightarrow> (time \<times> string) list \<Rightarrow> 's \<Rightarrow> bool list \<times> 's"
where
  "admit R ttl key [] s = ([], s)"
| "admit R ttl key ((now, oid) # reqs) s =
     (let (isNew, s') = tryAcquire R ttl now key oid s;
          (bs, s'') = admit R ttl key reqs s'
      in (isNew # bs, s''))"

section \<open>Keys\<close>

lemma pendingKey_inject [simp]: "pendingKey a = pendingKey b \<longleftrightarrow> a = b"
  by (simp add: pendingKey_def)

lemma responseKey_inject [simp]: "responseKey a = responseKey b \<longleftrightarrow> a = b"
  by (simp add: responseKey_def)

lemma responseKey_pendingKey: "responseKey a = pendingKey b \<longleftrightarrow> b = a @ '':response''"
  by (auto simp: responseKey_def pendingKey_def)

lemma pendingKey_responseKey: "pendingKey b = responseKey a \<longleftrightarrow> b = a @ '':response''"
  by (auto simp: responseKey_def pendingKey_def)

lemmas key_simps = responseKey_pendingKey pendingKey_responseKey

section \<open>Lemmas over any lawful Redis\<close>

locale idempotency_redis = redis R for R :: "('r idem_value, 's) redis_cmds"
begin

lemma tryAcquire_iff: "fst (tryAcquire R ttl now key oid s) \<longleftrightarrow> \<not> isPending R now key s"
  by (simp add: tryAcquire_def isPending_def setnx_iff)

lemma tryAcquire_pending:
  assumes "fst (tryAcquire R ttl now key oid s)" and "now \<le> t"
  shows "isPending R t key (snd (tryAcquire R ttl now key oid s)) \<longleftrightarrow> t < expires_at now ttl"
  using assms
  by (simp add: tryAcquire_def isPending_def setnx_iff setnx_state get_set_same)

lemma tryAcquire_fail_state: "isPending R now key s \<Longrightarrow> tryAcquire R ttl now key oid s = (False, s)"
  by (auto simp: tryAcquire_def isPending_def setnx_taken)

lemma isPending_earlier: "isPending R u key s \<Longrightarrow> t \<le> u \<Longrightarrow> isPending R t key s"
  by (auto simp: isPending_def dest: get_earlier)

lemma release_free: "\<not> isPending R t key (idem_release R key s)"
  by (simp add: isPending_def idem_release_def get_del_same)

lemma release_other: "a \<noteq> b \<Longrightarrow> isPending R t a (idem_release R b s) = isPending R t a s"
  by (simp add: isPending_def idem_release_def get_del_other)

lemma cached_after_completed:
  "now \<le> t \<Longrightarrow> getCachedResponse R t key (setCompleted R ttl now key r s) =
     Inr (if t < expires_at now ttl then Some r else None)"
  by (simp add: getCachedResponse_def setCompleted_def get_set_same)

lemma cached_frame_tryAcquire:
  "b \<noteq> a @ '':response'' \<Longrightarrow>
     getCachedResponse R t a (snd (tryAcquire R ttl now b oid s)) = getCachedResponse R t a s"
  by (simp add: getCachedResponse_def tryAcquire_def setnx_other key_simps)

lemma cached_frame_release:
  "b \<noteq> a @ '':response'' \<Longrightarrow>
     getCachedResponse R t a (idem_release R b s) = getCachedResponse R t a s"
  by (simp add: getCachedResponse_def idem_release_def get_del_other key_simps)

lemma pending_frame_completed:
  "b \<noteq> a @ '':response'' \<Longrightarrow>
     isPending R t b (setCompleted R ttl now a r s) = isPending R t b s"
  by (simp add: isPending_def setCompleted_def get_set_other key_simps)

lemma admit_all_rejected:
  assumes "\<forall>(t, oid) \<in> set reqs. isPending R t key s"
  shows "admit R ttl key reqs s = (replicate (length reqs) False, s)"
  using assms
proof (induction reqs)
  case (Cons q reqs)
  obtain t oid where q: "q = (t, oid)" by force
  with Cons.prems have "isPending R t key s" by simp
  then show ?case
    using Cons q by (simp add: tryAcquire_fail_state)
qed simp

lemma admit_one:
  assumes "\<not> isPending R t0 key s"
    and "\<forall>(t, oid) \<in> set reqs. t0 \<le> t \<and> t < expires_at t0 ttl"
  shows "fst (admit R ttl key ((t0, o0) # reqs) s) = True # replicate (length reqs) False"
proof -
  let ?s = "snd (tryAcquire R ttl t0 key o0 s)"
  have won: "fst (tryAcquire R ttl t0 key o0 s)" using assms(1) by (simp add: tryAcquire_iff)
  have "\<forall>(t, oid) \<in> set reqs. isPending R t key ?s"
    using assms(2) tryAcquire_pending [OF won] by auto
  then have "admit R ttl key reqs ?s = (replicate (length reqs) False, ?s)"
    by (rule admit_all_rejected)
  with won show ?thesis by (simp add: case_prod_beta)
qed

lemma poisoned_response:
  assumes "fst (tryAcquire R ttl now (key @ '':response'') oid s)"
    and "now \<le> t" and "t < expires_at now ttl"
  shows "getCachedResponse R t key (snd (tryAcquire R ttl now (key @ '':response'') oid s)) =
    Inl (mk_error SyntaxError (TextMsg oid))"
proof -
  have k: "pendingKey (key @ '':response'') = responseKey key"
    by (simp add: pendingKey_def responseKey_def)
  from assms(1) have "r_get R now (responseKey key) s = None"
    by (simp add: tryAcquire_def setnx_iff k)
  with assms(2,3) show ?thesis
    by (simp add: getCachedResponse_def tryAcquire_def k setnx_free get_set_same)
qed

end

interpretation idem: idempotency_redis kv_cmds
  by unfold_locales

section \<open>Properties\<close>

text \<open>C18: of any number of requests with one fresh idempotency key that Redis executes within
  the key's time to live, as long as none of them releases the key in between, the first is
  admitted and all others are turned away.\<close>

theorem idempotency_admits_exactly_one:
  assumes "\<not> isPending kv_cmds t0 key s"
    and "\<forall>(t, oid) \<in> set reqs. t0 \<le> t \<and> t < expires_at t0 ttl"
  shows "fst (admit kv_cmds ttl key ((t0, o0) # reqs) s) = True # replicate (length reqs) False"
  using assms by (rule idem.admit_one)

theorem idempotency_admits_exactly_one_witness:
  "fst (admit kv_cmds 86400 ''k'' [(5, ''o1''), (6, ''o2''), (9, ''o3'')]
     (Map.empty :: unit idem_value kv)) = [True, False, False]"
proof -
  have "\<not> isPending kv_cmds 5 ''k'' (Map.empty :: unit idem_value kv)"
    by (simp add: isPending_def kv_get_def)
  from idempotency_admits_exactly_one
    [OF this, of "[(6, ''o2''), (9, ''o3'')]" 86400 "''o1''"]
  show ?thesis by (simp add: expires_at_def numeral_2_eq_2)
qed

text \<open>A client that uses the key k:response as its own idempotency key writes its order id
  where the cached response of k is kept, so a replay of k fails to parse it: the two key
  spaces of the service are not disjoint.\<close>

theorem idempotency_key_collision:
  assumes "fst (tryAcquire kv_cmds ttl now (key @ '':response'') oid s)"
    and "now \<le> t" and "t < expires_at now ttl"
  shows "getCachedResponse kv_cmds t key
      (snd (tryAcquire kv_cmds ttl now (key @ '':response'') oid s)) =
    Inl (mk_error SyntaxError (TextMsg oid))"
  using assms by (rule idem.poisoned_response)

theorem idempotency_key_collision_witness:
  "getCachedResponse kv_cmds 7 ''k''
     (snd (tryAcquire kv_cmds 60 5 ''k:response'' ''11111111'' (Map.empty :: unit idem_value kv))) =
   Inl (mk_error SyntaxError (TextMsg ''11111111''))"
  using idempotency_key_collision
    [of 60 5 "''k''" "''11111111''" "Map.empty :: unit idem_value kv" 7]
  by (simp add: tryAcquire_def kv_defs)

text \<open>Apart from that one key, requests with other keys neither hide nor change the cached
  response of a key, and a cached response is returned until its time to live is over.\<close>

theorem idempotency_replay_stable:
  assumes "b \<noteq> a @ '':response''" and "now \<le> t"
  shows "getCachedResponse kv_cmds t a
      (idem_release kv_cmds b (snd (tryAcquire kv_cmds ttl u b oid
        (setCompleted kv_cmds ttl now a r s)))) =
    Inr (if t < expires_at now ttl then Some r else None)"
  using assms
  by (simp add: idem.cached_frame_release idem.cached_frame_tryAcquire
      idem.cached_after_completed)

theorem idempotency_replay_stable_witness:
  "getCachedResponse kv_cmds 9 ''a''
      (idem_release kv_cmds ''b'' (snd (tryAcquire kv_cmds 60 6 ''b'' ''o''
        (setCompleted kv_cmds 60 5 ''a'' True Map.empty)))) = Inr (Some True)"
  using idempotency_replay_stable [of "''b''" "''a''" 5 9 60 6 "''o''" True Map.empty]
  by (simp add: expires_at_def)

end
