(* ===== verification/Order_Gateway.thy ===== *)
theory Order_Gateway
  imports Order_Domain
begin

text \<open>
  OrderGateway (src/order/infrastructure/socket/order.gateway.ts): the rooms that clients are
  in and what has been sent to each client, in order.
\<close>

record gateway_state =
  gw_rooms :: "(string \<times> string) list" \<comment> \<open>room and client\<close>
  gw_sent :: "(string \<times> string \<times> json) list" \<comment> \<open>client, event and payload\<close>

fun status_name :: "order_status \<Rightarrow> string" where
  "status_name QUEUED = ''QUEUED''"
| "status_name SAVED = ''SAVED''"
| "status_name SENT_TO_POS = ''SENT_TO_POS''"
| "status_name COMPLETED = ''COMPLETED''"
| "status_name FAILED = ''FAILED''"
| "status_name ACCEPTED = ''ACCEPTED''"
| "status_name COOKING = ''COOKING''"
| "status_name DONE = ''DONE''"
| "status_name CANCELLED = ''CANCELLED''"

definition store_room :: "string \<Rightarrow> string" where
  "store_room storeId = ''store:'' @ storeId"

definition joinStoreRoom :: "string \<Rightarrow> string option \<Rightarrow> gateway_state \<Rightarrow> gateway_state" where
  "joinStoreRoom client storeId g =
     (case storeId of
        None \<Rightarrow> g
      | Some i \<Rightarrow>
          if i = [] then g
          else g\<lparr>gw_rooms := List.insert (store_room i, client) (gw_rooms g),
                 gw_sent := gw_sent g @ [(client, ''pos_ok'', JObj [(''storeId'', JStr i)])]\<rparr>)"

text \<open>The body of a message may be missing: data?.storeId.\<close>

definition handleJoinStore :: "string option option \<Rightarrow> string \<Rightarrow> gateway_state \<Rightarrow> gateway_state" where
  "handleJoinStore data client g =
     joinStoreRoom client (case data of None \<Rightarrow> None | Some storeId \<Rightarrow> storeId) g"

definition handlePosHello :: "string option option \<Rightarrow> string \<Rightarrow> gateway_state \<Rightarrow> gateway_state" where
  "handlePosHello data client g =
     joinStoreRoom client (case data of None \<Rightarrow> None | Some storeId \<Rightarrow> storeId) g"

text \<open>On a disconnect socket.io takes the client out of all rooms.\<close>

definition handleDisconnect :: "string \<Rightarrow> gateway_state \<Rightarrow> gateway_state" where
  "handleDisconnect client g = g\<lparr>gw_rooms := filter (\<lambda>x. snd x \<noteq> client) (gw_rooms g)\<rparr>"

definition emit_to_room :: "string \<Rightarrow> string \<Rightarrow> json \<Rightarrow> gateway_state \<Rightarrow> gateway_state" where
  "emit_to_room room event payload g =
     g\<lparr>gw_sent := gw_sent g @
       map (\<lambda>x. (snd x, event, payload)) (filter (\<lambda>x. fst x = room) (gw_rooms g))\<rparr>"

definition emitNewOrder :: "string \<Rightarrow> json \<Rightarrow> gateway_state \<Rightarrow> gateway_state" where
  "emitNewOrder storeId order = emit_to_room (store_room storeId) ''new_order'' order"

definition emitOrderUpdated :: "string \<Rightarrow> json \<Rightarrow> gateway_state \<Rightarrow> gateway_state" where
  "emitOrderUpdated storeId order = emit_to_room (store_room storeId) ''order_updated'' order"

definition emitOrderCancelled :: "string \<Rightarrow> json \<Rightarrow> gateway_state \<Rightarrow> gateway_state" where
  "emitOrderCancelled storeId payload = emit_to_room (store_room storeId) ''order_cancelled'' payload"

definition emptyGateway :: gateway_state where
  "emptyGateway = \<lparr>gw_rooms = [], gw_sent = []\<rparr>"

section \<open>Lemmas\<close>

lemma store_room_inject [simp]: "store_room a = store_room b \<longleftrightarrow> a = b"
  by (simp add: store_room_def)

lemma emit_rooms [simp]: "gw_rooms (emit_to_room r ev p g) = gw_rooms g"
  by (simp add: emit_to_room_def)

definition in_room :: "string \<Rightarrow> string \<Rightarrow> gateway_state \<Rightarrow> bool" where
  "in_room storeId client g \<longleftrightarrow> (store_room storeId, client) \<in> set (gw_rooms g)"

text \<open>Messages that a client receives.\<close>

definition received :: "string \<Rightarrow> gateway_state \<Rightarrow> (string \<times> json) list" where
  "received client g = map snd (filter (\<lambda>m. fst m = client) (gw_sent g))"

lemma filter_room_client:
  "distinct rs \<Longrightarrow>
     length (filter (\<lambda>x. snd x = client) (filter (\<lambda>x. fst x = room) rs)) =
       (if (room, client) \<in> set rs then 1 else 0)"
  by (induction rs) (auto simp: filter_empty_conv)

lemma emit_received:
  assumes "distinct (gw_rooms g)"
  shows "received client (emit_to_room (store_room storeId) ev p g) =
    received client g @ (if in_room storeId client g then [(ev, p)] else [])"
proof -
  let ?xs = "filter (\<lambda>x. snd x = client) (filter (\<lambda>x. fst x = store_room storeId) (gw_rooms g))"
  have "map snd (filter (\<lambda>m. fst m = client) (map (\<lambda>x. (snd x, ev, p))
      (filter (\<lambda>x. fst x = store_room storeId) (gw_rooms g)))) = map (\<lambda>x. (ev, p)) ?xs"
    by (simp add: filter_map o_def)
  also have "\<dots> = replicate (length ?xs) (ev, p)" by (simp add: map_replicate_const)
  finally show ?thesis
    using filter_room_client [OF assms, of client "store_room storeId"]
    by (simp add: received_def emit_to_room_def in_room_def)
qed

section \<open>Gateways that the operations can produce\<close>

datatype gw_op =
    Join_op "string option option" string
  | Hello_op "string option option" string
  | Leave_op string
  | New_op string json
  | Updated_op string json
  | Cancelled_op string json

fun gw_apply :: "gw_op \<Rightarrow> gateway_state \<Rightarrow> gateway_state" where
  "gw_apply (Join_op d c) = handleJoinStore d c"
| "gw_apply (Hello_op d c) = handlePosHello d c"
| "gw_apply (Leave_op c) = handleDisconnect c"
| "gw_apply (New_op i p) = emitNewOrder i p"
| "gw_apply (Updated_op i p) = emitOrderUpdated i p"
| "gw_apply (Cancelled_op i p) = emitOrderCancelled i p"

definition gw_run :: "gw_op list \<Rightarrow> gateway_state" where
  "gw_run ops = fold gw_apply ops emptyGateway"

lemma gw_apply_distinct: "distinct (gw_rooms g) \<Longrightarrow> distinct (gw_rooms (gw_apply x g))"
  by (cases x) (auto simp: handleJoinStore_def handlePosHello_def joinStoreRoom_def
      handleDisconnect_def emitNewOrder_def emitOrderUpdated_def emitOrderCancelled_def
      split: option.splits)

lemma gw_run_distinct: "distinct (gw_rooms (gw_run ops))"
proof -
  have "distinct (gw_rooms g) \<Longrightarrow> distinct (gw_rooms (fold gw_apply ops g))" for g
    by (induction ops arbitrary: g) (simp_all add: gw_apply_distinct)
  then show ?thesis by (simp add: gw_run_def emptyGateway_def)
qed

text \<open>The stores a client is joined to, by the operations alone.\<close>

fun joined :: "string \<Rightarrow> gw_op list \<Rightarrow> string set" where
  "joined c [] = {}"
| "joined c (x # ops) =
     (case x of
        Join_op (Some (Some i)) d \<Rightarrow> if d = c \<and> i \<noteq> [] then insert i (joined c ops) else joined c ops
      | Hello_op (Some (Some i)) d \<Rightarrow> if d = c \<and> i \<noteq> [] then insert i (joined c ops) else joined c ops
      | Leave_op d \<Rightarrow> if d = c then {} else joined c ops
      | _ \<Rightarrow> joined c ops)"

text \<open>joined reads the latest operation first.\<close>

lemma joinStoreRoom_room:
  "in_room i c (joinStoreRoom d st g) \<longleftrightarrow> (d = c \<and> st = Some i \<and> i \<noteq> []) \<or> in_room i c g"
  by (auto simp: joinStoreRoom_def in_room_def split: option.splits)

lemma in_room_emit: "in_room i c (emit_to_room r ev p g) = in_room i c g"
  by (simp add: in_room_def)

lemma in_room_disconnect: "in_room i c (handleDisconnect d g) \<longleftrightarrow> d \<noteq> c \<and> in_room i c g"
  by (auto simp: in_room_def handleDisconnect_def)

lemma gw_apply_room:
  "in_room i c (gw_apply x g) \<longleftrightarrow>
     (case x of
        Join_op (Some (Some j)) d \<Rightarrow> (d = c \<and> j = i \<and> i \<noteq> []) \<or> in_room i c g
      | Hello_op (Some (Some j)) d \<Rightarrow> (d = c \<and> j = i \<and> i \<noteq> []) \<or> in_room i c g
      | Leave_op d \<Rightarrow> d \<noteq> c \<and> in_room i c g
      | _ \<Rightarrow> in_room i c g)"
  by (cases x) (auto simp: handleJoinStore_def handlePosHello_def joinStoreRoom_room
      emitNewOrder_def emitOrderUpdated_def emitOrderCancelled_def
      in_room_emit in_room_disconnect split: option.splits)

lemma gw_run_room: "in_room i c (gw_run ops) \<longleftrightarrow> i \<in> joined c (rev ops)"
proof (induction ops rule: rev_induct)
  case Nil
  show ?case by (simp add: gw_run_def emptyGateway_def in_room_def)
next
  case (snoc x ops)
  have "gw_run (ops @ [x]) = gw_apply x (gw_run ops)" by (simp add: gw_run_def)
  then show ?case using snoc by (auto simp: gw_apply_room split: gw_op.splits option.splits)
qed

section \<open>Properties\<close>

text \<open>After any joins, leaves and events, a new order is sent exactly once to each client that
  joined the store's room and did not disconnect since, and to nobody else, however often the
  client joined.\<close>

theorem new_order_delivery:
  "received c (emitNewOrder storeId p (gw_run ops)) =
     received c (gw_run ops) @ (if storeId \<in> joined c (rev ops) then [(''new_order'', p)] else [])"
  by (simp add: emitNewOrder_def emit_received [OF gw_run_distinct] gw_run_room)

end
