(* ===== verification/Create_Order.thy ===== *)
theory Create_Order
  imports Idempotency Order_Repository Order_Gateway Js_Text
    "HOL-Library.List_Lexorder" "HOL-Library.Char_ord"
begin

text \<open>
  CreateOrderService (src/order/application/create-order.service.ts). The state of the API
  server is the idempotency store, the menu cache, the order queue, the database and the
  sockets; the environment of one request is its clocks, its fresh UUIDs and the faults of the
  Redis and queue commands. Decimal arithmetic is a library and a parameter of the model.
\<close>

section \<open>The decimal library\<close>

record 'd decimal_lib =
  dc_price :: "price \<Rightarrow> 'd"
  dc_zero :: 'd
  dc_times :: "'d \<Rightarrow> int \<Rightarrow> 'd"
  dc_plus :: "'d \<Rightarrow> 'd \<Rightarrow> 'd"
  dc_parse :: "string \<Rightarrow> error + 'd"
  dc_equals :: "'d \<Rightarrow> 'd \<Rightarrow> bool"
  dc_toFixed2 :: "'d \<Rightarrow> string"

text \<open>
  Documented behaviour: twenty significant digits, so amounts in hundredths below 10^20 are
  computed exactly. rep d h says that the decimal d is h hundredths.
\<close>

definition decimal_exact :: "'d decimal_lib \<Rightarrow> ('d \<Rightarrow> int \<Rightarrow> bool) \<Rightarrow> bool" where
  "decimal_exact D rep \<longleftrightarrow>
     rep (dc_zero D) 0 \<and>
     (\<forall>p. \<bar>p\<bar> < 10 ^ 20 \<longrightarrow> rep (dc_price D p) p) \<and>
     (\<forall>d h n. rep d h \<and> \<bar>h * n\<bar> < 10 ^ 20 \<longrightarrow> rep (dc_times D d n) (h * n)) \<and>
     (\<forall>d h e k. rep d h \<and> rep e k \<and> \<bar>h + k\<bar> < 10 ^ 20 \<longrightarrow> rep (dc_plus D d e) (h + k)) \<and>
     (\<forall>d h e k. rep d h \<and> rep e k \<longrightarrow> dc_equals D d e = (h = k)) \<and>
     (\<forall>s h. amount_hundredths s = Some h \<longrightarrow> (\<exists>d. dc_parse D s = Inr d \<and> rep d (int h))) \<and>
     (\<forall>d h. rep d (int h) \<longrightarrow> dc_toFixed2 D d = fixed2 h)"

section \<open>State and environment\<close>

record create_order_item =
  ci_menuId :: string
  ci_quantity :: int

record create_order_command =
  cc_idempotencyKey :: string
  cc_storeId :: string
  cc_userId :: "string option"
  cc_requestedAmount :: string
  cc_items :: "create_order_item list"

text \<open>The status of a result is always QUEUED; replayed is absent or true.\<close>

record create_result =
  cr_orderId :: string
  cr_traceId :: string
  cr_status :: order_status
  cr_replayed :: bool

record api_state =
  a_idem :: "create_result idem_value kv"
  a_cache :: "menu_view list kv"
  a_queue :: "order_job_payload bull_queue"
  a_db :: database
  a_gateway :: gateway_state

datatype api_call =
    CallTryAcquire | CallGetCached | CallCacheGet | CallCacheSet | CallPublish
  | CallSetCompleted | CallRelease

record 'd api_env =
  ae_traceId :: "string option"
  ae_uuid :: "nat \<Rightarrow> string"
  ae_time :: "api_call \<Rightarrow> time"
  ae_createdAt :: time
  ae_fault :: "api_call \<Rightarrow> error option"
  ae_ctx :: db_ctx
  ae_idemTtl :: nat
  ae_maxAttempts :: nat
  ae_baseDelay :: nat
  ae_decimal :: "'d decimal_lib"

type_synonym 'a api = "(api_state, error, 'a) comp"

text \<open>A command that fails throws before it has any effect.\<close>

definition guarded :: "'d api_env \<Rightarrow> api_call \<Rightarrow> 'a api \<Rightarrow> 'a api" where
  "guarded E c m s = (case ae_fault E c of Some e \<Rightarrow> (Inl e, s) | None \<Rightarrow> m s)"

definition api_tryAcquire :: "'d api_env \<Rightarrow> string \<Rightarrow> string \<Rightarrow> bool api" where
  "api_tryAcquire E key orderId = guarded E CallTryAcquire (\<lambda>s.
     case tryAcquire kv_cmds (ae_idemTtl E) (ae_time E CallTryAcquire) key orderId (a_idem s) of
       (isNew, store) \<Rightarrow> (Inr isNew, s\<lparr>a_idem := store\<rparr>))"

definition api_getCachedResponse :: "'d api_env \<Rightarrow> string \<Rightarrow> create_result option api" where
  "api_getCachedResponse E key = guarded E CallGetCached (\<lambda>s.
     (getCachedResponse kv_cmds (ae_time E CallGetCached) key (a_idem s), s))"

definition api_setCompleted :: "'d api_env \<Rightarrow> string \<Rightarrow> create_result \<Rightarrow> unit api" where
  "api_setCompleted E key result = guarded E CallSetCompleted (st_update (\<lambda>s. s\<lparr>a_idem :=
     setCompleted kv_cmds (ae_idemTtl E) (ae_time E CallSetCompleted) key result (a_idem s)\<rparr>))"

definition api_release :: "'d api_env \<Rightarrow> string \<Rightarrow> unit api" where
  "api_release E key = guarded E CallRelease (st_update (\<lambda>s. s\<lparr>a_idem :=
     idem_release kv_cmds key (a_idem s)\<rparr>))"

definition api_publishOrder :: "'d api_env \<Rightarrow> order_job_payload \<Rightarrow> string api" where
  "api_publishOrder E payload = guarded E CallPublish (\<lambda>s.
     case publishOrder bull_add (ae_maxAttempts E) (ae_baseDelay E) payload (a_queue s) of
       (jobId, q) \<Rightarrow> (Inr jobId, s\<lparr>a_queue := q\<rparr>))"

section \<open>Menus and amounts\<close>

definition MENU_CACHE_TTL_SECONDS :: nat where
  "MENU_CACHE_TTL_SECONDS = 300"

fun join_comma :: "string list \<Rightarrow> string" where
  "join_comma [] = []"
| "join_comma [x] = x"
| "join_comma (x # y # xs) = x @ '','' @ join_comma (y # xs)"

definition menu_cache_key :: "string \<Rightarrow> string list \<Rightarrow> string" where
  "menu_cache_key storeId menuIds = ''menu:'' @ storeId @ '':'' @ join_comma (sort menuIds)"

definition getMenusCached :: "'d api_env \<Rightarrow> string list \<Rightarrow> string \<Rightarrow> menu_view list api" where
  "getMenusCached E menuIds storeId =
     (let cacheKey = menu_cache_key storeId menuIds in
      st_bind (guarded E CallCacheGet (\<lambda>s.
        (Inr (kv_get (ae_time E CallCacheGet) cacheKey (a_cache s)), s))) (\<lambda>cached.
      case cached of
        Some menus \<Rightarrow> st_return menus
      | None \<Rightarrow>
          st_bind (\<lambda>s. (findMenusByIds (ae_ctx E) menuIds storeId (a_db s), s)) (\<lambda>menus.
          st_bind (guarded E CallCacheSet (st_update (\<lambda>s. s\<lparr>a_cache :=
            kv_set (ae_time E CallCacheSet) MENU_CACHE_TTL_SECONDS cacheKey menus (a_cache s)\<rparr>)))
            (\<lambda>_. st_return menus))))"

text \<open>new Map(entries): a later entry of the same key replaces an earlier one.\<close>

definition menu_map :: "menu_view list \<Rightarrow> string \<Rightarrow> menu_view option" where
  "menu_map menus = map_of (rev (map (\<lambda>m. (mv_id m, m)) menus))"

fun enrich_items ::
  "'d decimal_lib \<Rightarrow> (string \<Rightarrow> menu_view option) \<Rightarrow> create_order_item list \<Rightarrow> 'd \<Rightarrow>
   order_job_item list \<Rightarrow> error + 'd \<times> order_job_item list" where
  "enrich_items D menus [] calculatedTotal enriched = Inr (calculatedTotal, enriched)"
| "enrich_items D menus (item # items) calculatedTotal enriched =
     (case menus (ci_menuId item) of
        None \<Rightarrow> Inl (menuNotFoundError (ci_menuId item))
      | Some menu \<Rightarrow>
          if \<not> mv_isAvailable menu then Inl (menuUnavailableError (mv_name menu))
          else
            (let lineTotal = dc_times D (dc_price D (mv_unitPrice menu)) (ci_quantity item)
             in enrich_items D menus items (dc_plus D calculatedTotal lineTotal)
                  (enriched @ [\<lparr>ji_menuId = ci_menuId item, ji_menuName = mv_name menu,
                    ji_unitPrice = mv_unitPrice menu, ji_quantity = ci_quantity item\<rparr>])))"

definition validateAndEnrichItems ::
  "'d api_env \<Rightarrow> create_order_command \<Rightarrow> (string \<times> order_job_item list) api" where
  "validateAndEnrichItems E cmd =
     st_bind (getMenusCached E (map ci_menuId (cc_items cmd)) (cc_storeId cmd)) (\<lambda>menus.
     st_bind (st_lift (enrich_items (ae_decimal E) (menu_map menus) (cc_items cmd)
         (dc_zero (ae_decimal E)) [])) (\<lambda>(calculatedTotal, enrichedItems).
     st_bind (st_lift (dc_parse (ae_decimal E) (cc_requestedAmount cmd))) (\<lambda>requested.
       if \<not> dc_equals (ae_decimal E) calculatedTotal requested
       then st_throw (amountMismatchError (cc_requestedAmount cmd)
              (dc_toFixed2 (ae_decimal E) calculatedTotal))
       else st_return (dc_toFixed2 (ae_decimal E) calculatedTotal, enrichedItems))))"

section \<open>execute\<close>

definition item_json :: "order_job_item \<Rightarrow> json" where
  "item_json it = JObj [(''menuId'', JStr (ji_menuId it)), (''menuName'', JStr (ji_menuName it)),
     (''unitPrice'', JPrice (ji_unitPrice it)), (''quantity'', JNum (ji_quantity it))]"

definition new_order_json :: "'d api_env \<Rightarrow> order_job_payload \<Rightarrow> json" where
  "new_order_json E payload = JObj
     [(''id'', JStr (jp_orderId payload)), (''storeId'', JStr (jp_storeId payload)),
      (''status'', JStr ''QUEUED''), (''items'', JArr (map item_json (jp_items payload))),
      (''totalAmount'', JStr (jp_calculatedAmount payload)),
      (''traceId'', JStr (jp_traceId payload)),
      (''createdAt'', JStr (iso_datetime (ae_createdAt E)))]"

text \<open>uuidv4 is called for the order, and once more for each trace id that is missing.\<close>

definition trace_or_new :: "'d api_env \<Rightarrow> nat \<Rightarrow> string" where
  "trace_or_new E n = (case ae_traceId E of Some t \<Rightarrow> t | None \<Rightarrow> ae_uuid E n)"

definition accept_order :: "'d api_env \<Rightarrow> create_order_command \<Rightarrow> string \<Rightarrow> create_result api" where
  "accept_order E cmd orderId =
     st_bind (validateAndEnrichItems E cmd) (\<lambda>(calculatedAmount, enrichedItems).
       let payload =
         \<lparr>jp_orderId = orderId, jp_traceId = trace_or_new E 1, jp_storeId = cc_storeId cmd,
          jp_userId = cc_userId cmd, jp_idempotencyKey = cc_idempotencyKey cmd,
          jp_requestedAmount = cc_requestedAmount cmd, jp_calculatedAmount = calculatedAmount,
          jp_items = enrichedItems, jp_isRedrive = None, jp_redriveAt = None\<rparr>
       in
     st_bind (api_publishOrder E payload) (\<lambda>_.
     st_bind (st_update (\<lambda>s. s\<lparr>a_gateway :=
         emitNewOrder (cc_storeId cmd) (new_order_json E payload) (a_gateway s)\<rparr>)) (\<lambda>_.
       let result = \<lparr>cr_orderId = orderId, cr_traceId = trace_or_new E 2, cr_status = QUEUED,
                     cr_replayed = False\<rparr>
       in st_bind (api_setCompleted E (cc_idempotencyKey cmd) result) (\<lambda>_. st_return result))))"

definition conflictException :: error where
  "conflictException = mk_error ConflictException (TextMsg ''in progress'')"

definition serviceUnavailable :: error where
  "serviceUnavailable = mk_error ServiceUnavailableException (TextMsg ''order intake failed'')"

definition execute :: "'d api_env \<Rightarrow> create_order_command \<Rightarrow> create_result api" where
  "execute E cmd =
     (let orderId = ae_uuid E 0; key = cc_idempotencyKey cmd in
      st_bind (api_tryAcquire E key orderId) (\<lambda>isNew.
        if \<not> isNew then
          st_bind (api_getCachedResponse E key) (\<lambda>cached.
            case cached of
              Some r \<Rightarrow> st_return (r\<lparr>cr_replayed := True\<rparr>)
            | None \<Rightarrow> st_throw conflictException)
        else
          st_catch (accept_order E cmd orderId) (\<lambda>err.
            st_bind (api_release E key) (\<lambda>_.
              if instanceof err AmountMismatchError \<or> instanceof err MenuNotFoundError \<or>
                 instanceof err MenuUnavailableError
              then st_throw (mk_error UnprocessableEntityException (err_message err))
              else st_throw serviceUnavailable))))"

end
