(* ===== verification/Intake_Properties.thy ===== *)
theory Intake_Properties
  imports Create_Order Samples
begin

text \<open>
  The intake of orders: the amount check against the menu's prices, what an accepted and a
  rejected request leave behind, and replays.
\<close>

section \<open>Amounts\<close>

definition orderable :: "(string \<Rightarrow> menu_view option) \<Rightarrow> create_order_item list \<Rightarrow> bool" where
  "orderable menus items \<longleftrightarrow>
     (\<forall>it \<in> set items. \<exists>m. menus (ci_menuId it) = Some m \<and> mv_isAvailable m)"

definition menu_price :: "(string \<Rightarrow> menu_view option) \<Rightarrow> create_order_item \<Rightarrow> price" where
  "menu_price menus it = (case menus (ci_menuId it) of None \<Rightarrow> 0 | Some m \<Rightarrow> mv_unitPrice m)"

definition order_total :: "(string \<Rightarrow> menu_view option) \<Rightarrow> create_order_item list \<Rightarrow> int" where
  "order_total menus items = sum_list (map (\<lambda>it. menu_price menus it * ci_quantity it) items)"

definition job_items :: "(string \<Rightarrow> menu_view option) \<Rightarrow> create_order_item list \<Rightarrow> order_job_item list" where
  "job_items menus items = map (\<lambda>it. \<lparr>ji_menuId = ci_menuId it,
     ji_menuName = (case menus (ci_menuId it) of None \<Rightarrow> [] | Some m \<Rightarrow> mv_name m),
     ji_unitPrice = menu_price menus it, ji_quantity = ci_quantity it\<rparr>) items"

text \<open>Prices as the column holds them, quantities as the request validation lets them through.\<close>

definition sane_items :: "(string \<Rightarrow> menu_view option) \<Rightarrow> create_order_item list \<Rightarrow> bool" where
  "sane_items menus items \<longleftrightarrow> (\<forall>it \<in> set items. 0 \<le> menu_price menus it \<and> 1 \<le> ci_quantity it) \<and>
     order_total menus items < 10 ^ 20"

lemma order_total_nonneg:
  "\<forall>it \<in> set items. 0 \<le> menu_price menus it \<and> 1 \<le> ci_quantity it \<Longrightarrow> 0 \<le> order_total menus items"
  by (induction items) (simp_all add: order_total_def)

lemma decimal_exactD:
  assumes "decimal_exact D rep"
  shows "rep (dc_zero D) 0" "\<bar>p\<bar> < 10 ^ 20 \<Longrightarrow> rep (dc_price D p) p"
    "rep d h \<Longrightarrow> \<bar>h * n\<bar> < 10 ^ 20 \<Longrightarrow> rep (dc_times D d n) (h * n)"
    "rep d h \<Longrightarrow> rep e k \<Longrightarrow> \<bar>h + k\<bar> < 10 ^ 20 \<Longrightarrow> rep (dc_plus D d e) (h + k)"
    "rep d h \<Longrightarrow> rep e k \<Longrightarrow> dc_equals D d e = (h = k)"
    "amount_hundredths s = Some a \<Longrightarrow> \<exists>d. dc_parse D s = Inr d \<and> rep d (int a)"
    "rep d (int a) \<Longrightarrow> dc_toFixed2 D d = fixed2 a"
  using assms by (simp_all add: decimal_exact_def)

lemma price_le_line: "0 \<le> (p :: int) \<Longrightarrow> 1 \<le> n \<Longrightarrow> p \<le> p * n"
  using mult_left_mono [of 1 n p] by simp

lemma enrich_items_ok:
  assumes D: "decimal_exact D rep"
  shows "orderable menus items \<Longrightarrow>
    \<forall>it \<in> set items. 0 \<le> menu_price menus it \<and> 1 \<le> ci_quantity it \<Longrightarrow>
    rep acc h \<Longrightarrow> 0 \<le> h \<Longrightarrow> h + order_total menus items < 10 ^ 20 \<Longrightarrow>
    \<exists>d. enrich_items D menus items acc pre = Inr (d, pre @ job_items menus items) \<and>
      rep d (h + order_total menus items)"
proof (induction items arbitrary: acc h pre)
  case Nil
  then show ?case by (simp add: job_items_def order_total_def)
next
  case (Cons it items)
  from Cons.prems(1) obtain m where m: "menus (ci_menuId it) = Some m" "mv_isAvailable m"
    by (auto simp: orderable_def)
  let ?p = "mv_unitPrice m" and ?q = "ci_quantity it"
  have price: "menu_price menus it = ?p" by (simp add: menu_price_def m)
  from Cons.prems(2) have rest: "\<forall>it \<in> set items. 0 \<le> menu_price menus it \<and> 1 \<le> ci_quantity it"
    and pq: "0 \<le> ?p" "1 \<le> ?q" by (simp_all add: price [symmetric])
  have tot: "order_total menus (it # items) = ?p * ?q + order_total menus items"
    by (simp add: order_total_def price)
  have nn: "0 \<le> order_total menus items" using rest by (rule order_total_nonneg)
  have line: "0 \<le> ?p * ?q" "?p \<le> ?p * ?q" using pq by (simp_all add: price_le_line)
  have small: "\<bar>?p\<bar> < 10 ^ 20" "\<bar>?p * ?q\<bar> < 10 ^ 20" "\<bar>h + ?p * ?q\<bar> < 10 ^ 20"
    using Cons.prems(4,5) tot nn line pq by linarith+
  have "rep (dc_times D (dc_price D ?p) ?q) (?p * ?q)"
    by (rule decimal_exactD(3) [OF D decimal_exactD(2) [OF D small(1)] small(2)])
  then have acc: "rep (dc_plus D acc (dc_times D (dc_price D ?p) ?q)) (h + ?p * ?q)"
    using small(3) by (rule decimal_exactD(4) [OF D Cons.prems(3)])
  have "orderable menus items" using Cons.prems(1) by (simp add: orderable_def)
  from Cons.IH [OF this rest acc, of "pre @ [\<lparr>ji_menuId = ci_menuId it, ji_menuName = mv_name m,
      ji_unitPrice = ?p, ji_quantity = ?q\<rparr>]"]
  show ?case
    using Cons.prems(4,5) tot line m
    by (simp add: Let_def job_items_def price add.assoc)
qed

text \<open>The first item that has no available menu decides the error.\<close>

lemma enrich_items_error:
  "\<not> orderable menus items \<Longrightarrow>
     \<exists>e. enrich_items D menus items acc pre = Inl e \<and>
       err_class e \<in> {MenuNotFoundError, MenuUnavailableError}"
proof (induction items arbitrary: acc pre)
  case (Cons it items)
  show ?case
  proof (cases "\<exists>m. menus (ci_menuId it) = Some m \<and> mv_isAvailable m")
    case True
    with Cons.prems have "\<not> orderable menus items" by (auto simp: orderable_def)
    from Cons.IH [OF this] True show ?thesis by (auto simp: Let_def)
  next
    case False
    then show ?thesis by (cases "menus (ci_menuId it)") (auto simp: entity_simps)
  qed
qed (simp add: orderable_def)

section \<open>The parts of a request\<close>

definition no_faults :: "'d api_env \<Rightarrow> bool" where
  "no_faults E \<longleftrightarrow> (\<forall>c. ae_fault E c = None)"

lemma guarded_ok: "no_faults E \<Longrightarrow> guarded E c m = m"
  by (simp add: guarded_def no_faults_def fun_eq_iff)

text \<open>The menus that a request is checked against: the cache's, or else the database's.\<close>

definition menus_seen :: "'d api_env \<Rightarrow> create_order_command \<Rightarrow> api_state \<Rightarrow> error + menu_view list" where
  "menus_seen E cmd s = fst (getMenusCached E (map ci_menuId (cc_items cmd)) (cc_storeId cmd) s)"

lemma getMenusCached_frame:
  "a_idem (snd (getMenusCached E ids st s)) = a_idem s \<and>
   a_queue (snd (getMenusCached E ids st s)) = a_queue s \<and>
   a_db (snd (getMenusCached E ids st s)) = a_db s \<and>
   a_gateway (snd (getMenusCached E ids st s)) = a_gateway s"
  by (simp add: getMenusCached_def Let_def st_bind_def guarded_def
      split: option.splits sum.splits prod.splits)

lemma validate_frame:
  "a_idem (snd (validateAndEnrichItems E cmd s)) = a_idem s \<and>
   a_queue (snd (validateAndEnrichItems E cmd s)) = a_queue s \<and>
   a_db (snd (validateAndEnrichItems E cmd s)) = a_db s \<and>
   a_gateway (snd (validateAndEnrichItems E cmd s)) = a_gateway s"
proof -
  let ?P = "\<lambda>t. a_idem t = a_idem s \<and> a_queue t = a_queue s \<and> a_db t = a_db s \<and> a_gateway t = a_gateway s"
  have "keeps ?P (validateAndEnrichItems E cmd)"
    unfolding validateAndEnrichItems_def case_prod_beta
    by (intro keeps_intros keepsI) (simp_all add: getMenusCached_frame)
  then show ?thesis by (auto dest: keepsD)
qed

lemma validate_menus:
  "validateAndEnrichItems E cmd s =
     (case menus_seen E cmd s of
        Inl e \<Rightarrow> (Inl e, snd (validateAndEnrichItems E cmd s))
      | Inr menus \<Rightarrow>
          (bind_res (enrich_items (ae_decimal E) (menu_map menus) (cc_items cmd)
             (dc_zero (ae_decimal E)) []) (\<lambda>(total, items).
           bind_res (dc_parse (ae_decimal E) (cc_requestedAmount cmd)) (\<lambda>requested.
             if \<not> dc_equals (ae_decimal E) total requested
             then Inl (amountMismatchError (cc_requestedAmount cmd) (dc_toFixed2 (ae_decimal E) total))
             else Inr (dc_toFixed2 (ae_decimal E) total, items))),
           snd (validateAndEnrichItems E cmd s)))"
  by (cases "getMenusCached E (map ci_menuId (cc_items cmd)) (cc_storeId cmd) s")
    (auto simp: validateAndEnrichItems_def menus_seen_def st_bind_def bind_res_def prod_eq_iff
      split: sum.splits prod.splits)

text \<open>The outcome of the check, against the menus' prices.\<close>

lemma validate_result:
  assumes D: "decimal_exact (ae_decimal E) rep" and m: "menus_seen E cmd s = Inr menus"
    and amount: "amount_hundredths (cc_requestedAmount cmd) = Some h"
    and ok: "orderable (menu_map menus) (cc_items cmd)" "sane_items (menu_map menus) (cc_items cmd)"
  shows "fst (validateAndEnrichItems E cmd s) =
    (let total = nat (order_total (menu_map menus) (cc_items cmd))
     in if total = h then Inr (fixed2 total, job_items (menu_map menus) (cc_items cmd))
        else Inl (amountMismatchError (cc_requestedAmount cmd) (fixed2 total)))"
proof -
  let ?t = "order_total (menu_map menus) (cc_items cmd)"
  from ok(2) have sane: "\<forall>it \<in> set (cc_items cmd). 0 \<le> menu_price (menu_map menus) it \<and> 1 \<le> ci_quantity it"
    and small: "0 + ?t < 10 ^ 20" by (simp_all add: sane_items_def)
  have nn: "0 \<le> ?t" using sane by (rule order_total_nonneg)
  from enrich_items_ok [OF D ok(1) sane decimal_exactD(1) [OF D] order.refl small, of "[]"]
  obtain d where d: "enrich_items (ae_decimal E) (menu_map menus) (cc_items cmd)
      (dc_zero (ae_decimal E)) [] = Inr (d, job_items (menu_map menus) (cc_items cmd))"
    and rep: "rep d ?t" by auto
  obtain r where r: "dc_parse (ae_decimal E) (cc_requestedAmount cmd) = Inr r" "rep r (int h)"
    using decimal_exactD(6) [OF D amount] by blast
  have eq: "dc_equals (ae_decimal E) d r = (?t = int h)" by (rule decimal_exactD(5) [OF D rep r(2)])
  have fx: "dc_toFixed2 (ae_decimal E) d = fixed2 (nat ?t)"
    using decimal_exactD(7) [OF D, of d "nat ?t"] rep nn by simp
  show ?thesis
    using nn by (subst validate_menus) (auto simp: m d r(1) eq fx Let_def)
qed

section \<open>Acceptance\<close>

definition intake_payload ::
  "'d api_env \<Rightarrow> create_order_command \<Rightarrow> string \<Rightarrow> order_job_item list \<Rightarrow> order_job_payload" where
  "intake_payload E cmd amount items =
     \<lparr>jp_orderId = ae_uuid E 0, jp_traceId = trace_or_new E 1, jp_storeId = cc_storeId cmd,
      jp_userId = cc_userId cmd, jp_idempotencyKey = cc_idempotencyKey cmd,
      jp_requestedAmount = cc_requestedAmount cmd, jp_calculatedAmount = amount,
      jp_items = items, jp_isRedrive = None, jp_redriveAt = None\<rparr>"

definition intake_result :: "'d api_env \<Rightarrow> create_result" where
  "intake_result E = \<lparr>cr_orderId = ae_uuid E 0, cr_traceId = trace_or_new E 2, cr_status = QUEUED,
     cr_replayed = False\<rparr>"

text \<open>The state after the steps that follow the check.\<close>

definition accepted_state ::
  "'d api_env \<Rightarrow> create_order_command \<Rightarrow> string \<times> order_job_item list \<Rightarrow> api_state \<Rightarrow> api_state" where
  "accepted_state E cmd x s =
     (let payload = intake_payload E cmd (fst x) (snd x) in
      s\<lparr>a_queue := snd (publishOrder bull_add (ae_maxAttempts E) (ae_baseDelay E) payload (a_queue s)),
        a_gateway := emitNewOrder (cc_storeId cmd) (new_order_json E payload) (a_gateway s),
        a_idem := setCompleted kv_cmds (ae_idemTtl E) (ae_time E CallSetCompleted)
          (cc_idempotencyKey cmd) (intake_result E) (a_idem s)\<rparr>)"

lemma accept_order_cases:
  assumes "validateAndEnrichItems E cmd s = (r, t)"
  shows "accept_order E cmd (ae_uuid E 0) s =
    (case r of
       Inl e \<Rightarrow> (Inl e, t)
     | Inr x \<Rightarrow>
         (case ae_fault E CallPublish of
            Some e \<Rightarrow> (Inl e, t)
          | None \<Rightarrow>
              (case ae_fault E CallSetCompleted of
                 Some e \<Rightarrow> (Inl e, (accepted_state E cmd x t)\<lparr>a_idem := a_idem t\<rparr>)
               | None \<Rightarrow> (Inr (intake_result E), accepted_state E cmd x t))))"
  by (cases r)
    (simp_all add: accept_order_def st_bind_def assms case_prod_beta Let_def
      api_publishOrder_def api_setCompleted_def guarded_def accepted_state_def intake_payload_def
      intake_result_def split: option.splits)

lemma accept_order_Inr:
  assumes "validateAndEnrichItems E cmd s = (v, t)"
    and "accept_order E cmd (ae_uuid E 0) s = (Inr r, s1)"
  shows "\<exists>x. s1 = accepted_state E cmd x t \<and> r = intake_result E"
  using assms(2) unfolding accept_order_cases [OF assms(1)]
  by (cases v; cases "ae_fault E CallPublish"; cases "ae_fault E CallSetCompleted") auto

lemma accepted_state_sel [simp]:
  "a_db (accepted_state E cmd x t) = a_db t"
  "a_idem (accepted_state E cmd x t) = setCompleted kv_cmds (ae_idemTtl E) (ae_time E CallSetCompleted)
     (cc_idempotencyKey cmd) (intake_result E) (a_idem t)"
  by (simp_all add: accepted_state_def Let_def)

definition acquired_state :: "'d api_env \<Rightarrow> create_order_command \<Rightarrow> api_state \<Rightarrow> api_state" where
  "acquired_state E cmd s = s\<lparr>a_idem := snd (tryAcquire kv_cmds (ae_idemTtl E)
     (ae_time E CallTryAcquire) (cc_idempotencyKey cmd) (ae_uuid E 0) (a_idem s))\<rparr>"

lemma acquired_state_sel [simp]:
  "a_queue (acquired_state E cmd s) = a_queue s" "a_db (acquired_state E cmd s) = a_db s"
  "a_gateway (acquired_state E cmd s) = a_gateway s" "a_cache (acquired_state E cmd s) = a_cache s"
  by (simp_all add: acquired_state_def)

lemma menus_seen_acquired: "menus_seen E cmd (acquired_state E cmd s) = menus_seen E cmd s"
  by (auto simp: menus_seen_def getMenusCached_def Let_def st_bind_def guarded_def acquired_state_def
      split: option.splits sum.splits prod.splits)

lemma execute_new:
  assumes "ae_fault E CallTryAcquire = None"
    and "\<not> isPending kv_cmds (ae_time E CallTryAcquire) (cc_idempotencyKey cmd) (a_idem s)"
  shows "execute E cmd s =
    st_catch (accept_order E cmd (ae_uuid E 0)) (\<lambda>err.
      st_bind (api_release E (cc_idempotencyKey cmd)) (\<lambda>_.
        if instanceof err AmountMismatchError \<or> instanceof err MenuNotFoundError \<or>
           instanceof err MenuUnavailableError
        then st_throw (mk_error UnprocessableEntityException (err_message err))
        else st_throw serviceUnavailable)) (acquired_state E cmd s)"
proof -
  have "fst (tryAcquire kv_cmds (ae_idemTtl E) (ae_time E CallTryAcquire) (cc_idempotencyKey cmd)
      (ae_uuid E 0) (a_idem s))"
    using assms(2) by (simp add: idem.tryAcquire_iff)
  then show ?thesis
    using assms(1)
    by (simp add: execute_def Let_def st_bind_def api_tryAcquire_def guarded_def case_prod_beta
        acquired_state_def)
qed

lemma execute_pending:
  assumes "no_faults E"
    and "isPending kv_cmds (ae_time E CallTryAcquire) (cc_idempotencyKey cmd) (a_idem s)"
    and "getCachedResponse kv_cmds (ae_time E CallGetCached) (cc_idempotencyKey cmd) (a_idem s) = Inr c"
  shows "execute E cmd s =
    (case c of Some r \<Rightarrow> (Inr (r\<lparr>cr_replayed := True\<rparr>), s) | None \<Rightarrow> (Inl conflictException, s))"
proof -
  have "tryAcquire kv_cmds (ae_idemTtl E) (ae_time E CallTryAcquire) (cc_idempotencyKey cmd)
      (ae_uuid E 0) (a_idem s) = (False, a_idem s)"
    using assms(2) by (rule idem.tryAcquire_fail_state)
  then show ?thesis
    using assms(1,3)
    by (simp add: execute_def Let_def st_bind_def api_tryAcquire_def api_getCachedResponse_def
        guarded_ok split: option.splits)
qed

lemma business_class:
  "instanceof e AmountMismatchError \<or> instanceof e MenuNotFoundError \<or> instanceof e MenuUnavailableError \<longleftrightarrow>
     err_class e \<in> {AmountMismatchError, MenuNotFoundError, MenuUnavailableError}"
  by (cases "err_class e") (simp_all add: instanceof_def class_extends.simps)

text \<open>What a rejected request throws, and the release of its key, which may fail itself.\<close>

lemma execute_failed:
  assumes new: "ae_fault E CallTryAcquire = None"
      "\<not> isPending kv_cmds (ae_time E CallTryAcquire) (cc_idempotencyKey cmd) (a_idem s)"
    and acc: "accept_order E cmd (ae_uuid E 0) (acquired_state E cmd s) = (Inl err, t)"
  shows "execute E cmd s =
    (case ae_fault E CallRelease of
       Some f \<Rightarrow> (Inl f, t)
     | None \<Rightarrow>
         (Inl (if err_class err \<in> {AmountMismatchError, MenuNotFoundError, MenuUnavailableError}
               then mk_error UnprocessableEntityException (err_message err) else serviceUnavailable),
          t\<lparr>a_idem := idem_release kv_cmds (cc_idempotencyKey cmd) (a_idem t)\<rparr>))"
  unfolding execute_new [OF new] business_class
  by (simp add: st_catch_def acc st_bind_def api_release_def guarded_def split: option.splits)

lemma execute_rejected:
  assumes new: "ae_fault E CallTryAcquire = None"
      "\<not> isPending kv_cmds (ae_time E CallTryAcquire) (cc_idempotencyKey cmd) (a_idem s)"
    and rel: "ae_fault E CallRelease = None"
    and acc: "accept_order E cmd (ae_uuid E 0) (acquired_state E cmd s) = (Inl err, t)"
  shows "execute E cmd s =
    (Inl (if err_class err \<in> {AmountMismatchError, MenuNotFoundError, MenuUnavailableError}
          then mk_error UnprocessableEntityException (err_message err) else serviceUnavailable),
     t\<lparr>a_idem := idem_release kv_cmds (cc_idempotencyKey cmd) (a_idem t)\<rparr>)"
  using execute_failed [OF new acc] rel by simp

lemma execute_acquire_fault: "ae_fault E CallTryAcquire = Some f \<Longrightarrow> execute E cmd s = (Inl f, s)"
  by (simp add: execute_def Let_def st_bind_def api_tryAcquire_def guarded_def)

lemma accept_order_failed_frame:
  assumes "accept_order E cmd (ae_uuid E 0) s = (Inl err, t)"
  shows "a_idem t = a_idem s" and "a_db t = a_db s"
  using assms validate_frame [of E cmd s]
    accept_order_cases [OF surjective_pairing [of "validateAndEnrichItems E cmd s"]]
  by (auto split: sum.splits option.splits)

section \<open>Samples\<close>

text \<open>A new request with the right amount: its answer, and the job it leaves.\<close>

lemma execute_accepted:
  assumes D: "decimal_exact (ae_decimal A) rep" and A: "no_faults A"
    and new: "\<not> isPending kv_cmds (ae_time A CallTryAcquire) (cc_idempotencyKey cmd) (a_idem s)"
    and menus: "menus_seen A cmd s = Inr menus" "orderable (menu_map menus) (cc_items cmd)"
      "sane_items (menu_map menus) (cc_items cmd)"
    and amount: "amount_hundredths (cc_requestedAmount cmd) =
      Some (nat (order_total (menu_map menus) (cc_items cmd)))"
  shows "fst (execute A cmd s) = Inr (intake_result A)" and "a_db (snd (execute A cmd s)) = a_db s"
    and "a_queue (snd (execute A cmd s)) = snd (publishOrder bull_add (ae_maxAttempts A) (ae_baseDelay A)
      (intake_payload A cmd (fixed2 (nat (order_total (menu_map menus) (cc_items cmd))))
        (job_items (menu_map menus) (cc_items cmd))) (a_queue s))"
proof -
  let ?s1 = "acquired_state A cmd s"
  let ?x = "(fixed2 (nat (order_total (menu_map menus) (cc_items cmd))), job_items (menu_map menus) (cc_items cmd))"
  obtain v t where v: "validateAndEnrichItems A cmd ?s1 = (v, t)" by force
  have "v = Inr ?x"
    using validate_result [OF D _ amount menus(2,3), of ?s1] menus(1) v
    by (simp add: menus_seen_acquired Let_def)
  note v = v [unfolded this]
  have f: "ae_fault A c = None" for c using A by (simp add: no_faults_def)
  have ex: "execute A cmd s = (Inr (intake_result A), accepted_state A cmd ?x t)"
    by (simp add: execute_new [OF f new] st_catch_def accept_order_cases [OF v] f)
  have t: "a_queue t = a_queue s" "a_db t = a_db s" using validate_frame [of A cmd ?s1] v by simp_all
  show "fst (execute A cmd s) = Inr (intake_result A)" "a_db (snd (execute A cmd s)) = a_db s"
    "a_queue (snd (execute A cmd s)) = snd (publishOrder bull_add (ae_maxAttempts A) (ae_baseDelay A)
      (intake_payload A cmd (fixed2 (nat (order_total (menu_map menus) (cc_items cmd))))
        (job_items (menu_map menus) (cc_items cmd))) (a_queue s))"
    by (simp_all add: ex t) (simp add: accepted_state_def Let_def t)
qed

definition sample_decimal :: "int decimal_lib" where
  "sample_decimal = \<lparr>dc_price = (\<lambda>p. p), dc_zero = 0, dc_times = (*), dc_plus = (+),
     dc_parse = (\<lambda>s. case amount_hundredths s of
       None \<Rightarrow> Inl (mk_error Error (TextMsg ''DecimalError'')) | Some h \<Rightarrow> Inr (int h)),
     dc_equals = (=), dc_toFixed2 = (\<lambda>d. fixed2 (nat d))\<rparr>"

lemma sample_decimal_exact: "decimal_exact sample_decimal (=)"
  by (simp add: decimal_exact_def sample_decimal_def)

definition sample_api_env :: "time \<Rightarrow> int api_env" where
  "sample_api_env now = \<lparr>ae_traceId = Some ''t1'', ae_uuid = (\<lambda>n. ''o1''), ae_time = (\<lambda>_. now),
     ae_createdAt = now, ae_fault = (\<lambda>_. None), ae_ctx = quiet_ctx now, ae_idemTtl = 86400,
     ae_maxAttempts = 3, ae_baseDelay = 1000, ae_decimal = sample_decimal\<rparr>"

definition sample_command :: "string \<Rightarrow> create_order_command" where
  "sample_command amount = \<lparr>cc_idempotencyKey = ''k1'', cc_storeId = ''s1'', cc_userId = None,
     cc_requestedAmount = amount, cc_items = [\<lparr>ci_menuId = ''m1'', ci_quantity = 2\<rparr>]\<rparr>"

definition sample_api :: api_state where
  "sample_api = \<lparr>a_idem = Map.empty, a_cache = Map.empty, a_queue = [], a_db = seed_db,
     a_gateway = emptyGateway\<rparr>"

lemma sample_api_env_sel [simp]:
  "ae_decimal (sample_api_env now) = sample_decimal" "ae_time (sample_api_env now) c = now"
  "no_faults (sample_api_env now)" "ae_idemTtl (sample_api_env now) = 86400"
  "ae_fault (sample_api_env now) c = None" "ae_uuid (sample_api_env now) n = ''o1''"
  by (simp_all add: sample_api_env_def no_faults_def)

lemma sample_command_sel [simp]:
  "cc_idempotencyKey (sample_command a) = ''k1''" "cc_requestedAmount (sample_command a) = a"
  "cc_items (sample_command a) = [\<lparr>ci_menuId = ''m1'', ci_quantity = 2\<rparr>]"
  by (simp_all add: sample_command_def)

definition sample_view :: menu_view where
  "sample_view = \<lparr>mv_id = ''m1'', mv_name = ''fried'', mv_unitPrice = 1800000, mv_isAvailable = True\<rparr>"

lemma sample_menus_seen: "menus_seen (sample_api_env now) (sample_command a) sample_api = Inr [sample_view]"
proof -
  have "findMenusByIds (quiet_ctx now) [''m1''] ''s1'' seed_db = Inr [sample_view]"
    by (simp add: findMenusByIds_def sql_select_def)
      (simp add: sample_menu_def menu_view_of_def sample_view_def)
  then show ?thesis
    by (simp add: menus_seen_def getMenusCached_def Let_def st_bind_def guarded_ok sample_api_def
        kv_get_def) (simp add: sample_api_env_def sample_command_def st_bind_def)
qed

lemma sample_menu_map: "menu_map [sample_view] ''m1'' = Some sample_view"
  by (simp add: menu_map_def sample_view_def)

lemma sample_sane:
  "orderable (menu_map [sample_view]) (cc_items (sample_command a))"
  "sane_items (menu_map [sample_view]) (cc_items (sample_command a))"
  by (simp_all add: orderable_def sane_items_def order_total_def menu_price_def sample_menu_map)
    (simp_all add: sample_view_def)

lemma sample_total:
  "order_total (menu_map [sample_view]) [\<lparr>ci_menuId = ''m1'', ci_quantity = 2\<rparr>] = 3600000"
  by (simp add: order_total_def menu_price_def sample_menu_map) (simp add: sample_view_def)

lemma sample_not_pending [simp]: "\<not> isPending kv_cmds t k (a_idem sample_api)"
  by (simp add: isPending_def sample_api_def kv_get_def)

text \<open>A new request with a wrong amount.\<close>

lemma sample_wrong_amount:
  "\<exists>t. accept_order (sample_api_env 5) (sample_command (fixed2 100)) (ae_uuid (sample_api_env 5) 0)
     (acquired_state (sample_api_env 5) (sample_command (fixed2 100)) sample_api) =
     (Inl (amountMismatchError (fixed2 100) (fixed2 3600000)), t)"
proof -
  let ?E = "sample_api_env 5" and ?c = "sample_command (fixed2 100)"
  have D: "decimal_exact (ae_decimal ?E) (=)" by (simp add: sample_decimal_exact)
  have m: "menus_seen ?E ?c (acquired_state ?E ?c sample_api) = Inr [sample_view]"
    by (simp add: menus_seen_acquired sample_menus_seen)
  have a: "amount_hundredths (cc_requestedAmount ?c) = Some 100" by (simp add: amount_hundredths_fixed2)
  obtain t where "validateAndEnrichItems ?E ?c (acquired_state ?E ?c sample_api) =
      (Inl (amountMismatchError (fixed2 100) (fixed2 3600000)), t)"
    using validate_result [OF D m a sample_sane(1,2)]
    by (cases "validateAndEnrichItems ?E ?c (acquired_state ?E ?c sample_api)")
      (simp add: Let_def sample_total)
  from accept_order_cases [OF this] show ?thesis by simp
qed

section \<open>Properties\<close>

text \<open>C7: a new request whose items are all on the menu is accepted exactly if its amount is the
  sum of the menu's prices, to the hundredth. Then one job with the server's prices and the
  exact total is queued, the store's clients are told, and the answer is cached; otherwise the
  client gets a 422 with both amounts, nothing is queued or sent, and the key is free again.
  The database is only read.\<close>

theorem intake_amount_check:
  assumes D: "decimal_exact (ae_decimal E) rep" and E: "no_faults E"
    and new: "\<not> isPending kv_cmds (ae_time E CallTryAcquire) (cc_idempotencyKey cmd) (a_idem s)"
    and m: "menus_seen E cmd s = Inr menus"
    and amount: "amount_hundredths (cc_requestedAmount cmd) = Some h"
    and ok: "orderable (menu_map menus) (cc_items cmd)" "sane_items (menu_map menus) (cc_items cmd)"
  shows "let total = nat (order_total (menu_map menus) (cc_items cmd));
             payload = intake_payload E cmd (fixed2 total) (job_items (menu_map menus) (cc_items cmd));
             s' = snd (execute E cmd s)
    in a_db s' = a_db s \<and>
       (if total = h
        then fst (execute E cmd s) = Inr (intake_result E) \<and>
          a_queue s' = snd (publishOrder bull_add (ae_maxAttempts E) (ae_baseDelay E) payload (a_queue s)) \<and>
          a_gateway s' = emitNewOrder (cc_storeId cmd) (new_order_json E payload) (a_gateway s) \<and>
          (\<forall>t \<ge> ae_time E CallSetCompleted.
             getCachedResponse kv_cmds t (cc_idempotencyKey cmd) (a_idem s') =
               Inr (if t < expires_at (ae_time E CallSetCompleted) (ae_idemTtl E)
                    then Some (intake_result E) else None))
        else fst (execute E cmd s) = Inl (mk_error UnprocessableEntityException
               (AmountMismatchMsg (cc_requestedAmount cmd) (fixed2 total))) \<and>
          a_queue s' = a_queue s \<and> a_gateway s' = a_gateway s \<and>
          (\<forall>t. \<not> isPending kv_cmds t (cc_idempotencyKey cmd) (a_idem s')))"
proof -
  let ?total = "nat (order_total (menu_map menus) (cc_items cmd))"
  let ?items = "job_items (menu_map menus) (cc_items cmd)"
  let ?s1 = "acquired_state E cmd s" and ?t = "snd (validateAndEnrichItems E cmd (acquired_state E cmd s))"
  note frame = validate_frame [of E cmd ?s1]
  have f: "ae_fault E c = None" for c using E by (simp add: no_faults_def)
  have m': "menus_seen E cmd ?s1 = Inr menus" using m by (simp add: menus_seen_acquired)
  note v = validate_result [OF D m' amount ok, unfolded Let_def]
  show ?thesis
  proof (cases "?total = h")
    case True
    then have "validateAndEnrichItems E cmd ?s1 = (Inr (fixed2 ?total, ?items), ?t)"
      using v by (simp add: prod_eq_iff)
    note acc = accept_order_cases [OF this]
    have "execute E cmd s = (Inr (intake_result E), accepted_state E cmd (fixed2 ?total, ?items) ?t)"
      by (simp add: execute_new [OF f new] st_catch_def acc f)
    then show ?thesis
      using True frame
      by (simp add: Let_def idem.cached_after_completed) (simp add: accepted_state_def Let_def)
  next
    case False
    let ?e = "amountMismatchError (cc_requestedAmount cmd) (fixed2 ?total)"
    from False have "validateAndEnrichItems E cmd ?s1 = (Inl ?e, ?t)"
      using v by (simp add: prod_eq_iff)
    from accept_order_cases [OF this] have "accept_order E cmd (ae_uuid E 0) ?s1 = (Inl ?e, ?t)" by simp
    from execute_rejected [OF f new f this] False frame show ?thesis
      by (simp add: Let_def idem.release_free entity_simps)
  qed
qed

theorem intake_amount_check_witness:
  "fst (execute (sample_api_env 5) (sample_command (fixed2 3600000)) sample_api) =
     Inr (intake_result (sample_api_env 5)) \<and>
   fst (execute (sample_api_env 5) (sample_command (fixed2 100)) sample_api) =
     Inl (mk_error UnprocessableEntityException (AmountMismatchMsg (fixed2 100) (fixed2 3600000)))"
proof -
  have D: "decimal_exact (ae_decimal (sample_api_env 5)) (=)" by (simp add: sample_decimal_exact)
  have new: "\<not> isPending kv_cmds (ae_time (sample_api_env 5) CallTryAcquire)
      (cc_idempotencyKey (sample_command a)) (a_idem sample_api)" for a by simp
  have a: "amount_hundredths (cc_requestedAmount (sample_command (fixed2 3600000))) = Some 3600000"
    "amount_hundredths (cc_requestedAmount (sample_command (fixed2 100))) = Some 100"
    by (simp_all add: amount_hundredths_fixed2)
  note r = intake_amount_check [OF D sample_api_env_sel(3) new sample_menus_seen]
  from r [OF a(1) sample_sane(1,2)] r [OF a(2) sample_sane(1,2)] show ?thesis
    by (simp add: Let_def sample_total)
qed

text \<open>C21: a new request that fails leaves the database alone. When Redis takes the release of its
  idempotency key, the answer is a 422, after which nothing was queued or sent, or a 503, and the
  key is free, so that the request can be tried again. When Redis fails at the release, its error is
  the answer and the key stays taken for its whole time to live; when it fails at the first
  command, its error is the answer and nothing has changed.\<close>

theorem failed_request_frees_key:
  assumes technical: "\<forall>c e. ae_fault E c = Some e \<longrightarrow>
      err_class e \<notin> {AmountMismatchError, MenuNotFoundError, MenuUnavailableError}"
    and new: "\<not> isPending kv_cmds (ae_time E CallTryAcquire) (cc_idempotencyKey cmd) (a_idem s)"
    and fails: "execute E cmd s = (Inl e, s')"
  shows "a_db s' = a_db s \<and>
    (case ae_fault E CallTryAcquire of
       Some f \<Rightarrow> e = f \<and> s' = s
     | None \<Rightarrow>
         (case ae_fault E CallRelease of
            None \<Rightarrow> err_class e \<in> {UnprocessableEntityException, ServiceUnavailableException} \<and>
              (\<forall>t. \<not> isPending kv_cmds t (cc_idempotencyKey cmd) (a_idem s')) \<and>
              (err_class e = UnprocessableEntityException \<longrightarrow> a_queue s' = a_queue s \<and> a_gateway s' = a_gateway s)
          | Some f \<Rightarrow> e = f \<and> (\<forall>t \<ge> ae_time E CallTryAcquire.
              isPending kv_cmds t (cc_idempotencyKey cmd) (a_idem s') \<longleftrightarrow>
                t < expires_at (ae_time E CallTryAcquire) (ae_idemTtl E))))"
proof (cases "ae_fault E CallTryAcquire")
  case (Some f)
  with fails show ?thesis by (simp add: execute_acquire_fault)
next
  case acq: None
  let ?s1 = "acquired_state E cmd s"
  let ?v = "validateAndEnrichItems E cmd ?s1"
  let ?business = "{AmountMismatchError, MenuNotFoundError, MenuUnavailableError}"
  note frame = validate_frame [of E cmd ?s1]
  obtain r t where acc: "accept_order E cmd (ae_uuid E 0) ?s1 = (r, t)" by force
  note cases = accept_order_cases [OF surjective_pairing [of ?v], unfolded acc]
  from fails obtain err where err: "r = Inl err"
    by (cases r) (simp_all add: execute_new [OF acq new] st_catch_def acc)
  note acc = acc [unfolded err]
  note failed = execute_failed [OF acq new acc] and kept = accept_order_failed_frame [OF acc]
  have sent: "a_queue t = a_queue s \<and> a_gateway t = a_gateway s" if "err_class err \<in> ?business"
  proof (cases "fst ?v")
    case (Inl e1)
    with cases frame show ?thesis by simp
  next
    case (Inr x)
    with cases err technical that have False by (auto split: option.splits)
    then show ?thesis ..
  qed
  show ?thesis
  proof (cases "ae_fault E CallRelease")
    case None
    with failed fails sent kept show ?thesis
      by (auto simp: acq idem.release_free mk_error_def serviceUnavailable_def)
  next
    case (Some f)
    have won: "fst (tryAcquire kv_cmds (ae_idemTtl E) (ae_time E CallTryAcquire) (cc_idempotencyKey cmd)
        (ae_uuid E 0) (a_idem s))" using new by (simp add: idem.tryAcquire_iff)
    from Some failed fails have "e = f" "s' = t" by simp_all
    then show ?thesis
      using kept idem.tryAcquire_pending [OF won] by (simp add: acq Some acquired_state_def)
  qed
qed

theorem failed_request_frees_key_witness:
  "\<exists>e s'. execute (sample_api_env 5) (sample_command (fixed2 100)) sample_api = (Inl e, s') \<and>
     \<not> isPending kv_cmds 6 ''k1'' (a_idem s')"
proof -
  let ?E = "sample_api_env 5" and ?c = "sample_command (fixed2 100)"
  have new: "\<not> isPending kv_cmds (ae_time ?E CallTryAcquire) (cc_idempotencyKey ?c) (a_idem sample_api)"
    by simp
  obtain t where "accept_order ?E ?c (ae_uuid ?E 0) (acquired_state ?E ?c sample_api) =
      (Inl (amountMismatchError (fixed2 100) (fixed2 3600000)), t)"
    using sample_wrong_amount by blast
  from execute_rejected [OF _ new _ this] obtain e' s' where x: "execute ?E ?c sample_api = (Inl e', s')"
    by simp
  from failed_request_frees_key [OF _ new x] x show ?thesis by simp
qed

text \<open>C19: once a request has been accepted, every request with its key within the time to live,
  whatever its content, gets the first answer back, marked as replayed, and changes nothing.\<close>

theorem accepted_request_replays:
  assumes first: "\<not> isPending kv_cmds (ae_time E1 CallTryAcquire) (cc_idempotencyKey cmd) (a_idem s)"
      "execute E1 cmd s = (Inr r, s1)"
    and key: "cc_idempotencyKey cmd2 = cc_idempotencyKey cmd" and E2: "no_faults E2"
    and later: "ae_time E1 CallTryAcquire \<le> ae_time E2 CallTryAcquire"
      "ae_time E2 CallTryAcquire < expires_at (ae_time E1 CallTryAcquire) (ae_idemTtl E1)"
      "ae_time E1 CallSetCompleted \<le> ae_time E2 CallGetCached"
      "ae_time E2 CallGetCached < expires_at (ae_time E1 CallSetCompleted) (ae_idemTtl E1)"
  shows "execute E2 cmd2 s1 = (Inr (r\<lparr>cr_replayed := True\<rparr>), s1)"
proof -
  let ?k = "cc_idempotencyKey cmd" and ?a = "acquired_state E1 cmd s"
  have f1: "ae_fault E1 CallTryAcquire = None"
    using first(2)
    by (cases "ae_fault E1 CallTryAcquire")
      (simp_all add: execute_def Let_def st_bind_def api_tryAcquire_def guarded_def)
  obtain v t where v: "validateAndEnrichItems E1 cmd ?a = (v, t)" by force
  have idem_t: "a_idem t = a_idem ?a" using validate_frame [of E1 cmd ?a] v by simp
  obtain rr u where a0: "accept_order E1 cmd (ae_uuid E1 0) ?a = (rr, u)" by force
  have "rr = Inr r \<and> u = s1"
  proof (cases rr)
    case (Inl e)
    with first(2) show ?thesis
      by (auto simp: execute_new [OF f1 first(1)] st_catch_def a0 st_bind_def
          split: sum.splits prod.splits if_splits)
  next
    case (Inr r')
    with first(2) show ?thesis by (simp add: execute_new [OF f1 first(1)] st_catch_def a0)
  qed
  with a0 have acc: "accept_order E1 cmd (ae_uuid E1 0) ?a = (Inr r, s1)" by simp
  then obtain x where s1: "s1 = accepted_state E1 cmd x t" and r: "r = intake_result E1"
    using accept_order_Inr [OF v acc] by blast
  have won: "fst (tryAcquire kv_cmds (ae_idemTtl E1) (ae_time E1 CallTryAcquire) ?k (ae_uuid E1 0) (a_idem s))"
    using first(1) by (simp add: idem.tryAcquire_iff)
  have "isPending kv_cmds (ae_time E2 CallTryAcquire) ?k (a_idem s1)"
    using idem.tryAcquire_pending [OF won later(1)] later(2)
    by (simp add: s1 idem.pending_frame_completed idem_t acquired_state_def)
  moreover have "getCachedResponse kv_cmds (ae_time E2 CallGetCached) ?k (a_idem s1) = Inr (Some r)"
    using later(3,4) by (simp add: s1 r idem.cached_after_completed)
  ultimately show ?thesis
    using execute_pending [OF E2, of cmd2 s1 "Some r"] key by simp
qed

theorem accepted_request_replays_witness:
  "\<exists>r s1. execute (sample_api_env 5) (sample_command (fixed2 3600000)) sample_api = (Inr r, s1) \<and>
     execute (sample_api_env 60000) (sample_command (fixed2 100)) s1 = (Inr (r\<lparr>cr_replayed := True\<rparr>), s1)"
proof -
  let ?E = "sample_api_env 5" and ?c = "sample_command (fixed2 3600000)"
  have D: "decimal_exact (ae_decimal ?E) (=)" by (simp add: sample_decimal_exact)
  have new: "\<not> isPending kv_cmds (ae_time ?E CallTryAcquire) (cc_idempotencyKey ?c) (a_idem sample_api)"
    by simp
  have m: "menus_seen ?E ?c (acquired_state ?E ?c sample_api) = Inr [sample_view]"
    by (simp add: menus_seen_acquired sample_menus_seen)
  have a: "amount_hundredths (cc_requestedAmount ?c) = Some 3600000" by (simp add: amount_hundredths_fixed2)
  obtain x t where "validateAndEnrichItems ?E ?c (acquired_state ?E ?c sample_api) = (Inr x, t)"
    using validate_result [OF D m a sample_sane(1,2)]
    by (cases "validateAndEnrichItems ?E ?c (acquired_state ?E ?c sample_api)")
      (simp add: Let_def sample_total)
  from accept_order_cases [OF this] obtain r s1 where x: "execute ?E ?c sample_api = (Inr r, s1)"
    by (simp add: execute_new [OF _ new] st_catch_def)
  from accepted_request_replays [OF new x, of "sample_command (fixed2 100)" "sample_api_env 60000"] x
  show ?thesis by (simp add: expires_at_def)
qed

end
