(* ===== verification/Order_Api.thy ===== *)
theory Order_Api
  imports Intake_Properties Repository_Properties
begin

text \<open>
  The HTTP controllers of orders (src/order/api): POST /api/v1/orders with its DTO, the POS's
  status updates, and the bridge of the payment gateway.
\<close>

section \<open>The DTOs\<close>

text \<open>UUID_RE, case-insensitive: 8-4-4-4-12 hexadecimal digits.\<close>

definition is_hex :: "char \<Rightarrow> bool" where
  "is_hex c = (c \<in> set ''0123456789abcdefABCDEF'')"

definition UUID_RE :: "string \<Rightarrow> bool" where
  "UUID_RE s \<longleftrightarrow> length s = 36 \<and>
     (\<forall>k < 36. if k \<in> {8, 13, 18, 23} then s ! k = CHR ''-'' else is_hex (s ! k))"

record create_order_dto =
  cd_idempotencyKey :: string
  cd_storeId :: string
  cd_userId :: "string option"
  cd_totalAmount :: string
  cd_items :: "create_order_item list"

text \<open>
  IsNumberString is the validator library's test, a parameter; the types of the fields are
  those of the record (IsString, IsInt, IsArray).
\<close>

definition item_dto_valid :: "create_order_item \<Rightarrow> bool" where
  "item_dto_valid it \<longleftrightarrow> UUID_RE (ci_menuId it) \<and> 1 \<le> ci_quantity it"

definition dto_valid :: "(string \<Rightarrow> bool) \<Rightarrow> create_order_dto \<Rightarrow> bool" where
  "dto_valid isNumberString d \<longleftrightarrow>
     cd_idempotencyKey d \<noteq> [] \<and> 1 \<le> length (cd_idempotencyKey d) \<and> length (cd_idempotencyKey d) \<le> 255 \<and>
     UUID_RE (cd_storeId d) \<and> (case cd_userId d of None \<Rightarrow> True | Some u \<Rightarrow> UUID_RE u) \<and>
     isNumberString (cd_totalAmount d) \<and> list_all item_dto_valid (cd_items d)"

section \<open>POST /api/v1/orders\<close>

text \<open>The response: the body without replayed, and whether the replay header is set.\<close>

definition command_of_dto :: "create_order_dto \<Rightarrow> create_order_command" where
  "command_of_dto d = \<lparr>cc_idempotencyKey = cd_idempotencyKey d, cc_storeId = cd_storeId d,
     cc_userId = cd_userId d, cc_requestedAmount = cd_totalAmount d, cc_items = cd_items d\<rparr>"

definition controller_create ::
  "'d api_env \<Rightarrow> create_order_dto \<Rightarrow> ((string \<times> string \<times> order_status) \<times> bool) api" where
  "controller_create E dto =
     st_bind (execute E (command_of_dto dto)) (\<lambda>result.
       st_return ((cr_orderId result, cr_traceId result, cr_status result), cr_replayed result))"

section \<open>PATCH :orderId/status\<close>

text \<open>
  What the destructured first element of the query's result gives: a row has both fields, any
  other array has neither.
\<close>

fun row_fields :: "ret_cell \<Rightarrow> uuid option \<times> order_status option" where
  "row_fields (RowCell store status) = (Some store, Some status)"
| "row_fields _ = (None, None)"

text \<open>A missing status is undefined: the key is dropped from the JSON.\<close>

definition status_json :: "order_status option \<Rightarrow> (string \<times> json) list" where
  "status_json st = (case st of None \<Rightarrow> [] | Some x \<Rightarrow> [(''status'', JStr (status_name x))])"

definition orderNotFound :: "string \<Rightarrow> error" where
  "orderNotFound orderId = mk_error NotFoundException (OrderMissingMsg orderId)"

definition posStatusUpdate :: "db_ctx \<Rightarrow> order_status \<Rightarrow> string \<Rightarrow> database \<Rightarrow> (error + ret_cell list) \<times> database"
where
  "posStatusUpdate C status orderId db =
     (case bind_res (run_stmt C UpdateOrder) (\<lambda>_. uuid_arg C orderId) of
        Inl e \<Rightarrow> (Inl e, db)
      | Inr i \<Rightarrow>
          let hit = sql_select (\<lambda>r. o_id r = i) (t_orders db)
          in (Inr (cx_update_result C (map (\<lambda>r. (o_storeId r, status)) hit) (length hit)),
              db\<lparr>t_orders := sql_update (\<lambda>r. o_id r = i)
                (\<lambda>r. r\<lparr>o_status := status, o_updatedAt := Some (cx_now C)\<rparr>) (t_orders db)\<rparr>))"

text \<open>UpdateOrderStatusDto: IsIn of four statuses; the reason is optional and never read.\<close>

record update_order_status_dto =
  ud_status :: string
  ud_reason :: "string option"

definition update_dto_valid :: "update_order_status_dto \<Rightarrow> bool" where
  "update_dto_valid d \<longleftrightarrow> ud_status d \<in> {''ACCEPTED'', ''COOKING'', ''DONE'', ''CANCELLED''}"

text \<open>The room of an undefined store id is store:undefined. The response's status may be missing.\<close>

definition controller_updateStatus ::
  "db_ctx \<Rightarrow> time \<Rightarrow> string \<Rightarrow> order_status \<Rightarrow> (string \<times> order_status option) api" where
  "controller_updateStatus C now orderId newStatus =
     st_bind (\<lambda>s. case posStatusUpdate C newStatus orderId (a_db s) of
         (r, db) \<Rightarrow> (r, s\<lparr>a_db := db\<rparr>)) (\<lambda>rows.
       case rows of
         [] \<Rightarrow> st_throw (orderNotFound orderId)
       | first # _ \<Rightarrow>
           (case row_fields first of (storeId, status) \<Rightarrow>
             st_bind (st_update (\<lambda>s. s\<lparr>a_gateway := emitOrderUpdated
               (case storeId of None \<Rightarrow> ''undefined'' | Some i \<Rightarrow> i)
               (JObj ([(''id'', JStr orderId)] @ status_json status @
                  [(''updatedAt'', JStr (iso_datetime now))])) (a_gateway s)\<rparr>)) (\<lambda>_.
             st_return (orderId, status))))"

section \<open>POST /internal/orders\<close>

record bridge_item =
  br_menuId :: string
  br_menuName :: string
  br_quantity :: int
  br_unitPrice :: price
  br_optionPrice :: "price option"

record bridge_order_dto =
  bd_orderId :: string
  bd_storeId :: string
  bd_items :: "bridge_item list"
  bd_totalAmount :: string \<comment> \<open>String(dto.totalAmount)\<close>

definition bridge_command :: "bridge_order_dto \<Rightarrow> create_order_command" where
  "bridge_command d = \<lparr>cc_idempotencyKey = bd_orderId d, cc_storeId = bd_storeId d,
     cc_userId = None, cc_requestedAmount = bd_totalAmount d,
     cc_items = map (\<lambda>it. \<lparr>ci_menuId = br_menuId it, ci_quantity = br_quantity it\<rparr>) (bd_items d)\<rparr>"

definition bridgeOrder ::
  "'d api_env \<Rightarrow> string \<Rightarrow> string option \<Rightarrow> bridge_order_dto \<Rightarrow> (string \<times> string \<times> bool) api" where
  "bridgeOrder E bridgeApiKey apiKey dto =
     (if bridgeApiKey \<noteq> [] \<and> apiKey \<noteq> Some bridgeApiKey
      then st_throw (mk_error UnauthorizedException (TextMsg ''Invalid bridge API key''))
      else
        st_bind (execute E (bridge_command dto)) (\<lambda>result.
          st_return (bd_orderId dto, cr_orderId result, cr_replayed result)))"

section \<open>Properties\<close>

definition typeorm_driver :: "db_ctx \<Rightarrow> bool" where
  "typeorm_driver C \<longleftrightarrow> cx_update_result C = typeorm_result"

text \<open>With the driver whose UPDATE results the repository relies on, the status endpoint never
  answers 404 and never tells the store: on an unknown order it reports success, and the event
  goes to the room of no store, without a status.\<close>

theorem status_update_unknown_order:
  assumes "typeorm_driver C" and "statements_succeed C" and "cx_uuid_in C orderId = Some i"
    and "i \<notin> o_id ` set (t_orders (a_db s))"
  shows "controller_updateStatus C now orderId st s =
    (Inr (orderId, None), s\<lparr>a_gateway := emitOrderUpdated ''undefined''
       (JObj [(''id'', JStr orderId), (''updatedAt'', JStr (iso_datetime now))]) (a_gateway s)\<rparr>)"
proof -
  have none: "\<forall>r \<in> set (t_orders (a_db s)). \<not> o_id r = i" using assms(4) by auto
  then have "sql_update (\<lambda>r. o_id r = i) f (t_orders (a_db s)) = t_orders (a_db s)" for f
    by (rule sql_update_none)
  moreover have "sql_select (\<lambda>r. o_id r = i) (t_orders (a_db s)) = []"
    using none by (simp add: sql_select_empty)
  ultimately show ?thesis
    using assms(1-3)
    by (simp add: controller_updateStatus_def posStatusUpdate_def st_bind_def statements_succeedD
        uuid_arg_def typeorm_driver_def typeorm_result_def status_json_def)
qed

theorem status_update_unknown_order_witness:
  "fst (controller_updateStatus (quiet_ctx 7) 7 ''nope'' COOKING sample_api) = Inr (''nope'', None)"
  using status_update_unknown_order [of "quiet_ctx 7" "''nope''" "''nope''" sample_api 7 COOKING]
  by (simp add: typeorm_driver_def sample_api_def)

text \<open>A status update from the POS goes around the state machine: it overwrites any status,
  also a final one, changes neither version nor log, and so ends the agreement of log and row
  that the repository's operations keep.\<close>

theorem status_update_breaks_audit:
  assumes "db_inv (a_db s)" and "statements_succeed C" and "cx_uuid_in C orderId = Some i"
    and "row_with_id i (a_db s) = Some r" and "st \<in> {ACCEPTED, COOKING, DONE, CANCELLED}"
  shows "let db' = a_db (snd (controller_updateStatus C now orderId st s))
    in row_with_id i db' = Some (r\<lparr>o_status := st, o_updatedAt := Some (cx_now C)\<rparr>) \<and>
       trail i db' = trail i (a_db s) \<and> \<not> audit_inv db'"
proof -
  let ?db = "(a_db s)\<lparr>t_orders := sql_update (\<lambda>r. o_id r = i)
    (\<lambda>r. r\<lparr>o_status := st, o_updatedAt := Some (cx_now C)\<rparr>) (t_orders (a_db s))\<rparr>"
  let ?r = "r\<lparr>o_status := st, o_updatedAt := Some (cx_now C)\<rparr>"
  have db: "a_db (snd (controller_updateStatus C now orderId st s)) = ?db"
    using assms(2,3)
    by (simp add: controller_updateStatus_def posStatusUpdate_def st_bind_def statements_succeedD
        uuid_arg_def Let_def split: list.splits prod.splits)
  have row: "row_with_id i ?db = Some ?r"
    using assms(4) row_with_id_Some [OF assms(4)] by (simp add: row_with_id_def find_sql_update_key)
  have tr: "trail i ?db = trail i (a_db s)" by (simp add: trail_def)
  have "\<not> audit_ok ?r (trail i ?db)"
    using audit_ok_visits [of ?r "trail i ?db"] assms(5) by auto
  moreover have "?r \<in> set (t_orders ?db)" "o_id ?r = i" using row_with_id_Some [OF row] by auto
  ultimately have "\<not> audit_inv ?db" unfolding audit_inv_def by metis
  with row tr show ?thesis unfolding db Let_def by blast
qed

theorem status_update_breaks_audit_witness:
  "\<not> audit_inv (a_db (snd (controller_updateStatus (quiet_ctx 7) 7 ''o1'' COOKING
     (sample_api\<lparr>a_db := queued_db\<rparr>))))"
  using status_update_breaks_audit [of "sample_api\<lparr>a_db := queued_db\<rparr>" "quiet_ctx 7" "''o1''" "''o1''"
      sample_row COOKING 7]
  by (simp add: queued_inv Let_def)

end
