(* ===== verification/Admin_Service.thy ===== *)
theory Admin_Service
  imports Repository_Properties Circuit_Breaker
begin

text \<open>
  AdminService (src/admin/admin.service.ts): manual re-drive of failed orders, the list of
  the dead letter queue and the system status.
\<close>

section \<open>State\<close>

record 'p admin_state =
  ad_db :: database
  ad_queue :: "order_job_payload bull_queue"
  ad_breaker :: "'p breaker_state"

record admin_env =
  av_traceId :: "string option"
  av_findCtx :: db_ctx
  av_transitionCtx :: db_ctx
  av_now :: time
  av_maxAttempts :: nat
  av_baseDelay :: nat
  av_queueFault :: "error option"

type_synonym ('p, 'a) admin = "('p admin_state, error, 'a) comp"

section \<open>redriveOrder\<close>

definition redrive_params :: "string \<Rightarrow> order_row \<Rightarrow> transition_params" where
  "redrive_params orderId order =
     \<lparr>tp_orderId = orderId, tp_expectedStatus = FAILED, tp_nextStatus = QUEUED,
      tp_currentVersion = o_version order, tp_workerId = ''admin-redrive'', tp_jobId = None,
      tp_reason = Some (TextMsg ''Admin manual re-drive''), tp_posResponse = None,
      tp_posErrorMessage = None\<rparr>"

definition redrive_item :: "order_item_entity \<Rightarrow> order_job_item" where
  "redrive_item item = \<lparr>ji_menuId = oi_menuId item, ji_menuName = oi_menuName item,
     ji_unitPrice = oi_unitPrice item, ji_quantity = oi_quantity item\<rparr>"

definition redrive_payload :: "admin_env \<Rightarrow> order_entity \<Rightarrow> order_job_payload" where
  "redrive_payload V order =
     (let r = oe_row order in
      \<lparr>jp_orderId = o_id r,
       jp_traceId = (case av_traceId V of Some t \<Rightarrow> t | None \<Rightarrow> o_traceId r),
       jp_storeId = o_storeId r, jp_userId = o_userId r, jp_idempotencyKey = o_idempotencyKey r,
       jp_requestedAmount = o_requestedAmount r, jp_calculatedAmount = o_calculatedAmount r,
       jp_items = map redrive_item (oe_items order), jp_isRedrive = Some True,
       jp_redriveAt = Some (av_now V)\<rparr>)"

definition admin_transition :: "admin_env \<Rightarrow> transition_params \<Rightarrow> ('p, unit) admin" where
  "admin_transition V p s =
     (case transitionStatus (av_transitionCtx V) p (ad_db s) of (r, db) \<Rightarrow> (r, s\<lparr>ad_db := db\<rparr>))"

definition admin_publish :: "admin_env \<Rightarrow> order_job_payload \<Rightarrow> ('p, unit) admin" where
  "admin_publish V payload s =
     (case av_queueFault V of
        Some e \<Rightarrow> (Inl e, s)
      | None \<Rightarrow> (Inr (), s\<lparr>ad_queue := snd (publishOrder bull_add (av_maxAttempts V)
          (av_baseDelay V) payload (ad_queue s))\<rparr>))"

text \<open>The result is the order's id with a fixed message.\<close>

definition redriveOrder :: "admin_env \<Rightarrow> string \<Rightarrow> ('p, string) admin" where
  "redriveOrder V orderId =
     st_bind (\<lambda>s. (findById (av_findCtx V) orderId (ad_db s), s)) (\<lambda>order.
       case order of
         None \<Rightarrow> st_throw (mk_error NotFoundException (OrderMissingMsg orderId))
       | Some ord \<Rightarrow>
           if o_status (oe_row ord) \<noteq> FAILED
           then st_throw (mk_error BadRequestException (NotFailedMsg (o_status (oe_row ord))))
           else
             st_bind (admin_transition V (redrive_params orderId (oe_row ord))) (\<lambda>_.
             st_bind (admin_publish V (redrive_payload V ord)) (\<lambda>_. st_return orderId)))"

section \<open>getDlqOrders and getSystemStatus\<close>

record dlq_query =
  dq_storeId :: "string option"
  dq_from :: "string option"
  dq_to :: "string option"
  dq_page :: "int option"
  dq_limit :: "int option"

record dlq_item =
  di_orderId :: uuid
  di_storeId :: uuid
  di_traceId :: string
  di_status :: order_status
  di_failureReason :: "message option"
  di_dlqAt :: "time option"
  di_retryCount :: int
  di_requestedAmount :: string
  di_createdAt :: time

definition dlq_item_of :: "order_row \<Rightarrow> dlq_item" where
  "dlq_item_of row = \<lparr>di_orderId = o_id row, di_storeId = o_storeId row, di_traceId = o_traceId row,
     di_status = o_status row, di_failureReason = o_failureReason row, di_dlqAt = o_dlqAt row,
     di_retryCount = o_retryCount row, di_requestedAmount = o_requestedAmount row,
     di_createdAt = o_createdAt row\<rparr>"

text \<open>new Date(text) is a parameter; an absent or empty bound is no bound.\<close>

definition date_bound :: "(string \<Rightarrow> time) \<Rightarrow> string option \<Rightarrow> time option" where
  "date_bound parse_date x =
     (case x of None \<Rightarrow> None | Some t \<Rightarrow> if t = [] then None else Some (parse_date t))"

definition or_default :: "int \<Rightarrow> int option \<Rightarrow> int" where
  "or_default d x = (case x of None \<Rightarrow> d | Some n \<Rightarrow> n)"

definition getDlqOrders ::
  "(string \<Rightarrow> time) \<Rightarrow> db_ctx \<Rightarrow> dlq_query \<Rightarrow> database \<Rightarrow> error + dlq_item list \<times> nat \<times> int" where
  "getDlqOrders parse_date C q db =
     bind_res (findFailedOrders C
       \<lparr>fq_storeId = dq_storeId q, fq_from = date_bound parse_date (dq_from q),
        fq_to = date_bound parse_date (dq_to q), fq_page = or_default 1 (dq_page q),
        fq_limit = Some (or_default 20 (dq_limit q))\<rparr> db) (\<lambda>(items, total).
     Inr (map dlq_item_of items, total, or_default 1 (dq_page q)))"

definition getSystemStatus ::
  "string list \<Rightarrow> 'p admin_state \<Rightarrow> queue_depth \<times> (string \<times> circuit_status) list" where
  "getSystemStatus storeIds s =
     (getQueueDepth (ad_queue s), map (\<lambda>i. (i, getStatus i (ad_breaker s))) storeIds)"

section \<open>Properties\<close>

definition sample_admin_env :: admin_env where
  "sample_admin_env = \<lparr>av_traceId = None, av_findCtx = quiet_ctx 50, av_transitionCtx = quiet_ctx 50,
     av_now = 50, av_maxAttempts = 3, av_baseDelay = 1000, av_queueFault = None\<rparr>"

definition failed_db :: database where
  "failed_db = queued_db\<lparr>t_orders := [sample_row\<lparr>o_status := FAILED, o_version := 1\<rparr>]\<rparr>"

lemma admin_transition_rejected:
  "admin_transition V (redrive_params orderId r) s = (Inl (invalidStateTransitionError FAILED QUEUED []), s)"
proof -
  have "validate FAILED QUEUED False = Inl (invalidStateTransitionError FAILED QUEUED [])"
    by (simp add: validate_def)
  then show ?thesis by (simp add: admin_transition_def redrive_params_def transitionStatus_invalid)
qed

lemma redrive_unchanged: "snd (redriveOrder V orderId s) = s"
  by (auto simp: redriveOrder_def st_bind_def admin_transition_rejected split: sum.splits option.splits)

text \<open>C26: a re-drive never succeeds, in no state and no environment: on a FAILED order the state
  machine turns FAILED to QUEUED down, since the repository never validates with the admin's
  table, and neither the database nor the queue is touched.\<close>

theorem redrive_always_rejected:
  "snd (redriveOrder V orderId s) = s \<and>
   (case fst (redriveOrder V orderId s) of
      Inr _ \<Rightarrow> False
    | Inl e \<Rightarrow>
        (\<forall>ord. findById (av_findCtx V) orderId (ad_db s) = Inr (Some ord) \<longrightarrow>
           (if o_status (oe_row ord) = FAILED
            then e = invalidStateTransitionError FAILED QUEUED []
            else e = mk_error BadRequestException (NotFailedMsg (o_status (oe_row ord))))))"
  using redrive_unchanged [of V orderId s]
  by (auto simp: redriveOrder_def st_bind_def admin_transition_rejected split: sum.splits option.splits)

theorem redrive_always_rejected_witness:
  "fst (redriveOrder sample_admin_env ''o1''
     \<lparr>ad_db = failed_db, ad_queue = [], ad_breaker = \<lparr>bs_registry = Map.empty, bs_hash = Map.empty\<rparr>\<rparr>) =
   Inl (invalidStateTransitionError FAILED QUEUED [])"
proof -
  let ?s = "\<lparr>ad_db = failed_db, ad_queue = [], ad_breaker = \<lparr>bs_registry = Map.empty, bs_hash = Map.empty\<rparr>\<rparr>"
  have "findById (av_findCtx sample_admin_env) ''o1'' (ad_db ?s) =
      Inr (Some \<lparr>oe_row = sample_row\<lparr>o_status := FAILED, o_version := 1\<rparr>, oe_items = [sample_item_row]\<rparr>)"
    by (simp add: findById_def sample_admin_env_def failed_db_def row_with_id_def items_of_def
        sample_item_row_def)
  then show ?thesis
    using redrive_always_rejected [of sample_admin_env "''o1''" ?s] by (simp split: sum.splits)
qed

end
