(* ===== verification/Auth_Otp.thy ===== *)
theory Auth_Otp
  imports Js_Text
begin

text \<open>
  AuthController (src/auth/auth.controller.ts): one-time codes sent to phone numbers. The
  state is the map from numbers to codes and the messages handed to the SMS service; the
  clock and the random number of a call are its arguments. How the SMS service is reached is
  not modelled: it never changes the reply.
\<close>

section \<open>State\<close>

record otp_record =
  ot_code :: string
  ot_expiresAt :: time
  ot_attempts :: nat
  ot_lastSentAt :: time

record otp_state =
  os_store :: "string \<rightharpoonup> otp_record"
  os_sms :: "(string \<times> string) list" \<comment> \<open>number and code\<close>

datatype otp_reply =
    BadPhone | Cooldown int | BlockedSend | Sent
  | MissingInput | NoCode | Expired | Blocked | Mismatch nat | Verified

definition only_digits :: "string \<Rightarrow> string" where
  "only_digits s = filter (\<lambda>c. char_digit c \<noteq> None) s"

text \<open>/^01[0-9]{8,9}$/ on a text of digits.\<close>

definition phone_ok :: "string \<Rightarrow> bool" where
  "phone_ok p \<longleftrightarrow> starts_with ''01'' p \<and> list_all (\<lambda>c. char_digit c \<noteq> None) p \<and>
     (length p = 10 \<or> length p = 11)"

section \<open>The operations\<close>

text \<open>Math.ceil of a number of thousandths.\<close>

definition ceil_seconds :: "int \<Rightarrow> int" where
  "ceil_seconds ms = - ((- ms) div 1000)"

definition sendPhoneOtp :: "time \<Rightarrow> nat \<Rightarrow> string \<Rightarrow> otp_state \<Rightarrow> otp_reply \<times> otp_state" where
  "sendPhoneOtp now random raw s =
     (let phone = only_digits raw; existing = os_store s phone in
      if \<not> phone_ok phone then (BadPhone, s)
      else if (case existing of None \<Rightarrow> False | Some r \<Rightarrow> int now - int (ot_lastSentAt r) < 60000)
      then (Cooldown (ceil_seconds (60000 - (int now - int (ot_lastSentAt (the existing))))), s)
      else if (case existing of None \<Rightarrow> False | Some r \<Rightarrow> now < ot_expiresAt r \<and> 5 \<le> ot_attempts r)
      then (BlockedSend, s)
      else
        (let code = show_nat (100000 + random)
         in (Sent, s\<lparr>os_store := (os_store s)(phone \<mapsto>
               \<lparr>ot_code = code, ot_expiresAt = now + 3 * 60000, ot_attempts = 0, ot_lastSentAt = now\<rparr>),
             os_sms := os_sms s @ [(phone, code)]\<rparr>)))"

definition verifyPhoneOtp :: "time \<Rightarrow> string \<Rightarrow> string \<Rightarrow> otp_state \<Rightarrow> otp_reply \<times> otp_state" where
  "verifyPhoneOtp now raw rawCode s =
     (let phone = only_digits raw; code = trim rawCode in
      if phone = [] \<or> code = [] then (MissingInput, s)
      else
        (case os_store s phone of
           None \<Rightarrow> (NoCode, s)
         | Some r \<Rightarrow>
             if ot_expiresAt r < now then (Expired, s\<lparr>os_store := (os_store s)(phone := None)\<rparr>)
             else if 5 \<le> ot_attempts r then (Blocked, s)
             else
               (let r' = r\<lparr>ot_attempts := ot_attempts r + 1\<rparr>
                in if ot_code r \<noteq> code
                   then (Mismatch (5 - ot_attempts r'), s\<lparr>os_store := (os_store s)(phone \<mapsto> r')\<rparr>)
                   else (Verified, s\<lparr>os_store := (os_store s)(phone := None)\<rparr>))))"

text \<open>The timer's sweep.\<close>

definition sweep :: "time \<Rightarrow> otp_state \<Rightarrow> otp_state" where
  "sweep now s = s\<lparr>os_store := (\<lambda>p. case os_store s p of None \<Rightarrow> None
     | Some r \<Rightarrow> if ot_expiresAt r < now then None else Some r)\<rparr>"

section \<open>Runs\<close>

datatype otp_op =
    Send_op time nat string
  | Verify_op time string string
  | Sweep_op time

fun otp_apply :: "otp_op \<Rightarrow> otp_state \<Rightarrow> otp_reply option \<times> otp_state" where
  "otp_apply (Send_op now n raw) s = (case sendPhoneOtp now n raw s of (r, s') \<Rightarrow> (Some r, s'))"
| "otp_apply (Verify_op now raw code) s =
     (case verifyPhoneOtp now raw code s of (r, s') \<Rightarrow> (Some r, s'))"
| "otp_apply (Sweep_op now) s = (None, sweep now s)"

fun otp_run :: "otp_op list \<Rightarrow> otp_state \<Rightarrow> (otp_op \<times> otp_reply option) list \<times> otp_state" where
  "otp_run [] s = ([], s)"
| "otp_run (x # xs) s =
     (case otp_apply x s of (r, s') \<Rightarrow> (case otp_run xs s' of (rs, s'') \<Rightarrow> ((x, r) # rs, s'')))"

fun op_phone :: "otp_op \<Rightarrow> string option" where
  "op_phone (Send_op _ _ raw) = Some (only_digits raw)"
| "op_phone (Verify_op _ raw _) = Some (only_digits raw)"
| "op_phone (Sweep_op _) = None"

fun is_send :: "otp_op \<Rightarrow> bool" where
  "is_send (Send_op _ _ _) = True"
| "is_send _ = False"

text \<open>A guess: a verification of the number in which the code was compared.\<close>

fun is_guess :: "string \<Rightarrow> otp_op \<times> otp_reply option \<Rightarrow> bool" where
  "is_guess p (Verify_op _ raw _, Some (Mismatch _)) = (only_digits raw = p)"
| "is_guess p (Verify_op _ raw _, Some Verified) = (only_digits raw = p)"
| "is_guess p _ = False"

definition guesses :: "string \<Rightarrow> (otp_op \<times> otp_reply option) list \<Rightarrow> nat" where
  "guesses p rs = length (filter (is_guess p) rs)"

section \<open>Lemmas\<close>

text \<open>The guesses that a number's record still allows.\<close>

definition allowance :: "string \<Rightarrow> otp_state \<Rightarrow> nat" where
  "allowance p s = (case os_store s p of None \<Rightarrow> 0 | Some r \<Rightarrow> 5 - ot_attempts r)"

lemma otp_apply_allowance:
  assumes "\<not> (is_send x \<and> op_phone x = Some p)"
  shows "allowance p (snd (otp_apply x s)) + (if is_guess p (x, fst (otp_apply x s)) then 1 else 0)
    \<le> allowance p s"
proof (cases x)
  case (Send_op now n raw)
  with assms show ?thesis
    by (auto simp: sendPhoneOtp_def Let_def allowance_def)
next
  case (Verify_op now raw code)
  show ?thesis
    by (auto simp: Verify_op verifyPhoneOtp_def Let_def allowance_def split: option.splits)
next
  case (Sweep_op now)
  show ?thesis by (auto simp: Sweep_op sweep_def allowance_def split: option.splits)
qed

lemma otp_run_guesses:
  "\<forall>x \<in> set ops. \<not> (is_send x \<and> op_phone x = Some p) \<Longrightarrow>
     guesses p (fst (otp_run ops s)) \<le> allowance p s"
proof (induction ops arbitrary: s)
  case (Cons x ops)
  obtain r s' where x: "otp_apply x s = (r, s')" by force
  have "guesses p (fst (otp_run ops s')) \<le> allowance p s'" using Cons by simp
  with otp_apply_allowance [of x p s] Cons.prems x show ?case
    by (simp add: guesses_def case_prod_beta split: if_splits)
qed (simp add: guesses_def)

lemma allowance_le: "allowance p s \<le> 5"
  by (simp add: allowance_def split: option.splits)

lemma otp_run_append:
  "otp_run (xs @ ys) s = (case otp_run xs s of (rs, s') \<Rightarrow>
     (case otp_run ys s' of (rs', s'') \<Rightarrow> (rs @ rs', s'')))"
  by (induction xs arbitrary: s) (simp_all add: case_prod_beta)

section \<open>Properties\<close>

text \<open>C40: between two sends to a number its code can be guessed at most five times, whatever
  the clock, other numbers' requests and the sweeps in between.\<close>

theorem otp_guess_bound:
  assumes "\<forall>x \<in> set ops. \<not> (is_send x \<and> op_phone x = Some p)"
  shows "guesses p (fst (otp_run ops s)) \<le> 5"
  using otp_run_guesses [OF assms] allowance_le [of p s] by (rule order_trans)

definition sample_otp :: otp_state where
  "sample_otp = \<lparr>os_store = [''0101'' \<mapsto> \<lparr>ot_code = ''12'', ot_expiresAt = 9, ot_attempts = 3, ot_lastSentAt = 1\<rparr>],
     os_sms = []\<rparr>"

theorem otp_guess_bound_witness:
  "guesses ''0101'' (fst (otp_run (replicate 9 (Verify_op 5 ''0101'' ''7'')) sample_otp)) \<le> 5 \<and>
   guesses ''0101'' (fst (otp_run (replicate 9 (Verify_op 5 ''0101'' ''7'')) sample_otp)) = 2"
proof
  show "guesses ''0101'' (fst (otp_run (replicate 9 (Verify_op 5 ''0101'' ''7'')) sample_otp)) \<le> 5"
    by (rule otp_guess_bound) simp
  show "guesses ''0101'' (fst (otp_run (replicate 9 (Verify_op 5 ''0101'' ''7'')) sample_otp)) = 2"
    by code_simp
qed

text \<open>A number is verified only with the code of its record, before the record expires, and
  once: the same request right after is told that there is no code.\<close>

theorem otp_verified_once:
  assumes "verifyPhoneOtp now raw code s = (Verified, s')"
  shows "(\<exists>r. os_store s (only_digits raw) = Some r \<and> ot_code r = trim code \<and>
      now \<le> ot_expiresAt r \<and> ot_attempts r < 5) \<and>
    os_store s' (only_digits raw) = None \<and>
    fst (verifyPhoneOtp later raw code s') = NoCode"
  using assms
  by (auto simp: verifyPhoneOtp_def Let_def split: if_splits option.splits)

theorem otp_verified_once_witness:
  "fst (verifyPhoneOtp 5 ''0101'' '' 12 '' sample_otp) = Verified \<and>
   fst (verifyPhoneOtp 6 ''0101'' '' 12 '' (snd (verifyPhoneOtp 5 ''0101'' '' 12 '' sample_otp))) = NoCode"
proof -
  have v: "fst (verifyPhoneOtp 5 ''0101'' '' 12 '' sample_otp) = Verified" by code_simp
  then have "verifyPhoneOtp 5 ''0101'' '' 12 '' sample_otp =
      (Verified, snd (verifyPhoneOtp 5 ''0101'' '' 12 '' sample_otp))" by (simp add: prod_eq_iff)
  from otp_verified_once [OF this, of 6] v show ?thesis by simp
qed

end
