(* ===== verification/Public_Orders.thy ===== *)
theory Public_Orders
  imports Order_Api
begin

text \<open>
  The order endpoints of PublicController (src/common/public.controller.ts): lists of orders
  for the POS and the apps, the status in the apps' words, status changes, orders in the old
  format, and the sales report. The clock, new Date of a text and the report's calendar are
  parameters; an amount is the column's number in hundredths.
\<close>

section \<open>Formatting\<close>

fun mapStatus :: "order_status \<Rightarrow> string" where
  "mapStatus QUEUED = ''PLACED''"
| "mapStatus SAVED = ''PLACED''"
| "mapStatus SENT_TO_POS = ''ACCEPTED''"
| "mapStatus COMPLETED = ''DONE''"
| "mapStatus FAILED = ''CANCELLED''"
| "mapStatus ACCEPTED = ''ACCEPTED''"
| "mapStatus COOKING = ''ACCEPTED''"
| "mapStatus DONE = ''DONE''"
| "mapStatus CANCELLED = ''CANCELLED''"

record public_item =
  pi_name :: string
  pi_price :: price
  pi_quantity :: int

record public_order =
  po_id :: uuid
  po_orderNo :: string
  po_status :: string
  po_storeId :: uuid
  po_total :: "nat option" \<comment> \<open>None is NaN\<close>
  po_amount :: "nat option"
  po_type :: string
  po_createdAt :: time
  po_orderedAt :: time
  po_updatedAt :: "time option"
  po_items :: "public_item list"

text \<open>The map from order ids to items: a missing key is undefined.\<close>

definition fetchItemMap :: "uuid list \<Rightarrow> database \<Rightarrow> uuid \<Rightarrow> order_item_entity list option" where
  "fetchItemMap orderIds db =
     (if orderIds = [] then Map.empty
      else
        (let items = sql_select (\<lambda>it. oi_orderId it \<in> set orderIds) (t_items db)
         in (\<lambda>i. let own = filter (\<lambda>it. oi_orderId it = i) items
                 in if own = [] then None else Some own)))"

definition public_item_of :: "order_item_entity \<Rightarrow> public_item" where
  "public_item_of it =
     \<lparr>pi_name = oi_menuName it, pi_price = oi_unitPrice it, pi_quantity = oi_quantity it\<rparr>"

definition formatOrder :: "order_row \<Rightarrow> (uuid \<Rightarrow> order_item_entity list option) \<Rightarrow> public_order" where
  "formatOrder row itemMap =
     \<lparr>po_id = o_id row, po_orderNo = toUpperCase (take 8 (o_id row)),
      po_status = mapStatus (o_status row), po_storeId = o_storeId row,
      po_total = amount_hundredths (o_calculatedAmount row),
      po_amount = amount_hundredths (o_calculatedAmount row), po_type = ''delivery'',
      po_createdAt = o_createdAt row, po_orderedAt = o_queuedAt row,
      po_updatedAt = o_updatedAt row,
      po_items = map public_item_of (case itemMap (o_id row) of None \<Rightarrow> [] | Some its \<Rightarrow> its)\<rparr>"

section \<open>Lists of orders\<close>

definition order_desc :: "(order_row \<Rightarrow> time) \<Rightarrow> order_row list \<Rightarrow> order_row list" where
  "order_desc k rows = rev (sort_key k rows)"

definition updated_key :: "order_row \<Rightarrow> time" where
  "updated_key r = (case o_updatedAt r of None \<Rightarrow> 0 | Some t \<Rightarrow> t)"

definition day_ms :: int where
  "day_ms = 24 * 60 * 60 * 1000"

text \<open>An absent or empty query parameter.\<close>

definition truthy :: "string option \<Rightarrow> bool" where
  "truthy x = (case x of None \<Rightarrow> False | Some s \<Rightarrow> s \<noteq> [])"

definition date_or :: "(string \<Rightarrow> int option) \<Rightarrow> string option \<Rightarrow> int \<Rightarrow> int option" where
  "date_or parse_date x d = (if truthy x then parse_date (the x) else Some d)"

text \<open>An Invalid Date (None) as a query parameter is an error of the server.\<close>

definition date_arg :: "int option \<Rightarrow> error + int" where
  "date_arg d = require (queryFailed ''timestamp'') d"

text \<open>
  A comparison with NULL is not true. The orders and their items are two queries: db and db'
  are the databases that they see.
\<close>

definition updated_after :: "int \<Rightarrow> order_row \<Rightarrow> bool" where
  "updated_after since r = (case o_updatedAt r of None \<Rightarrow> False | Some t \<Rightarrow> since < int t)"

definition list_orders ::
  "db_ctx \<Rightarrow> (uuid \<Rightarrow> order_row list \<Rightarrow> error + order_row list) \<Rightarrow> string option \<Rightarrow>
   database \<Rightarrow> database \<Rightarrow> error + bool \<times> public_order list" where
  "list_orders C query storeId db db' =
     (if \<not> truthy storeId then Inr (False, [])
      else
        bind_res (run_stmt C SelectOrder) (\<lambda>_.
        bind_res (uuid_arg C (the storeId)) (\<lambda>store.
        bind_res (query store (t_orders db)) (\<lambda>rows.
        bind_res (if rows = [] then Inr () else run_stmt C SelectItems) (\<lambda>_.
          Inr (True, map (\<lambda>r. formatOrder r (fetchItemMap (map o_id rows) db')) rows))))))"

definition getMissedOrders ::
  "db_ctx \<Rightarrow> (string \<Rightarrow> int option) \<Rightarrow> int \<Rightarrow> string option \<Rightarrow> string option \<Rightarrow>
   database \<Rightarrow> database \<Rightarrow> error + bool \<times> public_order list" where
  "getMissedOrders C parse_date now storeId since db db' =
     (let sinceDate = date_or parse_date since (now - day_ms)
      in list_orders C (\<lambda>store rows.
           bind_res (date_arg sinceDate) (\<lambda>d.
             Inr (take 500 (order_desc updated_key
               (sql_select (\<lambda>r. o_storeId r = store \<and> updated_after d r) rows))))) storeId db db')"

definition by_date_where :: "uuid \<Rightarrow> int \<Rightarrow> int \<Rightarrow> order_row \<Rightarrow> bool" where
  "by_date_where store a b r \<longleftrightarrow>
     o_storeId r = store \<and> a \<le> int (o_createdAt r) \<and> int (o_createdAt r) \<le> b"

definition getOrdersByDate ::
  "db_ctx \<Rightarrow> (string \<Rightarrow> int option) \<Rightarrow> int \<Rightarrow> string option \<Rightarrow> string option \<Rightarrow> string option \<Rightarrow>
   database \<Rightarrow> database \<Rightarrow> error + bool \<times> public_order list" where
  "getOrdersByDate C parse_date now storeId from_text to_text db db' =
     (let fromDate = date_or parse_date from_text (now - day_ms);
          toDate = date_or parse_date to_text now
      in list_orders C (\<lambda>store rows.
           bind_res (date_arg fromDate) (\<lambda>a. bind_res (date_arg toDate) (\<lambda>b.
             Inr (take 1000 (order_desc o_createdAt
               (sql_select (by_date_where store a b) rows)))))) storeId db db')"

definition getOrders ::
  "db_ctx \<Rightarrow> string option \<Rightarrow> database \<Rightarrow> database \<Rightarrow> error + bool \<times> public_order list" where
  "getOrders C storeId db db' =
     list_orders C (\<lambda>store rows. Inr (take 100 (order_desc o_createdAt
       (sql_select (\<lambda>r. o_storeId r = store \<and> int (cx_now C) - day_ms < int (o_createdAt r)) rows))))
       storeId db db'"

record status_answer =
  sa_id :: uuid
  sa_status :: string
  sa_storeId :: uuid
  sa_createdAt :: time
  sa_updatedAt :: "time option"

definition getOrderStatus :: "db_ctx \<Rightarrow> string \<Rightarrow> database \<Rightarrow> error + status_answer option" where
  "getOrderStatus C orderId db =
     bind_res (run_stmt C SelectOrder) (\<lambda>_.
     bind_res (uuid_arg C orderId) (\<lambda>i.
       Inr (map_option (\<lambda>r. \<lparr>sa_id = o_id r, sa_status = mapStatus (o_status r),
         sa_storeId = o_storeId r, sa_createdAt = o_createdAt r, sa_updatedAt = o_updatedAt r\<rparr>)
         (row_with_id i db))))"

section \<open>Status changes\<close>

definition all_statuses :: "order_status list" where
  "all_statuses = [QUEUED, SAVED, SENT_TO_POS, COMPLETED, FAILED, ACCEPTED, COOKING, DONE, CANCELLED]"

definition read_status :: "string \<Rightarrow> order_status option" where
  "read_status text = find (\<lambda>st. status_name st = text) all_statuses"

text \<open>
  None is the reply that a status is required. A text that is not a status violates the CHECK
  of the column, if there is a row to write it to.
\<close>

definition updateOrderStatus ::
  "db_ctx \<Rightarrow> time \<Rightarrow> string \<Rightarrow> string \<Rightarrow> (string \<times> order_status option) option api" where
  "updateOrderStatus C now orderId body_status =
     (let text = toUpperCase body_status in
      if text = [] then st_return None
      else
        (case read_status text of
           Some st \<Rightarrow> st_bind (controller_updateStatus C now orderId st) (\<lambda>r. st_return (Some r))
         | None \<Rightarrow> (\<lambda>s.
             if \<exists>i \<in> o_id ` set (t_orders (a_db s)). cx_uuid_in C orderId = Some i
             then (Inl (queryFailed ''chk_order_status''), s)
             else st_bind (controller_updateStatus C now orderId QUEUED) (\<lambda>r. st_return (Some r)) s)))"

section \<open>Orders in the old format\<close>

text \<open>String of a number with two decimals: trailing zeros are dropped; None is NaN.\<close>

definition js_number_text :: "price option \<Rightarrow> string" where
  "js_number_text x =
     (case x of
        None \<Rightarrow> ''NaN''
      | Some h \<Rightarrow>
          (let sign = (if h < 0 then ''-'' else []); n = nat \<bar>h\<bar>; f = n mod 100
           in sign @ show_nat (n div 100) @
             (if f = 0 then []
              else if f mod 10 = 0 then CHR ''.'' # [digit_char (f div 10)]
              else CHR ''.'' # [digit_char (f div 10), digit_char (f mod 10)])))"

record compat_item =
  cp_itemId :: "string option"
  cp_itemMenuId :: "string option"
  cp_itemQuantity :: "int option"

record compat_body =
  cb_storeId :: "string option"
  cb_total :: "price option option" \<comment> \<open>absent, or a number that may be NaN\<close>
  cb_amount :: "price option option"
  cb_items :: "compat_item list"
  cb_idempotencyKey :: "string option"

definition first_some :: "'a option \<Rightarrow> 'a option \<Rightarrow> 'a \<Rightarrow> 'a" where
  "first_some x y d = (case x of Some a \<Rightarrow> a | None \<Rightarrow> (case y of Some b \<Rightarrow> b | None \<Rightarrow> d))"

datatype compat_answer =
    StoreIdNeeded
  | AmountNeeded
  | OrderTaken create_result

definition compat_command :: "compat_body \<Rightarrow> string \<Rightarrow> create_order_command" where
  "compat_command b fresh =
     \<lparr>cc_idempotencyKey = (case cb_idempotencyKey b of None \<Rightarrow> fresh | Some k \<Rightarrow> k),
      cc_storeId = (case cb_storeId b of None \<Rightarrow> [] | Some i \<Rightarrow> i), cc_userId = None,
      cc_requestedAmount = js_number_text (first_some (cb_total b) (cb_amount b) (Some 0)),
      cc_items = map (\<lambda>it. \<lparr>ci_menuId = first_some (cp_itemId it) (cp_itemMenuId it) [],
        ci_quantity = (case cp_itemQuantity it of None \<Rightarrow> 1 | Some q \<Rightarrow> q)\<rparr>) (cb_items b)\<rparr>"

text \<open>total <= 0 is false for NaN.\<close>

definition createOrderCompat :: "'d api_env \<Rightarrow> string \<Rightarrow> compat_body \<Rightarrow> compat_answer api" where
  "createOrderCompat E fresh b =
     (if \<not> truthy (cb_storeId b) then st_return StoreIdNeeded
      else if (case first_some (cb_total b) (cb_amount b) (Some 0) of None \<Rightarrow> False | Some t \<Rightarrow> t \<le> 0)
      then st_return AmountNeeded
      else st_bind (execute E (compat_command b fresh)) (\<lambda>r. st_return (OrderTaken r)))"

section \<open>Sales\<close>

definition amount_of :: "order_row \<Rightarrow> nat" where
  "amount_of r = (case amount_hundredths (o_calculatedAmount r) of None \<Rightarrow> 0 | Some h \<Rightarrow> h)"

definition sum_amount :: "order_row list \<Rightarrow> nat" where
  "sum_amount rows = sum_list (map amount_of rows)"

record period_sales =
  ps_period :: string
  ps_count :: nat
  ps_amount :: nat

record sales_report =
  sr_totalCount :: nat
  sr_finalAmount :: nat
  sr_cancelCount :: nat
  sr_cancelAmount :: nat
  sr_taxable :: int
  sr_vat :: int
  sr_byDate :: "period_sales list"

definition sold :: "order_row \<Rightarrow> bool" where
  "sold r \<longleftrightarrow> o_status r \<notin> {FAILED, CANCELLED, QUEUED, SAVED}"

text \<open>
  TO_CHAR(DATE_TRUNC(g, created_at + 9 hours), 'YYYY-MM-DD') in a session on UTC: the first day of the
  day, week, month or quarter; the epoch was a Thursday and weeks start on Monday.
\<close>

definition period_text :: "string \<Rightarrow> time \<Rightarrow> string" where
  "period_text g t =
     (let days = (t + 9 * 60 * 60 * 1000) div 86400000;
          first = (case civil_of_days days of (y, m, d) \<Rightarrow>
            if g = ''month'' then (y, m, 1)
            else if g = ''quarter'' then (y, 3 * ((m - 1) div 3) + 1, 1)
            else if g = ''week'' then civil_of_days (days - (days + 3) mod 7)
            else (y, m, d))
      in case first of (y, m, d) \<Rightarrow> pad4 y @ ''-'' @ pad2 m @ ''-'' @ pad2 d)"

text \<open>
  Math.round(finalAmount / 1.1) in hundredths of what the amount is in hundredths, computed exactly. For
  whole amounts below 10^13 the quotient of the program's doubles rounds alike: it lies at least 1/22
  from a tie.
\<close>

definition taxable_amount :: "nat \<Rightarrow> int" where
  "taxable_amount h = 100 * ((int h + 55) div 110)"

text \<open>GROUP BY 1 ORDER BY 1.\<close>

definition group_by_period :: "(time \<Rightarrow> string) \<Rightarrow> order_row list \<Rightarrow> period_sales list" where
  "group_by_period period rows =
     map (\<lambda>p. let own = filter (\<lambda>r. period (o_createdAt r) = p) rows
              in \<lparr>ps_period = p, ps_count = length own, ps_amount = sum_amount own\<rparr>)
       (sort (remdups (map (\<lambda>r. period (o_createdAt r)) rows)))"

text \<open>The three queries may see three databases.\<close>

definition sales_totals :: "uuid \<Rightarrow> int \<Rightarrow> int \<Rightarrow> database \<Rightarrow> order_row list" where
  "sales_totals store a b db = sql_select (\<lambda>r. by_date_where store a b r \<and> sold r) (t_orders db)"

definition sales_cancels :: "uuid \<Rightarrow> int \<Rightarrow> int \<Rightarrow> database \<Rightarrow> order_row list" where
  "sales_cancels store a b db =
     sql_select (\<lambda>r. by_date_where store a b r \<and> o_status r = CANCELLED \<and> 0 < amount_of r) (t_orders db)"

definition group_by_safe :: "string option \<Rightarrow> string" where
  "group_by_safe groupBy =
     (case groupBy of None \<Rightarrow> ''day''
      | Some g \<Rightarrow> if g \<in> {''day'', ''week'', ''month'', ''quarter''} then g else ''day'')"

definition getSales ::
  "db_ctx \<Rightarrow> (string \<Rightarrow> int option) \<Rightarrow> int \<Rightarrow> string option \<Rightarrow> string option \<Rightarrow> string option \<Rightarrow> string option \<Rightarrow>
   database \<times> database \<times> database \<Rightarrow> error + sales_report option" where
  "getSales C parse_date now storeId from_text to_text groupBy dbs =
     (if \<not> truthy storeId then Inr None
      else
        (let fromDate = date_or parse_date from_text (now - 30 * day_ms);
             toDate = date_or parse_date to_text now;
             gbSafe = group_by_safe groupBy
         in case dbs of (db1, db2, db3) \<Rightarrow>
            bind_res (run_stmt C SelectOrder) (\<lambda>_.
            bind_res (uuid_arg C (the storeId)) (\<lambda>store.
            bind_res (date_arg fromDate) (\<lambda>a.
            bind_res (date_arg toDate) (\<lambda>b.
              let totals = sales_totals store a b db1; cancels = sales_cancels store a b db2;
                  finalAmount = sum_amount totals
              in Inr (Some \<lparr>sr_totalCount = length totals, sr_finalAmount = finalAmount,
                   sr_cancelCount = length cancels, sr_cancelAmount = sum_amount cancels,
                   sr_taxable = taxable_amount finalAmount,
                   sr_vat = int finalAmount - taxable_amount finalAmount,
                   sr_byDate = group_by_period (period_text gbSafe) (sales_totals store a b db3)\<rparr>)))))))"

end
