(* ===== verification/Public_Properties.thy ===== *)
theory Public_Properties
  imports Public_Orders
begin

text \<open>
  What the public order endpoints promise: which orders the list of missed orders can show, the
  list by date, and the sums of the sales report.
\<close>

section \<open>Rows that no status update touched\<close>

definition untouched :: "database \<Rightarrow> bool" where
  "untouched db \<longleftrightarrow> (\<forall>r \<in> set (t_orders db). o_updatedAt r = None)"

lemma untouched_sql_update:
  "untouched db \<Longrightarrow> (\<And>r. o_updatedAt (f r) = o_updatedAt r) \<Longrightarrow>
     untouched (db\<lparr>t_orders := sql_update q f (t_orders db)\<rparr>)"
  by (auto simp: untouched_def set_sql_update)

lemma createOrder_untouched: "untouched db \<Longrightarrow> untouched (snd (createOrder C p db))"
  by (auto simp: createOrder_state untouched_def fresh_row_of_def split: sum.splits prod.splits bool.splits
      dest!: createOrder_tx_True)

lemma transitionStatus_untouched:
  assumes "driver_counts C" and "untouched db"
  shows "untouched (snd (transitionStatus C p db))"
proof (cases "transitionStatus C p db")
  case (Pair res db')
  show ?thesis
  proof (cases res)
    case (Inl e)
    with Pair assms(2) show ?thesis using transitionStatus_Inl [of C p db e] by simp
  next
    case (Inr u)
    with Pair transitionStatus_Inr [of C p db db'] assms show ?thesis
      by (auto simp: untouched_def set_sql_update)
  qed
qed

lemma repo_step_untouched: "repo_step db db' \<Longrightarrow> untouched db \<Longrightarrow> untouched db'"
proof (induction rule: repo_step.induct)
  case (dlq db C i m)
  then show ?case by (auto simp: markDlq_def intro!: untouched_sql_update split: sum.splits)
next
  case (retry db C i)
  then show ?case by (auto simp: incrementRetryCount_def intro!: untouched_sql_update split: sum.splits)
qed (simp_all add: createOrder_untouched transitionStatus_untouched)

lemma repo_reachable_untouched: "repo_reachable db \<Longrightarrow> untouched db"
proof (induction rule: repo_reachable.induct)
  case (initial db)
  then show ?case by (simp add: untouched_def)
qed (rule repo_step_untouched)

section \<open>Lists\<close>

lemma list_orders_Inr:
  "list_orders C query storeId db db' = Inr (ok, os) \<Longrightarrow>
     os = [] \<or> (\<exists>rows. query (the (cx_uuid_in C (the storeId))) (t_orders db) = Inr rows \<and>
       os = map (\<lambda>r. formatOrder r (fetchItemMap (map o_id rows) db')) rows)"
  by (auto simp: list_orders_def bind_res_Inr split: if_splits)

lemma formatOrder_sel [simp]:
  "po_id (formatOrder r f) = o_id r" "po_createdAt (formatOrder r f) = o_createdAt r"
  "po_status (formatOrder r f) = mapStatus (o_status r)" "po_storeId (formatOrder r f) = o_storeId r"
  "po_updatedAt (formatOrder r f) = o_updatedAt r"
  by (simp_all add: formatOrder_def)

lemma formatOrder_items:
  "r \<in> set rows \<Longrightarrow> po_items (formatOrder r (fetchItemMap (map o_id rows) db)) =
     map public_item_of (filter (\<lambda>it. oi_orderId it = o_id r) (t_items db))"
  by (auto simp: formatOrder_def fetchItemMap_def sql_select_def Let_def filter_empty_conv
      intro!: arg_cong [where f = "map public_item_of"] filter_cong)

lemma order_desc_mset [simp]: "mset (order_desc k rows) = mset rows"
  by (simp add: order_desc_def)

lemma order_desc_sorted: "sorted_wrt (\<lambda>a b. k b \<le> k a) (order_desc k rows)"
  using sorted_sort_key [of k rows] by (simp add: order_desc_def sorted_wrt_rev sorted_map)

text \<open>C39: an order that has not seen a status update through an endpoint never shows up among the
  missed orders: the repository, which moves orders along, leaves updated_at empty, and the query
  compares it. In a database that only intake and workers wrote, the list is empty whatever the
  parameters.\<close>

theorem missed_orders_blind:
  assumes "repo_reachable db" and "getMissedOrders C parse_date now storeId since db db' = Inr (ok, orders)"
  shows "orders = []"
proof -
  have "\<not> updated_after d r" if "r \<in> set (t_orders db)" for d r
    using repo_reachable_untouched [OF assms(1)] that by (simp add: untouched_def updated_after_def)
  then have "sql_select (\<lambda>r. o_storeId r = store \<and> updated_after d r) (t_orders db) = []" for store d
    by (simp add: sql_select_empty)
  then show ?thesis
    using assms(2) list_orders_Inr by (fastforce simp: getMissedOrders_def bind_res_Inr order_desc_def)
qed

theorem missed_orders_blind_witness:
  "getMissedOrders (quiet_ctx 20) (\<lambda>_. None) 20 (Some ''s1'') None queued_db queued_db = Inr (True, [])"
proof -
  obtain os where "getMissedOrders (quiet_ctx 20) (\<lambda>_. None) 20 (Some ''s1'') None queued_db queued_db =
      Inr (True, os)"
    by (simp add: getMissedOrders_def list_orders_def truthy_def date_or_def date_arg_def bind_res_def
        cong: if_cong)
  with missed_orders_blind [OF queued_db_reachable this] show ?thesis by simp
qed

text \<open>C37: when no more than 1000 orders of the store fall into the range, the list by date has each
  of them once, latest first, with all of its items; a longer list is cut to the latest 1000.\<close>

theorem orders_by_date_listed:
  assumes "statements_succeed C" and "cx_uuid_in C store_text = Some store" and "store_text \<noteq> []"
    and "date_or parse_date from_text (now - day_ms) = Some a" and "date_or parse_date to_text now = Some b"
  shows "\<exists>orders. getOrdersByDate C parse_date now (Some store_text) from_text to_text db db' = Inr (True, orders) \<and>
    sorted_wrt (\<lambda>x y. po_createdAt y \<le> po_createdAt x) orders \<and>
    (let rows = filter (by_date_where store a b) (t_orders db) in
       length orders = min 1000 (length rows) \<and>
       (length rows \<le> 1000 \<longrightarrow> mset (map po_id orders) = mset (map o_id rows)) \<and>
       (\<forall>p \<in> set orders. \<exists>r \<in> set rows. po_id p = o_id r \<and> po_status p = mapStatus (o_status r) \<and>
          po_items p = map public_item_of (filter (\<lambda>it. oi_orderId it = o_id r) (t_items db'))))"
proof -
  let ?sel = "filter (by_date_where store a b) (t_orders db)"
  let ?desc = "order_desc o_createdAt ?sel"
  let ?rows = "take 1000 ?desc"
  let ?os = "map (\<lambda>r. formatOrder r (fetchItemMap (map o_id ?rows) db')) ?rows"
  have len: "length ?desc = length ?sel" by (simp add: order_desc_def)
  have get: "getOrdersByDate C parse_date now (Some store_text) from_text to_text db db' = Inr (True, ?os)"
    using assms by (simp add: getOrdersByDate_def list_orders_def truthy_def date_arg_def sql_select_def
        statements_succeedD uuid_arg_def)
  have sorted: "sorted_wrt (\<lambda>x y. po_createdAt y \<le> po_createdAt x) ?os"
    unfolding sorted_wrt_map formatOrder_sel by (rule sorted_wrt_take) (rule order_desc_sorted)
  have ids: "mset (map po_id ?os) = mset (map o_id ?sel)" if "length ?sel \<le> 1000"
    using that by (simp add: len comp_def)
  have rows: "\<exists>r \<in> set ?sel. po_id p = o_id r \<and> po_status p = mapStatus (o_status r) \<and>
      po_items p = map public_item_of (filter (\<lambda>it. oi_orderId it = o_id r) (t_items db'))"
    if "p \<in> set ?os" for p
  proof -
    from that obtain r where r: "r \<in> set ?rows" "p = formatOrder r (fetchItemMap (map o_id ?rows) db')"
      unfolding set_map by (rule imageE)
    have "set ?desc = set ?sel" by (metis order_desc_mset set_mset_mset)
    with r(1) have "r \<in> set ?sel" using in_set_takeD by fast
    then show ?thesis
      unfolding r(2) formatOrder_items [OF r(1)] formatOrder_sel by (intro bexI [of _ r] conjI refl)
  qed
  have "length ?os = min 1000 (length ?sel)" by (simp only: length_map length_take len min.commute)
  then show ?thesis
    unfolding Let_def by (intro exI [of _ ?os] conjI impI ballI get sorted ids rows)
qed

theorem orders_by_date_listed_witness:
  "\<exists>orders. getOrdersByDate (quiet_ctx 20) (\<lambda>_. None) 20 (Some ''s1'') None None queued_db queued_db =
     Inr (True, orders) \<and> map po_id orders = [''o1'']"
proof -
  have "filter (by_date_where ''s1'' (20 - day_ms) 20) (t_orders queued_db) = [sample_row]"
    by (simp add: by_date_where_def day_ms_def) (simp add: sample_row_def new_row_def)
  with orders_by_date_listed [of "quiet_ctx 20" "''s1''" "''s1''" "\<lambda>_. None" None 20 "20 - day_ms" None 20
      queued_db queued_db]
  show ?thesis by (auto simp: date_or_def truthy_def length_Suc_conv)
qed

section \<open>Sales\<close>

lemma sum_amount_simps [simp]:
  "sum_amount [] = 0" "sum_amount (r # rows) = amount_of r + sum_amount rows"
  by (simp_all add: sum_amount_def)

lemma sum_list_groups:
  fixes f :: "'r \<Rightarrow> nat"
  assumes "distinct ps" and "\<forall>r \<in> set rows. k r \<in> set ps"
  shows "sum_list (map (\<lambda>p. sum_list (map f (filter (\<lambda>r. k r = p) rows))) ps) = sum_list (map f rows)"
  using assms(2)
proof (induction rows)
  case Nil
  show ?case by (simp add: sum_list_0)
next
  case (Cons r rows)
  have "sum_list (map (\<lambda>p. sum_list (map f (filter (\<lambda>x. k x = p) (r # rows)))) ps) =
      sum_list (map (\<lambda>p. (if k r = p then f r else 0) + sum_list (map f (filter (\<lambda>x. k x = p) rows))) ps)"
    by (rule arg_cong [where f = sum_list]) simp
  also have "\<dots> = sum_list (map (\<lambda>p. if k r = p then f r else 0) ps) + sum_list (map f rows)"
    using Cons by (simp add: sum_list_addf)
  also have "sum_list (map (\<lambda>p. if k r = p then f r else 0) ps) = f r"
    using assms(1) Cons.prems sum_list_map_eq_sum_count2 by (simp add: sum_list_distinct_conv_sum_set)
  finally show ?case by simp
qed

lemma group_by_period_amounts:
  "sum_list (map ps_amount (group_by_period period rows)) = sum_amount rows"
  using sum_list_groups [of "sort (remdups (map (\<lambda>r. period (o_createdAt r)) rows))" rows
      "\<lambda>r. period (o_createdAt r)" amount_of]
  by (simp add: group_by_period_def comp_def Let_def sum_amount_def)

lemma group_by_period_counts:
  "sum_list (map ps_count (group_by_period period rows)) = length rows"
  using sum_list_groups [of "sort (remdups (map (\<lambda>r. period (o_createdAt r)) rows))" rows
      "\<lambda>r. period (o_createdAt r)" "\<lambda>_. 1"]
  by (simp add: group_by_period_def comp_def Let_def sum_list_triv)

lemma group_by_period_order:
  "sorted (map ps_period (group_by_period period rows)) \<and> distinct (map ps_period (group_by_period period rows))"
  by (simp add: group_by_period_def comp_def Let_def)

lemma length_disjoint_filters:
  "(\<And>x. P x \<Longrightarrow> \<not> Q x) \<Longrightarrow> (\<And>x. P x \<Longrightarrow> R x) \<Longrightarrow> (\<And>x. Q x \<Longrightarrow> R x) \<Longrightarrow>
     length (filter P xs) + length (filter Q xs) \<le> length (filter R xs)"
  by (induction xs) (auto simp: le_SucI)

definition sold_db :: database where
  "sold_db = queued_db\<lparr>t_orders := [sample_row\<lparr>o_status := COMPLETED\<rparr>]\<rparr>"

lemma taxable_nearest: "\<bar>110 * taxable_amount h - 100 * int h\<bar> \<le> 5500"
proof -
  have "110 * ((int h + 55) div 110) = int h + 55 - (int h + 55) mod 110"
    by (simp add: minus_mod_eq_mult_div)
  moreover have "0 \<le> (int h + 55) mod 110" "(int h + 55) mod 110 < 110" by simp_all
  ultimately show ?thesis by (simp add: taxable_amount_def)
qed


text \<open>C38: the sales report adds up: it counts the orders of the store and the range that reached the
  POS or are past it; the days, weeks, months or quarters of its list partition them, so that counts
  and amounts sum to the totals; the taxable amount is the amount over 1.1 to the nearest won, and
  taxable amount and tax sum to the amount; and no order counts both as sold and as cancelled.\<close>

theorem sales_report_adds_up:
  assumes "statements_succeed C" and "cx_uuid_in C store_text = Some store" and "store_text \<noteq> []"
    and "date_or parse_date from_text (now - 30 * day_ms) = Some a" and "date_or parse_date to_text now = Some b"
  shows "\<exists>rep. getSales C parse_date now (Some store_text) from_text to_text groupBy (db, db, db) =
      Inr (Some rep) \<and>
    sr_totalCount rep = length (filter (\<lambda>r. by_date_where store a b r \<and>
      o_status r \<in> {SENT_TO_POS, COMPLETED, ACCEPTED, COOKING, DONE}) (t_orders db)) \<and>
    sum_list (map ps_count (sr_byDate rep)) = sr_totalCount rep \<and>
    sum_list (map ps_amount (sr_byDate rep)) = sr_finalAmount rep \<and>
    distinct (map ps_period (sr_byDate rep)) \<and> sorted (map ps_period (sr_byDate rep)) \<and>
    \<bar>110 * sr_taxable rep - 100 * int (sr_finalAmount rep)\<bar> \<le> 5500 \<and>
    sr_taxable rep + sr_vat rep = int (sr_finalAmount rep) \<and>
    sr_totalCount rep + sr_cancelCount rep \<le> length (filter (by_date_where store a b) (t_orders db))"
proof -
  let ?totals = "sales_totals store a b db" and ?cancels = "sales_cancels store a b db"
  have sold: "sold r \<longleftrightarrow> o_status r \<in> {SENT_TO_POS, COMPLETED, ACCEPTED, COOKING, DONE}" for r
    by (cases "o_status r") (simp_all add: sold_def)
  have "length ?totals + length ?cancels \<le> length (filter (by_date_where store a b) (t_orders db))"
    unfolding sales_totals_def sales_cancels_def sql_select_def
    by (rule length_disjoint_filters) (auto simp: sold_def)
  then show ?thesis
    using assms group_by_period_order taxable_nearest
    by (simp add: getSales_def truthy_def date_arg_def statements_succeedD uuid_arg_def Let_def
        group_by_period_amounts group_by_period_counts)
      (simp add: sales_totals_def sql_select_def sold)
qed

theorem sales_report_adds_up_witness:
  "\<exists>rep. getSales (quiet_ctx 20) (\<lambda>_. None) 20 (Some ''s1'') None None None
     (sold_db, sold_db, sold_db) = Inr (Some rep) \<and> sr_totalCount rep = 1"
proof -
  have "o_createdAt sample_row = 10" by (simp add: sample_row_def new_row_def)
  then have "filter (\<lambda>r. by_date_where ''s1'' (20 - 30 * day_ms) 20 r \<and>
      o_status r \<in> {SENT_TO_POS, COMPLETED, ACCEPTED, COOKING, DONE}) (t_orders sold_db) =
      [sample_row\<lparr>o_status := COMPLETED\<rparr>]" by (simp add: sold_db_def by_date_where_def day_ms_def)
  with sales_report_adds_up [of "quiet_ctx 20" "''s1''" "''s1''" "\<lambda>_. None" None 20 "20 - 30 * day_ms" None 20
      None sold_db]
  show ?thesis by (auto simp: date_or_def truthy_def)
qed

end
