(* ===== verification/Traced_Orders.thy ===== *)
theory Traced_Orders
  imports Worker_Correctness Order_Api
begin

text \<open>
  Where the rows of orders come from: each row, with its items and amounts, is that of a payload
  a job carried. Every client of the database keeps this: the repository's operations for the
  payloads of the queue, status updates of the POS, and replacements of menus.
\<close>

section \<open>Rows and payloads\<close>

definition items_total :: "order_job_item list \<Rightarrow> int" where
  "items_total its = sum_list (map (\<lambda>it. ji_unitPrice it * ji_quantity it) its)"

text \<open>
  A row of order_items holds a line of the job: its menu, under the identifier that the database
  reads from the text (rd), its name, price and quantity.
\<close>

definition item_of :: "(string \<Rightarrow> uuid option) \<Rightarrow> order_item_entity \<Rightarrow> order_job_item \<Rightarrow> bool" where
  "item_of rd row it \<longleftrightarrow> rd (ji_menuId it) = Some (oi_menuId row) \<and> oi_menuName row = ji_menuName it \<and>
     oi_unitPrice row = ji_unitPrice it \<and> oi_quantity row = ji_quantity it"

text \<open>The column holds the amount that its text had.\<close>

definition same_amount :: "string \<Rightarrow> string \<Rightarrow> bool" where
  "same_amount s n \<longleftrightarrow> (\<forall>h. amount_hundredths s = Some h \<longrightarrow> amount_hundredths n = Some h)"

definition ordered_as ::
  "(string \<Rightarrow> uuid option) \<Rightarrow> order_job_payload \<Rightarrow> order_row \<Rightarrow> order_item_entity list \<Rightarrow> bool" where
  "ordered_as rd p r its \<longleftrightarrow> o_idempotencyKey r = jp_idempotencyKey p \<and>
     rd (jp_orderId p) = Some (o_id r) \<and> rd (jp_storeId p) = Some (o_storeId r) \<and>
     list_all2 (item_of rd) its (jp_items p) \<and> list_all item_row_ok (jp_items p) \<and>
     same_amount (jp_requestedAmount p) (o_requestedAmount r) \<and>
     same_amount (jp_calculatedAmount p) (o_calculatedAmount r)"

definition rows_traced :: "(string \<Rightarrow> uuid option) \<Rightarrow> order_job_payload set \<Rightarrow> database \<Rightarrow> bool" where
  "rows_traced rd Q db \<longleftrightarrow>
     distinct (map o_id (t_orders db)) \<and> distinct (map o_idempotencyKey (t_orders db)) \<and>
     oi_orderId ` set (t_items db) \<subseteq> o_id ` set (t_orders db) \<and>
     (\<forall>r \<in> set (t_orders db). \<exists>p \<in> Q. ordered_as rd p r (items_of (o_id r) db))"

text \<open>Documented behaviour of the database: an amount with at most two decimals is stored in a
  NUMERIC(10,2) as it is, and the text of a UUID is read in the same way by every statement.\<close>

definition column_types :: "(string \<Rightarrow> uuid option) \<Rightarrow> db_ctx \<Rightarrow> bool" where
  "column_types rd C \<longleftrightarrow> cx_uuid_in C = rd \<and> (\<forall>s n. cx_numeric_in C s = Some n \<longrightarrow> same_amount s n)"

lemma rows_traced_mono: "rows_traced rd Q db \<Longrightarrow> Q \<subseteq> Q' \<Longrightarrow> rows_traced rd Q' db"
  unfolding rows_traced_def by blast

section \<open>What createOrder inserts\<close>

lemma insertItems_lines:
  "insertItems C n i its db = Inr db' \<Longrightarrow> cx_uuid_in C = rd \<Longrightarrow>
     \<exists>rows. db' = db\<lparr>t_items := t_items db @ rows\<rparr> \<and> (\<forall>r \<in> set rows. oi_orderId r = i) \<and>
       list_all2 (item_of rd) rows its \<and> list_all item_row_ok its"
proof (induction C n i its db arbitrary: db' rule: insertItems.induct)
  case (1 C n i db)
  then show ?case by (intro exI [of _ "[]"]) simp
next
  case (2 C n i it its db)
  from "2.prems" obtain db1 where a: "insertItem C n i it db = Inr db1"
    and b: "insertItems C (Suc n) i its db1 = Inr db'"
    by (auto simp: bind_res_Inr)
  from a "2.prems"(2) obtain m where m: "rd (ji_menuId it) = Some m" "item_row_ok it"
    "db1 = db\<lparr>t_items := t_items db @
       [\<lparr>oi_id = cx_uuid C (length (t_items db)), oi_orderId = i, oi_menuId = m, oi_menuName = ji_menuName it,
         oi_unitPrice = ji_unitPrice it, oi_quantity = ji_quantity it, oi_createdAt = cx_now C\<rparr>]\<rparr>"
    by (auto simp: insertItem_Inr)
  let ?row = "\<lparr>oi_id = cx_uuid C (length (t_items db)), oi_orderId = i, oi_menuId = m,
     oi_menuName = ji_menuName it, oi_unitPrice = ji_unitPrice it, oi_quantity = ji_quantity it,
     oi_createdAt = cx_now C\<rparr>"
  from m(1) have row: "oi_orderId ?row = i" "item_of rd ?row it" by (simp_all add: item_of_def)
  from "2.IH" [OF a b "2.prems"(2)] obtain rows where
    "db' = db1\<lparr>t_items := t_items db1 @ rows\<rparr>" "\<forall>r \<in> set rows. oi_orderId r = i"
    "list_all2 (item_of rd) rows its" "list_all item_row_ok its"
    by blast
  with row m show ?case by (intro exI [of _ "?row # rows"]) simp
qed

lemma new_row_sel:
  "o_id (new_row C p i st w rq ca) = i" "o_storeId (new_row C p i st w rq ca) = st" "o_idempotencyKey (new_row C p i st w rq ca) = cp_idempotencyKey p"
  "o_requestedAmount (new_row C p i st w rq ca) = rq" "o_calculatedAmount (new_row C p i st w rq ca) = ca"
  by (simp_all add: new_row_def)

lemma insertOrder_amounts:
  "insertOrder C p db = Inr (Some db') \<Longrightarrow> column_types rd C \<Longrightarrow>
     \<exists>row. cx_uuid_in C (cp_id p) = Some (o_id row) \<and> rd (cp_storeId p) = Some (o_storeId row) \<and> o_idempotencyKey row = cp_idempotencyKey p \<and>
       cp_idempotencyKey p \<notin> o_idempotencyKey ` set (t_orders db) \<and> o_id row \<notin> o_id ` set (t_orders db) \<and>
       same_amount (cp_requestedAmount p) (o_requestedAmount row) \<and>
       same_amount (cp_calculatedAmount p) (o_calculatedAmount row) \<and>
       db' = db\<lparr>t_orders := t_orders db @ [row]\<rparr>"
proof -
  assume ins: "insertOrder C p db = Inr (Some db')" and num: "column_types rd C"
  from ins obtain i store user requested calculated where
    v: "cx_uuid_in C (cp_id p) = Some i" "cx_uuid_in C (cp_storeId p) = Some store" "cx_numeric_in C (cp_requestedAmount p) = Some requested"
      "cx_numeric_in C (cp_calculatedAmount p) = Some calculated"
      "cp_idempotencyKey p \<notin> o_idempotencyKey ` set (t_orders db)" "i \<notin> o_id ` set (t_orders db)"
    and db': "db' = db\<lparr>t_orders := t_orders db @ [new_row C p i store user requested calculated]\<rparr>"
    by (auto simp: insertOrder_def bind_res_Inr split: if_splits)
  show ?thesis
    using v num unfolding db'
    by (intro exI [of _ "new_row C p i store user requested calculated"]) (simp add: new_row_sel column_types_def)
qed

lemma createOrder_tx_lines:
  assumes "createOrder_tx C p db = Inr (True, db')" and num: "column_types rd C"
  shows "\<exists>row its tr. o_idempotencyKey row = cp_idempotencyKey p \<and>
     rd (cp_id p) = Some (o_id row) \<and> rd (cp_storeId p) = Some (o_storeId row) \<and>
     cp_idempotencyKey p \<notin> o_idempotencyKey ` set (t_orders db) \<and> o_id row \<notin> o_id ` set (t_orders db) \<and>
     same_amount (cp_requestedAmount p) (o_requestedAmount row) \<and>
     same_amount (cp_calculatedAmount p) (o_calculatedAmount row) \<and>
     (\<forall>it \<in> set its. oi_orderId it = o_id row) \<and> list_all2 (item_of rd) its (cp_items p) \<and>
     list_all item_row_ok (cp_items p) \<and>
     db' = db\<lparr>t_orders := t_orders db @ [row], t_items := t_items db @ its,
       t_transitions := t_transitions db @ [tr]\<rparr>"
proof -
  from assms(1) obtain db1 i db2 log where
    ins: "insertOrder C p db = Inr (Some db1)" and i: "cx_uuid_in C (cp_id p) = Some i" and
    its: "insertItems C 0 i (cp_items p) db1 = Inr db2" and
    tr: "insertTransition C log db2 = Inr db'"
    by (auto simp: createOrder_tx_def bind_res_Inr split: option.splits)
  from insertOrder_amounts [OF ins num] i obtain row where
    row: "o_id row = i" "o_idempotencyKey row = cp_idempotencyKey p" "rd (cp_storeId p) = Some (o_storeId row)"
      "cp_idempotencyKey p \<notin> o_idempotencyKey ` set (t_orders db)" "o_id row \<notin> o_id ` set (t_orders db)"
      "same_amount (cp_requestedAmount p) (o_requestedAmount row)"
      "same_amount (cp_calculatedAmount p) (o_calculatedAmount row)"
    and db1: "db1 = db\<lparr>t_orders := t_orders db @ [row]\<rparr>"
    by auto
  from num have rd: "cx_uuid_in C = rd" by (simp add: column_types_def)
  from insertItems_lines [OF its rd] obtain rows where
    rows: "\<forall>r \<in> set rows. oi_orderId r = i" "list_all2 (item_of rd) rows (cp_items p)"
      "list_all item_row_ok (cp_items p)"
    and db2: "db2 = db1\<lparr>t_items := t_items db1 @ rows\<rparr>"
    by blast
  show ?thesis
    using row rows tr i rd
    by (intro exI [of _ row] exI [of _ rows] exI [of _ "log_entry C (length (t_transitions db)) log"])
      (simp add: insertTransition_Inr db1 db2)
qed

section \<open>Every client keeps the rows traced\<close>

lemma items_of_other: "\<forall>it \<in> set its. oi_orderId it = i \<Longrightarrow> j \<noteq> i \<Longrightarrow>
    items_of j (db\<lparr>t_orders := rs, t_items := t_items db @ its, t_transitions := ts\<rparr>) = items_of j db"
  by (auto simp: items_of_def filter_empty_conv)

lemma createOrder_traced:
  assumes num: "column_types rd C" and p: "p \<in> Q" and db: "rows_traced rd Q db"
  shows "rows_traced rd Q (snd (createOrder C (create_params p m) db))"
proof (cases "\<exists>db'. createOrder_tx C (create_params p m) db = Inr (True, db')")
  case False
  then have "snd (createOrder C (create_params p m) db) = db"
    by (auto simp: createOrder_state split: sum.splits prod.splits bool.splits)
  with db show ?thesis by simp
next
  case True
  then obtain db' where tx: "createOrder_tx C (create_params p m) db = Inr (True, db')" by blast
  from createOrder_tx_lines [OF tx num] obtain row its tr where
    row: "o_idempotencyKey row = jp_idempotencyKey p" "jp_idempotencyKey p \<notin> o_idempotencyKey ` set (t_orders db)"
      "rd (jp_orderId p) = Some (o_id row)" "rd (jp_storeId p) = Some (o_storeId row)"
      "o_id row \<notin> o_id ` set (t_orders db)"
      "same_amount (jp_requestedAmount p) (o_requestedAmount row)"
      "same_amount (jp_calculatedAmount p) (o_calculatedAmount row)"
    and its: "\<forall>it \<in> set its. oi_orderId it = o_id row" "list_all2 (item_of rd) its (jp_items p)"
      "list_all item_row_ok (jp_items p)"
    and db': "db' = db\<lparr>t_orders := t_orders db @ [row], t_items := t_items db @ its,
       t_transitions := t_transitions db @ [tr]\<rparr>"
    by (auto simp: create_params_def)
  have owners: "oi_orderId ` set (t_items db) \<subseteq> o_id ` set (t_orders db)" using db by (simp add: rows_traced_def)
  have "oi_orderId it \<noteq> o_id row" if "it \<in> set (t_items db)" for it
    using owners row(5) imageI [OF that, of oi_orderId] by auto
  then have "items_of (o_id row) db = []" by (simp add: items_of_def filter_empty_conv)
  then have "items_of (o_id row) db' = its" using its(1) by (simp add: db' items_of_def)
  then have new: "ordered_as rd p row (items_of (o_id row) db')" using row its by (simp add: ordered_as_def)
  have old: "items_of (o_id r) db' = items_of (o_id r) db" if "r \<in> set (t_orders db)" for r
  proof -
    have "o_id r \<noteq> o_id row" using imageI [OF that, of o_id] row(5) by metis
    with its(1) show ?thesis unfolding db' by (rule items_of_other)
  qed
  have orders: "t_orders db' = t_orders db @ [row]" "t_items db' = t_items db @ its" by (simp_all add: db')
  have each: "\<exists>p \<in> Q. ordered_as rd p r (items_of (o_id r) db')" if r: "r \<in> set (t_orders db')" for r
  proof (cases "r = row")
    case True
    with new p show ?thesis by blast
  next
    case False
    with r have r: "r \<in> set (t_orders db)" by (simp add: orders)
    with db show ?thesis unfolding old [OF r] rows_traced_def by blast
  qed
  have keys: "distinct (map o_id (t_orders db'))" "distinct (map o_idempotencyKey (t_orders db'))"
    using db row(1-5) by (simp_all add: rows_traced_def orders)
  have "oi_orderId ` set (t_items db') \<subseteq> o_id ` set (t_orders db')"
  proof -
    have "oi_orderId ` set its \<subseteq> {o_id row}" using its(1) by blast
    with owners show ?thesis unfolding orders set_append image_Un by auto
  qed
  with keys each have "rows_traced rd Q db'" unfolding rows_traced_def by blast
  then show ?thesis by (simp add: createOrder_state tx)
qed

lemma update_traced:
  assumes "rows_traced rd Q db"
    and f: "\<And>r. o_id (f r) = o_id r" "\<And>r. o_storeId (f r) = o_storeId r" "\<And>r. o_idempotencyKey (f r) = o_idempotencyKey r"
      "\<And>r. o_requestedAmount (f r) = o_requestedAmount r" "\<And>r. o_calculatedAmount (f r) = o_calculatedAmount r"
  shows "rows_traced rd Q (db\<lparr>t_orders := sql_update q f (t_orders db), t_transitions := ts\<rparr>)"
proof -
  let ?db = "db\<lparr>t_orders := sql_update q f (t_orders db), t_transitions := ts\<rparr>"
  have same: "ordered_as rd p (f r) its = ordered_as rd p r its" for p r its by (simp add: ordered_as_def f)
  have ids: "o_id ` set (t_orders ?db) = o_id ` set (t_orders db)" by (simp add: image_sql_update f)
  have items: "items_of i ?db = items_of i db" for i by (simp add: items_of_def)
  have "\<exists>p \<in> Q. ordered_as rd p r (items_of (o_id r) ?db)" if "r \<in> set (t_orders ?db)" for r
  proof -
    from that obtain r0 where r0: "r0 \<in> set (t_orders db)" "r = (if q r0 then f r0 else r0)"
      by (auto simp: set_sql_update)
    then have "o_id r = o_id r0" "ordered_as rd p r its = ordered_as rd p r0 its" for p its by (simp_all add: f same)
    with assms(1) r0(1) show ?thesis unfolding rows_traced_def items by metis
  qed
  then show ?thesis
    using assms(1) ids unfolding rows_traced_def by (simp add: map_sql_update f)
qed

lemma update_traced_orders:
  assumes "rows_traced rd Q db"
    and "\<And>r. o_id (f r) = o_id r" "\<And>r. o_storeId (f r) = o_storeId r" "\<And>r. o_idempotencyKey (f r) = o_idempotencyKey r"
      "\<And>r. o_requestedAmount (f r) = o_requestedAmount r" "\<And>r. o_calculatedAmount (f r) = o_calculatedAmount r"
  shows "rows_traced rd Q (db\<lparr>t_orders := sql_update q f (t_orders db)\<rparr>)"
  using update_traced [OF assms, where ts = "t_transitions db"] by simp

lemma transition_row_store [simp]: "o_storeId (transition_row col now tp r) = o_storeId r"
  by (cases col) (simp_all add: transition_row_def extra_clauses_def Let_def split: option.splits)

lemma transitionStatus_traced:
  assumes "driver_counts C" and "rows_traced rd Q db"
  shows "rows_traced rd Q (snd (transitionStatus C tp db))"
proof (cases "transitionStatus C tp db")
  case (Pair res db')
  show ?thesis
  proof (cases res)
    case (Inl e)
    with Pair assms(2) show ?thesis using transitionStatus_Inl [of C tp db e] by simp
  next
    case (Inr u)
    with Pair transitionStatus_Inr [of C tp db db'] assms show ?thesis by (auto intro!: update_traced)
  qed
qed

lemma bookkeeping_traced:
  "rows_traced rd Q db \<Longrightarrow> rows_traced rd Q (snd (markDlq C i m db))"
  "rows_traced rd Q db \<Longrightarrow> rows_traced rd Q (snd (incrementRetryCount C i db))"
  "rows_traced rd Q db \<Longrightarrow> rows_traced rd Q (snd (posStatusUpdate C st i db))"
  by (auto simp: markDlq_def incrementRetryCount_def posStatusUpdate_def Let_def
      intro!: update_traced_orders split: sum.splits)

lemma menus_traced: "rows_traced rd Q db \<Longrightarrow> rows_traced rd Q (db\<lparr>t_menus := ms\<rparr>)"
  by (simp add: rows_traced_def items_of_def)

text \<open>The steps of all clients of the database, for the payloads that the queue holds.\<close>

inductive client_step ::
  "(string \<Rightarrow> uuid option) \<Rightarrow> order_job_payload set \<Rightarrow> database \<Rightarrow> database \<Rightarrow> bool" for rd Q where
  create: "column_types rd C \<Longrightarrow> p \<in> Q \<Longrightarrow> client_step rd Q db (snd (createOrder C (create_params p m) db))"
| transition: "driver_counts C \<Longrightarrow> client_step rd Q db (snd (transitionStatus C tp db))"
| dlq: "client_step rd Q db (snd (markDlq C i msg db))"
| retry: "client_step rd Q db (snd (incrementRetryCount C i db))"
| pos_status: "client_step rd Q db (snd (posStatusUpdate C st i db))"
| menus: "client_step rd Q db (db\<lparr>t_menus := ms\<rparr>)"

lemma client_step_traced: "client_step rd Q db db' \<Longrightarrow> rows_traced rd Q db \<Longrightarrow> rows_traced rd Q db'"
  by (induction rule: client_step.induct)
    (simp_all add: createOrder_traced transitionStatus_traced bookkeeping_traced menus_traced)

lemma client_steps_traced: "(client_step rd Q)\<^sup>*\<^sup>* db db' \<Longrightarrow> rows_traced rd Q db \<Longrightarrow> rows_traced rd Q db'"
  by (induction rule: rtranclp_induct) (auto intro: client_step_traced)

definition traced_env :: "(string \<Rightarrow> uuid option) \<Rightarrow> order_job_payload set \<Rightarrow> 'p worker_env \<Rightarrow> bool" where
  "traced_env rd Q E \<longleftrightarrow> (\<forall>c. driver_counts (we_ctx E c) \<and> column_types rd (we_ctx E c)) \<and>
     (\<forall>c db. (client_step rd Q)\<^sup>*\<^sup>* db (we_others E c db))"

interpretation traced: db_invariant "rows_traced rd Q" "traced_env rd Q" "\<lambda>p. p \<in> Q" for rd Q
  by unfold_locales (auto simp: traced_env_def createOrder_traced transitionStatus_traced bookkeeping_traced
      intro: client_steps_traced)

end
