(* ===== verification/Store_Catalog.thy ===== *)
theory Store_Catalog
  imports Public_Orders
begin

text \<open>
  The tables beside the orders and the endpoints on them: the POS replaces menus, categories,
  option groups and settings (src/menu/menu-admin.controller.ts), the administrator edits the
  delivery areas (src/admin/admin.controller.ts), and the apps read menus, settings, areas and
  customers (src/common/public.controller.ts). Bodies are records of the fields with the types
  the POS and the admin page send; a price is a number in hundredths.
\<close>

section \<open>Tables\<close>

text \<open>Migration 007 adds these columns to menus; the entity of the order service has none of them.\<close>

record menu_columns =
  mc_category :: "string option"
  mc_sortOrder :: int
  mc_meta :: "(string \<times> json) list"

record category_row =
  cg_id :: string
  cg_storeId :: uuid
  cg_name :: string
  cg_sortOrder :: int
  cg_meta :: json

record option_row =
  og_id :: string
  og_storeId :: uuid
  og_name :: string
  og_sortOrder :: int
  og_items :: json

record settings_row =
  sg_storeId :: uuid
  sg_settings :: "(string \<times> json) list"
  sg_updatedAt :: time

record area_row =
  ar_id :: uuid
  ar_name :: string
  ar_storeId :: uuid
  ar_isActive :: bool
  ar_sortOrder :: int
  ar_createdAt :: time

record catalog =
  c_db :: database
  c_columns :: "uuid \<Rightarrow> menu_columns"
  c_categories :: "category_row list"
  c_options :: "option_row list"
  c_settings :: "settings_row list"
  c_areas :: "area_row list"

type_synonym 'a catalog_op = "(catalog, error, 'a) comp"

text \<open>A statement on these tables, by its number within the operation, may fail.\<close>

definition catalog_stmt :: "db_ctx \<Rightarrow> nat \<Rightarrow> error + unit" where
  "catalog_stmt C n = run_stmt C (CatalogStmt n)"

definition catalog_transaction :: "(catalog \<Rightarrow> error + catalog) \<Rightarrow> unit catalog_op" where
  "catalog_transaction body k = (case body k of Inl e \<Rightarrow> (Inl e, k) | Inr k' \<Rightarrow> (Inr (), k'))"

definition varchar_ok :: "nat \<Rightarrow> string \<Rightarrow> bool" where
  "varchar_ok n s \<longleftrightarrow> length s \<le> n"

definition int4_ok :: "int \<Rightarrow> bool" where
  "int4_ok i \<longleftrightarrow> - (2 ^ 31) \<le> i \<and> i < 2 ^ 31"

definition price_ok :: "price \<Rightarrow> bool" where
  "price_ok p \<longleftrightarrow> 0 \<le> p \<and> p < 10 ^ 10"

definition store_fk :: "uuid \<Rightarrow> catalog \<Rightarrow> error + unit" where
  "store_fk store k = ensure (queryFailed ''store_id_fkey'') (store \<in> st_id ` set (t_stores (c_db k)))"

definition storeIdRequired :: error where
  "storeIdRequired = mk_error BadRequestException (TextMsg ''storeId required'')"

definition or_else :: "'a option \<Rightarrow> 'a \<Rightarrow> 'a" where
  "or_else x d = (case x of None \<Rightarrow> d | Some a \<Rightarrow> a)"

section \<open>POST /menu-data/save\<close>

record menu_item_body =
  mb_id :: "string option"
  mb_name :: "string option"
  mb_priceForOrder :: "price option"
  mb_price :: "price option"
  mb_visible :: "bool option"
  mb_soldOut :: "bool option"
  mb_category :: "string option"
  mb_sort :: "int option"
  mb_fields :: "(string \<times> json) list" \<comment> \<open>the item itself\<close>

definition toUuid :: "string \<Rightarrow> string \<Rightarrow> string" where
  "toUuid fresh s = (if UUID_RE s then s else fresh)"

definition menu_available :: "menu_item_body \<Rightarrow> bool" where
  "menu_available it \<longleftrightarrow> mb_visible it \<noteq> Some False \<and> \<not> or_else (mb_soldOut it) False"

definition menu_meta :: "string \<Rightarrow> string \<Rightarrow> (string \<times> json) list \<Rightarrow> (string \<times> json) list" where
  "menu_meta posId i item =
     filter (\<lambda>(f, _). f \<noteq> ''posId'') item @ [(''posId'', JStr (if posId = [] then i else posId))]"

text \<open>ON DELETE RESTRICT: a menu that an order's item names cannot be deleted.\<close>

definition deleteMenus :: "db_ctx \<Rightarrow> string \<Rightarrow> catalog \<Rightarrow> error + catalog" where
  "deleteMenus C storeId k =
     bind_res (catalog_stmt C 0) (\<lambda>_.
     bind_res (uuid_arg C storeId) (\<lambda>store.
     let db = c_db k; hit = sql_select (\<lambda>m. me_storeId m = store) (t_menus db) in
     bind_res (ensure (queryFailed ''order_items_menu_id_fkey'')
       (list_all (\<lambda>m. me_id m \<notin> oi_menuId ` set (t_items db)) hit)) (\<lambda>_.
     Inr (k\<lparr>c_db := db\<lparr>t_menus := sql_delete (\<lambda>m. me_storeId m = store) (t_menus db)\<rparr>\<rparr>))))"

definition new_menu :: "db_ctx \<Rightarrow> uuid \<Rightarrow> uuid \<Rightarrow> menu_item_body \<Rightarrow> menu_entity" where
  "new_menu C i store it =
     \<lparr>me_id = i, me_storeId = store, me_name = or_else (mb_name it) [],
      me_unitPrice = first_some (mb_priceForOrder it) (mb_price it) 0,
      me_isAvailable = menu_available it, me_version = 1, me_createdAt = cx_now C,
      me_updatedAt = cx_now C\<rparr>"

definition new_menu_columns :: "string \<Rightarrow> menu_item_body \<Rightarrow> menu_columns" where
  "new_menu_columns i it =
     \<lparr>mc_category = Some (or_else (mb_category it) []), mc_sortOrder = or_else (mb_sort it) 0,
      mc_meta = menu_meta (or_else (mb_id it) []) i (mb_fields it)\<rparr>"

definition menu_checks :: "menu_item_body \<Rightarrow> bool" where
  "menu_checks it \<longleftrightarrow> varchar_ok 255 (or_else (mb_name it) []) \<and>
     price_ok (first_some (mb_priceForOrder it) (mb_price it) 0) \<and>
     varchar_ok 100 (or_else (mb_category it) []) \<and> int4_ok (or_else (mb_sort it) 0)"

definition insertMenu :: "db_ctx \<Rightarrow> nat \<Rightarrow> string \<Rightarrow> string \<Rightarrow> menu_item_body \<Rightarrow> catalog \<Rightarrow> error + catalog" where
  "insertMenu C n fresh storeId it k =
     (let idText = toUuid fresh (or_else (mb_id it) []) in
      bind_res (catalog_stmt C n) (\<lambda>_.
      bind_res (uuid_arg C idText) (\<lambda>i.
      bind_res (uuid_arg C storeId) (\<lambda>store.
      bind_res (ensure (queryFailed ''menus_check'') (menu_checks it)) (\<lambda>_.
      bind_res (ensure (queryFailed ''menus_pkey'') (i \<notin> me_id ` set (t_menus (c_db k)))) (\<lambda>_.
      bind_res (store_fk store k) (\<lambda>_.
        Inr (k\<lparr>c_db := (c_db k)\<lparr>t_menus := t_menus (c_db k) @ [new_menu C i store it]\<rparr>,
               c_columns := (c_columns k)(i := new_menu_columns idText it)\<rparr>))))))))"

fun insertMenus :: "db_ctx \<Rightarrow> nat \<Rightarrow> (nat \<Rightarrow> string) \<Rightarrow> string \<Rightarrow> menu_item_body list \<Rightarrow> catalog \<Rightarrow> error + catalog"
where
  "insertMenus C n uuids storeId [] k = Inr k"
| "insertMenus C n uuids storeId (it # its) k =
     bind_res (insertMenu C n (uuids n) storeId it k) (insertMenus C (Suc n) uuids storeId its)"

definition saveMenus :: "db_ctx \<Rightarrow> (nat \<Rightarrow> string) \<Rightarrow> string option \<Rightarrow> menu_item_body list \<Rightarrow> unit catalog_op" where
  "saveMenus C uuids storeId items =
     (if \<not> truthy storeId then st_throw storeIdRequired
      else catalog_transaction (\<lambda>k.
        bind_res (deleteMenus C (the storeId) k) (insertMenus C 1 uuids (the storeId) items)))"

section \<open>POST /categories/save and /options/save\<close>

record category_body =
  kb_id :: "string option"
  kb_name :: "string option"
  kb_sort :: "int option"
  kb_json :: json \<comment> \<open>the item itself\<close>

definition insertCategory :: "db_ctx \<Rightarrow> nat \<Rightarrow> string \<Rightarrow> category_body \<Rightarrow> catalog \<Rightarrow> error + catalog" where
  "insertCategory C n storeId it k =
     (let i = or_else (kb_id it) []; sort = or_else (kb_sort it) 0 in
      if i = [] then Inr k
      else
        bind_res (catalog_stmt C n) (\<lambda>_.
        bind_res (uuid_arg C storeId) (\<lambda>store.
        bind_res (ensure (queryFailed ''integer'') (int4_ok sort)) (\<lambda>_.
        bind_res (ensure (queryFailed ''menu_categories_pkey'')
          ((i, store) \<notin> (\<lambda>r. (cg_id r, cg_storeId r)) ` set (c_categories k))) (\<lambda>_.
        bind_res (store_fk store k) (\<lambda>_.
          Inr (k\<lparr>c_categories := c_categories k @
            [\<lparr>cg_id = i, cg_storeId = store, cg_name = or_else (kb_name it) [],
              cg_sortOrder = sort, cg_meta = kb_json it\<rparr>]\<rparr>)))))))"

fun insertCategories :: "db_ctx \<Rightarrow> nat \<Rightarrow> string \<Rightarrow> category_body list \<Rightarrow> catalog \<Rightarrow> error + catalog" where
  "insertCategories C n storeId [] k = Inr k"
| "insertCategories C n storeId (it # its) k =
     bind_res (insertCategory C n storeId it k) (insertCategories C (Suc n) storeId its)"

definition deleteCategories :: "db_ctx \<Rightarrow> string \<Rightarrow> catalog \<Rightarrow> error + catalog" where
  "deleteCategories C storeId k =
     bind_res (catalog_stmt C 0) (\<lambda>_. bind_res (uuid_arg C storeId) (\<lambda>store.
       Inr (k\<lparr>c_categories := sql_delete (\<lambda>r. cg_storeId r = store) (c_categories k)\<rparr>)))"

definition saveCategories :: "db_ctx \<Rightarrow> string option \<Rightarrow> category_body list \<Rightarrow> unit catalog_op" where
  "saveCategories C storeId items =
     (if \<not> truthy storeId then st_throw storeIdRequired
      else catalog_transaction (\<lambda>k.
        bind_res (deleteCategories C (the storeId) k) (insertCategories C 1 (the storeId) items)))"

record option_body =
  xb_id :: "string option"
  xb_name :: "string option"
  xb_sort :: "int option"
  xb_items :: "json option"

definition insertOption :: "db_ctx \<Rightarrow> nat \<Rightarrow> string \<Rightarrow> option_body \<Rightarrow> catalog \<Rightarrow> error + catalog" where
  "insertOption C n storeId it k =
     (let i = or_else (xb_id it) []; sort = or_else (xb_sort it) 0 in
      if i = [] then Inr k
      else
        bind_res (catalog_stmt C n) (\<lambda>_.
        bind_res (uuid_arg C storeId) (\<lambda>store.
        bind_res (ensure (queryFailed ''integer'') (int4_ok sort)) (\<lambda>_.
        bind_res (ensure (queryFailed ''menu_options_pkey'')
          ((i, store) \<notin> (\<lambda>r. (og_id r, og_storeId r)) ` set (c_options k))) (\<lambda>_.
        bind_res (store_fk store k) (\<lambda>_.
          Inr (k\<lparr>c_options := c_options k @
            [\<lparr>og_id = i, og_storeId = store, og_name = or_else (xb_name it) [],
              og_sortOrder = sort, og_items = or_else (xb_items it) (JArr [])\<rparr>]\<rparr>)))))))"

fun insertOptions :: "db_ctx \<Rightarrow> nat \<Rightarrow> string \<Rightarrow> option_body list \<Rightarrow> catalog \<Rightarrow> error + catalog" where
  "insertOptions C n storeId [] k = Inr k"
| "insertOptions C n storeId (it # its) k =
     bind_res (insertOption C n storeId it k) (insertOptions C (Suc n) storeId its)"

definition deleteOptions :: "db_ctx \<Rightarrow> string \<Rightarrow> catalog \<Rightarrow> error + catalog" where
  "deleteOptions C storeId k =
     bind_res (catalog_stmt C 0) (\<lambda>_. bind_res (uuid_arg C storeId) (\<lambda>store.
       Inr (k\<lparr>c_options := sql_delete (\<lambda>r. og_storeId r = store) (c_options k)\<rparr>)))"

definition saveOptions :: "db_ctx \<Rightarrow> string option \<Rightarrow> option_body list \<Rightarrow> unit catalog_op" where
  "saveOptions C storeId items =
     (if \<not> truthy storeId then st_throw storeIdRequired
      else catalog_transaction (\<lambda>k.
        bind_res (deleteOptions C (the storeId) k) (insertOptions C 1 (the storeId) items)))"

section \<open>POST /settings/save\<close>

text \<open>INSERT ... ON CONFLICT (store_id) DO UPDATE.\<close>

definition settings_upsert :: "settings_row \<Rightarrow> settings_row list \<Rightarrow> settings_row list" where
  "settings_upsert row t =
     (if sg_storeId row \<in> sg_storeId ` set t
      then sql_update (\<lambda>r. sg_storeId r = sg_storeId row)
        (\<lambda>r. r\<lparr>sg_settings := sg_settings row, sg_updatedAt := sg_updatedAt row\<rparr>) t
      else t @ [row])"

definition saveSettings :: "db_ctx \<Rightarrow> string option \<Rightarrow> (string \<times> json) list \<Rightarrow> unit catalog_op" where
  "saveSettings C storeId body =
     (if \<not> truthy storeId then st_throw storeIdRequired
      else catalog_transaction (\<lambda>k.
        bind_res (catalog_stmt C 0) (\<lambda>_.
        bind_res (uuid_arg C (the storeId)) (\<lambda>store.
        bind_res (store_fk store k) (\<lambda>_.
          Inr (k\<lparr>c_settings := settings_upsert
            \<lparr>sg_storeId = store, sg_settings = body, sg_updatedAt = cx_now C\<rparr> (c_settings k)\<rparr>))))))"

end
