(* ===== verification/Store_Areas.thy ===== *)
theory Store_Areas
  imports Store_Catalog Admin_Service
begin

text \<open>
  Reading the tables of Store_Catalog and editing areas: AdminController
  (src/admin/admin.controller.ts) and the menus, settings, areas and customers endpoints of
  PublicController (src/common/public.controller.ts). The collation by which the server orders
  names, the clock and the administrator's password are parameters.
\<close>

section \<open>Menus and settings of a store\<close>

definition first_active_store :: "database \<Rightarrow> store_entity option" where
  "first_active_store db =
     (case sort_key st_createdAt (sql_select st_isActive (t_stores db)) of [] \<Rightarrow> None | st # _ \<Rightarrow> Some st)"

record menu_answer =
  ma_id :: uuid
  ma_name :: string
  ma_price :: price
  ma_unitPrice :: price
  ma_isAvailable :: bool
  ma_category :: string
  ma_sortOrder :: int
  ma_meta :: "(string \<times> json) list"

text \<open>The default category in UTF-8.\<close>

definition default_category :: string where
  "default_category = [CHR 0xEC, CHR 0xB9, CHR 0x98, CHR 0xED, CHR 0x82, CHR 0xA8]"

definition menu_answer_of :: "(uuid \<Rightarrow> menu_columns) \<Rightarrow> menu_entity \<Rightarrow> menu_answer" where
  "menu_answer_of cols m =
     \<lparr>ma_id = me_id m, ma_name = me_name m, ma_price = me_unitPrice m, ma_unitPrice = me_unitPrice m,
      ma_isAvailable = me_isAvailable m, ma_category = or_else (mc_category (cols (me_id m))) default_category,
      ma_sortOrder = mc_sortOrder (cols (me_id m)), ma_meta = mc_meta (cols (me_id m))\<rparr>"

text \<open>ORDER BY a number, then a name under the server's collation.\<close>

definition order_by_two :: "('r \<Rightarrow> 'a::linorder) \<Rightarrow> ('r \<Rightarrow> 'b::linorder) \<Rightarrow> 'r list \<Rightarrow> 'r list" where
  "order_by_two f g rows = sort_key f (sort_key g rows)"

definition getMenus ::
  "db_ctx \<Rightarrow> (string \<Rightarrow> 'c::linorder) \<Rightarrow> string option \<Rightarrow> catalog \<Rightarrow> error + bool \<times> menu_answer list" where
  "getMenus C collate storeId k =
     bind_res (if truthy storeId then Inr storeId
               else bind_res (run_stmt C SelectStore) (\<lambda>_.
                 Inr (map_option st_id (first_active_store (c_db k))))) (\<lambda>resolved.
     case resolved of
       None \<Rightarrow> Inr (False, [])
     | Some i \<Rightarrow>
         bind_res (run_stmt C SelectMenus) (\<lambda>_.
         bind_res (uuid_arg C i) (\<lambda>store.
           Inr (True, map (menu_answer_of (c_columns k))
             (order_by_two (\<lambda>m. mc_sortOrder (c_columns k (me_id m))) (\<lambda>m. collate (me_name m))
               (sql_select (\<lambda>m. me_storeId m = store \<and> me_isAvailable m) (t_menus (c_db k))))))))"

text \<open>GET /categories and GET /options.\<close>

definition getCategories :: "catalog \<Rightarrow> category_row list" where
  "getCategories k = []"

definition getOptions :: "catalog \<Rightarrow> option_row list" where
  "getOptions k = []"

record settings_answer =
  sx_isOpen :: json
  sx_businessPaused :: json
  sx_minOrderAmount :: json
  sx_storeNotice :: json
  sx_deliveryGuide :: json
  sx_deliveryFee :: json
  sx_openTime :: "json option" \<comment> \<open>the defaults have no such key\<close>
  sx_closeTime :: "json option"

text \<open>s[key] ?? default: null and undefined give the default.\<close>

definition setting :: "(string \<times> json) list \<Rightarrow> string \<Rightarrow> json \<Rightarrow> json" where
  "setting s key d = (case map_of s key of None \<Rightarrow> d | Some JNull \<Rightarrow> d | Some v \<Rightarrow> v)"

definition default_settings :: settings_answer where
  "default_settings =
     \<lparr>sx_isOpen = JBool True, sx_businessPaused = JBool False, sx_minOrderAmount = JNum 0,
      sx_storeNotice = JStr [], sx_deliveryGuide = JStr [], sx_deliveryFee = JNum 2000,
      sx_openTime = None, sx_closeTime = None\<rparr>"

definition select_settings :: "db_ctx \<Rightarrow> string \<Rightarrow> catalog \<Rightarrow> error + settings_row option" where
  "select_settings C storeId k =
     bind_res (catalog_stmt C 0) (\<lambda>_. bind_res (uuid_arg C storeId) (\<lambda>store.
       Inr (find (\<lambda>r. sg_storeId r = store) (c_settings k))))"

definition settings_of :: "(string \<times> json) list \<Rightarrow> settings_answer" where
  "settings_of s =
     \<lparr>sx_isOpen = setting s ''isOpen'' (sx_isOpen default_settings),
      sx_businessPaused = setting s ''businessPaused'' (sx_businessPaused default_settings),
      sx_minOrderAmount = setting s ''minOrderAmount'' (sx_minOrderAmount default_settings),
      sx_storeNotice = setting s ''storeNotice'' (sx_storeNotice default_settings),
      sx_deliveryGuide = setting s ''deliveryGuide'' (sx_deliveryGuide default_settings),
      sx_deliveryFee = setting s ''deliveryFee'' (sx_deliveryFee default_settings),
      sx_openTime = Some (setting s ''openTime'' JNull),
      sx_closeTime = Some (setting s ''closeTime'' JNull)\<rparr>"

definition getSettings :: "db_ctx \<Rightarrow> string option \<Rightarrow> catalog \<Rightarrow> error + settings_answer" where
  "getSettings C storeId k =
     (if \<not> truthy storeId then Inr default_settings
      else bind_res (select_settings C (the storeId) k) (\<lambda>row.
        Inr (case row of None \<Rightarrow> default_settings | Some r \<Rightarrow> settings_of (sg_settings r))))"

text \<open>
  Number(x) || 2000 in hundredths, where None is NaN; text_number is Number on the JSON values
  that are texts, arrays and objects.
\<close>

fun js_Number :: "(json \<Rightarrow> price option) \<Rightarrow> json \<Rightarrow> price option" where
  "js_Number text_number (JNum n) = Some (100 * n)"
| "js_Number text_number (JPrice p) = Some p"
| "js_Number text_number (JBool b) = Some (if b then 100 else 0)"
| "js_Number text_number JNull = Some 0"
| "js_Number text_number j = text_number j"

definition getDeliveryFee ::
  "db_ctx \<Rightarrow> (json \<Rightarrow> price option) \<Rightarrow> string option \<Rightarrow> catalog \<Rightarrow> error + price" where
  "getDeliveryFee C text_number storeId k =
     (if \<not> truthy storeId then Inr 200000
      else bind_res (select_settings C (the storeId) k) (\<lambda>row.
        Inr (case row of
               None \<Rightarrow> 200000
             | Some r \<Rightarrow>
                 (case Option.bind (map_of (sg_settings r) ''deliveryFee'') (js_Number text_number) of
                    None \<Rightarrow> 200000
                  | Some fee \<Rightarrow> if fee = 0 then 200000 else fee))))"

section \<open>Areas of the apps\<close>

definition area_sort :: "(string \<Rightarrow> 'c::linorder) \<Rightarrow> (area_row \<times> store_entity) list \<Rightarrow> (area_row \<times> store_entity) list"
where
  "area_sort collate rows = order_by_two (\<lambda>(a, _). ar_sortOrder a) (\<lambda>(a, _). collate (ar_name a)) rows"

text \<open>areas JOIN stores.\<close>

definition areas_with_stores :: "catalog \<Rightarrow> (area_row \<times> store_entity) list" where
  "areas_with_stores k =
     concat (map (\<lambda>a. map (\<lambda>st. (a, st)) (sql_select (\<lambda>st. st_id st = ar_storeId a) (t_stores (c_db k))))
       (c_areas k))"

definition getAreas :: "db_ctx \<Rightarrow> catalog \<Rightarrow> error + (uuid \<times> string \<times> uuid \<times> int) list" where
  "getAreas C k =
     bind_res (catalog_stmt C 0) (\<lambda>_.
       Inr (map (\<lambda>a. (ar_id a, ar_name a, ar_storeId a, ar_sortOrder a))
         (order_by_two ar_storeId ar_sortOrder (sql_select ar_isActive (c_areas k)))))"

datatype resolve_answer =
    NoStoreOpen
  | OutOfArea
  | Resolved uuid string string \<comment> \<open>store id, store name, area name\<close>

definition resolveArea ::
  "db_ctx \<Rightarrow> (string \<Rightarrow> 'c::linorder) \<Rightarrow> string option \<Rightarrow> string option \<Rightarrow> catalog \<Rightarrow> error + resolve_answer"
where
  "resolveArea C collate address kind k =
     (if kind = Some ''takeout'' \<or> trim (or_else address []) = []
      then bind_res (run_stmt C SelectStore) (\<lambda>_.
        Inr (case first_active_store (c_db k) of
               None \<Rightarrow> NoStoreOpen
             | Some st \<Rightarrow> Resolved (st_id st) (st_name st) []))
      else bind_res (catalog_stmt C 0) (\<lambda>_.
        let rows = area_sort collate (filter (\<lambda>(a, _). ar_isActive a) (areas_with_stores k));
            trimmed = trim (or_else address [])
        in Inr (case find (\<lambda>(a, _). has_text trimmed (ar_name a)) rows of
                  None \<Rightarrow> OutOfArea
                | Some (a, st) \<Rightarrow> Resolved (ar_storeId a) (st_name st) (ar_name a))))"

definition getArea :: "db_ctx \<Rightarrow> string \<Rightarrow> catalog \<Rightarrow> error + (uuid \<times> string \<times> uuid) option" where
  "getArea C areaId k =
     bind_res (catalog_stmt C 0) (\<lambda>_. bind_res (uuid_arg C areaId) (\<lambda>i.
       Inr (map_option (\<lambda>a. (ar_id a, ar_name a, ar_storeId a))
         (find (\<lambda>a. ar_id a = i \<and> ar_isActive a) (c_areas k)))))"

section \<open>Customers\<close>

record customer =
  cu_userId :: uuid
  cu_orderCount :: nat
  cu_totalSpent :: nat
  cu_lastOrderAt :: time

definition customer_orders :: "uuid \<Rightarrow> database \<Rightarrow> order_row list" where
  "customer_orders store db =
     sql_select (\<lambda>r. o_storeId r = store \<and> o_userId r \<noteq> None \<and> o_status r \<notin> {FAILED, CANCELLED}) (t_orders db)"

definition group_by_user :: "order_row list \<Rightarrow> customer list" where
  "group_by_user rows =
     map (\<lambda>u. let own = filter (\<lambda>r. o_userId r = Some u) rows
              in \<lparr>cu_userId = u, cu_orderCount = length own, cu_totalSpent = sum_amount own,
                  cu_lastOrderAt = Max (set (map o_createdAt own))\<rparr>)
       (remdups (map (\<lambda>r. the (o_userId r)) rows))"

definition getCustomers :: "db_ctx \<Rightarrow> string option \<Rightarrow> database \<Rightarrow> error + customer list" where
  "getCustomers C storeId db =
     (if \<not> truthy storeId then Inr []
      else bind_res (run_stmt C SelectOrder) (\<lambda>_. bind_res (uuid_arg C (the storeId)) (\<lambda>store.
        Inr (take 100 (rev (sort_key cu_lastOrderAt (group_by_user (customer_orders store db))))))))"

section \<open>AdminController\<close>

text \<open>parseInt of a query parameter: its leading digits after white space; None is NaN.\<close>

definition parseInt :: "string \<Rightarrow> int option" where
  "parseInt s =
     (let t = dropWhile js_space s; neg = (take 1 t = ''-'');
          body = (if take 1 t = ''-'' \<or> take 1 t = ''+'' then drop 1 t else t);
          digits = takeWhile (\<lambda>c. char_digit c \<noteq> None) body
      in map_option (\<lambda>n. if neg then - int n else int n) (read_nat digits))"

definition notANumber :: "string \<Rightarrow> error" where
  "notANumber name = mk_error Error (TextMsg (name @ '' value is not a number''))"

definition page_arg :: "string \<Rightarrow> int \<Rightarrow> string option \<Rightarrow> error + int" where
  "page_arg name d x = (if truthy x then require (notANumber name) (parseInt (the x)) else Inr d)"

text \<open>
  The query builder turns down a skip or take that is not a number before it runs anything;
  skip is computed from page and limit.
\<close>

definition controller_getDlqOrders ::
  "(string \<Rightarrow> time) \<Rightarrow> db_ctx \<Rightarrow> string option \<Rightarrow> string option \<Rightarrow> string option \<Rightarrow> string option \<Rightarrow>
   string option \<Rightarrow> database \<Rightarrow> error + dlq_item list \<times> nat \<times> int" where
  "controller_getDlqOrders parse_date C storeId from_text to_text page limit db =
     bind_res (page_arg ''skip'' 1 page) (\<lambda>p. bind_res (page_arg ''skip'' 20 limit) (\<lambda>l.
       getDlqOrders parse_date C
         \<lparr>dq_storeId = storeId, dq_from = from_text, dq_to = to_text, dq_page = Some p, dq_limit = Some l\<rparr> db))"

fun split_comma :: "string \<Rightarrow> string list" where
  "split_comma [] = [[]]"
| "split_comma (c # s) =
     (if c = CHR '','' then [] # split_comma s
      else (case split_comma s of [] \<Rightarrow> [[c]] | w # ws \<Rightarrow> (c # w) # ws))"

definition controller_getStatus ::
  "string option \<Rightarrow> 'p admin_state \<Rightarrow> queue_depth \<times> (string \<times> circuit_status) list" where
  "controller_getStatus storeIds s =
     getSystemStatus (if truthy storeIds then split_comma (the storeIds) else []) s"

text \<open>ADMIN_PASSWORD ?? 'admin1234'.\<close>

definition ADMIN_PASSWORD :: "string option \<Rightarrow> string" where
  "ADMIN_PASSWORD environment = or_else environment ''admin1234''"

definition checkAdminPassword :: "string option \<Rightarrow> string \<Rightarrow> bool" where
  "checkAdminPassword environment password = (password = ADMIN_PASSWORD environment)"

record area_body =
  ab_password :: "string option"
  ab_name :: "string option"
  ab_storeId :: "string option"
  ab_sortOrder :: "int option"
  ab_isActive :: "bool option"

datatype 'a admin_answer = WrongPassword | FieldsNeeded | AdminOk 'a

definition body_password_ok :: "string option \<Rightarrow> area_body \<Rightarrow> bool" where
  "body_password_ok pw b = checkAdminPassword pw (or_else (ab_password b) [])"

definition getAreasData ::
  "db_ctx \<Rightarrow> (string \<Rightarrow> 'c::linorder) \<Rightarrow> string option \<Rightarrow> string option \<Rightarrow> catalog \<Rightarrow>
   error + ((area_row \<times> string) list \<times> (uuid \<times> string) list) admin_answer" where
  "getAreasData C collate pw password k =
     (if \<not> checkAdminPassword pw (or_else password []) then Inr WrongPassword
      else bind_res (catalog_stmt C 0) (\<lambda>_. bind_res (run_stmt C SelectStore) (\<lambda>_.
        Inr (AdminOk (map (\<lambda>(a, st). (a, st_name st)) (area_sort collate (areas_with_stores k)),
          map (\<lambda>st. (st_id st, st_name st))
            (sort_key (\<lambda>st. collate (st_name st)) (sql_select st_isActive (t_stores (c_db k)))))))))"

definition area_checks :: "string \<Rightarrow> int \<Rightarrow> error + unit" where
  "area_checks name sortOrder = ensure (queryFailed ''areas'') (varchar_ok 100 name \<and> int4_ok sortOrder)"

definition createArea :: "db_ctx \<Rightarrow> string option \<Rightarrow> string \<Rightarrow> area_body \<Rightarrow> string admin_answer catalog_op" where
  "createArea C pw fresh b =
     (let name = trim (or_else (ab_name b) []); storeId = trim (or_else (ab_storeId b) []);
          sortOrder = or_else (ab_sortOrder b) 0
      in if \<not> body_password_ok pw b then st_return WrongPassword
         else if name = [] \<or> storeId = [] then st_return FieldsNeeded
         else
           st_bind (catalog_transaction (\<lambda>k.
             bind_res (catalog_stmt C 0) (\<lambda>_.
             bind_res (uuid_arg C fresh) (\<lambda>i. bind_res (uuid_arg C storeId) (\<lambda>store.
             bind_res (area_checks name sortOrder) (\<lambda>_.
             bind_res (ensure (queryFailed ''areas_pkey'') (i \<notin> ar_id ` set (c_areas k))) (\<lambda>_.
             bind_res (store_fk store k) (\<lambda>_.
               Inr (k\<lparr>c_areas := c_areas k @
                 [\<lparr>ar_id = i, ar_name = name, ar_storeId = store, ar_isActive = True,
                   ar_sortOrder = sortOrder, ar_createdAt = cx_now C\<rparr>]\<rparr>))))))))) (\<lambda>_.
           st_return (AdminOk fresh)))"

text \<open>The constraints are checked on the rows that the UPDATE hits.\<close>

definition updateArea :: "db_ctx \<Rightarrow> string option \<Rightarrow> string \<Rightarrow> area_body \<Rightarrow> unit admin_answer catalog_op" where
  "updateArea C pw areaId b =
     (let name = trim (or_else (ab_name b) []); storeId = trim (or_else (ab_storeId b) []);
          sortOrder = or_else (ab_sortOrder b) 0; isActive = (ab_isActive b \<noteq> Some False)
      in if \<not> body_password_ok pw b then st_return WrongPassword
         else if name = [] \<or> storeId = [] then st_return FieldsNeeded
         else
           st_bind (catalog_transaction (\<lambda>k.
             bind_res (catalog_stmt C 0) (\<lambda>_.
             bind_res (uuid_arg C areaId) (\<lambda>i. bind_res (uuid_arg C storeId) (\<lambda>store.
             bind_res (ensure (queryFailed ''integer'') (int4_ok sortOrder)) (\<lambda>_.
             if sql_count (\<lambda>a. ar_id a = i) (c_areas k) = 0 then Inr k
             else
               bind_res (area_checks name sortOrder) (\<lambda>_.
               bind_res (store_fk store k) (\<lambda>_.
                 Inr (k\<lparr>c_areas := sql_update (\<lambda>a. ar_id a = i)
                   (\<lambda>a. a\<lparr>ar_name := name, ar_storeId := store, ar_sortOrder := sortOrder,
                      ar_isActive := isActive\<rparr>) (c_areas k)\<rparr>))))))))) (\<lambda>_.
           st_return (AdminOk ())))"

definition deleteArea :: "db_ctx \<Rightarrow> string option \<Rightarrow> string \<Rightarrow> area_body \<Rightarrow> unit admin_answer catalog_op" where
  "deleteArea C pw areaId b =
     (if \<not> body_password_ok pw b then st_return WrongPassword
      else
        st_bind (catalog_transaction (\<lambda>k.
          bind_res (catalog_stmt C 0) (\<lambda>_. bind_res (uuid_arg C areaId) (\<lambda>i.
            Inr (k\<lparr>c_areas := sql_delete (\<lambda>a. ar_id a = i) (c_areas k)\<rparr>))))) (\<lambda>_.
        st_return (AdminOk ())))"

section \<open>Reading back a printed number\<close>

lemma show_nat_all_digits: "\<forall>c \<in> set (show_nat n). char_digit c \<noteq> None"
  using show_nat_digits by fastforce

lemma digit_not_space: "char_digit c \<noteq> None \<Longrightarrow> \<not> js_space c \<and> c \<noteq> CHR ''-'' \<and> c \<noteq> CHR ''+''"
  by (auto simp: char_digit_def js_space_def Let_def split: if_splits)

lemma parseInt_show_int: "parseInt (show_int n) = Some n"
proof -
  have digits: "takeWhile (\<lambda>c. \<exists>d. char_digit c = Some d) (show_nat m) = show_nat m" for m
    using show_nat_all_digits by (simp add: takeWhile_eq_all_conv)
  have minus: "\<not> js_space (CHR ''-'')" by (simp add: js_space_def)
  show ?thesis
  proof (cases "n < 0")
    case True
    then show ?thesis by (simp add: parseInt_def show_int_def Let_def digits minus)
  next
    case False
    obtain c cs where c: "show_nat (nat n) = c # cs" by (cases "show_nat (nat n)") auto
    then have "char_digit c \<noteq> None" using show_nat_all_digits [of "nat n"] by simp
    then have "\<not> js_space c" "c \<noteq> CHR ''-''" "c \<noteq> CHR ''+''" using digit_not_space [of c] by simp_all
    then have "parseInt (show_int n) =
        map_option int (read_nat (takeWhile (\<lambda>d. char_digit d \<noteq> None) (show_nat (nat n))))"
      using False by (simp add: parseInt_def show_int_def Let_def c)
    with False show ?thesis by (simp add: digits)
  qed
qed

end
