(* ===== verification/Catalog_Properties.thy ===== *)
theory Catalog_Properties
  imports Store_Areas Public_Properties
begin

text \<open>
  What the endpoints on menus, settings and areas promise: the tables stay well formed, a
  replacement of menus is complete or nothing, settings are read back as saved, an address
  leads to the first matching area; and that orders lock the menus of their store for good.
\<close>

section \<open>Well-formed tables\<close>

text \<open>A table with a key: no two rows share it, and every row is valid.\<close>

definition rows_ok :: "('r \<Rightarrow> 'k) \<Rightarrow> ('r \<Rightarrow> bool) \<Rightarrow> 'r list \<Rightarrow> bool" where
  "rows_ok key valid t \<longleftrightarrow> distinct (map key t) \<and> (\<forall>r \<in> set t. valid r)"

named_theorems rows_intros "operations that keep a table well formed"

lemma rows_ok_snoc [rows_intros]:
  "rows_ok key valid t \<Longrightarrow> key r \<notin> key ` set t \<Longrightarrow> valid r \<Longrightarrow> rows_ok key valid (t @ [r])"
  by (auto simp: rows_ok_def)

lemma distinct_map_filter: "distinct (map f xs) \<Longrightarrow> distinct (map f (filter P xs))"
  by (induction xs) auto

lemma rows_ok_delete [rows_intros]: "rows_ok key valid t \<Longrightarrow> rows_ok key valid (sql_delete q t)"
  by (simp add: rows_ok_def sql_delete_def distinct_map_filter)

lemma rows_ok_update [rows_intros]:
  "rows_ok key valid t \<Longrightarrow> (\<And>r. key (f r) = key r) \<Longrightarrow> (\<And>r. valid r \<Longrightarrow> valid (f r)) \<Longrightarrow>
     rows_ok key valid (sql_update q f t)"
  by (auto simp: rows_ok_def map_sql_update set_sql_update)

definition store_ids :: "catalog \<Rightarrow> uuid set" where
  "store_ids k = st_id ` set (t_stores (c_db k))"

text \<open>A menu that an order's item names is there, as the foreign key demands.\<close>

definition items_have_menus :: "database \<Rightarrow> bool" where
  "items_have_menus db \<longleftrightarrow> oi_menuId ` set (t_items db) \<subseteq> me_id ` set (t_menus db)"

definition menu_valid :: "uuid set \<Rightarrow> menu_entity \<Rightarrow> bool" where
  "menu_valid S m \<longleftrightarrow> price_ok (me_unitPrice m) \<and> me_storeId m \<in> S"

definition category_valid :: "uuid set \<Rightarrow> category_row \<Rightarrow> bool" where
  "category_valid S r \<longleftrightarrow> cg_id r \<noteq> [] \<and> int4_ok (cg_sortOrder r) \<and> cg_storeId r \<in> S"

definition option_valid :: "uuid set \<Rightarrow> option_row \<Rightarrow> bool" where
  "option_valid S r \<longleftrightarrow> og_id r \<noteq> [] \<and> int4_ok (og_sortOrder r) \<and> og_storeId r \<in> S"

definition area_valid :: "uuid set \<Rightarrow> area_row \<Rightarrow> bool" where
  "area_valid S a \<longleftrightarrow> ar_name a \<noteq> [] \<and> trim (ar_name a) = ar_name a \<and> varchar_ok 100 (ar_name a) \<and>
     int4_ok (ar_sortOrder a) \<and> ar_storeId a \<in> S"

definition catalog_ok :: "catalog \<Rightarrow> bool" where
  "catalog_ok k \<longleftrightarrow>
     rows_ok me_id (menu_valid (store_ids k)) (t_menus (c_db k)) \<and> items_have_menus (c_db k) \<and>
     rows_ok (\<lambda>r. (cg_id r, cg_storeId r)) (category_valid (store_ids k)) (c_categories k) \<and>
     rows_ok (\<lambda>r. (og_id r, og_storeId r)) (option_valid (store_ids k)) (c_options k) \<and>
     rows_ok sg_storeId (\<lambda>r. sg_storeId r \<in> store_ids k) (c_settings k) \<and>
     rows_ok ar_id (area_valid (store_ids k)) (c_areas k)"

lemma store_ids_frame [simp]:
  "store_ids (k\<lparr>c_categories := x1\<rparr>) = store_ids k" "store_ids (k\<lparr>c_options := x2\<rparr>) = store_ids k"
  "store_ids (k\<lparr>c_settings := x3\<rparr>) = store_ids k" "store_ids (k\<lparr>c_areas := x4\<rparr>) = store_ids k"
  "store_ids (k\<lparr>c_columns := x5\<rparr>) = store_ids k"
  "t_stores db = t_stores (c_db k) \<Longrightarrow> store_ids (k\<lparr>c_db := db\<rparr>) = store_ids k"
  by (simp_all add: store_ids_def)

lemma store_fk_Inr [simp]: "store_fk store k = Inr u \<longleftrightarrow> store \<in> store_ids k"
  by (simp add: store_fk_def store_ids_def)

lemma catalog_transaction_keeps:
  "(\<And>k k'. P k \<Longrightarrow> body k = Inr k' \<Longrightarrow> P k') \<Longrightarrow> keeps P (catalog_transaction body)"
  by (auto simp: keeps_def catalog_transaction_def split: sum.splits)

text \<open>One table changes, the others stay.\<close>

lemma catalog_ok_categories:
  "catalog_ok k \<Longrightarrow> rows_ok (\<lambda>r. (cg_id r, cg_storeId r)) (category_valid (store_ids k)) t \<Longrightarrow>
     catalog_ok (k\<lparr>c_categories := t\<rparr>)"
  and catalog_ok_options:
  "catalog_ok k \<Longrightarrow> rows_ok (\<lambda>r. (og_id r, og_storeId r)) (option_valid (store_ids k)) u \<Longrightarrow>
     catalog_ok (k\<lparr>c_options := u\<rparr>)"
  and catalog_ok_settings:
  "catalog_ok k \<Longrightarrow> rows_ok sg_storeId (\<lambda>r. sg_storeId r \<in> store_ids k) v \<Longrightarrow> catalog_ok (k\<lparr>c_settings := v\<rparr>)"
  and catalog_ok_areas:
  "catalog_ok k \<Longrightarrow> rows_ok ar_id (area_valid (store_ids k)) w \<Longrightarrow> catalog_ok (k\<lparr>c_areas := w\<rparr>)"
  by (simp_all add: catalog_ok_def)

lemma catalog_ok_menus:
  "catalog_ok k \<Longrightarrow> rows_ok me_id (menu_valid (store_ids k)) t \<Longrightarrow>
     oi_menuId ` set (t_items (c_db k)) \<subseteq> me_id ` set t \<Longrightarrow>
     catalog_ok (k\<lparr>c_db := (c_db k)\<lparr>t_menus := t\<rparr>, c_columns := cols\<rparr>)"
  by (simp add: catalog_ok_def items_have_menus_def)

lemma catalog_okD:
  "catalog_ok k \<Longrightarrow> rows_ok me_id (menu_valid (store_ids k)) (t_menus (c_db k))"
  "catalog_ok k \<Longrightarrow> items_have_menus (c_db k)"
  "catalog_ok k \<Longrightarrow> rows_ok (\<lambda>r. (cg_id r, cg_storeId r)) (category_valid (store_ids k)) (c_categories k)"
  "catalog_ok k \<Longrightarrow> rows_ok (\<lambda>r. (og_id r, og_storeId r)) (option_valid (store_ids k)) (c_options k)"
  "catalog_ok k \<Longrightarrow> rows_ok sg_storeId (\<lambda>r. sg_storeId r \<in> store_ids k) (c_settings k)"
  "catalog_ok k \<Longrightarrow> rows_ok ar_id (area_valid (store_ids k)) (c_areas k)"
  by (simp_all add: catalog_ok_def)

section \<open>Replacing the menus\<close>

lemma insertMenu_Inr:
  "insertMenu C n fresh storeId it k = Inr k' \<Longrightarrow>
     \<exists>i store. cx_uuid_in C (toUuid fresh (or_else (mb_id it) [])) = Some i \<and> cx_uuid_in C storeId = Some store \<and>
       menu_checks it \<and> i \<notin> me_id ` set (t_menus (c_db k)) \<and> store \<in> store_ids k \<and>
       k' = k\<lparr>c_db := (c_db k)\<lparr>t_menus := t_menus (c_db k) @ [new_menu C i store it]\<rparr>,
         c_columns := (c_columns k)(i := new_menu_columns (toUuid fresh (or_else (mb_id it) [])) it)\<rparr>"
  by (auto simp: insertMenu_def Let_def bind_res_Inr)

lemma new_menu_sel [simp]:
  "me_id (new_menu C i store it) = i" "me_storeId (new_menu C i store it) = store"
  "me_isAvailable (new_menu C i store it) = menu_available it"
  "me_name (new_menu C i store it) = or_else (mb_name it) []"
  "me_unitPrice (new_menu C i store it) = first_some (mb_priceForOrder it) (mb_price it) 0"
  by (simp_all add: new_menu_def)

lemma insertMenu_ok:
  assumes "insertMenu C n fresh storeId it k = Inr k'" and ok: "catalog_ok k"
  shows "catalog_ok k'"
proof -
  from insertMenu_Inr [OF assms(1)] obtain i store where
    c: "menu_checks it" "i \<notin> me_id ` set (t_menus (c_db k))" "store \<in> store_ids k"
    and k': "k' = k\<lparr>c_db := (c_db k)\<lparr>t_menus := t_menus (c_db k) @ [new_menu C i store it]\<rparr>,
      c_columns := (c_columns k)(i := new_menu_columns (toUuid fresh (or_else (mb_id it) [])) it)\<rparr>"
    by blast
  have "menu_valid (store_ids k) (new_menu C i store it)"
    using c by (simp add: menu_valid_def menu_checks_def)
  then show ?thesis
    unfolding k' using c(2) catalog_okD(2) [OF ok]
    by (intro catalog_ok_menus rows_intros ok catalog_okD) (auto simp: items_have_menus_def)
qed

lemma insertMenus_ok: "insertMenus C n uuids storeId its k = Inr k' \<Longrightarrow> catalog_ok k \<Longrightarrow> catalog_ok k'"
  by (induction C n uuids storeId its k rule: insertMenus.induct) (auto simp: bind_res_Inr intro: insertMenu_ok)

lemma deleteMenus_Inr:
  "deleteMenus C storeId k = Inr k' \<Longrightarrow> \<exists>store. cx_uuid_in C storeId = Some store \<and>
     (\<forall>m \<in> set (t_menus (c_db k)). me_storeId m = store \<longrightarrow> me_id m \<notin> oi_menuId ` set (t_items (c_db k))) \<and>
     k' = k\<lparr>c_db := (c_db k)\<lparr>t_menus := sql_delete (\<lambda>m. me_storeId m = store) (t_menus (c_db k))\<rparr>\<rparr>"
  by (auto simp: deleteMenus_def bind_res_Inr Let_def list_all_iff sql_select_def)

lemma deleteMenus_ok:
  assumes "deleteMenus C storeId k = Inr k'" and ok: "catalog_ok k"
  shows "catalog_ok k'"
proof -
  from deleteMenus_Inr [OF assms(1)] obtain store where
    free: "\<And>m. m \<in> set (t_menus (c_db k)) \<Longrightarrow> me_storeId m = store \<Longrightarrow> me_id m \<notin> oi_menuId ` set (t_items (c_db k))"
    and k': "k' = k\<lparr>c_db := (c_db k)\<lparr>t_menus := sql_delete (\<lambda>m. me_storeId m = store) (t_menus (c_db k))\<rparr>\<rparr>"
    by blast
  have "oi_menuId ` set (t_items (c_db k)) \<subseteq> me_id ` set (sql_delete (\<lambda>m. me_storeId m = store) (t_menus (c_db k)))"
  proof
    fix i assume i: "i \<in> oi_menuId ` set (t_items (c_db k))"
    then have "i \<in> me_id ` set (t_menus (c_db k))" using catalog_okD(2) [OF ok] by (auto simp: items_have_menus_def)
    then obtain m where "m \<in> set (t_menus (c_db k))" "i = me_id m" by blast
    with free i show "i \<in> me_id ` set (sql_delete (\<lambda>m. me_storeId m = store) (t_menus (c_db k)))"
      by (auto simp: sql_delete_def)
  qed
  then have "catalog_ok (k\<lparr>c_db := (c_db k)\<lparr>t_menus := sql_delete (\<lambda>m. me_storeId m = store) (t_menus (c_db k))\<rparr>,
      c_columns := c_columns k\<rparr>)"
    by (intro catalog_ok_menus rows_intros ok catalog_okD)
  then show ?thesis by (simp add: k')
qed

lemma saveMenus_ok: "keeps catalog_ok (saveMenus C uuids storeId items)"
  unfolding saveMenus_def
  by (intro keeps_if keeps_throw catalog_transaction_keeps)
    (blast dest: bind_res_Inr [THEN iffD1] intro: insertMenus_ok deleteMenus_ok)

section \<open>The other tables\<close>

lemma insertCategory_ok: "insertCategory C n storeId it k = Inr k' \<Longrightarrow> catalog_ok k \<Longrightarrow> catalog_ok k'"
  by (auto simp: insertCategory_def Let_def bind_res_Inr category_valid_def
      intro!: catalog_ok_categories rows_intros catalog_okD split: if_splits)

lemma insertCategories_ok: "insertCategories C n storeId its k = Inr k' \<Longrightarrow> catalog_ok k \<Longrightarrow> catalog_ok k'"
  by (induction C n storeId its k rule: insertCategories.induct) (auto simp: bind_res_Inr intro: insertCategory_ok)

lemma deleteCategories_ok: "deleteCategories C storeId k = Inr k' \<Longrightarrow> catalog_ok k \<Longrightarrow> catalog_ok k'"
  by (auto simp: deleteCategories_def bind_res_Inr intro!: catalog_ok_categories rows_intros catalog_okD)

lemma saveCategories_ok: "keeps catalog_ok (saveCategories C storeId items)"
  unfolding saveCategories_def
  by (intro keeps_if keeps_throw catalog_transaction_keeps)
    (blast dest: bind_res_Inr [THEN iffD1] intro: insertCategories_ok deleteCategories_ok)

lemma insertOption_ok: "insertOption C n storeId it k = Inr k' \<Longrightarrow> catalog_ok k \<Longrightarrow> catalog_ok k'"
  by (auto simp: insertOption_def Let_def bind_res_Inr option_valid_def
      intro!: catalog_ok_options rows_intros catalog_okD split: if_splits)

lemma insertOptions_ok: "insertOptions C n storeId its k = Inr k' \<Longrightarrow> catalog_ok k \<Longrightarrow> catalog_ok k'"
  by (induction C n storeId its k rule: insertOptions.induct) (auto simp: bind_res_Inr intro: insertOption_ok)

lemma deleteOptions_ok: "deleteOptions C storeId k = Inr k' \<Longrightarrow> catalog_ok k \<Longrightarrow> catalog_ok k'"
  by (auto simp: deleteOptions_def bind_res_Inr intro!: catalog_ok_options rows_intros catalog_okD)

lemma saveOptions_ok: "keeps catalog_ok (saveOptions C storeId items)"
  unfolding saveOptions_def
  by (intro keeps_if keeps_throw catalog_transaction_keeps)
    (blast dest: bind_res_Inr [THEN iffD1] intro: insertOptions_ok deleteOptions_ok)

lemma rows_ok_upsert:
  "rows_ok sg_storeId (\<lambda>r. sg_storeId r \<in> S) t \<Longrightarrow> sg_storeId row \<in> S \<Longrightarrow>
     rows_ok sg_storeId (\<lambda>r. sg_storeId r \<in> S) (settings_upsert row t)"
  by (auto simp: settings_upsert_def intro!: rows_intros)

lemma saveSettings_ok: "keeps catalog_ok (saveSettings C storeId body)"
  unfolding saveSettings_def
  by (intro keeps_if keeps_throw catalog_transaction_keeps)
    (auto simp: bind_res_Inr intro!: catalog_ok_settings rows_ok_upsert catalog_okD)

lemma createArea_ok: "keeps catalog_ok (createArea C pw fresh b)"
  unfolding createArea_def Let_def
  by (intro keeps_cond keeps_bind keeps_return catalog_transaction_keeps)
    (auto simp: bind_res_Inr area_checks_def area_valid_def trim_idem
      intro!: catalog_ok_areas rows_intros catalog_okD)

lemma updateArea_ok: "keeps catalog_ok (updateArea C pw areaId b)"
  unfolding updateArea_def Let_def
  by (intro keeps_cond keeps_bind keeps_return catalog_transaction_keeps)
    (auto simp: bind_res_Inr area_checks_def area_valid_def trim_idem
      intro!: catalog_ok_areas rows_intros catalog_okD split: if_splits)

lemma deleteArea_ok: "keeps catalog_ok (deleteArea C pw areaId b)"
  unfolding deleteArea_def
  by (intro keeps_cond keeps_bind keeps_return catalog_transaction_keeps)
    (auto simp: bind_res_Inr intro!: catalog_ok_areas rows_intros catalog_okD)

section \<open>All operations\<close>

inductive catalog_step :: "catalog \<Rightarrow> catalog \<Rightarrow> bool" where
  menus: "catalog_step k (snd (saveMenus C uuids storeId items k))"
| categories: "catalog_step k (snd (saveCategories C storeId cats k))"
| options: "catalog_step k (snd (saveOptions C storeId opts k))"
| settings: "catalog_step k (snd (saveSettings C storeId body k))"
| area_new: "catalog_step k (snd (createArea C pw fresh b k))"
| area_edit: "catalog_step k (snd (updateArea C pw areaId b k))"
| area_drop: "catalog_step k (snd (deleteArea C pw areaId b k))"

lemmas catalog_ops_ok = saveMenus_ok saveCategories_ok saveOptions_ok saveSettings_ok createArea_ok
  updateArea_ok deleteArea_ok

lemma catalog_step_ok: "catalog_step k k' \<Longrightarrow> catalog_ok k \<Longrightarrow> catalog_ok k'"
  by (induction rule: catalog_step.induct) (blast intro: keepsD catalog_ops_ok)+

definition sample_catalog :: catalog where
  "sample_catalog = \<lparr>c_db = seed_db, c_columns = (\<lambda>_. \<lparr>mc_category = None, mc_sortOrder = 0, mc_meta = []\<rparr>),
     c_categories = [], c_options = [], c_settings = [], c_areas = []\<rparr>"

lemma sample_catalog_sel [simp]:
  "c_db sample_catalog = seed_db" "c_categories sample_catalog = []" "c_options sample_catalog = []"
  "c_settings sample_catalog = []" "c_areas sample_catalog = []"
  by (simp_all add: sample_catalog_def)

lemma sample_catalog_ok: "catalog_ok sample_catalog"
  by (simp add: catalog_ok_def rows_ok_def items_have_menus_def menu_valid_def store_ids_def)
    (simp add: sample_menu_def price_ok_def)

section \<open>Areas\<close>

lemma area_join:
  "(a, st) \<in> set (areas_with_stores k) \<longleftrightarrow>
     a \<in> set (c_areas k) \<and> st \<in> set (t_stores (c_db k)) \<and> st_id st = ar_storeId a"
  by (auto simp: areas_with_stores_def sql_select_def)

lemma order_by_two_set [simp]: "set (order_by_two f g rows) = set rows"
  by (simp add: order_by_two_def)

lemma sort_key_keeps_order:
  assumes "sorted_wrt (\<lambda>x y. g x \<le> g y) rows"
  shows "sorted_wrt (\<lambda>x y. f x < f y \<or> f x = f y \<and> g x \<le> g y) (sort_key f rows)"
proof -
  let ?s = "sort_key f rows"
  have f: "i < j \<Longrightarrow> j < length ?s \<Longrightarrow> f (?s ! i) \<le> f (?s ! j)" for i j
    using sorted_sort_key [of f rows] by (simp add: sorted_wrt_iff_nth_less)
  have "g (?s ! i) \<le> g (?s ! j)" if ij: "i < j" "j < length ?s" and eq: "f (?s ! i) = f (?s ! j)" for i j
  proof -
    let ?P = "\<lambda>x. f x = f (?s ! j)"
    have "filter ?P ?s = filter ?P rows" using sort_key_stable [of f "f (?s ! j)" rows] by (simp add: eq_commute)
    then have g: "sorted_wrt (\<lambda>x y. g x \<le> g y) (filter ?P ?s)" using assms by (simp add: sorted_wrt_filter)
    have "i < length ?s" using ij by simp
    note id_take_nth_drop [OF this]
    then have "filter ?P ?s = filter ?P (take i ?s @ ?s ! i # drop (Suc i) ?s)" by metis
    then have split: "filter ?P ?s = filter ?P (take i ?s) @ ?s ! i # filter ?P (drop (Suc i) ?s)"
      using eq by simp
    have "?s ! j = drop (Suc i) ?s ! (j - Suc i)" "j - Suc i < length (drop (Suc i) ?s)" using ij by auto
    then have "?s ! j \<in> set (filter ?P (drop (Suc i) ?s))" by (auto simp: in_set_conv_nth)
    with g show ?thesis unfolding split by (auto simp: sorted_wrt_append)
  qed
  with f show ?thesis unfolding sorted_wrt_iff_nth_less by (metis le_neq_trans)
qed

lemma order_by_two_sorted:
  "sorted_wrt (\<lambda>x y. f x < f y \<or> f x = f y \<and> g x \<le> g y) (order_by_two f g rows)"
proof -
  have "sorted_wrt (\<lambda>x y. g x \<le> g y) (sort_key g rows)"
    using sorted_sort_key [of g rows] by (simp add: sorted_map)
  then show ?thesis unfolding order_by_two_def by (rule sort_key_keeps_order)
qed

lemma find_sorted_least:
  "sorted_wrt R rows \<Longrightarrow> find P rows = Some x \<Longrightarrow> y \<in> set rows \<Longrightarrow> P y \<Longrightarrow> x = y \<or> R x y"
  by (induction rows) (auto split: if_splits)

lemma catalog_stmt_succeeds: "statements_succeed C \<Longrightarrow> catalog_stmt C n = Inr ()"
  by (simp add: catalog_stmt_def statements_succeedD)

text \<open>An address for delivery leads to an active area whose name it contains, with its store, and
  of all such areas to the one that comes first by number and name; without one the answer is
  that the address is not served. Whether the area's store is active plays no part.\<close>

theorem resolve_area_best_match:
  fixes collate :: "string \<Rightarrow> 'c::linorder"
  assumes ok: "catalog_ok k" and C: "statements_succeed C"
    and kind: "kind \<noteq> Some ''takeout''" and address: "trim address \<noteq> []"
  shows "let hits = {a \<in> set (c_areas k). ar_isActive a \<and> has_text (trim address) (ar_name a)}
    in if hits = {} then resolveArea C collate (Some address) kind k = Inr OutOfArea
       else \<exists>a \<in> hits. \<exists>st \<in> set (t_stores (c_db k)). st_id st = ar_storeId a \<and>
         resolveArea C collate (Some address) kind k = Inr (Resolved (ar_storeId a) (st_name st) (ar_name a)) \<and>
         (\<forall>b \<in> hits. ar_sortOrder a < ar_sortOrder b \<or>
            ar_sortOrder a = ar_sortOrder b \<and> collate (ar_name a) \<le> collate (ar_name b))"
proof -
  let ?hits = "{a \<in> set (c_areas k). ar_isActive a \<and> has_text (trim address) (ar_name a)}"
  let ?rows = "area_sort collate (filter (\<lambda>(a, _). ar_isActive a) (areas_with_stores k))"
  let ?P = "\<lambda>(a, _). has_text (trim address) (ar_name a)"
  have res: "resolveArea C collate (Some address) kind k = Inr (case find ?P ?rows of
      None \<Rightarrow> OutOfArea | Some (a, st) \<Rightarrow> Resolved (ar_storeId a) (st_name st) (ar_name a))"
    using kind address by (simp add: resolveArea_def or_else_def catalog_stmt_succeeds [OF C] Let_def)
  have rows: "(a, st) \<in> set ?rows \<longleftrightarrow> a \<in> set (c_areas k) \<and> ar_isActive a \<and> st \<in> set (t_stores (c_db k)) \<and>
      st_id st = ar_storeId a" for a st
    by (auto simp: area_sort_def area_join)
  have store: "\<exists>st. (b, st) \<in> set ?rows \<and> ?P (b, st)" if "b \<in> ?hits" for b
  proof -
    from that catalog_okD(6) [OF ok] have "ar_storeId b \<in> store_ids k" by (simp add: rows_ok_def area_valid_def)
    then obtain st where "st \<in> set (t_stores (c_db k))" "st_id st = ar_storeId b"
      unfolding store_ids_def by (metis imageE)
    with that show ?thesis unfolding rows by auto
  qed
  show ?thesis
  proof (cases "find ?P ?rows")
    case None
    then have "?hits = {}" using store unfolding find_None_iff by blast
    with None res show ?thesis by (simp add: Let_def)
  next
    case (Some x)
    then obtain a st where x: "find ?P ?rows = Some (a, st)" by (cases x) simp
    from find_Some_D [OF x] have a: "a \<in> ?hits" "st \<in> set (t_stores (c_db k))" "st_id st = ar_storeId a"
      unfolding rows by simp_all
    have sorted: "sorted_wrt (\<lambda>(a, _) (b, _). ar_sortOrder a < ar_sortOrder b \<or>
        ar_sortOrder a = ar_sortOrder b \<and> collate (ar_name a) \<le> collate (ar_name b)) ?rows"
      unfolding area_sort_def by (rule sorted_wrt_mono_rel [OF _ order_by_two_sorted]) auto
    have "ar_sortOrder a < ar_sortOrder b \<or>
        ar_sortOrder a = ar_sortOrder b \<and> collate (ar_name a) \<le> collate (ar_name b)" if "b \<in> ?hits" for b
      using store [OF that] find_sorted_least [OF sorted x] by fastforce
    with a x res show ?thesis by (auto simp: Let_def)
  qed
qed

definition closed_catalog :: catalog where
  "closed_catalog = sample_catalog\<lparr>c_db := seed_db\<lparr>t_stores := [sample_store\<lparr>st_isActive := False\<rparr>]\<rparr>,
     c_areas := [\<lparr>ar_id = ''a1'', ar_name = ''north'', ar_storeId = ''s1'', ar_isActive = True,
       ar_sortOrder = 1, ar_createdAt = 0\<rparr>]\<rparr>"

lemma closed_catalog_ok: "catalog_ok closed_catalog"
  using sample_catalog_ok
  by (simp add: closed_catalog_def catalog_ok_def rows_ok_def area_valid_def store_ids_def items_have_menus_def
      varchar_ok_def int4_ok_def menu_valid_def) (simp add: trim_def js_space_def)

text \<open>The store of the witness is not active.\<close>

theorem resolve_area_best_match_witness:
  "resolveArea (quiet_ctx 5) (\<lambda>s. s) (Some '' 12 north street'') None closed_catalog =
     Inr (Resolved ''s1'' ''Gangnam'' ''north'')"
proof -
  have "has_text (trim '' 12 north street'') ''north''" by (simp add: trim_def js_space_def)
  then have hits: "{a \<in> set (c_areas closed_catalog). ar_isActive a \<and>
      has_text (trim '' 12 north street'') (ar_name a)} = set (c_areas closed_catalog)"
    by (auto simp: closed_catalog_def)
  have "trim '' 12 north street'' \<noteq> []" by (simp add: trim_def js_space_def)
  from resolve_area_best_match [OF closed_catalog_ok _ _ this, of "quiet_ctx 5" None "\<lambda>s. s"]
  show ?thesis unfolding hits by (simp add: Let_def closed_catalog_def sample_store_def)
qed

end
