(* ===== verification/Menu_Properties.thy ===== *)
theory Menu_Properties
  imports Catalog_Properties
begin

text \<open>
  Saving and reading back: settings, the delivery fee, and the menus of a store with the order
  items that lock them.
\<close>

section \<open>Settings\<close>

lemma find_upsert:
  "find (\<lambda>r. sg_storeId r = i) (settings_upsert row t) =
     (if i = sg_storeId row
      then Some (case find (\<lambda>r. sg_storeId r = i) t of
        None \<Rightarrow> row | Some r \<Rightarrow> r\<lparr>sg_settings := sg_settings row, sg_updatedAt := sg_updatedAt row\<rparr>)
      else find (\<lambda>r. sg_storeId r = i) t)"
proof -
  let ?f = "\<lambda>r. r\<lparr>sg_settings := sg_settings row, sg_updatedAt := sg_updatedAt row\<rparr>"
  have up: "find (\<lambda>r. sg_storeId r = i) (sql_update (\<lambda>r. sg_storeId r = sg_storeId row) ?f t) =
      map_option (\<lambda>r. if sg_storeId r = sg_storeId row then ?f r else r) (find (\<lambda>r. sg_storeId r = i) t)"
    by (rule find_sql_update_key) simp
  have key: "find (\<lambda>r. sg_storeId r = i) t = Some r \<Longrightarrow> sg_storeId r = i" for r
    using find_Some_D by fast
  show ?thesis
  proof (cases "sg_storeId row \<in> sg_storeId ` set t")
    case True
    show ?thesis
    proof (cases "find (\<lambda>r. sg_storeId r = i) t")
      case None
      with True have "i \<noteq> sg_storeId row" unfolding find_None_key by blast
      with None True show ?thesis by (simp add: settings_upsert_def up)
    next
      case (Some r)
      with True show ?thesis
        using up key [OF Some] by (cases "i = sg_storeId row") (simp_all add: settings_upsert_def)
    qed
  next
    case False
    then have "find (\<lambda>r. sg_storeId r = sg_storeId row) t = None" by (simp add: find_None_key)
    with False show ?thesis
      by (cases "i = sg_storeId row") (simp_all add: settings_upsert_def find_append split: option.splits)
  qed
qed

lemma setting_of_body: "map_of body key = Some v \<Longrightarrow> v \<noteq> JNull \<Longrightarrow> setting body key d = v"
  by (cases v) (simp_all add: setting_def)

text \<open>C34: what the POS saves as the settings of a store is what the apps read: each field that is
  there and not null, and the default for the others; another store's settings stay as they are.\<close>

theorem settings_roundtrip:
  assumes C: "statements_succeed C" and i: "cx_uuid_in C s = Some store" "s \<noteq> []" "store \<in> store_ids k"
  shows "\<exists>k'. saveSettings C (Some s) body k = (Inr (), k') \<and>
    getSettings C (Some s) k' = Inr (settings_of body) \<and>
    (\<forall>key d v. map_of body key = Some v \<and> v \<noteq> JNull \<longrightarrow> setting body key d = v) \<and>
    (\<forall>t. cx_uuid_in C t \<noteq> Some store \<longrightarrow> getSettings C (Some t) k' = getSettings C (Some t) k)"
proof -
  let ?row = "\<lparr>sg_storeId = store, sg_settings = body, sg_updatedAt = cx_now C\<rparr>"
  let ?k = "k\<lparr>c_settings := settings_upsert ?row (c_settings k)\<rparr>"
  have stmt: "catalog_stmt C n = Inr ()" for n using C by (rule catalog_stmt_succeeds)
  have save: "saveSettings C (Some s) body k = (Inr (), ?k)"
    using i by (simp add: saveSettings_def catalog_transaction_def truthy_def stmt uuid_arg_def store_fk_def
        store_ids_def)
  have own: "getSettings C (Some s) ?k = Inr (settings_of body)"
    using i by (simp add: getSettings_def select_settings_def truthy_def stmt uuid_arg_def find_upsert
        split: option.splits)
  have other: "getSettings C (Some t) ?k = getSettings C (Some t) k" if "cx_uuid_in C t \<noteq> Some store" for t
    using that by (cases "cx_uuid_in C t")
      (simp_all add: getSettings_def select_settings_def truthy_def stmt uuid_arg_def find_upsert)
  show ?thesis using save own other setting_of_body by blast
qed

theorem settings_roundtrip_witness:
  "\<exists>k. saveSettings (quiet_ctx 5) (Some ''s1'') [(''deliveryFee'', JNum 3000)] sample_catalog = (Inr (), k) \<and>
     getSettings (quiet_ctx 5) (Some ''s1'') k = Inr (settings_of [(''deliveryFee'', JNum 3000)])"
  using settings_roundtrip [of "quiet_ctx 5" "''s1''" "''s1''" sample_catalog "[(''deliveryFee'', JNum 3000)]"]
  by (auto simp: store_ids_def)

text \<open>A delivery that costs nothing is reported with a fee of 2000 by the other endpoint.\<close>

lemma free_delivery_charged:
  assumes C: "statements_succeed C" and i: "cx_uuid_in C s = Some store" "s \<noteq> []" "store \<in> store_ids k"
    and k': "saveSettings C (Some s) [(''deliveryFee'', JNum 0)] k = (Inr (), k')"
  shows "(\<exists>x. getSettings C (Some s) k' = Inr x \<and> sx_deliveryFee x = JNum 0) \<and>
    getDeliveryFee C text_number (Some s) k' = Inr 200000"
proof -
  let ?row = "\<lparr>sg_storeId = store, sg_settings = [(''deliveryFee'', JNum 0)], sg_updatedAt = cx_now C\<rparr>"
  have stmt: "catalog_stmt C n = Inr ()" for n using C by (rule catalog_stmt_succeeds)
  have "k' = k\<lparr>c_settings := settings_upsert ?row (c_settings k)\<rparr>"
    using k' i by (simp add: saveSettings_def catalog_transaction_def truthy_def stmt uuid_arg_def store_fk_def
        store_ids_def)
  then show ?thesis
    using i by (auto simp: getSettings_def getDeliveryFee_def select_settings_def truthy_def stmt uuid_arg_def
        find_upsert settings_of_def setting_def split: option.splits)
qed

section \<open>Menus\<close>

lemma repo_step_items:
  "repo_step db db' \<Longrightarrow> t_menus db' = t_menus db \<and> (\<exists>rows. t_items db' = t_items db @ rows)"
proof (induction rule: repo_step.induct)
  case (create db C p)
  then show ?case
    by (cases "\<exists>db'. createOrder_tx C p db = Inr (True, db')")
      (auto simp: createOrder_state dest: createOrder_tx_True split: sum.splits prod.splits bool.splits)
next
  case (transition C db tp)
  show ?case
  proof (cases "transitionStatus C tp db")
    case (Pair res db')
    show ?thesis
    proof (cases res)
      case (Inl e)
      with Pair show ?thesis using transitionStatus_Inl [of C tp db e] by simp
    next
      case (Inr u)
      with Pair transitionStatus_Inr [of C tp db db'] transition show ?thesis by auto
    qed
  qed
next
  case (dlq db C i m)
  show ?case by (simp add: markDlq_def split: sum.splits)
next
  case (retry db C i)
  show ?case by (simp add: incrementRetryCount_def split: sum.splits)
qed

lemma repo_steps_items:
  "repo_step\<^sup>*\<^sup>* db db' \<Longrightarrow> t_menus db' = t_menus db \<and> set (t_items db) \<subseteq> set (t_items db')"
  by (induction rule: rtranclp_induct) (auto dest!: repo_step_items)

text \<open>C33: orders lock the menus of their store: once an item names a menu of the store, no
  replacement of the store's menus succeeds any more, whatever it would put in their place and
  whatever becomes of the orders; it fails and changes nothing.\<close>

theorem menus_locked_by_orders:
  assumes C: "statements_succeed C" and i: "cx_uuid_in C s = Some store" "s \<noteq> []"
    and item: "it \<in> set (t_items (c_db k))" "m \<in> set (t_menus (c_db k))" "oi_menuId it = me_id m"
      "me_storeId m = store"
    and later: "repo_step\<^sup>*\<^sup>* (c_db k) db"
  shows "saveMenus C uuids (Some s) items (k\<lparr>c_db := db\<rparr>) =
    (Inl (queryFailed ''order_items_menu_id_fkey''), k\<lparr>c_db := db\<rparr>)"
proof -
  have db: "m \<in> set (t_menus db)" "it \<in> set (t_items db)" using repo_steps_items [OF later] item by auto
  have "\<not> list_all (\<lambda>m. me_id m \<notin> oi_menuId ` set (t_items db)) (sql_select (\<lambda>m. me_storeId m = store) (t_menus db))"
    using db item(3,4) by (force simp: list_all_iff sql_select_def)
  then show ?thesis
    using i by (simp add: saveMenus_def deleteMenus_def catalog_transaction_def truthy_def uuid_arg_def
        catalog_stmt_succeeds [OF C] Let_def)
qed

theorem menus_locked_by_orders_witness:
  "fst (saveMenus (quiet_ctx 50) (\<lambda>_. ''m2'') (Some ''s1'') [] (sample_catalog\<lparr>c_db := queued_db\<rparr>)) =
     Inl (queryFailed ''order_items_menu_id_fkey'')"
proof -
  have "oi_menuId sample_item_row = me_id sample_menu" "me_storeId sample_menu = ''s1''"
    by (simp_all add: sample_item_row_def sample_menu_def)
  with menus_locked_by_orders [of "quiet_ctx 50" "''s1''" "''s1''" sample_item_row
      "sample_catalog\<lparr>c_db := queued_db\<rparr>" sample_menu queued_db "\<lambda>_. ''m2''" "[]"]
  show ?thesis by simp
qed

text \<open>What the insertions add.\<close>

lemma insertMenus_Inr:
  assumes "insertMenus C n uuids s its k = Inr k'" and s: "cx_uuid_in C s = Some store"
  shows "\<exists>ms cols. k' = k\<lparr>c_db := (c_db k)\<lparr>t_menus := t_menus (c_db k) @ ms\<rparr>, c_columns := cols\<rparr> \<and>
    length ms = length its \<and> (\<forall>m \<in> set ms. me_storeId m = store) \<and>
    map (\<lambda>m. (me_name m, me_unitPrice m, me_isAvailable m)) ms =
      map (\<lambda>it. (or_else (mb_name it) [], first_some (mb_priceForOrder it) (mb_price it) 0, menu_available it)) its"
  using assms(1)
proof (induction its arbitrary: n k)
  case Nil
  then show ?case by (intro exI [of _ "[]"] exI [of _ "c_columns k"]) simp
next
  case (Cons it its)
  from Cons.prems obtain k1 where one: "insertMenu C n (uuids n) s it k = Inr k1"
    and rest: "insertMenus C (Suc n) uuids s its k1 = Inr k'" by (auto simp: bind_res_Inr)
  from insertMenu_Inr [OF one] s obtain i cols where
    k1: "k1 = k\<lparr>c_db := (c_db k)\<lparr>t_menus := t_menus (c_db k) @ [new_menu C i store it]\<rparr>, c_columns := cols\<rparr>"
    by auto
  from Cons.IH [OF rest] obtain ms cols' where
    "k' = k1\<lparr>c_db := (c_db k1)\<lparr>t_menus := t_menus (c_db k1) @ ms\<rparr>, c_columns := cols'\<rparr>"
    "length ms = length its" "\<forall>m \<in> set ms. me_storeId m = store"
    "map (\<lambda>m. (me_name m, me_unitPrice m, me_isAvailable m)) ms =
      map (\<lambda>it. (or_else (mb_name it) [], first_some (mb_priceForOrder it) (mb_price it) 0, menu_available it)) its"
    by blast
  then show ?case
    by (intro exI [of _ "new_menu C i store it # ms"] exI [of _ cols']) (simp add: k1)
qed

lemma menu_answer_sel [simp]:
  "ma_name (menu_answer_of cols m) = me_name m" "ma_unitPrice (menu_answer_of cols m) = me_unitPrice m"
  by (simp_all add: menu_answer_of_def)

lemma order_by_two_mset [simp]: "mset (order_by_two f g rows) = mset rows"
  by (simp add: order_by_two_def)

text \<open>What a successful replacement leaves in the table.\<close>

lemma saveMenus_rows:
  assumes "saveMenus C uuids (Some s) items k = (Inr (), k')" and i: "cx_uuid_in C s = Some store" "s \<noteq> []"
  shows "t_orders (c_db k') = t_orders (c_db k) \<and> t_items (c_db k') = t_items (c_db k) \<and>
    filter (\<lambda>m. me_storeId m \<noteq> store) (t_menus (c_db k')) = filter (\<lambda>m. me_storeId m \<noteq> store) (t_menus (c_db k)) \<and>
    map (\<lambda>m. (me_name m, me_unitPrice m, me_isAvailable m)) (filter (\<lambda>m. me_storeId m = store) (t_menus (c_db k'))) =
      map (\<lambda>it. (or_else (mb_name it) [], first_some (mb_priceForOrder it) (mb_price it) 0, menu_available it)) items"
proof -
  from assms(1) i obtain k1 where del: "deleteMenus C s k = Inr k1" and ins: "insertMenus C 1 uuids s items k1 = Inr k'"
    by (auto simp: saveMenus_def catalog_transaction_def truthy_def bind_res_Inr split: sum.splits)
  let ?kept = "filter (\<lambda>m. me_storeId m \<noteq> store) (t_menus (c_db k))"
  have k1: "k1 = k\<lparr>c_db := (c_db k)\<lparr>t_menus := ?kept\<rparr>\<rparr>"
    using deleteMenus_Inr [OF del] i(1) by (auto simp: sql_delete_def)
  from insertMenus_Inr [OF ins i(1)] obtain ms cols where
    k': "k' = k1\<lparr>c_db := (c_db k1)\<lparr>t_menus := t_menus (c_db k1) @ ms\<rparr>, c_columns := cols\<rparr>"
    and store: "\<forall>m \<in> set ms. me_storeId m = store"
    and ms: "map (\<lambda>m. (me_name m, me_unitPrice m, me_isAvailable m)) ms =
      map (\<lambda>it. (or_else (mb_name it) [], first_some (mb_priceForOrder it) (mb_price it) 0, menu_available it)) items"
    by blast
  have "filter (\<lambda>m. me_storeId m = store) (t_menus (c_db k')) = ms"
    "filter (\<lambda>m. me_storeId m \<noteq> store) (t_menus (c_db k')) = ?kept"
    using store by (simp_all add: k' k1 filter_empty_conv)
  then show ?thesis using ms by (simp add: k' k1)
qed

text \<open>What the apps are shown of a store's rows.\<close>

lemma getMenus_shown:
  fixes collate :: "string \<Rightarrow> 'c::linorder"
  assumes C: "statements_succeed C" and i: "cx_uuid_in C s = Some store" "s \<noteq> []"
  shows "\<exists>shown. getMenus C collate (Some s) k = Inr (True, shown) \<and>
    mset (map (\<lambda>a. (ma_name a, ma_unitPrice a)) shown) = mset (map (\<lambda>m. (me_name m, me_unitPrice m))
      (filter me_isAvailable (filter (\<lambda>m. me_storeId m = store) (t_menus (c_db k)))))"
proof -
  let ?shown = "map (menu_answer_of (c_columns k)) (order_by_two (\<lambda>m. mc_sortOrder (c_columns k (me_id m)))
    (\<lambda>m. collate (me_name m)) (sql_select (\<lambda>m. me_storeId m = store \<and> me_isAvailable m) (t_menus (c_db k))))"
  have "getMenus C collate (Some s) k = Inr (True, ?shown)"
    using i by (simp add: getMenus_def truthy_def statements_succeedD [OF C] uuid_arg_def)
  moreover have "mset (map (\<lambda>a. (ma_name a, ma_unitPrice a)) ?shown) = mset (map (\<lambda>m. (me_name m, me_unitPrice m))
      (filter me_isAvailable (filter (\<lambda>m. me_storeId m = store) (t_menus (c_db k)))))"
    by (simp add: comp_def sql_select_def conj_commute flip: mset_filter)
  ultimately show ?thesis by blast
qed

text \<open>A replacement of a store's menus is complete or nothing: it fails and changes nothing, or
  afterwards the store has exactly the menus of the body, with name, price and availability, and
  the apps are shown exactly those that are visible and not sold out; other stores' menus, and
  orders, are as before.\<close>

theorem menus_replaced:
  fixes collate :: "string \<Rightarrow> 'c::linorder"
  assumes C: "statements_succeed C" and i: "cx_uuid_in C s = Some store" "s \<noteq> []"
  shows "case saveMenus C uuids (Some s) items k of
      (Inl e, k') \<Rightarrow> k' = k
    | (Inr _, k') \<Rightarrow>
        t_orders (c_db k') = t_orders (c_db k) \<and> t_items (c_db k') = t_items (c_db k) \<and>
        filter (\<lambda>m. me_storeId m \<noteq> store) (t_menus (c_db k')) = filter (\<lambda>m. me_storeId m \<noteq> store) (t_menus (c_db k)) \<and>
        map (\<lambda>m. (me_name m, me_unitPrice m, me_isAvailable m)) (filter (\<lambda>m. me_storeId m = store) (t_menus (c_db k'))) =
          map (\<lambda>it. (or_else (mb_name it) [], first_some (mb_priceForOrder it) (mb_price it) 0, menu_available it)) items \<and>
        (\<exists>shown. getMenus C collate (Some s) k' = Inr (True, shown) \<and>
          mset (map (\<lambda>a. (ma_name a, ma_unitPrice a)) shown) =
          mset (map (\<lambda>it. (or_else (mb_name it) [], first_some (mb_priceForOrder it) (mb_price it) 0))
            (filter menu_available items)))"
proof (cases "saveMenus C uuids (Some s) items k")
  case (Pair r k')
  show ?thesis
  proof (cases r)
    case (Inl e)
    with Pair i show ?thesis
      by (auto simp: saveMenus_def catalog_transaction_def truthy_def split: sum.splits)
  next
    case (Inr u)
    with Pair have save: "saveMenus C uuids (Some s) items k = (Inr (), k')" by simp
    note rows = saveMenus_rows [OF this i]
    have "map (\<lambda>m. (me_name m, me_unitPrice m)) (filter me_isAvailable ms) =
        map (\<lambda>it. (or_else (mb_name it) [], first_some (mb_priceForOrder it) (mb_price it) 0)) (filter menu_available items)"
      if "map (\<lambda>m. (me_name m, me_unitPrice m, me_isAvailable m)) ms =
        map (\<lambda>it. (or_else (mb_name it) [], first_some (mb_priceForOrder it) (mb_price it) 0, menu_available it)) items" for ms
      using that by (induction ms arbitrary: items) (auto simp: Cons_eq_map_conv)
    with rows getMenus_shown [OF C i, of collate k'] show ?thesis
      unfolding save prod.case sum.case by metis
  qed
qed

definition sample_menu_body :: menu_item_body where
  "sample_menu_body = \<lparr>mb_id = None, mb_name = Some ''wings'', mb_priceForOrder = None, mb_price = Some 900000,
     mb_visible = None, mb_soldOut = Some False, mb_category = None, mb_sort = None, mb_fields = []\<rparr>"

lemma sample_replacement:
  "\<exists>k. saveMenus (quiet_ctx 5) (\<lambda>_. ''m9'') (Some ''s1'') [sample_menu_body] sample_catalog = (Inr (), k)"
proof -
  have checks: "menu_checks sample_menu_body" "toUuid ''m9'' (or_else (mb_id sample_menu_body) []) = ''m9''"
    by (simp_all add: sample_menu_body_def menu_checks_def or_else_def first_some_def varchar_ok_def
        price_ok_def int4_ok_def toUuid_def UUID_RE_def)
  have stmt: "catalog_stmt (quiet_ctx 5) n = Inr ()" for n by (simp add: catalog_stmt_succeeds)
  have "me_id sample_menu \<noteq> ''m9''" "me_storeId sample_menu = ''s1''" "st_id sample_store = ''s1''"
    by (simp_all add: sample_menu_def sample_store_def)
  with checks show ?thesis
    by (simp add: saveMenus_def catalog_transaction_def truthy_def deleteMenus_def insertMenu_def stmt
        uuid_arg_def sql_select_def sql_delete_def store_fk_def Let_def)
qed

theorem menus_replaced_witness:
  "\<exists>k. saveMenus (quiet_ctx 5) (\<lambda>_. ''m9'') (Some ''s1'') [sample_menu_body] sample_catalog = (Inr (), k) \<and>
     map (\<lambda>m. (me_name m, me_unitPrice m, me_isAvailable m))
       (filter (\<lambda>m. me_storeId m = ''s1'') (t_menus (c_db k))) = [(''wings'', 900000, True)]"
proof -
  obtain k where k: "saveMenus (quiet_ctx 5) (\<lambda>_. ''m9'') (Some ''s1'') [sample_menu_body] sample_catalog = (Inr (), k)"
    using sample_replacement by blast
  have body: "or_else (mb_name sample_menu_body) [] = ''wings''" "menu_available sample_menu_body"
    "first_some (mb_priceForOrder sample_menu_body) (mb_price sample_menu_body) 0 = 900000"
    by (simp_all add: sample_menu_body_def or_else_def first_some_def menu_available_def)
  from menus_replaced [where C = "quiet_ctx 5" and s = "''s1''" and store = "''s1''" and k = sample_catalog and
      uuids = "\<lambda>_. ''m9''" and items = "[sample_menu_body]" and collate = "\<lambda>s. s"] k
  show ?thesis by (simp add: body)
qed

end
