(* ===== verification/Order_Ledger.thy ===== *)
theory Order_Ledger
  imports Worker_Correctness
begin

text \<open>
  The contract of the order service, and the proof that the service implements it. The
  specification knows neither rows nor versions, locks nor retries: a ledger maps the id of
  each placed order to the statuses it went through, orders are placed once, and each moves
  only along the edges of the life cycle. The implementation is seen through its database.
\<close>

section \<open>The specification\<close>

type_synonym ledger = "uuid \<rightharpoonup> order_status list"

definition order_moves :: "(order_status \<times> order_status) set" where
  "order_moves = {(QUEUED, SAVED), (QUEUED, FAILED), (SAVED, SENT_TO_POS), (SAVED, FAILED),
     (SENT_TO_POS, COMPLETED)}"

inductive ledger_step :: "ledger \<Rightarrow> ledger \<Rightarrow> bool" where
  place: "L i = None \<Longrightarrow> ledger_step L (L(i \<mapsto> [QUEUED]))"
| move: "L i = Some (path @ [st]) \<Longrightarrow> (st, st') \<in> order_moves \<Longrightarrow> ledger_step L (L(i \<mapsto> path @ [st, st']))"

inductive_cases ledger_stepE: "ledger_step L L'"

text \<open>Statuses are never taken back.\<close>

lemma ledger_step_grows:
  "ledger_step L L' \<Longrightarrow> L i = Some path \<Longrightarrow> \<exists>more. L' i = Some (path @ more)"
  by (induction rule: ledger_step.induct) auto

lemma ledger_steps_grow:
  "ledger_step\<^sup>*\<^sup>* L L' \<Longrightarrow> L i = Some path \<Longrightarrow> \<exists>more. L' i = Some (path @ more)"
proof (induction rule: rtranclp_induct)
  case (step L1 L2)
  then obtain more where "L1 i = Some (path @ more)" by blast
  from ledger_step_grows [OF step(2) this] show ?case by auto
qed simp

section \<open>The abstraction\<close>

definition ledger_of :: "database \<Rightarrow> ledger" where
  "ledger_of db i = (if i \<in> o_id ` set (t_orders db) then Some (visits (trail i db)) else None)"

lemma moves_allowed: "validate s t False = Inr () \<longleftrightarrow> (s, t) \<in> order_moves"
  by (cases s; cases t) (simp_all add: validate_ok order_moves_def)

text \<open>The ledger's last status is the row's.\<close>

lemma audit_ok_last: "audit_ok r ts \<Longrightarrow> \<exists>path. visits ts = path @ [o_status r]"
  by (drule audit_ok_visits) (auto simp: append_eq_Cons_conv Cons_eq_append_conv)

lemma ledger_status:
  assumes "db_inv db" and "r \<in> set (t_orders db)"
  shows "\<exists>path. ledger_of db (o_id r) = Some (path @ [o_status r])"
  using assms audit_ok_last by (fastforce simp: ledger_of_def db_inv_def audit_inv_def)

lemma visits_snoc [simp]: "visits (ts @ [t]) = visits ts @ [tr_toStatus t]"
  by (simp add: visits_def)

lemma trail_snoc:
  "trail i (db\<lparr>t_orders := rs, t_items := its, t_transitions := t_transitions db @ [t]\<rparr>) =
     trail i db @ (if tr_orderId t = i then [t] else [])"
  "trail i (db\<lparr>t_orders := rs, t_transitions := t_transitions db @ [t]\<rparr>) =
     trail i db @ (if tr_orderId t = i then [t] else [])"
  by (simp_all add: trail_def)

section \<open>Simulation, operation by operation\<close>

lemma createOrder_simulates:
  assumes inv: "db_inv db"
  shows "ledger_step\<^sup>=\<^sup>= (ledger_of db) (ledger_of (snd (createOrder C p db)))"
proof (cases "\<exists>db'. createOrder_tx C p db = Inr (True, db')")
  case False
  then have "snd (createOrder C p db) = db"
    by (auto simp: createOrder_state split: sum.splits prod.splits bool.splits)
  then show ?thesis by simp
next
  case True
  then obtain db' where tx: "createOrder_tx C p db = Inr (True, db')" by blast
  from createOrder_tx_True [OF tx] obtain i row its tr where
    row: "o_id row = i" and new: "i \<notin> o_id ` set (t_orders db)"
    and tr: "tr_orderId tr = i" "tr_toStatus tr = QUEUED"
    and db': "db' = db\<lparr>t_orders := t_orders db @ [row], t_items := t_items db @ its,
       t_transitions := t_transitions db @ [tr]\<rparr>"
    by (auto simp: fresh_row_of_def)
  have "trail i db = []" using inv new by (auto intro: trail_empty simp: db_inv_def)
  then have "ledger_of db' = (ledger_of db)(i \<mapsto> [QUEUED])"
    by (auto simp: ledger_of_def db' row trail_snoc tr fun_eq_iff)
  moreover have "ledger_of db i = None" using new by (simp add: ledger_of_def)
  ultimately have "ledger_step (ledger_of db) (ledger_of db')" by (metis ledger_step.place)
  then show ?thesis by (simp add: createOrder_state tx)
qed

lemma transitionStatus_simulates:
  assumes inv: "db_inv db" and C: "driver_counts C" and ok: "transitionStatus C p db = (Inr (), db')"
  shows "ledger_step (ledger_of db) (ledger_of db')"
proof -
  from transitionStatus_Inr [OF ok C] obtain i col tr where
    v: "validate (tp_expectedStatus p) (tp_nextStatus p) False = Inr ()"
    and hit: "0 < sql_count (transition_where i p) (t_orders db)"
    and tr: "tr_orderId tr = i" "tr_toStatus tr = tp_nextStatus p"
    and db': "db' = db\<lparr>t_orders := sql_update (transition_where i p) (transition_row col (cx_now C) p)
      (t_orders db), t_transitions := t_transitions db @ [tr]\<rparr>"
    by blast
  from hit obtain r where r: "r \<in> set (t_orders db)" "transition_where i p r"
    by (auto simp: sql_count_def filter_empty_conv)
  then have id: "o_id r = i" "o_status r = tp_expectedStatus p" by (simp_all add: transition_where_def)
  from ledger_status [OF inv r(1)] obtain path where
    path: "ledger_of db i = Some (path @ [tp_expectedStatus p])" unfolding id by blast
  have ids: "o_id ` set (t_orders db') = o_id ` set (t_orders db)"
    by (simp add: db' image_sql_update)
  have "ledger_of db' = (ledger_of db)(i \<mapsto> path @ [tp_expectedStatus p, tp_nextStatus p])"
    using path unfolding ledger_of_def ids
    by (auto simp: db' trail_snoc tr fun_eq_iff split: if_splits)
  with ledger_step.move [of "ledger_of db" i path "tp_expectedStatus p" "tp_nextStatus p"] path v
  show ?thesis by (simp add: moves_allowed)
qed

lemma update_simulates:
  "(\<And>r. o_id (f r) = o_id r) \<Longrightarrow> ledger_of (db\<lparr>t_orders := sql_update q f (t_orders db)\<rparr>) = ledger_of db"
  by (simp add: ledger_of_def fun_eq_iff image_sql_update trail_def)

lemma bookkeeping_simulates:
  "ledger_of (snd (markDlq C i m db)) = ledger_of db"
  "ledger_of (snd (incrementRetryCount C i db)) = ledger_of db"
  by (simp_all add: markDlq_def incrementRetryCount_def update_simulates split: sum.splits)

section \<open>Simulation by the worker\<close>

text \<open>Other clients of the database also keep to the contract.\<close>

definition ledger_env :: "'p worker_env \<Rightarrow> bool" where
  "ledger_env E \<longleftrightarrow> (\<forall>c. driver_counts (we_ctx E c)) \<and>
     (\<forall>c db. db_inv db \<longrightarrow> db_inv (we_others E c db) \<and>
        ledger_step\<^sup>*\<^sup>* (ledger_of db) (ledger_of (we_others E c db)))"

definition simulated_from :: "ledger \<Rightarrow> database \<Rightarrow> bool" where
  "simulated_from L db \<longleftrightarrow> db_inv db \<and> ledger_step\<^sup>*\<^sup>* L (ledger_of db)"

lemma simulated_fromI:
  "simulated_from L db \<Longrightarrow> db_inv db' \<Longrightarrow> ledger_step\<^sup>*\<^sup>* (ledger_of db) (ledger_of db') \<Longrightarrow> simulated_from L db'"
  by (auto simp: simulated_from_def)

lemma transitionStatus_simulated:
  assumes "simulated_from L db" and "driver_counts C"
  shows "simulated_from L (snd (transitionStatus C tp db))"
proof -
  have "ledger_step\<^sup>*\<^sup>* (ledger_of db) (ledger_of (snd (transitionStatus C tp db)))"
  proof (cases "transitionStatus C tp db")
    case (Pair res db')
    show ?thesis
    proof (cases res)
      case (Inl e)
      with Pair show ?thesis using transitionStatus_Inl [of C tp db e] by simp
    next
      case (Inr u)
      with Pair assms show ?thesis
        using transitionStatus_simulates [of db C tp db'] by (auto simp: simulated_from_def)
    qed
  qed
  with assms show ?thesis
    by (auto intro: simulated_fromI transitionStatus_inv simp: simulated_from_def)
qed

lemma createOrder_simulated:
  assumes "simulated_from L db"
  shows "simulated_from L (snd (createOrder C p db))"
proof -
  have "db_inv db" using assms by (simp add: simulated_from_def)
  with createOrder_simulates [of db C p] createOrder_inv [of db C p] show ?thesis
    by (intro simulated_fromI [OF assms]) auto
qed

lemma bookkeeping_simulated:
  "simulated_from L db \<Longrightarrow> simulated_from L (snd (markDlq C i m db))"
  "simulated_from L db \<Longrightarrow> simulated_from L (snd (incrementRetryCount C i db))"
  by (simp_all add: simulated_from_def bookkeeping_simulates markDlq_inv incrementRetryCount_inv)

interpretation simulated: db_invariant "simulated_from L" ledger_env "\<lambda>_. True" for L
proof unfold_locales
  fix E :: "'a worker_env" and db c
  assume "ledger_env E" "simulated_from L db"
  then show "simulated_from L (we_others E c db)"
    by (auto intro: rtranclp_trans simp: ledger_env_def simulated_from_def)
qed (simp_all add: createOrder_simulated transitionStatus_simulated bookkeeping_simulated ledger_env_def)

section \<open>Properties\<close>

inductive worker_run :: "'p worker_env \<Rightarrow> 'p worker_state \<Rightarrow> 'p worker_state \<Rightarrow> bool" for E where
  job: "worker_run E s (snd (order_processor_process E w j n p s))"
| failed: "worker_run E s (snd (onFailed E w j n p err s))"
| dead_letter: "worker_run E s (snd (dlq_processor_process E d s))"

lemma worker_run_simulated:
  "worker_run E s s' \<Longrightarrow> ledger_env E \<Longrightarrow> simulated_from L (w_db s) \<Longrightarrow> simulated_from L (w_db s')"
  by (induction rule: worker_run.induct) (blast intro: keepsD [OF simulated.queue_workers(1) [OF _ TrueI]]
      keepsD [OF simulated.queue_workers(2)] keepsD [OF simulated.queue_workers(3)])+

text \<open>C4: the worker refines the ledger: whatever a job, a failure event or a dead letter does, with
  any faults and retries and next to other clients that keep to the contract, is a sequence of
  steps of the specification, and before and after the status of every row is the last one
  in the ledger. In particular no status that an order ever had is taken back.\<close>

theorem worker_refines_ledger:
  assumes "ledger_env E" and "db_inv (w_db s)" and "worker_run E s s'"
  shows "ledger_step\<^sup>*\<^sup>* (ledger_of (w_db s)) (ledger_of (w_db s')) \<and>
    (\<forall>r \<in> set (t_orders (w_db s')). \<exists>path. ledger_of (w_db s') (o_id r) = Some (path @ [o_status r])) \<and>
    (\<forall>i path. ledger_of (w_db s) i = Some path \<longrightarrow> (\<exists>more. ledger_of (w_db s') i = Some (path @ more)))"
proof -
  have "simulated_from (ledger_of (w_db s)) (w_db s)" using assms(2) by (simp add: simulated_from_def)
  from worker_run_simulated [OF assms(3,1) this]
  have sim: "db_inv (w_db s')" "ledger_step\<^sup>*\<^sup>* (ledger_of (w_db s)) (ledger_of (w_db s'))"
    by (simp_all add: simulated_from_def)
  show ?thesis using sim(2) ledger_status [OF sim(1)] ledger_steps_grow [OF sim(2)] by blast
qed

lemma sample_ledger_env [simp]: "ledger_env (sample_env now http)"
  by (simp add: ledger_env_def sample_env_def)

theorem worker_refines_ledger_witness:
  "ledger_step\<^sup>*\<^sup>* (ledger_of (w_db sample_start))
     (ledger_of (w_db (snd (order_processor_process (sample_env 10 dead_http) ''w1'' ''order-o1'' 0 sample_payload
       sample_start))))"
  using worker_refines_ledger [OF sample_ledger_env _ worker_run.job, of sample_start] by (auto simp: seed_db_inv)

end
