(* ===== verification/Order_System.thy ===== *)
theory Order_System
  imports Traced_Orders Admin_Service Menu_Properties Order_Ledger
begin

text \<open>
  The program as a whole: the API server, the workers that take jobs from its queue, the POS's
  status updates, the administrator and the POS's menu editor, all on one database. Every step
  is one request or one job, with any faults and clocks, and with what other clients of the
  database do in between. A run keeps a log of the requests for orders, each with the state of the
  API server it came to. The property is end to end: from what a customer asked for, and the menus
  that the server read for it, to the job in the queue and the rows of the order.
\<close>

section \<open>What intake puts into the queue\<close>

text \<open>
  The bound on the number of items keeps sums below the twenty digits that the decimal library
  computes exactly, since the column of each line stays below 10^10.
\<close>

definition payload_exact :: "order_job_payload \<Rightarrow> bool" where
  "payload_exact p \<longleftrightarrow>
     (list_all item_row_ok (jp_items p) \<and> length (jp_items p) \<le> 10 ^ 10 \<longrightarrow>
        jp_calculatedAmount p = fixed2 (nat (items_total (jp_items p))) \<and>
        (\<forall>h. amount_hundredths (jp_requestedAmount p) = Some h \<longrightarrow> int h = items_total (jp_items p)))"

lemma items_total_simps [simp]:
  "items_total [] = 0" "items_total (it # its) = ji_unitPrice it * ji_quantity it + items_total its"
  by (simp_all add: items_total_def)

text \<open>
  A request: its environment, its command and the state it came to. A payload is that of a request
  when its lines are the request's items with the names and prices of the menus that the server read
  for it, all available, and its amount is their sum.
\<close>

type_synonym 'd intake_request = "'d api_env \<times> create_order_command \<times> api_state"

definition asked_for :: "'d intake_request \<Rightarrow> menu_view list \<Rightarrow> order_job_payload \<Rightarrow> bool" where
  "asked_for rq menus p \<longleftrightarrow> (case rq of (E, cmd, a) \<Rightarrow>
     menus_seen E cmd a = Inr menus \<and> orderable (menu_map menus) (cc_items cmd) \<and>
     jp_idempotencyKey p = cc_idempotencyKey cmd \<and> jp_storeId p = cc_storeId cmd \<and>
     jp_requestedAmount p = cc_requestedAmount cmd \<and>
     jp_items p = job_items (menu_map menus) (cc_items cmd) \<and> payload_exact p)"

lemma enrich_items_lines:
  "enrich_items D menus items acc pre = Inr (d, out) \<Longrightarrow>
     orderable menus items \<and> out = pre @ job_items menus items"
proof (induction items arbitrary: acc pre)
  case (Cons it items)
  from Cons.prems obtain m where m: "menus (ci_menuId it) = Some m" "mv_isAvailable m"
    by (auto split: option.splits if_splits)
  from Cons.prems m obtain acc' where "enrich_items D menus items acc' (pre @ [\<lparr>ji_menuId = ci_menuId it,
      ji_menuName = mv_name m, ji_unitPrice = mv_unitPrice m, ji_quantity = ci_quantity it\<rparr>]) = Inr (d, out)"
    by (auto simp: Let_def)
  from Cons.IH [OF this] m show ?case by (simp add: orderable_def job_items_def menu_price_def)
qed (simp add: orderable_def job_items_def)

lemma items_total_nonneg: "list_all item_row_ok its \<Longrightarrow> 0 \<le> items_total its"
  by (induction its) (simp_all add: item_row_ok_def)

lemma enrich_items_exact:
  assumes D: "decimal_exact D rep"
  shows "enrich_items D menus items acc pre = Inr (d, out) \<Longrightarrow>
    \<exists>mid. out = pre @ mid \<and>
      (list_all item_row_ok mid \<and> rep acc h \<and> 0 \<le> h \<and> h + 10 ^ 10 * int (length mid) \<le> 10 ^ 20 \<longrightarrow>
       rep d (h + items_total mid))"
proof (induction items arbitrary: acc h pre)
  case Nil
  then show ?case by simp
next
  case (Cons it items)
  from Cons.prems obtain m where m: "menus (ci_menuId it) = Some m" "mv_isAvailable m"
    by (auto split: option.splits if_splits)
  let ?p = "mv_unitPrice m" and ?q = "ci_quantity it"
  let ?x = "\<lparr>ji_menuId = ci_menuId it, ji_menuName = mv_name m, ji_unitPrice = ?p, ji_quantity = ?q\<rparr>"
  let ?acc = "dc_plus D acc (dc_times D (dc_price D ?p) ?q)"
  from Cons.prems m have "enrich_items D menus items ?acc (pre @ [?x]) = Inr (d, out)" by (simp add: Let_def)
  from Cons.IH [OF this, of "h + ?p * ?q"] obtain mid where out: "out = pre @ ?x # mid"
    and rest: "list_all item_row_ok mid \<Longrightarrow> rep ?acc (h + ?p * ?q) \<Longrightarrow> 0 \<le> h + ?p * ?q \<Longrightarrow>
      h + ?p * ?q + 10 ^ 10 * int (length mid) \<le> 10 ^ 20 \<Longrightarrow> rep d (h + ?p * ?q + items_total mid)"
    by auto
  have "rep d (h + items_total (?x # mid))"
    if ok: "list_all item_row_ok (?x # mid)" "rep acc h" "0 \<le> h" "h + 10 ^ 10 * int (length (?x # mid)) \<le> 10 ^ 20"
  proof -
    from ok(1) have x: "0 \<le> ?p" "?p < 10 ^ 10" "0 < ?q" "?p * ?q < 10 ^ 10" and mid: "list_all item_row_ok mid"
      by (simp_all add: item_row_ok_def)
    have pq: "0 \<le> ?p * ?q" using x by simp
    have bound: "h + 10 ^ 10 + 10 ^ 10 * int (length mid) \<le> 10 ^ 20" using ok(4) by (simp add: algebra_simps)
    have small: "\<bar>?p\<bar> < 10 ^ 20" "\<bar>?p * ?q\<bar> < 10 ^ 20" "\<bar>h + ?p * ?q\<bar> < 10 ^ 20"
      using x pq ok(3) bound by simp_all
    have "rep (dc_times D (dc_price D ?p) ?q) (?p * ?q)"
      by (rule decimal_exactD(3) [OF D decimal_exactD(2) [OF D small(1)] small(2)])
    then have "rep ?acc (h + ?p * ?q)" using small(3) by (rule decimal_exactD(4) [OF D ok(2)])
    from rest [OF mid this] pq ok(3) x bound show ?thesis by (simp add: add.assoc)
  qed
  with out show ?case by (intro exI [of _ "?x # mid"]) auto
qed

lemma validate_exact:
  assumes D: "decimal_exact (ae_decimal E) rep" and v: "fst (validateAndEnrichItems E cmd s) = Inr x"
  shows "\<exists>menus. asked_for (E, cmd, s) menus (intake_payload E cmd (fst x) (snd x))"
proof -
  let ?D = "ae_decimal E"
  from v obtain menus d items requested where
    seen: "menus_seen E cmd s = Inr menus" and
    run: "enrich_items ?D (menu_map menus) (cc_items cmd) (dc_zero ?D) [] = Inr (d, items)"
    and parse: "dc_parse ?D (cc_requestedAmount cmd) = Inr requested" "dc_equals ?D d requested"
    and x: "x = (dc_toFixed2 ?D d, items)"
    by (subst (asm) validate_menus) (auto simp: bind_res_Inr split: sum.splits if_splits)
  have total: "rep d (items_total items)" if "list_all item_row_ok items" "length items \<le> 10 ^ 10"
    using enrich_items_exact [OF D run, of 0] decimal_exactD(1) [OF D] that by auto
  have "jp_calculatedAmount (intake_payload E cmd (fst x) (snd x)) = fixed2 (nat (items_total items)) \<and>
      (\<forall>h. amount_hundredths (cc_requestedAmount cmd) = Some h \<longrightarrow> int h = items_total items)"
    if ok: "list_all item_row_ok items" "length items \<le> 10 ^ 10"
  proof (intro conjI allI impI)
    have "rep d (int (nat (items_total items)))" using total [OF ok] items_total_nonneg [OF ok(1)] by simp
    then have "dc_toFixed2 ?D d = fixed2 (nat (items_total items))" using D by (simp add: decimal_exact_def)
    then show "jp_calculatedAmount (intake_payload E cmd (fst x) (snd x)) = fixed2 (nat (items_total items))"
      by (simp add: intake_payload_def x)
  next
    fix h assume "amount_hundredths (cc_requestedAmount cmd) = Some h"
    from decimal_exactD(6) [OF D this] parse(1) have "rep requested (int h)" by simp
    from decimal_exactD(5) [OF D total [OF ok] this] parse(2) show "int h = items_total items" by simp
  qed
  then have "payload_exact (intake_payload E cmd (fst x) (snd x))"
    by (simp add: payload_exact_def x intake_payload_def)
  with enrich_items_lines [OF run] seen show ?thesis
    by (intro exI [of _ menus]) (simp add: asked_for_def intake_payload_def x)
qed

text \<open>Intake never writes the database, and adds only payloads of its request to the queue.\<close>

definition intake_inv ::
  "database \<Rightarrow> order_job_payload job set \<Rightarrow> (order_job_payload \<Rightarrow> bool) \<Rightarrow> api_state \<Rightarrow> bool" where
  "intake_inv db J P t \<longleftrightarrow> a_db t = db \<and> J \<subseteq> set (a_queue t) \<and> (\<forall>j \<in> set (a_queue t). P (job_data j))"

lemma intake_inv_frame:
  "a_db t = a_db s \<Longrightarrow> a_queue t = a_queue s \<Longrightarrow> intake_inv db J P s \<Longrightarrow> intake_inv db J P t"
  by (simp add: intake_inv_def)

lemma bull_add_set: "set (bull_add name p opts q) \<subseteq> insert \<lparr>job_name = name, job_data = p, job_opts = opts,
    job_state = Waiting\<rparr> (set q) \<and> set q \<subseteq> set (bull_add name p opts q)"
  by (auto simp: bull_add_def split: option.splits)

lemma accepted_inv:
  assumes "P (intake_payload E cmd (fst x) (snd x))" and "intake_inv db J P t"
  shows "intake_inv db J P (accepted_state E cmd x t)"
    and "intake_inv db J P ((accepted_state E cmd x t)\<lparr>a_idem := i\<rparr>)"
  using assms bull_add_set [of _ "intake_payload E cmd (fst x) (snd x)" _ "a_queue t"]
  by (auto simp: intake_inv_def accepted_state_def Let_def publishOrder_def dest!: subsetD [OF conjunct1 [OF bull_add_set]]
      intro: subsetD [OF conjunct2 [OF bull_add_set]])

lemma accept_order_inv:
  assumes D: "decimal_exact (ae_decimal E) rep" and s: "intake_inv db J P s"
    and P: "\<And>menus p. asked_for (E, cmd, s) menus p \<Longrightarrow> P p"
  shows "intake_inv db J P (snd (accept_order E cmd (ae_uuid E 0) s))"
proof -
  obtain v t where v: "validateAndEnrichItems E cmd s = (v, t)" by force
  have t: "intake_inv db J P t" using s validate_frame [of E cmd s] by (simp add: v intake_inv_def)
  have "P (intake_payload E cmd (fst x) (snd x))" if "v = Inr x" for x
    using validate_exact [OF D, of cmd s x] v that P by auto
  then show ?thesis
    unfolding accept_order_cases [OF v] using t accepted_inv by (auto split: sum.splits option.splits)
qed

lemma asked_for_acquired: "asked_for (E, cmd, acquired_state E cmd s) menus p \<longleftrightarrow> asked_for (E, cmd, s) menus p"
  by (simp add: asked_for_def menus_seen_acquired)

lemma execute_inv:
  assumes D: "decimal_exact (ae_decimal E) rep" and s: "intake_inv db J P s"
    and P: "\<And>menus p. asked_for (E, cmd, s) menus p \<Longrightarrow> P p"
  shows "intake_inv db J P (snd (execute E cmd s))"
proof (cases "ae_fault E CallTryAcquire = None \<and>
    \<not> isPending kv_cmds (ae_time E CallTryAcquire) (cc_idempotencyKey cmd) (a_idem s)")
  case True
  let ?s = "acquired_state E cmd s"
  have "intake_inv db J P ?s" using s by (rule intake_inv_frame [rotated 2]) simp_all
  from accept_order_inv [OF D this, of cmd] P
  have acc: "intake_inv db J P (snd (accept_order E cmd (ae_uuid E 0) ?s))"
    by (auto simp: asked_for_acquired)
  have rel: "intake_inv db J P t \<Longrightarrow> intake_inv db J P (snd (api_release E k t))" for t k
    by (erule intake_inv_frame [rotated 2]) (simp_all add: api_release_def guarded_def split: option.splits)
  show ?thesis
    using acc rel unfolding execute_new [OF conjunct1 [OF True] conjunct2 [OF True]]
    by (auto simp: st_catch_def st_bind_def split: sum.splits prod.splits) (metis snd_conv)+
next
  case False
  have "a_queue (snd (execute E cmd s)) = a_queue s \<and> a_db (snd (execute E cmd s)) = a_db s"
  proof (cases "ae_fault E CallTryAcquire")
    case None
    with False have "tryAcquire kv_cmds (ae_idemTtl E) (ae_time E CallTryAcquire) (cc_idempotencyKey cmd)
        (ae_uuid E 0) (a_idem s) = (False, a_idem s)" by (simp add: idem.tryAcquire_fail_state)
    with None show ?thesis
      by (simp add: execute_def Let_def st_bind_def api_tryAcquire_def guarded_def api_getCachedResponse_def
          split: option.splits sum.splits)
  next
    case (Some e)
    then show ?thesis by (simp add: execute_def Let_def st_bind_def api_tryAcquire_def guarded_def)
  qed
  with s show ?thesis by (intro intake_inv_frame [OF _ _ s]) simp_all
qed

section \<open>The system\<close>

text \<open>The database is the API's; the other components are shown it.\<close>

record 'p system_state =
  y_api :: api_state
  y_worker :: "'p worker_state"
  y_catalog :: catalog

definition system_db :: "'p system_state \<Rightarrow> database" where
  "system_db s = a_db (y_api s)"

definition system_payloads :: "'p system_state \<Rightarrow> order_job_payload set" where
  "system_payloads s = job_data ` set (a_queue (y_api s))"

definition worker_view :: "'p system_state \<Rightarrow> 'p worker_state" where
  "worker_view s = (y_worker s)\<lparr>w_db := system_db s\<rparr>"

definition put_worker :: "'p worker_state \<Rightarrow> 'p system_state \<Rightarrow> 'p system_state" where
  "put_worker w s = s\<lparr>y_worker := w, y_api := (y_api s)\<lparr>a_db := w_db w\<rparr>\<rparr>"

definition admin_view :: "'p system_state \<Rightarrow> 'p admin_state" where
  "admin_view s = \<lparr>ad_db = system_db s, ad_queue = a_queue (y_api s), ad_breaker = w_breaker (y_worker s)\<rparr>"

definition put_admin :: "'p admin_state \<Rightarrow> 'p system_state \<Rightarrow> 'p system_state" where
  "put_admin d s = s\<lparr>y_api := (y_api s)\<lparr>a_db := ad_db d, a_queue := ad_queue d\<rparr>,
     y_worker := (y_worker s)\<lparr>w_breaker := ad_breaker d\<rparr>\<rparr>"

definition catalog_view :: "'p system_state \<Rightarrow> catalog" where
  "catalog_view s = (y_catalog s)\<lparr>c_db := system_db s\<rparr>"

definition put_catalog :: "catalog \<Rightarrow> 'p system_state \<Rightarrow> 'p system_state" where
  "put_catalog k s = s\<lparr>y_catalog := k, y_api := (y_api s)\<lparr>a_db := c_db k\<rparr>\<rparr>"

text \<open>
  Orders come in through three endpoints, POS statuses through two; a worker takes any job the
  queue holds, and any failure event may follow; the administrator re-drives; menus, settings
  and areas are edited. A step that asks for an order is labelled with its request.
\<close>

inductive system_step ::
  "('d \<Rightarrow> int \<Rightarrow> bool) \<Rightarrow> (string \<Rightarrow> uuid option) \<Rightarrow> 'd intake_request option \<Rightarrow>
   'p system_state \<Rightarrow> 'p system_state \<Rightarrow> bool" for rep rd where
  create: "decimal_exact (ae_decimal E) rep \<Longrightarrow>
    system_step rep rd (Some (E, command_of_dto dto, y_api s)) s
      (s\<lparr>y_api := snd (controller_create E dto (y_api s))\<rparr>)"
| bridge: "decimal_exact (ae_decimal E) rep \<Longrightarrow> bridgeKey = [] \<or> apiKey = Some bridgeKey \<Longrightarrow>
    system_step rep rd (Some (E, bridge_command bdto, y_api s)) s
      (s\<lparr>y_api := snd (bridgeOrder E bridgeKey apiKey bdto (y_api s))\<rparr>)"
| bridge_refused: "decimal_exact (ae_decimal E) rep \<Longrightarrow> \<not> (bridgeKey = [] \<or> apiKey = Some bridgeKey) \<Longrightarrow>
    system_step rep rd None s (s\<lparr>y_api := snd (bridgeOrder E bridgeKey apiKey bdto (y_api s))\<rparr>)"
| compat: "decimal_exact (ae_decimal E) rep \<Longrightarrow>
    system_step rep rd (Some (E, compat_command body fresh, y_api s)) s
      (s\<lparr>y_api := snd (createOrderCompat E fresh body (y_api s))\<rparr>)"
| pos_status: "system_step rep rd None s (s\<lparr>y_api := snd (controller_updateStatus C now orderId st (y_api s))\<rparr>)"
| app_status: "system_step rep rd None s (s\<lparr>y_api := snd (updateOrderStatus C now orderId text (y_api s))\<rparr>)"
| job: "j \<in> set (a_queue (y_api s)) \<Longrightarrow> traced_env rd (system_payloads s) W \<Longrightarrow>
    system_step rep rd None s (put_worker (snd (order_processor_process W w (opt_jobId (job_opts j)) n (job_data j)
      (worker_view s))) s)"
| failed: "j \<in> set (a_queue (y_api s)) \<Longrightarrow> traced_env rd (system_payloads s) W \<Longrightarrow>
    system_step rep rd None s (put_worker (snd (onFailed W w (opt_jobId (job_opts j)) n (job_data j) err
      (worker_view s))) s)"
| dead_letter: "system_step rep rd None s (put_worker (snd (dlq_processor_process W d (worker_view s))) s)"
| redrive: "system_step rep rd None s (put_admin (snd (redriveOrder V orderId (admin_view s))) s)"
| catalogue: "catalog_step (catalog_view s) k \<Longrightarrow> system_step rep rd None s (put_catalog k s)"

inductive system_reachable ::
  "('d \<Rightarrow> int \<Rightarrow> bool) \<Rightarrow> (string \<Rightarrow> uuid option) \<Rightarrow> 'd intake_request set \<Rightarrow> 'p system_state \<Rightarrow> bool"
  for rep rd where
  initial: "t_orders (system_db s) = [] \<Longrightarrow> t_items (system_db s) = [] \<Longrightarrow> a_queue (y_api s) = [] \<Longrightarrow>
    system_reachable rep rd {} s"
| step: "system_reachable rep rd log s \<Longrightarrow> system_step rep rd rq s s' \<Longrightarrow>
    system_reachable rep rd (set_option rq \<union> log) s'"

definition in_log :: "'d intake_request set \<Rightarrow> order_job_payload \<Rightarrow> bool" where
  "in_log log p \<longleftrightarrow> (\<exists>rq \<in> log. \<exists>menus. asked_for rq menus p)"

definition system_inv ::
  "(string \<Rightarrow> uuid option) \<Rightarrow> 'd intake_request set \<Rightarrow> 'p system_state \<Rightarrow> bool" where
  "system_inv rd log s \<longleftrightarrow> rows_traced rd (system_payloads s) (system_db s) \<and>
     (\<forall>p \<in> system_payloads s. in_log log p)"

section \<open>Every step keeps the invariant\<close>

lemma in_log_mono: "in_log log p \<Longrightarrow> in_log (L \<union> log) p"
  unfolding in_log_def by blast

lemma intake_step:
  assumes D: "decimal_exact (ae_decimal E) rep" and s: "system_inv rd log s"
    and a: "a = snd (execute E cmd (y_api s)) \<or> a = y_api s"
  shows "system_inv rd (insert (E, cmd, y_api s) log) (s\<lparr>y_api := a\<rparr>)"
proof -
  let ?P = "in_log (insert (E, cmd, y_api s) log)"
  have "intake_inv (system_db s) (set (a_queue (y_api s))) ?P (y_api s)"
    using s in_log_mono [of log _ "{(E, cmd, y_api s)}"]
    by (simp add: intake_inv_def system_inv_def system_payloads_def system_db_def)
  moreover from this have "intake_inv (system_db s) (set (a_queue (y_api s))) ?P (snd (execute E cmd (y_api s)))"
    by (rule execute_inv [OF D]) (auto simp: in_log_def)
  ultimately have "intake_inv (system_db s) (set (a_queue (y_api s))) ?P a" using a by blast
  then show ?thesis
    using s by (auto simp: intake_inv_def system_inv_def system_payloads_def system_db_def
        elim!: rows_traced_mono)
qed

lemma orders_endpoints:
  "snd (controller_create E dto a) = snd (execute E (command_of_dto dto) a)"
  "bridgeKey = [] \<or> apiKey = Some bridgeKey \<Longrightarrow>
     snd (bridgeOrder E bridgeKey apiKey bdto a) = snd (execute E (bridge_command bdto) a)"
  "\<not> (bridgeKey = [] \<or> apiKey = Some bridgeKey) \<Longrightarrow> snd (bridgeOrder E bridgeKey apiKey bdto a) = a"
  "snd (createOrderCompat E fresh body a) = snd (execute E (compat_command body fresh) a) \<or>
   snd (createOrderCompat E fresh body a) = a"
  by (auto simp: controller_create_def bridgeOrder_def createOrderCompat_def st_bind_def st_throw_def
      split: prod.splits sum.splits)

lemma updateStatus_effect:
  "a_queue (snd (controller_updateStatus C now orderId st a)) = a_queue a"
  "a_db (snd (controller_updateStatus C now orderId st a)) = snd (posStatusUpdate C st orderId (a_db a))"
  by (simp_all add: controller_updateStatus_def st_bind_def case_prod_beta split: sum.splits list.splits)

lemma app_status_effect:
  "a_queue (snd (updateOrderStatus C now orderId text a)) = a_queue a \<and>
   (a_db (snd (updateOrderStatus C now orderId text a)) = a_db a \<or>
    (\<exists>st. a_db (snd (updateOrderStatus C now orderId text a)) = snd (posStatusUpdate C st orderId (a_db a))))"
proof -
  have "a_queue (snd (st_bind (controller_updateStatus C now orderId st) (\<lambda>r. st_return (Some r)) a)) = a_queue a \<and>
      a_db (snd (st_bind (controller_updateStatus C now orderId st) (\<lambda>r. st_return (Some r)) a)) =
        snd (posStatusUpdate C st orderId (a_db a))" for st
    using updateStatus_effect [of C now orderId st a]
    by (auto simp: st_bind_def split: prod.splits sum.splits)
  then show ?thesis by (auto simp: updateOrderStatus_def Let_def split: option.splits)
qed

lemma status_step:
  "system_inv rd log s \<Longrightarrow> a_queue a = a_queue (y_api s) \<Longrightarrow>
     a_db a = system_db s \<or> (\<exists>C st i. a_db a = snd (posStatusUpdate C st i (system_db s))) \<Longrightarrow>
     system_inv rd log (s\<lparr>y_api := a\<rparr>)"
  by (auto simp: system_inv_def system_payloads_def system_db_def bookkeeping_traced)

lemma worker_step_system:
  assumes "system_inv rd log s" and "keeps (\<lambda>w. rows_traced rd (system_payloads s) (w_db w)) m"
  shows "system_inv rd log (put_worker (snd (m (worker_view s))) s)"
  using keepsD [OF assms(2), of "worker_view s"] assms(1)
  by (simp add: system_inv_def worker_view_def put_worker_def system_payloads_def system_db_def)

lemma insertMenus_db:
  "insertMenus C n uuids storeId its k = Inr k' \<Longrightarrow> \<exists>ms. c_db k' = (c_db k)\<lparr>t_menus := ms\<rparr>"
proof (induction its arbitrary: n k)
  case Nil
  then show ?case by (intro exI [of _ "t_menus (c_db k)"]) simp
next
  case (Cons it its)
  then obtain k1 where one: "insertMenu C n (uuids n) storeId it k = Inr k1"
    and rest: "insertMenus C (Suc n) uuids storeId its k1 = Inr k'" by (auto simp: bind_res_Inr)
  from Cons.IH [OF rest] insertMenu_Inr [OF one] show ?case by auto
qed

lemma saveMenus_db: "\<exists>ms. c_db (snd (saveMenus C uuids storeId items k)) = (c_db k)\<lparr>t_menus := ms\<rparr>"
proof (cases "saveMenus C uuids storeId items k")
  case (Pair r k')
  show ?thesis
  proof (cases "truthy storeId \<and> (\<exists>k1. deleteMenus C (the storeId) k = Inr k1 \<and>
      insertMenus C 1 uuids (the storeId) items k1 = Inr k')")
    case True
    then obtain k1 where "deleteMenus C (the storeId) k = Inr k1"
      "insertMenus C 1 uuids (the storeId) items k1 = Inr k'" by blast
    with deleteMenus_Inr insertMenus_db Pair show ?thesis by fastforce
  next
    case False
    with Pair have "k' = k"
      by (auto simp: saveMenus_def catalog_transaction_def bind_res_Inr split: if_splits sum.splits)
    with Pair show ?thesis by (intro exI [of _ "t_menus (c_db k)"]) simp
  qed
qed

lemma catalog_transaction_db:
  "(\<And>k k'. body k = Inr k' \<Longrightarrow> c_db k' = c_db k) \<Longrightarrow> c_db (snd (catalog_transaction body k)) = c_db k"
  by (simp add: catalog_transaction_def split: sum.splits)

lemma keeps_db_transaction:
  "(\<And>k k'. body k = Inr k' \<Longrightarrow> c_db k' = c_db k) \<Longrightarrow> keeps (\<lambda>k. c_db k = db) (catalog_transaction body)"
  by (simp add: keeps_def catalog_transaction_db)

lemma inserts_db:
  "insertCategories C n i cats k = Inr k' \<Longrightarrow> c_db k' = c_db k"
  "insertOptions C n i opts k = Inr k' \<Longrightarrow> c_db k' = c_db k"
proof -
  show "insertCategories C n i cats k = Inr k' \<Longrightarrow> c_db k' = c_db k"
    by (induction C n i cats k rule: insertCategories.induct)
      (auto simp: bind_res_Inr insertCategory_def Let_def split: if_splits)
  show "insertOptions C n i opts k = Inr k' \<Longrightarrow> c_db k' = c_db k"
    by (induction C n i opts k rule: insertOptions.induct)
      (auto simp: bind_res_Inr insertOption_def Let_def split: if_splits)
qed

lemma catalog_ops_db:
  "keeps (\<lambda>k. c_db k = db) (saveCategories C storeId cats)"
  "keeps (\<lambda>k. c_db k = db) (saveOptions C storeId opts)"
  "keeps (\<lambda>k. c_db k = db) (saveSettings C storeId body)"
  "keeps (\<lambda>k. c_db k = db) (createArea C pw fresh b)"
  "keeps (\<lambda>k. c_db k = db) (updateArea C pw areaId b)"
  "keeps (\<lambda>k. c_db k = db) (deleteArea C pw areaId b)"
  unfolding saveCategories_def saveOptions_def saveSettings_def createArea_def updateArea_def deleteArea_def Let_def
  by (intro keeps_intros keeps_db_transaction;
      force simp: bind_res_Inr deleteCategories_def deleteOptions_def dest: inserts_db split: if_splits)+

lemma same_db: "c_db k' = c_db k \<Longrightarrow> \<exists>ms. c_db k' = (c_db k)\<lparr>t_menus := ms\<rparr>"
  by (intro exI [of _ "t_menus (c_db k)"]) simp

lemma catalog_step_db: "catalog_step k k' \<Longrightarrow> \<exists>ms. c_db k' = (c_db k)\<lparr>t_menus := ms\<rparr>"
  by (induction rule: catalog_step.induct)
    ((rule saveMenus_db) | (rule same_db, rule catalog_ops_db [THEN keepsD], rule refl))+

lemma unlogged: "system_inv rd log s \<Longrightarrow> system_inv rd (set_option None \<union> log) s"
  by simp

lemma system_step_inv:
  "system_step rep rd rq s s' \<Longrightarrow> system_inv rd log s \<Longrightarrow> system_inv rd (set_option rq \<union> log) s'"
proof (induction rule: system_step.induct)
  case (create E dto s)
  then show ?case using intake_step [OF create(1,2)] by (simp add: orders_endpoints)
next
  case (bridge E bridgeKey apiKey bdto s)
  then show ?case using intake_step [OF bridge(1,3)] by (simp add: orders_endpoints)
next
  case (bridge_refused E bridgeKey apiKey s bdto)
  then show ?case by (simp add: orders_endpoints)
next
  case (compat E body fresh s)
  from orders_endpoints(4) [of E fresh body "y_api s"]
  show ?case using intake_step [OF compat, of _ "compat_command body fresh"] by simp
next
  case (pos_status s C now orderId st)
  then show ?case
    by (intro unlogged status_step) (auto simp: updateStatus_effect system_db_def)
next
  case (app_status s C now orderId status_text)
  then show ?case
    using app_status_effect [of C now orderId status_text "y_api s"]
    by (intro unlogged status_step) (auto simp: system_db_def)
next
  case (job j s W w n)
  then have "job_data j \<in> system_payloads s" by (simp add: system_payloads_def)
  with job show ?case by (intro unlogged worker_step_system traced.queue_workers(1))
next
  case (failed j s W w n err)
  then show ?case by (intro unlogged worker_step_system traced.queue_workers(2))
next
  case (dead_letter s W d)
  then show ?case by (intro unlogged worker_step_system traced.queue_workers(3))
next
  case (redrive s V orderId)
  then show ?case
    by (simp add: redrive_unchanged admin_view_def put_admin_def system_inv_def system_payloads_def system_db_def)
next
  case (catalogue s k)
  from catalog_step_db [OF catalogue(1)] obtain ms where "c_db k = (system_db s)\<lparr>t_menus := ms\<rparr>"
    by (auto simp: catalog_view_def)
  with catalogue(2) show ?case
    by (simp add: system_inv_def put_catalog_def system_payloads_def system_db_def menus_traced)
qed

lemma system_reachable_inv: "system_reachable rep rd log s \<Longrightarrow> system_inv rd log s"
proof (induction rule: system_reachable.induct)
  case (initial s)
  then show ?case by (simp add: system_inv_def rows_traced_def system_payloads_def)
qed (rule system_step_inv)

text \<open>The rows of an order against the items of its request and the menus that were read for it.\<close>

definition row_for ::
  "(string \<Rightarrow> uuid option) \<Rightarrow> menu_view list \<Rightarrow> order_item_entity \<Rightarrow> create_order_item \<Rightarrow> bool" where
  "row_for rd menus row it \<longleftrightarrow> (\<exists>m. menu_map menus (ci_menuId it) = Some m \<and> mv_isAvailable m \<and>
     rd (ci_menuId it) = Some (oi_menuId row) \<and> oi_menuName row = mv_name m \<and>
     oi_unitPrice row = mv_unitPrice m \<and> oi_quantity row = ci_quantity it)"

lemma rows_for_request:
  "orderable (menu_map menus) items \<Longrightarrow> list_all2 (item_of rd) rows (job_items (menu_map menus) items) \<Longrightarrow>
     list_all2 (row_for rd menus) rows items"
proof (induction items arbitrary: rows)
  case (Cons it items)
  then obtain m row rows' where "menu_map menus (ci_menuId it) = Some m" "mv_isAvailable m" "rows = row # rows'"
    by (cases rows) (auto simp: orderable_def job_items_def)
  with Cons show ?case
    by (auto simp: orderable_def job_items_def menu_price_def item_of_def row_for_def)
qed (simp add: job_items_def)

lemma row_line_total:
  "list_all2 (item_of rd) rows its \<Longrightarrow>
     sum_list (map (\<lambda>it. oi_unitPrice it * oi_quantity it) rows) = items_total its"
  by (induction rule: list_all2_induct) (auto simp: item_of_def)

section \<open>A run of the system\<close>

lemma fixed2_sample: "fixed2 3600000 = ''36000.00''"
  by (simp add: fixed2_def show_nat.simps digit_char_def char_of_def bit_0)

lemma sample_amount: "amount_hundredths ''36000'' = Some 3600000"
  by (simp add: amount_hundredths_def read_nat_def char_digit_def of_char_def)

definition sample_system :: "nat system_state" where
  "sample_system = \<lparr>y_api = sample_api, y_worker = sample_start, y_catalog = sample_catalog\<rparr>"

definition sample_dto :: create_order_dto where
  "sample_dto = \<lparr>cd_idempotencyKey = ''k1'', cd_storeId = ''s1'', cd_userId = None,
     cd_totalAmount = ''36000'', cd_items = [\<lparr>ci_menuId = ''m1'', ci_quantity = 2\<rparr>]\<rparr>"

text \<open>The sample's request, and then its job while the POS answers.\<close>

definition requested_system :: "nat system_state" where
  "requested_system = sample_system\<lparr>y_api := snd (controller_create (sample_api_env 5) sample_dto (y_api sample_system))\<rparr>"

definition processed_system :: "nat system_state" where
  "processed_system = put_worker (snd (order_processor_process (sample_env 10 flaky_http) ''w1'' ''order-o1'' 0
     sample_payload (worker_view requested_system))) requested_system"

lemma controller_create_state: "snd (controller_create E dto s) = snd (execute E (command_of_dto dto) s)"
  by (simp add: controller_create_def st_bind_def split: prod.splits sum.splits)

lemma requested_queue:
  "a_db (y_api requested_system) = seed_db"
  "a_queue (y_api requested_system) = [\<lparr>job_name = ''process-order'', job_data = sample_payload,
     job_opts = defaultJobOptions 3 1000 ''order-o1'', job_state = Waiting\<rparr>]"
proof -
  let ?A = "sample_api_env 5" and ?cmd = "sample_command ''36000''"
  have cmd: "command_of_dto sample_dto = ?cmd" by (simp add: command_of_dto_def sample_dto_def sample_command_def)
  have D: "decimal_exact (ae_decimal ?A) (=)" by (simp add: sample_decimal_exact)
  have am: "amount_hundredths (cc_requestedAmount ?cmd) =
      Some (nat (order_total (menu_map [sample_view]) (cc_items ?cmd)))"
    by (simp add: sample_amount sample_total)
  note ex = execute_accepted [OF D sample_api_env_sel(3) sample_not_pending sample_menus_seen sample_sane am]
  have items: "job_items (menu_map [sample_view]) (cc_items ?cmd) = [sample_item]"
    by (simp add: job_items_def menu_price_def sample_menu_map) (simp add: sample_view_def sample_item_def)
  have p: "intake_payload ?A ?cmd (fixed2 (nat (order_total (menu_map [sample_view]) (cc_items ?cmd))))
      (job_items (menu_map [sample_view]) (cc_items ?cmd)) = sample_payload"
    unfolding items by (simp add: sample_total fixed2_sample intake_payload_def sample_payload_def)
      (simp add: sample_command_def trace_or_new_def sample_api_env_def)
  show "a_db (y_api requested_system) = seed_db"
    by (simp add: requested_system_def sample_system_def controller_create_state cmd ex(2)) (simp add: sample_api_def)
  show "a_queue (y_api requested_system) = [\<lparr>job_name = ''process-order'', job_data = sample_payload,
     job_opts = defaultJobOptions 3 1000 ''order-o1'', job_state = Waiting\<rparr>]"
    unfolding requested_system_def sample_system_def
    by (simp add: controller_create_state cmd ex(3) [unfolded p])
      (simp add: sample_api_def publishOrder_def bull_add_def bull_lookup_def sample_api_env_def orderJobId_def
      Let_def)
qed

lemma sample_traced_env: "traced_env Some Q (sample_env now http)"
  by (simp add: traced_env_def sample_env_def column_types_def same_amount_def)

definition sample_log :: "int intake_request set" where
  "sample_log = {(sample_api_env 5, command_of_dto sample_dto, sample_api)}"

lemma processed_reachable: "system_reachable (=) Some sample_log processed_system"
proof -
  have D: "decimal_exact (ae_decimal (sample_api_env 5)) (=)" by (simp add: sample_decimal_exact)
  have start: "y_api sample_system = sample_api" by (simp add: sample_system_def)
  have "system_reachable (=) Some {} sample_system"
    by (rule system_reachable.initial) (simp_all add: sample_system_def system_db_def sample_api_def)
  from system_reachable.step [OF this system_step.create [OF D]]
  have "system_reachable (=) Some sample_log requested_system"
    unfolding requested_system_def sample_log_def start by simp
  moreover have "system_step (=) Some None requested_system processed_system"
    using system_step.job [where rd = Some and rep = "(=)" and s = requested_system and W = "sample_env 10 flaky_http" and
        j = "\<lparr>job_name = ''process-order'', job_data = sample_payload,
          job_opts = defaultJobOptions 3 1000 ''order-o1'', job_state = Waiting\<rparr>"]
    by (simp add: requested_queue sample_traced_env processed_system_def defaultJobOptions_def)
  ultimately show ?thesis using system_reachable.step [of "(=)" Some sample_log] by fastforce
qed

lemma processed_row: "\<exists>r \<in> set (t_orders (system_db processed_system)). o_status r = COMPLETED"
proof -
  have view: "worker_view requested_system = sample_start"
    by (simp add: worker_view_def system_db_def requested_queue) (simp add: requested_system_def sample_system_def
      sample_start_def)
  obtain res where "fresh_job (sample_env 10 flaky_http) sample_payload (sample_meta 0) ''o1'' sample_start (Inr res)"
    using flaky_job by blast
  from process_fresh [OF this sample_env_lock] show ?thesis
    unfolding processed_system_def view order_processor_rethrows
    by (auto simp: put_worker_def system_db_def sample_meta_def dest: row_with_id_Some)
qed

section \<open>The property\<close>

text \<open>C3: end to end, from the customer's request to the queue and the rows: in every state the system can
  reach, by any requests, jobs, failures, faults, retries, status updates and edits in any order, each
  job in the queue and each order in the database is that of a request which one of the three endpoints
  took: its key, which no other order has, its store, and its lines, one by one, with the menu, the
  quantity asked for, and the name and price of an available menu as the server had read it for this
  request. The lines add up, to the hundredth, to the order's amount and to the amount the customer
  asked for; this is stated for at most 10^10 lines, which keeps the sum within the twenty digits of
  the decimal library and is far beyond any request body.\<close>

theorem orders_from_requests:
  assumes "system_reachable rep rd log s"
  shows "distinct (map o_idempotencyKey (t_orders (system_db s))) \<and>
    (\<forall>p \<in> system_payloads s. \<exists>rq \<in> log. \<exists>menus. asked_for rq menus p) \<and>
    (\<forall>r \<in> set (t_orders (system_db s)). \<exists>E cmd a menus.
       let its = items_of (o_id r) (system_db s);
           total = sum_list (map (\<lambda>it. oi_unitPrice it * oi_quantity it) its)
       in (E, cmd, a) \<in> log \<and> menus_seen E cmd a = Inr menus \<and>
          o_idempotencyKey r = cc_idempotencyKey cmd \<and> rd (cc_storeId cmd) = Some (o_storeId r) \<and>
          list_all2 (row_for rd menus) its (cc_items cmd) \<and>
          (length its \<le> 10 ^ 10 \<longrightarrow> amount_hundredths (o_calculatedAmount r) = Some (nat total) \<and>
             (\<forall>h. amount_hundredths (cc_requestedAmount cmd) = Some h \<longrightarrow>
                int h = total \<and> amount_hundredths (o_requestedAmount r) = Some h)))"
proof -
  from system_reachable_inv [OF assms] have traced: "rows_traced rd (system_payloads s) (system_db s)"
    and logged: "\<And>p. p \<in> system_payloads s \<Longrightarrow> in_log log p"
    by (simp_all add: system_inv_def)
  have "\<exists>E cmd a menus.
       let its = items_of (o_id r) (system_db s);
           total = sum_list (map (\<lambda>it. oi_unitPrice it * oi_quantity it) its)
       in (E, cmd, a) \<in> log \<and> menus_seen E cmd a = Inr menus \<and>
          o_idempotencyKey r = cc_idempotencyKey cmd \<and> rd (cc_storeId cmd) = Some (o_storeId r) \<and>
          list_all2 (row_for rd menus) its (cc_items cmd) \<and>
          (length its \<le> 10 ^ 10 \<longrightarrow> amount_hundredths (o_calculatedAmount r) = Some (nat total) \<and>
             (\<forall>h. amount_hundredths (cc_requestedAmount cmd) = Some h \<longrightarrow>
                int h = total \<and> amount_hundredths (o_requestedAmount r) = Some h))"
    if r: "r \<in> set (t_orders (system_db s))" for r
  proof -
    from traced r obtain p where p: "p \<in> system_payloads s"
      and same: "ordered_as rd p r (items_of (o_id r) (system_db s))"
      unfolding rows_traced_def by blast
    from logged [OF p] obtain E cmd a menus where q: "(E, cmd, a) \<in> log" "asked_for (E, cmd, a) menus p"
      by (auto simp: in_log_def)
    from same have lines: "list_all2 (item_of rd) (items_of (o_id r) (system_db s)) (jp_items p)"
      by (simp add: ordered_as_def)
    with q(2) have rows: "list_all2 (row_for rd menus) (items_of (o_id r) (system_db s)) (cc_items cmd)"
      by (auto simp: asked_for_def intro: rows_for_request)
    from lines have "length (items_of (o_id r) (system_db s)) = length (jp_items p)" by (rule list_all2_lengthD)
    then show ?thesis
      using q same rows amount_hundredths_fixed2
      by (intro exI [of _ E] exI [of _ cmd] exI [of _ a] exI [of _ menus])
        (auto simp: Let_def row_line_total [OF lines] ordered_as_def same_amount_def asked_for_def payload_exact_def)
  qed
  with traced logged show ?thesis by (simp add: rows_traced_def in_log_def)
qed

theorem orders_from_requests_witness:
  "\<exists>r \<in> set (t_orders (system_db processed_system)). o_status r = COMPLETED \<and>
     o_idempotencyKey r = ''k1''"
proof -
  from processed_row obtain r where r: "r \<in> set (t_orders (system_db processed_system))" "o_status r = COMPLETED"
    by blast
  with orders_from_requests [OF processed_reachable] have "o_idempotencyKey r = cc_idempotencyKey (command_of_dto sample_dto)"
    by (fastforce simp: Let_def sample_log_def)
  with r show ?thesis by (auto simp: command_of_dto_def sample_dto_def)
qed

end
