(* ===== verification/Life_Cycle.thy ===== *)
theory Life_Cycle
  imports Repository_Properties
begin

text \<open>
  The state machine ends: every transition that validate lets through uses up one of the steps
  an order has left, so only finitely many transitions of an order can ever succeed, whoever
  asks for them and in whatever order.
\<close>

section \<open>Steps left\<close>

fun steps_left :: "order_status \<Rightarrow> nat" where
  "steps_left QUEUED = 3"
| "steps_left SAVED = 2"
| "steps_left SENT_TO_POS = 1"
| "steps_left _ = 0"

lemma validate_steps_left: "validate s t b = Inr () \<Longrightarrow> \<not> b \<Longrightarrow> steps_left t < steps_left s"
  by (cases s) (auto simp: validate_def split: if_splits)

lemma terminal_iff_stuck:
  "s \<in> set worker_statuses \<Longrightarrow> isTerminal s \<longleftrightarrow> (\<forall>t. validate s t False \<noteq> Inr ())"
  by (cases s) (auto simp: validate_def isTerminal_def worker_statuses_def split: if_splits
      intro: exI [of _ FAILED] exI [of _ COMPLETED])

section \<open>The credit of an order\<close>

text \<open>What the rows of an order have left, all together.\<close>

definition credit :: "uuid \<Rightarrow> database \<Rightarrow> nat" where
  "credit i db = sum_list (map (\<lambda>r. if o_id r = i then steps_left (o_status r) else 0) (t_orders db))"

lemma sum_list_update_le:
  "(\<And>r. p r \<Longrightarrow> f (g r) \<le> f r) \<Longrightarrow> sum_list (map f (sql_update p g t)) \<le> (sum_list (map f t) :: nat)"
  by (induction t) (simp_all add: sql_update_def add_mono)

lemma sum_list_update_less:
  assumes "\<And>r. p r \<Longrightarrow> f (g r) < f r" and "0 < sql_count p t"
  shows "sum_list (map f (sql_update p g t)) < (sum_list (map f t) :: nat)"
  using assms(2)
proof (induction t)
  case (Cons r t)
  have "sum_list (map f (sql_update p g t)) \<le> sum_list (map f t)"
    by (rule sum_list_update_le) (simp add: assms(1) less_imp_le)
  with Cons show ?case
    using assms(1) [of r] by (cases "p r") (simp_all add: sql_update_def sql_count_def add_less_le_mono)
qed (simp add: sql_count_def)

lemma credit_distinct:
  assumes "distinct (map o_id (t_orders db))" and "row_with_id i db = Some r"
  shows "credit i db = steps_left (o_status r)"
proof -
  have "sum_list (map (\<lambda>x. if o_id x = o_id r then steps_left (o_status x) else 0) t) = steps_left (o_status r)"
    if "distinct (map o_id t)" "r \<in> set t" for t
    using that
  proof (induction t)
    case (Cons x t)
    have "sum_list (map (\<lambda>x. if o_id x = o_id r then steps_left (o_status x) else 0) t) = 0"
      if "o_id r \<notin> o_id ` set t" using that by (induction t) auto
    with Cons show ?case by auto
  qed simp
  with assms row_with_id_Some [OF assms(2)] show ?thesis by (auto simp: credit_def)
qed

lemma credit_success:
  assumes "transitionStatus C p db = (Inr (), db')" and "driver_counts C"
  shows "credit i db' \<le> credit i db" and "cx_uuid_in C (tp_orderId p) = Some i \<Longrightarrow> credit i db' < credit i db"
proof -
  obtain j col tr where j: "cx_uuid_in C (tp_orderId p) = Some j"
    and v: "validate (tp_expectedStatus p) (tp_nextStatus p) False = Inr ()"
    and hit: "0 < sql_count (transition_where j p) (t_orders db)"
    and db': "db' = db\<lparr>t_orders := sql_update (transition_where j p) (transition_row col (cx_now C) p)
         (t_orders db), t_transitions := t_transitions db @ [tr]\<rparr>"
    using transitionStatus_Inr [OF assms] by blast
  note less = validate_steps_left [OF v, simplified]
  show "credit i db' \<le> credit i db"
    unfolding credit_def db' using less
    by (auto intro!: sum_list_update_le simp: transition_where_def)
  show "cx_uuid_in C (tp_orderId p) = Some i \<Longrightarrow> credit i db' < credit i db"
    unfolding credit_def db' using less hit j
    by (auto intro!: sum_list_update_less simp: transition_where_def)
qed

section \<open>Sequences of transitions\<close>

text \<open>The calls that succeed for an order, of calls made one after the other.\<close>

fun wins :: "uuid \<Rightarrow> (db_ctx \<times> transition_params) list \<Rightarrow> database \<Rightarrow> nat" where
  "wins i [] db = 0"
| "wins i ((C, p) # calls) db =
     (case transitionStatus C p db of (r, db') \<Rightarrow>
       (if r = Inr () \<and> cx_uuid_in C (tp_orderId p) = Some i then 1 else 0) + wins i calls db')"

lemma wins_credit: "list_all (\<lambda>(C, _). driver_counts C) calls \<Longrightarrow> wins i calls db \<le> credit i db"
proof (induction calls arbitrary: db)
  case (Cons c calls)
  obtain C p where c: "c = (C, p)" by force
  obtain r db' where t: "transitionStatus C p db = (r, db')" by force
  have IH: "wins i calls db' \<le> credit i db'" using Cons by simp
  show ?case
  proof (cases r)
    case (Inl e)
    with t have "db' = db" using transitionStatus_Inl [of C p db e] by simp
    with Inl IH show ?thesis by (simp add: c t)
  next
    case (Inr u)
    with t have t': "transitionStatus C p db = (Inr (), db')" by simp
    have C: "driver_counts C" using Cons.prems by (simp add: c)
    show ?thesis using credit_success [OF t' C, of i] IH by (auto simp: c t Inr)
  qed
qed simp

section \<open>Properties\<close>

text \<open>C30: the life of an order ends. No allowed transition leads back, so that there is no endless
  sequence of them; the terminal statuses are exactly those without a transition; and of any
  calls of transitionStatus, however many and by whomever, at most as many succeed for an order
  as its status has steps left: three from QUEUED, none from COMPLETED or FAILED.\<close>

theorem order_life_ends:
  assumes "list_all (\<lambda>(C, _). driver_counts C) calls" and "keys_ok db" and "row_with_id i db = Some r"
  shows "wins i calls db \<le> steps_left (o_status r) \<and> steps_left (o_status r) \<le> 3 \<and>
    (isTerminal (o_status r) \<longrightarrow> wins i calls db = 0) \<and>
    wf {(t, s). validate s t False = Inr ()} \<and>
    (\<forall>s \<in> set worker_statuses. isTerminal s \<longleftrightarrow> (\<forall>t. validate s t False \<noteq> Inr ()))"
proof -
  have wins: "wins i calls db \<le> steps_left (o_status r)"
    using wins_credit [OF assms(1), of i db] credit_distinct [OF _ assms(3)] assms(2)
    by (simp add: keys_ok_def)
  moreover have "steps_left s \<le> 3" for s by (cases s) simp_all
  moreover have "isTerminal (o_status r) \<longrightarrow> wins i calls db = 0"
    using wins by (auto simp: isTerminal_def)
  moreover have "wf {(t, s). validate s t False = Inr ()}"
    by (rule wf_subset [OF wf_measure [of steps_left]]) (auto simp: validate_steps_left)
  ultimately show ?thesis using terminal_iff_stuck by blast
qed

theorem order_life_ends_witness:
  "wins ''o1'' (replicate 9 (quiet_ctx 20, sample_transition QUEUED SAVED 0)) queued_db \<le> 3"
  using order_life_ends [of "replicate 9 (quiet_ctx 20, sample_transition QUEUED SAVED 0)" queued_db "''o1''" sample_row]
  by (simp add: list_all_iff)

end
