(* ===== verification/Menu_Cache.thy ===== *)
theory Menu_Cache
  imports Order_Api
begin

text \<open>
  The menu cache of CreateOrderService against the database it stands for: as long as no entry
  is out of date, a request is answered as if there were no cache. The rules by which two runs
  of a method are compared are at the start.
\<close>

section \<open>Two runs of a method\<close>

text \<open>Started in related states, a method gives the same result and ends in related states.\<close>

definition agrees :: "('s \<Rightarrow> 's \<Rightarrow> bool) \<Rightarrow> ('s, 'e, 'a) comp \<Rightarrow> bool" where
  "agrees R m \<longleftrightarrow> (\<forall>s u. R s u \<longrightarrow> fst (m s) = fst (m u) \<and> R (snd (m s)) (snd (m u)))"

named_theorems agrees_intros "parts whose runs agree"

lemma agreesI:
  "(\<And>s u. R s u \<Longrightarrow> fst (m s) = fst (m u) \<and> R (snd (m s)) (snd (m u))) \<Longrightarrow> agrees R m"
  by (simp add: agrees_def)

lemma agreesD: "agrees R m \<Longrightarrow> R s u \<Longrightarrow> fst (m s) = fst (m u) \<and> R (snd (m s)) (snd (m u))"
  by (simp add: agrees_def)

lemma agrees_pure [agrees_intros]:
  "agrees R (st_return a)" "agrees R (st_throw e)" "agrees R (st_lift r)"
  by (simp_all add: agrees_def)

lemma agrees_update: "(\<And>s u. R s u \<Longrightarrow> R (f s) (f u)) \<Longrightarrow> agrees R (st_update f)"
  by (simp add: agrees_def)

lemma agrees_bind [agrees_intros]:
  assumes "agrees R m" and "\<And>a. agrees R (f a)"
  shows "agrees R (st_bind m f)"
proof (rule agreesI)
  fix s u assume "R s u"
  with assms(1) have m: "fst (m s) = fst (m u)" "R (snd (m s)) (snd (m u))"
    by (simp_all add: agreesD)
  obtain r s' u' where su: "m s = (r, s')" "m u = (r, u')" "R s' u'"
    using m by (metis prod.collapse)
  show "fst (st_bind m f s) = fst (st_bind m f u) \<and> R (snd (st_bind m f s)) (snd (st_bind m f u))"
    using su agreesD [OF assms(2) su(3)] by (cases r) (simp_all add: st_bind_def)
qed

lemma agrees_catch [agrees_intros]:
  assumes "agrees R m" and "\<And>e. agrees R (h e)"
  shows "agrees R (st_catch m h)"
proof (rule agreesI)
  fix s u assume "R s u"
  with assms(1) have m: "fst (m s) = fst (m u)" "R (snd (m s)) (snd (m u))"
    by (simp_all add: agreesD)
  obtain r s' u' where su: "m s = (r, s')" "m u = (r, u')" "R s' u'"
    using m by (metis prod.collapse)
  show "fst (st_catch m h s) = fst (st_catch m h u) \<and> R (snd (st_catch m h s)) (snd (st_catch m h u))"
    using su agreesD [OF assms(2) su(3)] by (cases r) (simp_all add: st_catch_def)
qed

lemma agrees_guarded [agrees_intros]: "agrees R m \<Longrightarrow> agrees R (guarded E c m)"
  by (auto simp: agrees_def guarded_def split: option.splits)

lemma agrees_cases [agrees_intros]:
  "agrees R m \<Longrightarrow> agrees R n \<Longrightarrow> agrees R (if b then m else n)"
  "agrees R m \<Longrightarrow> (\<And>a. agrees R (f a)) \<Longrightarrow> agrees R (case x of None \<Rightarrow> m | Some a \<Rightarrow> f a)"
  by (simp, (cases x; simp))

section \<open>Cache keys\<close>

text \<open>
  The key joins the store's id and the sorted ids of the menus with colons and commas; ids
  without either, and not empty, can be read back from it.
\<close>

definition key_safe :: "string \<Rightarrow> bool" where
  "key_safe s \<longleftrightarrow> s \<noteq> [] \<and> CHR '':'' \<notin> set s \<and> CHR '','' \<notin> set s"

lemma append_sep_inject:
  "c \<notin> set x \<Longrightarrow> c \<notin> set y \<Longrightarrow> x @ c # r = y @ c # s \<longleftrightarrow> x = y \<and> r = (s :: string)"
  by (induction x arbitrary: y; case_tac y) auto

lemma set_join_comma: "x \<in> set xs \<Longrightarrow> set x \<subseteq> set (join_comma xs)"
  by (induction xs rule: join_comma.induct) auto

lemma join_comma_empty: "list_all key_safe xs \<Longrightarrow> join_comma xs = [] \<longleftrightarrow> xs = []"
  by (cases xs rule: join_comma.cases) (simp_all add: key_safe_def)

lemma join_comma_Cons:
  "join_comma (x # xs) = (if xs = [] then x else x @ CHR '','' # join_comma xs)"
  by (cases xs) simp_all

lemma join_comma_inject:
  "list_all key_safe xs \<Longrightarrow> list_all key_safe ys \<Longrightarrow> join_comma xs = join_comma ys \<Longrightarrow> xs = ys"
proof (induction xs arbitrary: ys)
  case Nil
  then show ?case using join_comma_empty [of ys] by simp
next
  case (Cons x xs)
  then obtain y ys' where ys: "ys = y # ys'"
    using join_comma_empty [of "x # xs"] by (cases ys) auto
  have c: "CHR '','' \<notin> set x" "CHR '','' \<notin> set y" using Cons.prems by (simp_all add: ys key_safe_def)
  have sep: "join_comma (z # zs) = z \<longleftrightarrow> zs = []" for z zs by (simp add: join_comma_Cons)
  show ?case
  proof (cases "xs = [] \<or> ys' = []")
    case True
    have "xs = [] \<and> ys' = []"
    proof (rule ccontr)
      assume "\<not> (xs = [] \<and> ys' = [])"
      with True Cons.prems(3) have "CHR '','' \<in> set x \<or> CHR '','' \<in> set y"
        by (auto simp: ys join_comma_Cons split: if_splits)
      with c show False by simp
    qed
    with Cons.prems show ?thesis by (simp add: ys)
  next
    case False
    with Cons.prems(3) have "x = y \<and> join_comma xs = join_comma ys'"
      by (simp add: ys join_comma_Cons append_sep_inject [OF c])
    with Cons.IH [of ys'] Cons.prems(1,2) show ?thesis by (simp add: ys)
  qed
qed

lemma menu_cache_key_inject:
  assumes "key_safe a" "key_safe b" "list_all key_safe xs" "list_all key_safe ys"
    and eq: "menu_cache_key a xs = menu_cache_key b ys"
  shows "a = b \<and> mset xs = mset ys"
proof -
  have safe: "list_all key_safe (sort xs)" "list_all key_safe (sort ys)"
    using assms(3,4) by (simp_all add: list_all_iff)
  from eq have "a @ CHR '':'' # join_comma (sort xs) = b @ CHR '':'' # join_comma (sort ys)"
    by (simp add: menu_cache_key_def)
  with assms(1,2) have "a = b" "join_comma (sort xs) = join_comma (sort ys)"
    by (simp_all add: append_sep_inject key_safe_def)
  with join_comma_inject [OF safe] show ?thesis by (metis mset_sort)
qed

text \<open>The ids of the DTO are such ids.\<close>

lemma hex_key_safe: "is_hex c \<Longrightarrow> c \<noteq> CHR '':'' \<and> c \<noteq> CHR '',''"
  by (auto simp: is_hex_def)

lemma UUID_RE_key_safe:
  assumes "UUID_RE s"
  shows "key_safe s"
proof -
  have "s ! k \<noteq> CHR '':'' \<and> s ! k \<noteq> CHR '',''" if "k < length s" for k
    using assms that hex_key_safe [of "s ! k"] by (auto simp: UUID_RE_def split: if_splits)
  moreover have "s \<noteq> []" using assms by (auto simp: UUID_RE_def)
  ultimately show ?thesis by (auto simp: key_safe_def in_set_conv_nth)
qed

lemma dto_key_safe:
  assumes "dto_valid f d"
  shows "key_safe (cc_storeId (command_of_dto d))"
    and "list_all key_safe (map ci_menuId (cc_items (command_of_dto d)))"
  using assms UUID_RE_key_safe
  by (auto simp: dto_valid_def command_of_dto_def item_dto_valid_def list_all_iff)

section \<open>A cache that is not out of date\<close>

lemma uuid_args_Inr: "uuid_args C ss = Inr us \<longleftrightarrow> map (cx_uuid_in C) ss = map Some us"
  by (induction ss arbitrary: us) (auto simp: bind_res_Inr Cons_eq_map_conv)

lemma uuid_args_mset:
  assumes "uuid_args C xs = Inr us" and "set xs = set ys"
  shows "\<exists>vs. uuid_args C ys = Inr vs \<and> set vs = set us"
proof (intro exI conjI)
  from assms(1) have m: "map (cx_uuid_in C) xs = map Some us" by (simp add: uuid_args_Inr)
  have some: "Some ` set us = cx_uuid_in C ` set ys" using arg_cong [OF m, of set] assms(2) by simp
  let ?vs = "map (\<lambda>y. the (cx_uuid_in C y)) ys"
  have "\<forall>y \<in> set ys. cx_uuid_in C y \<noteq> None" using some by force
  then show "uuid_args C ys = Inr ?vs" by (auto simp: uuid_args_Inr)
  have "set ?vs = the ` Some ` set us" unfolding some by (simp add: image_image)
  then show "set ?vs = set us" by (simp add: image_image)
qed

text \<open>The query does not depend on the order of the ids.\<close>

lemma findMenusByIds_mset:
  assumes "mset xs = mset ys" and "findMenusByIds C xs a db = Inr menus"
  shows "findMenusByIds C ys a db = Inr menus"
proof -
  have set: "set xs = set ys" and nil: "xs = [] \<longleftrightarrow> ys = []"
    using assms(1) by (auto dest: mset_eq_setD)
  show ?thesis
  proof (cases "xs = []")
    case False
    with assms(2) obtain us store where us: "uuid_args C xs = Inr us"
      and ok: "uuid_arg C a = Inr store" "run_stmt C SelectMenus = Inr ()"
      and m: "menus = map menu_view_of
        (sql_select (\<lambda>m. me_id m \<in> set us \<and> me_storeId m = store) (t_menus db))"
      by (auto simp: findMenusByIds_def bind_res_Inr)
    obtain vs where "uuid_args C ys = Inr vs" "set vs = set us"
      using uuid_args_mset [OF us set] by blast
    with ok m False nil show ?thesis by (simp add: findMenusByIds_def run_stmt_def uuid_arg_def)
  qed (use assms(2) nil in \<open>simp add: findMenusByIds_def\<close>)
qed

text \<open>No entry that can still be read at the given time differs from the database.\<close>

definition cache_fresh :: "db_ctx \<Rightarrow> time \<Rightarrow> api_state \<Rightarrow> bool" where
  "cache_fresh C now s \<longleftrightarrow> (\<forall>a xs menus. key_safe a \<and> list_all key_safe xs \<and>
     kv_get now (menu_cache_key a xs) (a_cache s) = Some menus \<longrightarrow>
     findMenusByIds C xs a (a_db s) = Inr menus)"

lemma cache_fresh_empty: "a_cache s = Map.empty \<Longrightarrow> cache_fresh C now s"
  by (simp add: cache_fresh_def kv_get_def)

lemma cache_fresh_store:
  assumes "cache_fresh C now s" and "key_safe a" "list_all key_safe xs"
    and "findMenusByIds C xs a (a_db s) = Inr menus"
  shows "cache_fresh C now (s\<lparr>a_cache := kv_set t ttl (menu_cache_key a xs) menus (a_cache s)\<rparr>)"
proof (unfold cache_fresh_def, intro allI impI)
  fix b ys found
  let ?c = "kv_set t ttl (menu_cache_key a xs) menus (a_cache s)"
  assume "key_safe b \<and> list_all key_safe ys \<and>
    kv_get now (menu_cache_key b ys) (a_cache (s\<lparr>a_cache := ?c\<rparr>)) = Some found"
  then have b: "key_safe b" "list_all key_safe ys" and hit: "kv_get now (menu_cache_key b ys) ?c = Some found"
    by simp_all
  show "findMenusByIds C ys b (a_db (s\<lparr>a_cache := ?c\<rparr>)) = Inr found"
  proof (cases "menu_cache_key b ys = menu_cache_key a xs")
    case True
    with menu_cache_key_inject [OF b(1) assms(2) b(2) assms(3)] have ba: "b = a" "mset xs = mset ys" by simp_all
    from hit True have "found = menus" by (simp add: kv_get_def kv_set_def split: if_splits)
    with findMenusByIds_mset [OF ba(2) assms(4)] ba show ?thesis by simp
  next
    case False
    with hit have "kv_get now (menu_cache_key b ys) (a_cache s) = Some found"
      by (simp add: kv_get_def kv_set_def)
    with assms(1) b show ?thesis by (simp add: cache_fresh_def)
  qed
qed

definition same_but_cache :: "db_ctx \<Rightarrow> time \<Rightarrow> api_state \<Rightarrow> api_state \<Rightarrow> bool" where
  "same_but_cache C now s u \<longleftrightarrow>
     s\<lparr>a_cache := Map.empty\<rparr> = u\<lparr>a_cache := Map.empty\<rparr> \<and> cache_fresh C now s \<and> cache_fresh C now u"

lemma same_but_cacheD:
  assumes "same_but_cache C now s u"
  shows "a_idem s = a_idem u" "a_queue s = a_queue u" "a_db s = a_db u" "a_gateway s = a_gateway u"
  using assms by (cases s; cases u; simp add: same_but_cache_def)+

lemma same_but_cache_upd:
  assumes "same_but_cache C now s u"
  shows "same_but_cache C now (s\<lparr>a_idem := i\<rparr>) (u\<lparr>a_idem := i\<rparr>)"
    and "same_but_cache C now (s\<lparr>a_queue := q\<rparr>) (u\<lparr>a_queue := q\<rparr>)"
    and "same_but_cache C now (s\<lparr>a_gateway := g\<rparr>) (u\<lparr>a_gateway := g\<rparr>)"
  using assms by (cases s; cases u; simp add: same_but_cache_def cache_fresh_def)+

lemma getMenusCached_fresh:
  assumes ok: "ae_fault E CallCacheGet = None" "ae_fault E CallCacheSet = None"
      "now \<le> ae_time E CallCacheGet"
    and key: "key_safe a" "list_all key_safe xs" and fresh: "cache_fresh (ae_ctx E) now s"
  shows "fst (getMenusCached E xs a s) = findMenusByIds (ae_ctx E) xs a (a_db s) \<and>
    cache_fresh (ae_ctx E) now (snd (getMenusCached E xs a s))"
proof (cases "kv_get (ae_time E CallCacheGet) (menu_cache_key a xs) (a_cache s)")
  case None
  have "cache_fresh (ae_ctx E) now (s\<lparr>a_cache := kv_set (ae_time E CallCacheSet) MENU_CACHE_TTL_SECONDS
      (menu_cache_key a xs) menus (a_cache s)\<rparr>)"
    if "findMenusByIds (ae_ctx E) xs a (a_db s) = Inr menus" for menus
    by (rule cache_fresh_store [OF fresh key that])
  with None fresh ok show ?thesis
    by (cases "findMenusByIds (ae_ctx E) xs a (a_db s)")
      (simp_all add: getMenusCached_def Let_def st_bind_def guarded_def)
next
  case (Some menus)
  then have "kv_get now (menu_cache_key a xs) (a_cache s) = Some menus"
    using live.get_earlier [of "ae_time E CallCacheGet"] ok(3) by simp
  with fresh key have "findMenusByIds (ae_ctx E) xs a (a_db s) = Inr menus" by (simp add: cache_fresh_def)
  with Some fresh ok show ?thesis by (simp add: getMenusCached_def Let_def st_bind_def guarded_def)
qed

text \<open>Nothing takes an entry away when the menus change: it decides until it expires, whatever the
  database holds by then.\<close>

lemma cached_menus_win:
  assumes "ae_fault E CallCacheGet = None"
    and "kv_get (ae_time E CallCacheGet) (menu_cache_key a xs) (a_cache s) = Some menus"
  shows "getMenusCached E xs a (s\<lparr>a_db := db\<rparr>) = (Inr menus, s\<lparr>a_db := db\<rparr>)"
  using assms by (simp add: getMenusCached_def Let_def st_bind_def guarded_def)

section \<open>The parts of a request\<close>

lemma getMenusCached_agrees:
  assumes ok: "ae_fault E CallCacheGet = None" "ae_fault E CallCacheSet = None"
      "now \<le> ae_time E CallCacheGet" and key: "key_safe a" "list_all key_safe xs"
  shows "agrees (same_but_cache (ae_ctx E) now) (getMenusCached E xs a)"
proof (rule agreesI)
  fix s u assume R: "same_but_cache (ae_ctx E) now s u"
  then have "cache_fresh (ae_ctx E) now s" "cache_fresh (ae_ctx E) now u" by (simp_all add: same_but_cache_def)
  note fresh = this [THEN getMenusCached_fresh [OF ok key]]
  note D = same_but_cacheD [OF R]
  let ?s = "snd (getMenusCached E xs a s)" and ?u = "snd (getMenusCached E xs a u)"
  have "?s\<lparr>a_cache := Map.empty\<rparr> = ?u\<lparr>a_cache := Map.empty\<rparr>"
    using getMenusCached_frame [of E xs a s] getMenusCached_frame [of E xs a u] D
    by (cases ?s; cases ?u) simp
  with fresh D show "fst (getMenusCached E xs a s) = fst (getMenusCached E xs a u) \<and>
      same_but_cache (ae_ctx E) now ?s ?u"
    by (simp add: same_but_cache_def)
qed

lemma api_update_agrees [agrees_intros]:
  "agrees (same_but_cache C now) (api_setCompleted E k r)"
  "agrees (same_but_cache C now) (api_release E k)"
  "agrees (same_but_cache C now) (st_update (\<lambda>s. s\<lparr>a_gateway := f (a_gateway s)\<rparr>))"
  unfolding api_setCompleted_def api_release_def
  by (simp_all add: agrees_guarded agrees_update same_but_cacheD same_but_cache_upd)

lemma api_call_agrees [agrees_intros]:
  "agrees (same_but_cache C now) (api_tryAcquire E k i)"
  "agrees (same_but_cache C now) (api_getCachedResponse E k)"
  "agrees (same_but_cache C now) (api_publishOrder E p)"
  by (simp_all add: agrees_def guarded_def api_tryAcquire_def api_getCachedResponse_def api_publishOrder_def
      same_but_cacheD same_but_cache_upd case_prod_beta split: option.splits)

lemma execute_agrees:
  assumes "ae_fault E CallCacheGet = None" "ae_fault E CallCacheSet = None"
    "now \<le> ae_time E CallCacheGet" "key_safe (cc_storeId cmd)"
    "list_all key_safe (map ci_menuId (cc_items cmd))"
  shows "agrees (same_but_cache (ae_ctx E) now) (execute E cmd)"
  unfolding execute_def accept_order_def validateAndEnrichItems_def Let_def case_prod_beta
  by (intro agrees_intros getMenusCached_agrees assms)

section \<open>Properties\<close>

text \<open>C20: as long as no entry of the menu cache is out of date, the cache is invisible: a request,
  accepted, rejected or replayed, is answered as if the cache were empty, does the same to queue,
  sockets, idempotency store and database, and leaves the cache up to date. An empty cache is up
  to date, and the ids of a valid request make keys that cannot be confused.\<close>

theorem menu_cache_transparent:
  assumes "ae_fault E CallCacheGet = None" "ae_fault E CallCacheSet = None"
    "now \<le> ae_time E CallCacheGet" "key_safe (cc_storeId cmd)"
    "list_all key_safe (map ci_menuId (cc_items cmd))"
    and fresh: "cache_fresh (ae_ctx E) now s"
  shows "let s0 = s\<lparr>a_cache := Map.empty\<rparr> in
    fst (execute E cmd s) = fst (execute E cmd s0) \<and>
    (snd (execute E cmd s))\<lparr>a_cache := Map.empty\<rparr> = (snd (execute E cmd s0))\<lparr>a_cache := Map.empty\<rparr> \<and>
    cache_fresh (ae_ctx E) now (snd (execute E cmd s))"
proof -
  have "same_but_cache (ae_ctx E) now s (s\<lparr>a_cache := Map.empty\<rparr>)"
    using fresh by (simp add: same_but_cache_def cache_fresh_empty)
  from agreesD [OF execute_agrees [OF assms(1-5)] this] show ?thesis
    by (simp add: Let_def same_but_cache_def)
qed

theorem menu_cache_transparent_witness:
  "let cmd = sample_command (fixed2 3600000); s = sample_api\<lparr>a_cache :=
       [menu_cache_key ''s1'' [''m1''] \<mapsto> ([sample_view], 300000)]\<rparr>
   in fst (execute (sample_api_env 5) cmd s) = fst (execute (sample_api_env 5) cmd sample_api)"
proof -
  let ?E = "sample_api_env 5" and ?cmd = "sample_command (fixed2 3600000)"
  let ?s = "sample_api\<lparr>a_cache := [menu_cache_key ''s1'' [''m1''] \<mapsto> ([sample_view], 300000)]\<rparr>"
  have safe: "key_safe ''s1''" "list_all key_safe [''m1'']" by (simp_all add: key_safe_def)
  have "findMenusByIds (ae_ctx ?E) [''m1''] ''s1'' (a_db sample_api) = Inr [sample_view]"
    using sample_menus_seen [of 5]
    by (simp add: menus_seen_def getMenusCached_def Let_def st_bind_def guarded_ok sample_api_def
        kv_get_def sample_command_def split: sum.splits)
  then have "cache_fresh (ae_ctx ?E) 0 (sample_api\<lparr>a_cache :=
      kv_set 0 300 (menu_cache_key ''s1'' [''m1'']) [sample_view] (a_cache sample_api)\<rparr>)"
    by (intro cache_fresh_store safe cache_fresh_empty) (simp_all add: sample_api_def)
  then have fresh: "cache_fresh (ae_ctx ?E) 0 ?s"
    by (simp add: sample_api_def kv_set_def expires_at_def)
  have "sample_api\<lparr>a_cache := Map.empty\<rparr> = sample_api" by (simp add: sample_api_def)
  with menu_cache_transparent [OF _ _ _ _ _ fresh, of ?cmd] safe show ?thesis
    by (simp add: Let_def) (simp add: sample_command_def)
qed

end
