(* ===== verification/Http_Edge.thy ===== *)
theory Http_Edge
  imports Store_Areas
begin

text \<open>
  The edges of the program: what an error becomes as an HTTP response and where a request's
  trace id comes from (src/common), the settings read from the environment (src/config and
  src/order/infrastructure/redis), and the services that tell other systems: the status
  publisher with its outbox, the payment bridge and the queue metrics
  (src/order/infrastructure). Logging is left out; clocks, the environment and the remote ends
  are parameters.
\<close>

section \<open>Errors as responses\<close>

text \<open>getStatus of the framework's HTTP exceptions; None for any other error.\<close>

fun http_exception_status :: "error_class \<Rightarrow> nat option" where
  "http_exception_status BadRequestException = Some 400"
| "http_exception_status UnauthorizedException = Some 401"
| "http_exception_status NotFoundException = Some 404"
| "http_exception_status ConflictException = Some 409"
| "http_exception_status UnprocessableEntityException = Some 422"
| "http_exception_status ServiceUnavailableException = Some 503"
| "http_exception_status _ = None"

record error_response =
  er_statusCode :: nat
  er_message :: message
  er_traceId :: "string option"
  er_timestamp :: string

definition internal_error_message :: message where
  "internal_error_message = TextMsg ''internal server error''"

definition filter_catch :: "string option \<Rightarrow> time \<Rightarrow> error \<Rightarrow> error_response" where
  "filter_catch traceId now exn =
     (let status = (case http_exception_status (err_class exn) of Some n \<Rightarrow> n | None \<Rightarrow> 500);
          message = (case http_exception_status (err_class exn) of
            Some _ \<Rightarrow> err_message exn | None \<Rightarrow> internal_error_message)
      in \<lparr>er_statusCode = status, er_message = message, er_traceId = traceId,
          er_timestamp = iso_datetime now\<rparr>)"

text \<open>The header x-trace-id, or a fresh UUID; every handler runs with it as its trace id.\<close>

definition intercept :: "string \<Rightarrow> string option \<Rightarrow> string" where
  "intercept fresh header = (if truthy header then the header else fresh)"

definition with_trace :: "string \<Rightarrow> 'd api_env \<Rightarrow> 'd api_env" where
  "with_trace traceId E = E\<lparr>ae_traceId := Some traceId\<rparr>"

section \<open>Settings\<close>

type_synonym environment = "string \<Rightarrow> string option"

text \<open>process.env.X || d, and parseInt of it; None is NaN.\<close>

definition env_or :: "environment \<Rightarrow> string \<Rightarrow> string \<Rightarrow> string" where
  "env_or env x d = (if truthy (env x) then the (env x) else d)"

definition env_int :: "environment \<Rightarrow> string \<Rightarrow> string \<Rightarrow> int option" where
  "env_int env x d = parseInt (env_or env x d)"

record connection =
  cn_host :: string
  cn_port :: "int option"
  cn_password :: "string option"
  cn_tls :: bool

record configuration =
  cf_appMode :: string
  cf_port :: "int option"
  cf_database :: connection
  cf_username :: string
  cf_databaseName :: string
  cf_redis :: connection
  cf_failureThreshold :: "int option"
  cf_openDurationMs :: "int option"
  cf_maxAttempts :: "int option"
  cf_baseDelayMs :: "int option"
  cf_lockTtlSeconds :: "int option"
  cf_idempotencyTtlSeconds :: "int option"
  cf_slackWebhookUrl :: string
  cf_alertChannel :: string
  cf_adminBaseUrl :: string
  cf_bbqGatewayUrl :: string
  cf_bbqApiKey :: string

text \<open>The database has no setting for TLS here.\<close>

definition database_settings :: "environment \<Rightarrow> connection" where
  "database_settings env =
     \<lparr>cn_host = env_or env ''DATABASE_HOST'' ''localhost'', cn_port = env_int env ''DATABASE_PORT'' ''5432'',
      cn_password = Some (env_or env ''DATABASE_PASSWORD'' ''orderpass''), cn_tls = False\<rparr>"

definition redis_settings :: "environment \<Rightarrow> connection" where
  "redis_settings env =
     \<lparr>cn_host = env_or env ''REDIS_HOST'' ''localhost'', cn_port = env_int env ''REDIS_PORT'' ''6379'',
      cn_password = (if truthy (env ''REDIS_PASSWORD'') then env ''REDIS_PASSWORD'' else None),
      cn_tls = (env ''REDIS_TLS'' = Some ''true'')\<rparr>"

definition configuration_of :: "environment \<Rightarrow> configuration" where
  "configuration_of env =
     \<lparr>cf_appMode = env_or env ''APP_MODE'' ''all'', cf_port = env_int env ''PORT'' ''3000'',
      cf_database = database_settings env, cf_username = env_or env ''DATABASE_USER'' ''orderuser'',
      cf_databaseName = env_or env ''DATABASE_NAME'' ''orderdb'', cf_redis = redis_settings env,
      cf_failureThreshold = env_int env ''CB_FAILURE_THRESHOLD'' ''5'',
      cf_openDurationMs = env_int env ''CB_OPEN_DURATION_MS'' ''30000'',
      cf_maxAttempts = env_int env ''MAX_RETRY_ATTEMPTS'' ''3'',
      cf_baseDelayMs = env_int env ''RETRY_BASE_DELAY_MS'' ''1000'',
      cf_lockTtlSeconds = env_int env ''LOCK_TTL_SECONDS'' ''60'',
      cf_idempotencyTtlSeconds = env_int env ''IDEMPOTENCY_TTL_SECONDS'' ''86400'',
      cf_slackWebhookUrl = env_or env ''SLACK_WEBHOOK_URL'' [],
      cf_alertChannel = env_or env ''SLACK_ALERT_CHANNEL'' ''#order-failures'',
      cf_adminBaseUrl = env_or env ''ADMIN_BASE_URL'' ''http://localhost:3000'',
      cf_bbqGatewayUrl = env_or env ''BBQ_GATEWAY_URL'' [], cf_bbqApiKey = env_or env ''BBQ_API_KEY'' []\<rparr>"

text \<open>What new URL(url) gives: host name, port and password, empty texts where the URL has none.\<close>

record parsed_url =
  pu_hostname :: string
  pu_port :: string
  pu_password :: string

definition retryStrategy :: "nat \<Rightarrow> nat" where
  "retryStrategy n = min (n * 200) 2000"

definition buildRedisOptions :: "(string \<Rightarrow> error + parsed_url) \<Rightarrow> environment \<Rightarrow> error + connection" where
  "buildRedisOptions new_URL env =
     (if truthy (env ''REDIS_URL'')
      then
        (let url = the (env ''REDIS_URL'') in
         bind_res (new_URL url) (\<lambda>u.
           Inr \<lparr>cn_host = pu_hostname u,
                cn_port = parseInt (if pu_port u = [] then ''6379'' else pu_port u),
                cn_password = (if pu_password u = [] then None else Some (pu_password u)),
                cn_tls = starts_with ''rediss://'' url\<rparr>))
      else Inr (redis_settings env))"

datatype root_module = ApiModule | WorkerModule | AllModule

definition root_module_of :: "string \<Rightarrow> root_module" where
  "root_module_of mode =
     (if mode = ''api'' then ApiModule else if mode = ''worker'' then WorkerModule else AllModule)"

section \<open>The status publisher\<close>

record outbox_row =
  ob_id :: nat
  ob_orderId :: string
  ob_status :: string
  ob_payload :: json
  ob_delivered :: bool
  ob_createdAt :: time

record publisher_state =
  pb_outbox :: "outbox_row list"
  pb_nextId :: nat
  pb_channel :: "(string \<times> json) list"

definition REDIS_CHANNEL :: string where
  "REDIS_CHANNEL = ''order-status''"

text \<open>{ orderId, status, ...meta, publishedAt }: meta wins over the first two.\<close>

definition status_event :: "string \<Rightarrow> string \<Rightarrow> (string \<times> json) list \<Rightarrow> time \<Rightarrow> json" where
  "status_event orderId status meta now =
     JObj (filter (\<lambda>(f, _). f \<noteq> ''publishedAt'')
       (filter (\<lambda>(f, _). f \<notin> fst ` set meta) [(''orderId'', JStr orderId), (''status'', JStr status)] @ meta) @
       [(''publishedAt'', JStr (iso_datetime now))])"

text \<open>
  A failed publication is only logged. The table's only key is its serial number, so that ON
  CONFLICT DO NOTHING never meets a conflict.
\<close>

definition publish ::
  "db_ctx \<Rightarrow> error option \<Rightarrow> time \<Rightarrow> string \<Rightarrow> string \<Rightarrow> (string \<times> json) list \<Rightarrow> (publisher_state, error, unit) comp" where
  "publish C redisFault now orderId status meta s =
     (let event = status_event orderId status meta now;
          s1 = (case redisFault of Some _ \<Rightarrow> s
                | None \<Rightarrow> s\<lparr>pb_channel := pb_channel s @ [(REDIS_CHANNEL, event)]\<rparr>)
      in case bind_res (catalog_stmt C 0) (\<lambda>_.
           ensure (queryFailed ''varchar'') (varchar_ok 64 orderId \<and> varchar_ok 32 status)) of
           Inl e \<Rightarrow> (Inl e, s1)
         | Inr _ \<Rightarrow> (Inr (), s1\<lparr>pb_outbox := pb_outbox s1 @
             [\<lparr>ob_id = pb_nextId s1, ob_orderId = orderId, ob_status = status, ob_payload = event,
               ob_delivered = False, ob_createdAt = cx_now C\<rparr>], pb_nextId := Suc (pb_nextId s1)\<rparr>))"

section \<open>The payment bridge\<close>

record bridge_request =
  bq_url :: string
  bq_params :: json
  bq_headers :: "(string \<times> string) list"
  bq_timeout :: nat

definition bridge_headers :: "string \<Rightarrow> (string \<times> string) list" where
  "bridge_headers apiKey = [(''x-api-key'', apiKey), (''x-client-role'', ''nestjs-worker'')]"

definition compensation_json :: "string \<Rightarrow> string option \<Rightarrow> string \<Rightarrow> json" where
  "compensation_json orderId kcpTno reason =
     JObj ([(''orderId'', JStr orderId)] @ (case kcpTno of None \<Rightarrow> [] | Some t \<Rightarrow> [(''kcpTno'', JStr t)]) @
       [(''reason'', JStr reason)])"

definition notify_json :: "string \<Rightarrow> string \<Rightarrow> (string \<times> json) list option \<Rightarrow> json" where
  "notify_json orderId status meta =
     JObj ([(''orderId'', JStr orderId), (''status'', JStr status)] @
       (case meta of None \<Rightarrow> [] | Some m \<Rightarrow> [(''meta'', JObj m)]))"

text \<open>The state is the list of requests sent; whatever post answers, nothing is thrown.\<close>

definition bridge_post ::
  "(bridge_request \<Rightarrow> string + unit) \<Rightarrow> bridge_request \<Rightarrow> (bridge_request list, error, unit) comp" where
  "bridge_post post rq log = (case post rq of Inl _ \<Rightarrow> (Inr (), log @ [rq]) | Inr _ \<Rightarrow> (Inr (), log @ [rq]))"

definition requestCompensation ::
  "string \<Rightarrow> string \<Rightarrow> (bridge_request \<Rightarrow> string + unit) \<Rightarrow> string \<Rightarrow> string option \<Rightarrow> string \<Rightarrow>
   (bridge_request list, error, unit) comp" where
  "requestCompensation bbqUrl bbqApiKey post orderId kcpTno reason =
     (if bbqUrl = [] then st_return ()
      else bridge_post post
        \<lparr>bq_url = bbqUrl @ ''/webhook/compensate'', bq_params = compensation_json orderId kcpTno reason,
         bq_headers = bridge_headers bbqApiKey, bq_timeout = 10000\<rparr>)"

definition notifyOrderStatus ::
  "string \<Rightarrow> string \<Rightarrow> (bridge_request \<Rightarrow> string + unit) \<Rightarrow> string \<Rightarrow> string \<Rightarrow> (string \<times> json) list option \<Rightarrow>
   (bridge_request list, error, unit) comp" where
  "notifyOrderStatus bbqUrl bbqApiKey post orderId status meta =
     (if bbqUrl = [] then st_return ()
      else bridge_post post
        \<lparr>bq_url = bbqUrl @ ''/internal/order-status'', bq_params = notify_json orderId status meta,
         bq_headers = bridge_headers bbqApiKey, bq_timeout = 5000\<rparr>)"

section \<open>Queue metrics\<close>

record metric =
  mt_name :: string
  mt_value :: nat
  mt_stage :: string
  mt_queue :: string

record metrics_state =
  ms_timer :: bool
  ms_sent :: "metric list list"

definition PUBLISH_INTERVAL_MS :: nat where
  "PUBLISH_INTERVAL_MS = 30000"

definition metrics_stage :: "string \<Rightarrow> string" where
  "metrics_stage nodeEnv = (if nodeEnv = ''production'' then ''production'' else ''staging'')"

definition metrics_enabled :: "environment \<Rightarrow> bool" where
  "metrics_enabled env \<longleftrightarrow> truthy (env ''AWS_REGION'') \<or> truthy (env ''AWS_DEFAULT_REGION'')"

definition queue_metrics :: "string \<Rightarrow> queue_depth \<Rightarrow> metric list" where
  "queue_metrics stage d =
     [\<lparr>mt_name = ''WaitingJobCount'', mt_value = qd_waiting d, mt_stage = stage, mt_queue = ORDERS_QUEUE_NAME\<rparr>,
      \<lparr>mt_name = ''ActiveJobCount'', mt_value = qd_active d, mt_stage = stage, mt_queue = ORDERS_QUEUE_NAME\<rparr>]"

text \<open>A failure of the queue or of the metrics service is only logged.\<close>

definition publish_metrics ::
  "string \<Rightarrow> error + queue_depth \<Rightarrow> error option \<Rightarrow> (metrics_state, error, unit) comp" where
  "publish_metrics stage depth cwFault s =
     (case depth of
        Inl _ \<Rightarrow> (Inr (), s)
      | Inr d \<Rightarrow> (case cwFault of
          Some _ \<Rightarrow> (Inr (), s)
        | None \<Rightarrow> (Inr (), s\<lparr>ms_sent := ms_sent s @ [queue_metrics stage d]\<rparr>)))"

definition onApplicationBootstrap ::
  "bool \<Rightarrow> string \<Rightarrow> error + queue_depth \<Rightarrow> error option \<Rightarrow> (metrics_state, error, unit) comp" where
  "onApplicationBootstrap enabled stage depth cwFault =
     (if \<not> enabled then st_return ()
      else st_bind (publish_metrics stage depth cwFault) (\<lambda>_. st_update (\<lambda>s. s\<lparr>ms_timer := True\<rparr>)))"

definition onApplicationShutdown :: "(metrics_state, error, unit) comp" where
  "onApplicationShutdown = st_update (\<lambda>s. s\<lparr>ms_timer := False\<rparr>)"

end
