(* ===== verification/Http_Properties.thy ===== *)
theory Http_Properties
  imports Http_Edge Order_Api
begin

text \<open>
  What a client of POST /api/v1/orders sees of a request that fails: the controller, the
  service and the exception filter together.
\<close>

text \<open>
  The endpoint with the global validation pipe before it: a body that breaks a rule of the DTO is
  refused before the controller runs. The pipe's message is the library's.
\<close>

definition post_orders ::
  "(string \<Rightarrow> bool) \<Rightarrow> (create_order_dto \<Rightarrow> message) \<Rightarrow> 'd api_env \<Rightarrow> create_order_dto \<Rightarrow>
   ((string \<times> string \<times> order_status) \<times> bool) api" where
  "post_orders isNumberString complaints E dto =
     (if dto_valid isNumberString dto then controller_create E dto
      else st_throw (mk_error BadRequestException (complaints dto)))"

text \<open>The clients of Redis and of the queue throw errors of their own, none of them an HTTP exception
  of the framework.\<close>

definition client_faults :: "'d api_env \<Rightarrow> bool" where
  "client_faults E \<longleftrightarrow> (\<forall>c f. ae_fault E c = Some f \<longrightarrow> http_exception_status (err_class f) = None)"

lemma filter_other: "http_exception_status (err_class e) = None \<Longrightarrow>
    er_statusCode (filter_catch trace now e) = 500 \<and> er_message (filter_catch trace now e) = internal_error_message"
  by (simp add: filter_catch_def)

text \<open>C22: every failure of an order request has its own answer, in the order of the checks: 400 with the
  pipe's complaints when the body breaks a rule; the fixed 500 when Redis fails at the key; 409 while
  another request with the key is under way, and 500 when the stored answer cannot be fetched or read;
  then, for a new request, 500 when Redis fails at the release of the key, else 422 with the reason
  when an amount or a menu does not fit and 503 when anything else failed. No other error text reaches
  the client, and a request refused before or for its key changes nothing.\<close>

theorem intake_http_errors:
  assumes faults: "client_faults E" and cmd: "cmd = command_of_dto d" "k = cc_idempotencyKey cmd"
    and fails: "post_orders isNumberString complaints E d s = (Inl e, s')"
  shows "let r = filter_catch trace now e;
             internal = (er_statusCode r = 500 \<and> er_message r = internal_error_message)
    in if \<not> dto_valid isNumberString d
       then s' = s \<and> er_statusCode r = 400 \<and> er_message r = complaints d
       else if ae_fault E CallTryAcquire \<noteq> None then s' = s \<and> internal
       else if isPending kv_cmds (ae_time E CallTryAcquire) k (a_idem s)
       then s' = s \<and>
         (if ae_fault E CallGetCached = None \<and>
             getCachedResponse kv_cmds (ae_time E CallGetCached) k (a_idem s) = Inr None
          then er_statusCode r = 409 \<and> er_message r = TextMsg ''in progress'' else internal)
       else if ae_fault E CallRelease \<noteq> None then internal
       else \<exists>err. fst (accept_order E cmd (ae_uuid E 0) (acquired_state E cmd s)) = Inl err \<and>
         (if err_class err \<in> {AmountMismatchError, MenuNotFoundError, MenuUnavailableError}
          then er_statusCode r = 422 \<and> er_message r = err_message err
          else er_statusCode r = 503 \<and> er_message r = TextMsg ''order intake failed'')"
proof (cases "dto_valid isNumberString d")
  case False
  with fails show ?thesis by (auto simp: post_orders_def st_throw_def filter_catch_def mk_error_def)
next
  case valid: True
  with fails have ex: "execute E cmd s = (Inl e, s')"
    by (auto simp: post_orders_def controller_create_def st_bind_def cmd(1) split: prod.splits sum.splits)
  have internal: "ae_fault E c = Some f \<Longrightarrow> er_statusCode (filter_catch trace now f) = 500 \<and>
      er_message (filter_catch trace now f) = internal_error_message" for c f
    using faults by (intro filter_other) (auto simp: client_faults_def)
  show ?thesis
  proof (cases "ae_fault E CallTryAcquire")
    case (Some f)
    with ex internal [OF Some] valid show ?thesis by (simp add: execute_acquire_fault)
  next
    case acq: None
    show ?thesis
    proof (cases "isPending kv_cmds (ae_time E CallTryAcquire) k (a_idem s)")
      case True
      then have "tryAcquire kv_cmds (ae_idemTtl E) (ae_time E CallTryAcquire) k (ae_uuid E 0) (a_idem s) =
          (False, a_idem s)" by (rule idem.tryAcquire_fail_state)
      with ex acq cmd(2) have cached: "(case ae_fault E CallGetCached of Some f \<Rightarrow> e = f \<and> s' = s
          | None \<Rightarrow> s' = s \<and> (case getCachedResponse kv_cmds (ae_time E CallGetCached) k (a_idem s) of
              Inl f \<Rightarrow> e = f | Inr c \<Rightarrow> c = None \<and> e = conflictException))"
        by (auto simp: execute_def Let_def st_bind_def api_tryAcquire_def api_getCachedResponse_def guarded_def
            split: option.splits sum.splits)
      have unread: "getCachedResponse kv_cmds (ae_time E CallGetCached) k (a_idem s) = Inl f \<Longrightarrow>
          http_exception_status (err_class f) = None" for f
        by (auto simp: getCachedResponse_def mk_error_def split: option.splits sum.splits elim!: json_parse.elims)
      show ?thesis
        using cached internal [of CallGetCached] filter_other [OF unread] True valid acq
        by (auto simp: Let_def conflictException_def filter_catch_def mk_error_def split: option.splits sum.splits)
    next
      case False
      obtain v t where acc: "accept_order E cmd (ae_uuid E 0) (acquired_state E cmd s) = (v, t)" by force
      note new = acq False [unfolded cmd(2)]
      show ?thesis
      proof (cases v)
        case (Inl err)
        with execute_failed [OF new acc [unfolded Inl]] ex False valid acq internal [of CallRelease]
        show ?thesis
          by (auto simp: Let_def acc filter_catch_def mk_error_def serviceUnavailable_def split: option.splits)
      next
        case (Inr x)
        with ex show ?thesis by (simp add: execute_new [OF new] st_catch_def acc)
      qed
    qed
  qed
qed

definition sample_dto :: "string \<Rightarrow> create_order_dto" where
  "sample_dto amount = \<lparr>cd_idempotencyKey = ''k1'', cd_storeId = ''s1'', cd_userId = None,
     cd_totalAmount = amount, cd_items = [\<lparr>ci_menuId = ''m1'', ci_quantity = 2\<rparr>]\<rparr>"

text \<open>The sample with Redis down, with proper identifiers.\<close>

definition valid_dto :: create_order_dto where
  "valid_dto = \<lparr>cd_idempotencyKey = ''k1'', cd_storeId = ''01234567-89ab-cdef-0123-456789abcdef'', cd_userId = None,
     cd_totalAmount = ''100'', cd_items = [\<lparr>ci_menuId = ''01234567-89ab-cdef-0123-456789abcdef'', ci_quantity = 2\<rparr>]\<rparr>"

definition redis_down :: "int api_env" where
  "redis_down = (sample_api_env 5)\<lparr>ae_fault := (\<lambda>c. Some (mk_error Error (TextMsg ''ECONNREFUSED'')))\<rparr>"

lemma sample_uuid: "UUID_RE ''01234567-89ab-cdef-0123-456789abcdef''"
  by code_simp

lemma valid_sample: "dto_valid (\<lambda>_. True) valid_dto"
  by (simp add: dto_valid_def valid_dto_def sample_uuid item_dto_valid_def)

theorem intake_http_errors_witness:
  "(\<exists>e. post_orders (\<lambda>_. True) (\<lambda>_. TextMsg ''bad'') (sample_api_env 5) (sample_dto ''100'') sample_api = (Inl e, sample_api) \<and>
     er_statusCode (filter_catch (Some ''t1'') 5 e) = 400) \<and>
   (\<exists>e s'. post_orders (\<lambda>_. True) (\<lambda>_. TextMsg ''bad'') redis_down valid_dto sample_api = (Inl e, s') \<and>
     er_statusCode (filter_catch (Some ''t1'') 5 e) = 500)"
proof
  have "\<not> dto_valid (\<lambda>_. True) (sample_dto ''100'')" by (simp add: dto_valid_def sample_dto_def UUID_RE_def)
  moreover from this obtain e where x: "post_orders (\<lambda>_. True) (\<lambda>_. TextMsg ''bad'') (sample_api_env 5)
      (sample_dto ''100'') sample_api = (Inl e, sample_api)" by (simp add: post_orders_def st_throw_def)
  moreover have "client_faults (sample_api_env 5)" by (simp add: client_faults_def)
  ultimately show "\<exists>e. post_orders (\<lambda>_. True) (\<lambda>_. TextMsg ''bad'') (sample_api_env 5) (sample_dto ''100'') sample_api =
      (Inl e, sample_api) \<and> er_statusCode (filter_catch (Some ''t1'') 5 e) = 400"
    using intake_http_errors [OF _ refl refl x] by (simp add: Let_def)
next
  have f: "ae_fault redis_down c = Some (mk_error Error (TextMsg ''ECONNREFUSED''))" for c
    by (simp add: redis_down_def)
  have "post_orders (\<lambda>_. True) (\<lambda>_. TextMsg ''bad'') redis_down valid_dto sample_api =
      (Inl (mk_error Error (TextMsg ''ECONNREFUSED'')), sample_api)"
    by (simp add: post_orders_def valid_sample controller_create_def st_bind_def execute_acquire_fault [OF f])
  moreover have "client_faults redis_down" by (simp add: client_faults_def f mk_error_def)
  ultimately show "\<exists>e s'. post_orders (\<lambda>_. True) (\<lambda>_. TextMsg ''bad'') redis_down valid_dto sample_api = (Inl e, s') \<and>
      er_statusCode (filter_catch (Some ''t1'') 5 e) = 500"
    using intake_http_errors [of redis_down _ valid_dto _ "\<lambda>_. True" "\<lambda>_. TextMsg ''bad''" sample_api]
    by (fastforce simp: Let_def valid_sample f)
qed

end
