(* ===== verification/Areas_Page.thy ===== *)
theory Areas_Page
  imports Catalog_Properties
begin

text \<open>
  The administrator's page for areas: the script that AdminController.buildAreasHtml sends to
  the browser (src/admin/admin.controller.ts), against the endpoints it calls, and the health
  check. The state is what the page shows and what its fields hold. A request may be lost, or
  its answer may be. Texts are in UTF-8; the fading of messages after three seconds and the
  encoding of the password in the URL are left out.
\<close>

section \<open>The page\<close>

datatype refusal = ByPassword | ByFields | ByServer message

datatype page_msg =
    Loaded nat | AddedMsg | SavedMsg | DeletedMsg | NetworkTrouble | Refused refusal

record area_form =
  af_name :: string
  af_store :: string
  af_sort :: string

record page =
  pg_pw :: string
  pg_msg :: "page_msg option"
  pg_areas :: "(area_row \<times> string) list" \<comment> \<open>gAreas, with the name of the store\<close>
  pg_stores :: "(uuid \<times> string) list" \<comment> \<open>gStores\<close>
  pg_newOptions :: "(uuid \<times> string) list"
  pg_editOptions :: "(uuid \<times> string) list"
  pg_rows :: "string list"
  pg_addShown :: bool
  pg_editShown :: bool
  pg_new :: area_form
  pg_editId :: string
  pg_edit :: area_form
  pg_editActive :: bool

text \<open>A select field takes a value only if it has an option for it, and else the empty text.\<close>

definition select_value :: "(uuid \<times> string) list \<Rightarrow> string \<Rightarrow> string" where
  "select_value options v = (if v \<in> fst ` set options then v else [])"

definition first_option :: "(uuid \<times> string) list \<Rightarrow> string" where
  "first_option options = (case options of [] \<Rightarrow> [] | (v, _) # _ \<Rightarrow> v)"

text \<open>A text field drops line breaks.\<close>

definition text_value :: "string \<Rightarrow> string" where
  "text_value v = filter (\<lambda>c. c \<noteq> CHR 0x0A \<and> c \<noteq> CHR 0x0D) v"

text \<open>parseInt(v) || 0\<close>

definition sort_value :: "string \<Rightarrow> int" where
  "sort_value v = (case parseInt v of None \<Rightarrow> 0 | Some n \<Rightarrow> n)"

definition showMsg :: "page_msg \<Rightarrow> page \<Rightarrow> page" where
  "showMsg m p = p\<lparr>pg_msg := Some m\<rparr>"

definition renderNewOptions :: "page \<Rightarrow> page" where
  "renderNewOptions p = p\<lparr>pg_newOptions := pg_stores p,
     pg_new := (pg_new p)\<lparr>af_store := first_option (pg_stores p)\<rparr>\<rparr>"

definition renderEditOptions :: "page \<Rightarrow> page" where
  "renderEditOptions p = p\<lparr>pg_editOptions := pg_stores p,
     pg_edit := (pg_edit p)\<lparr>af_store := first_option (pg_stores p)\<rparr>\<rparr>"

text \<open>The markup of a row of the table, as it is given to innerHTML.\<close>

definition check_mark :: "bool \<Rightarrow> string" where
  "check_mark b = (if b then [CHR 0xE2, CHR 0x9C, CHR 0x85] else [CHR 0xE2, CHR 0x9D, CHR 0x8C])"

definition area_row_html :: "area_row \<times> string \<Rightarrow> string" where
  "area_row_html = (\<lambda>(a, storeName).
     ''<td>'' @ ar_name a @ ''</td>'' @
     ''<td>'' @ storeName @ ''</td>'' @
     ''<td>'' @ show_int (ar_sortOrder a) @ ''</td>'' @
     ''<td>'' @ check_mark (ar_isActive a) @ ''</td>'' @
     ''<td>'' @
       ''<button class=\"btn-edit\" data-id=\"'' @ ar_id a @ ''\" onclick=\"openEdit(this)\">'' @
         [CHR 0xEC, CHR 0x88, CHR 0x98, CHR 0xEC, CHR 0xA0, CHR 0x95] @ ''</button> '' @
       ''<button class=\"btn-danger\" data-id=\"'' @ ar_id a @ ''\" onclick=\"deleteArea(this)\">'' @
         [CHR 0xEC, CHR 0x82, CHR 0xAD, CHR 0xEC, CHR 0xA0, CHR 0x9C] @ ''</button>'' @
     ''</td>'')"

definition renderTable :: "page \<Rightarrow> page" where
  "renderTable p = p\<lparr>pg_rows := map area_row_html (pg_areas p)\<rparr>"

section \<open>Requests\<close>

datatype delivery = Delivered | RequestLost | ReplyLost

text \<open>What a request does to the server, and what the page gets back; None is a failed fetch.\<close>

definition send :: "delivery \<Rightarrow> 'a catalog_op \<Rightarrow> catalog \<Rightarrow> (error + 'a) option \<times> catalog" where
  "send net handler k =
     (case net of
        RequestLost \<Rightarrow> (None, k)
      | ReplyLost \<Rightarrow> (None, snd (handler k))
      | Delivered \<Rightarrow> (Some (fst (handler k)), snd (handler k)))"

text \<open>
  if (d.ok) ... else showMsg(d.message): a refusal has ok = false, an error answer has no ok.
\<close>

fun on_answer :: "('a \<Rightarrow> page \<Rightarrow> page) \<Rightarrow> (error + 'a admin_answer) option \<Rightarrow> page \<Rightarrow> page" where
  "on_answer f None = showMsg NetworkTrouble"
| "on_answer f (Some (Inl e)) = showMsg (Refused (ByServer (err_message e)))"
| "on_answer f (Some (Inr WrongPassword)) = showMsg (Refused ByPassword)"
| "on_answer f (Some (Inr FieldsNeeded)) = showMsg (Refused ByFields)"
| "on_answer f (Some (Inr (AdminOk a))) = f a"

type_synonym page_op = "page \<times> catalog \<Rightarrow> page \<times> catalog"

definition show_data :: "(area_row \<times> string) list \<times> (uuid \<times> string) list \<Rightarrow> page \<Rightarrow> page" where
  "show_data d p =
     showMsg (Loaded (length (fst d)))
       ((renderTable (renderEditOptions (renderNewOptions (p\<lparr>pg_areas := fst d, pg_stores := snd d\<rparr>))))
          \<lparr>pg_addShown := True\<rparr>)"

definition loadData ::
  "db_ctx \<Rightarrow> (string \<Rightarrow> 'c::linorder) \<Rightarrow> string option \<Rightarrow> delivery \<Rightarrow> page_op" where
  "loadData C collate pw net = (\<lambda>(p, k).
     case send net (\<lambda>k. (getAreasData C collate pw (Some (pg_pw p)) k, k)) k of
       (r, k') \<Rightarrow> (on_answer show_data r p, k'))"

text \<open>
  A call that on success reloads the table. answered is what the page does first; a failed
  reload shows its own message.
\<close>

definition then_load :: "('a \<Rightarrow> page \<Rightarrow> page) \<Rightarrow> page_op \<Rightarrow> (error + 'a admin_answer) option \<Rightarrow> page_op" where
  "then_load answered reload r = (\<lambda>(p, k).
     let p' = on_answer answered r p
     in case r of Some (Inr (AdminOk _)) \<Rightarrow> reload (p', k) | _ \<Rightarrow> (p', k))"

definition new_body :: "page \<Rightarrow> area_body" where
  "new_body p = \<lparr>ab_password = Some (pg_pw p), ab_name = Some (trim (af_name (pg_new p))),
     ab_storeId = Some (af_store (pg_new p)), ab_sortOrder = Some (sort_value (af_sort (pg_new p))),
     ab_isActive = None\<rparr>"

definition addArea ::
  "db_ctx \<Rightarrow> string option \<Rightarrow> string \<Rightarrow> delivery \<Rightarrow> page_op \<Rightarrow> page_op" where
  "addArea C pw fresh net reload = (\<lambda>(p, k).
     case send net (createArea C pw fresh (new_body p)) k of
       (r, k') \<Rightarrow> then_load (\<lambda>_ p. (showMsg AddedMsg p)\<lparr>pg_new := (pg_new p)\<lparr>af_name := []\<rparr>\<rparr>) reload r (p, k'))"

definition openEdit :: "string \<Rightarrow> page \<Rightarrow> page" where
  "openEdit i p =
     (case find (\<lambda>(a, _). ar_id a = i) (pg_areas p) of
        None \<Rightarrow> p
      | Some (a, _) \<Rightarrow>
          (renderEditOptions (p\<lparr>pg_editId := ar_id a, pg_editActive := ar_isActive a\<rparr>))
            \<lparr>pg_edit := \<lparr>af_name = text_value (ar_name a), af_store = select_value (pg_stores p) (ar_storeId a),
               af_sort = show_int (ar_sortOrder a)\<rparr>, pg_editShown := True\<rparr>)"

definition cancelEdit :: "page \<Rightarrow> page" where
  "cancelEdit p = p\<lparr>pg_editShown := False\<rparr>"

definition edit_body :: "page \<Rightarrow> area_body" where
  "edit_body p = \<lparr>ab_password = Some (pg_pw p), ab_name = Some (trim (af_name (pg_edit p))),
     ab_storeId = Some (af_store (pg_edit p)), ab_sortOrder = Some (sort_value (af_sort (pg_edit p))),
     ab_isActive = Some (pg_editActive p)\<rparr>"

definition saveEdit :: "db_ctx \<Rightarrow> string option \<Rightarrow> delivery \<Rightarrow> page_op \<Rightarrow> page_op" where
  "saveEdit C pw net reload = (\<lambda>(p, k).
     case send net (updateArea C pw (pg_editId p) (edit_body p)) k of
       (r, k') \<Rightarrow> then_load (\<lambda>_ p. cancelEdit (showMsg SavedMsg p)) reload r (p, k'))"

definition page_deleteArea ::
  "db_ctx \<Rightarrow> string option \<Rightarrow> bool \<Rightarrow> string \<Rightarrow> delivery \<Rightarrow> page_op \<Rightarrow> page_op" where
  "page_deleteArea C pw confirmed i net reload = (\<lambda>(p, k).
     if \<not> confirmed then (p, k)
     else case send net (deleteArea C pw i \<lparr>ab_password = Some (pg_pw p), ab_name = None, ab_storeId = None,
              ab_sortOrder = None, ab_isActive = None\<rparr>) k of
            (r, k') \<Rightarrow> then_load (\<lambda>_ p. showMsg DeletedMsg p) reload r (p, k'))"

text \<open>GET /admin/health, for anyone.\<close>

definition health :: "time \<Rightarrow> (string \<times> json) list" where
  "health now = [(''status'', JStr ''ok''), (''timestamp'', JStr (iso_datetime now))]"

section \<open>What the fields hold\<close>

text \<open>A text that the server reads as the id it is, and the page does not shorten.\<close>

definition uuid_text :: "db_ctx \<Rightarrow> string \<Rightarrow> bool" where
  "uuid_text C i \<longleftrightarrow> cx_uuid_in C i = Some i \<and> trim i = i \<and> i \<noteq> []"

lemma trim_Nil [simp]: "trim [] = []"
  by (simp add: trim_def)

lemma updateArea_store:
  assumes C: "statements_succeed C" "uuid_text C (ar_id a)" and k: "catalog_ok k" "a \<in> set (c_areas k)"
    and b: "body_password_ok pw b" "ab_name b = Some (ar_name a)" "ab_storeId b = Some s"
      "ab_sortOrder b = Some (ar_sortOrder a)" "ab_isActive b = Some (ar_isActive a)"
    and s: "s = [] \<or> uuid_text C s \<and> s \<in> store_ids k"
  shows "updateArea C pw (ar_id a) b k =
    (if s = [] then (Inr FieldsNeeded, k)
     else (Inr (AdminOk ()), k\<lparr>c_areas := sql_update (\<lambda>x. ar_id x = ar_id a)
       (\<lambda>x. x\<lparr>ar_storeId := s\<rparr>) (c_areas k)\<rparr>))"
proof -
  have rows: "rows_ok ar_id (area_valid (store_ids k)) (c_areas k)" using k(1) by (simp add: catalog_ok_def)
  then have valid: "area_valid (store_ids k) a" using k(2) by (simp add: rows_ok_def)
  have unique: "x = a" if "x \<in> set (c_areas k)" "ar_id x = ar_id a" for x
    using rows that k(2) by (auto simp: rows_ok_def distinct_map dest: inj_onD)
  have hit: "sql_count (\<lambda>x. ar_id x = ar_id a) (c_areas k) \<noteq> 0"
    using k(2) by (auto simp: sql_count_def filter_empty_conv)
  have "sql_update (\<lambda>x. ar_id x = ar_id a) (\<lambda>x. x\<lparr>ar_name := ar_name a, ar_storeId := s,
      ar_sortOrder := ar_sortOrder a, ar_isActive := ar_isActive a\<rparr>) (c_areas k) =
    sql_update (\<lambda>x. ar_id x = ar_id a) (\<lambda>x. x\<lparr>ar_storeId := s\<rparr>) (c_areas k)"
    unfolding sql_update_def by (rule map_cong) (auto dest: unique)
  moreover have "ar_name a \<noteq> []" "trim (ar_name a) = ar_name a" "varchar_ok 100 (ar_name a)"
    "int4_ok (ar_sortOrder a)"
    using valid by (simp_all add: area_valid_def)
  ultimately show ?thesis
    using C b s hit
    by (auto simp: updateArea_def Let_def or_else_def st_bind_def catalog_transaction_def catalog_stmt_def
        statements_succeedD uuid_arg_def uuid_text_def area_checks_def store_fk_def store_ids_def)
qed

section \<open>Editing an area\<close>

lemma getAreasData_ok:
  assumes "getAreasData C collate pw password k = Inr (AdminOk d)"
  shows "checkAdminPassword pw (or_else password [])"
    and "set (fst d) = (\<lambda>(a, st). (a, st_name st)) ` set (areas_with_stores k)"
    and "set (snd d) = (\<lambda>st. (st_id st, st_name st)) ` {st \<in> set (t_stores (c_db k)). st_isActive st}"
  using assms
  by (auto simp: getAreasData_def area_sort_def bind_res_Inr sql_select_def split: if_splits)

text \<open>The form of an area that was opened, whatever the page did to the store's field since.\<close>

definition edits :: "page \<Rightarrow> string \<Rightarrow> area_row \<Rightarrow> bool" where
  "edits p pw a \<longleftrightarrow> pg_pw p = pw \<and> pg_editId p = ar_id a \<and> pg_editActive p = ar_isActive a \<and>
     af_name (pg_edit p) = ar_name a \<and> af_sort (pg_edit p) = show_int (ar_sortOrder a)"

lemma openEdit_edits:
  assumes k: "catalog_ok k" "a \<in> set (c_areas k)" and line: "text_value (ar_name a) = ar_name a"
    and d: "getAreasData C collate pw (Some (pg_pw p)) k = Inr (AdminOk d)"
  shows "edits (openEdit (ar_id a) (show_data d p)) (pg_pw p) a"
    and "af_store (pg_edit (openEdit (ar_id a) (show_data d p))) = select_value (snd d) (ar_storeId a)"
proof -
  have rows: "rows_ok ar_id (area_valid (store_ids k)) (c_areas k)" using k(1) by (simp add: catalog_ok_def)
  have unique: "x = a" if "x \<in> set (c_areas k)" "ar_id x = ar_id a" for x
    using rows that k(2) by (auto simp: rows_ok_def distinct_map dest: inj_onD)
  obtain st where "st \<in> set (t_stores (c_db k))" "st_id st = ar_storeId a"
    using rows k(2) by (auto simp: rows_ok_def area_valid_def store_ids_def)
  then have "(a, st_name st) \<in> set (fst d)"
    unfolding getAreasData_ok(2) [OF d] using k(2) by (force simp: area_join)
  then have "find (\<lambda>(x, _). ar_id x = ar_id a) (fst d) \<noteq> None"
    by (auto simp: find_None_iff)
  then obtain x n where x: "find (\<lambda>(x, _). ar_id x = ar_id a) (fst d) = Some (x, n)" by auto
  then have "(x, n) \<in> set (fst d)" "ar_id x = ar_id a" by (auto simp: find_Some_iff in_set_conv_nth)
  then have "x = a" unfolding getAreasData_ok(2) [OF d] by (auto simp: area_join intro: unique)
  with x line show "edits (openEdit (ar_id a) (show_data d p)) (pg_pw p) a"
    "af_store (pg_edit (openEdit (ar_id a) (show_data d p))) = select_value (snd d) (ar_storeId a)"
    by (simp_all add: edits_def openEdit_def show_data_def showMsg_def renderTable_def renderEditOptions_def
        renderNewOptions_def)
qed

lemma saveEdit_edits:
  assumes C: "statements_succeed C" "uuid_text C (ar_id a)" and k: "catalog_ok k" "a \<in> set (c_areas k)"
    and p: "edits p pwd a" "checkAdminPassword pw pwd" "af_store (pg_edit p) = s"
    and s: "s = [] \<or> uuid_text C s \<and> s \<in> store_ids k"
  shows "saveEdit C pw Delivered reload (p, k) =
    (if s = [] then (showMsg (Refused ByFields) p, k)
     else reload (cancelEdit (showMsg SavedMsg p), k\<lparr>c_areas := sql_update (\<lambda>x. ar_id x = ar_id a)
       (\<lambda>x. x\<lparr>ar_storeId := s\<rparr>) (c_areas k)\<rparr>))"
proof -
  have valid: "area_valid (store_ids k) a" using k by (simp add: catalog_ok_def rows_ok_def)
  have "updateArea C pw (ar_id a) (edit_body p) k =
    (if s = [] then (Inr FieldsNeeded, k)
     else (Inr (AdminOk ()), k\<lparr>c_areas := sql_update (\<lambda>x. ar_id x = ar_id a)
       (\<lambda>x. x\<lparr>ar_storeId := s\<rparr>) (c_areas k)\<rparr>))"
    using valid p
    by (intro updateArea_store [OF C k _ _ _ _ _ s])
      (simp_all add: edit_body_def edits_def body_password_ok_def or_else_def area_valid_def sort_value_def
        parseInt_show_int)
  with p show ?thesis
    by (simp add: saveEdit_def send_def then_load_def Let_def edits_def)
qed

lemma listed_store:
  "getAreasData C collate pw password k = Inr (AdminOk d) \<Longrightarrow> (i, n) \<in> set (snd d) \<Longrightarrow> i \<in> store_ids k"
  by (auto simp: getAreasData_ok(3) store_ids_def)

text \<open>C35: opening an area on the page and saving it unchanged leaves the areas as they are; it is
  accepted exactly if the area's store is active. For an area of a closed store the form has no
  choice for its store, and the server turns the empty one down.\<close>

theorem page_edit_round_trip:
  assumes "catalog_ok k" and "a \<in> set (c_areas k)" and "text_value (ar_name a) = ar_name a"
    and "getAreasData C collate pw (Some (pg_pw p)) k = Inr (AdminOk d)"
    and "statements_succeed C" and "uuid_text C (ar_id a)" and "uuid_text C (ar_storeId a)"
  shows "\<exists>p'. saveEdit C pw Delivered reload (openEdit (ar_id a) (show_data d p), k) =
    (if \<exists>st \<in> set (t_stores (c_db k)). st_id st = ar_storeId a \<and> st_isActive st then reload (p', k)
     else (p', k)) \<and>
    pg_msg p' = Some (if \<exists>st \<in> set (t_stores (c_db k)). st_id st = ar_storeId a \<and> st_isActive st
      then SavedMsg else Refused ByFields)"
proof -
  let ?q = "openEdit (ar_id a) (show_data d p)"
  have rows: "rows_ok ar_id (area_valid (store_ids k)) (c_areas k)" using assms(1) by (simp add: catalog_ok_def)
  have same: "sql_update (\<lambda>x. ar_id x = ar_id a) (\<lambda>x. x\<lparr>ar_storeId := ar_storeId a\<rparr>) (c_areas k) = c_areas k"
    unfolding sql_update_def using rows assms(2)
    by (intro map_idI) (auto simp: rows_ok_def distinct_map dest: inj_onD)
  have offered: "ar_storeId a \<in> fst ` set (snd d) \<longleftrightarrow>
      (\<exists>st \<in> set (t_stores (c_db k)). st_id st = ar_storeId a \<and> st_isActive st)"
    unfolding getAreasData_ok(3) [OF assms(4)] by force
  have pwd: "checkAdminPassword pw (pg_pw p)" using getAreasData_ok(1) [OF assms(4)] by (simp add: or_else_def)
  have store: "select_value (snd d) (ar_storeId a) = [] \<or>
      uuid_text C (select_value (snd d) (ar_storeId a)) \<and> select_value (snd d) (ar_storeId a) \<in> store_ids k"
    using assms(7) listed_store [OF assms(4)] by (auto simp: select_value_def)
  note form = openEdit_edits [OF assms(1-4)]
  from saveEdit_edits [OF assms(5,6,1,2) form(1) pwd form(2) store, of reload] assms(7) offered
  show ?thesis
    by (auto simp: select_value_def same uuid_text_def showMsg_def cancelEdit_def)
qed

text \<open>A reload while an area is open for editing (adding another area does one) puts the first
  store of the list into the form: saving the area, otherwise untouched, gives it to that store.\<close>

theorem reload_reassigns_store:
  assumes "catalog_ok k" and "a \<in> set (c_areas k)" and "text_value (ar_name a) = ar_name a"
    and "getAreasData C collate pw (Some (pg_pw p)) k = Inr (AdminOk d)"
    and "statements_succeed C" and "uuid_text C (ar_id a)"
    and "snd d = (first, firstName) # others" and "uuid_text C first"
  shows "\<exists>p'. saveEdit C pw Delivered reload
      (fst (loadData C collate pw Delivered (openEdit (ar_id a) (show_data d p), k)), k) =
    reload (p', k\<lparr>c_areas := sql_update (\<lambda>x. ar_id x = ar_id a) (\<lambda>x. x\<lparr>ar_storeId := first\<rparr>)
      (c_areas k)\<rparr>) \<and> pg_msg p' = Some SavedMsg"
proof -
  let ?q = "openEdit (ar_id a) (show_data d p)"
  have pwd: "checkAdminPassword pw (pg_pw p)" using getAreasData_ok(1) [OF assms(4)] by (simp add: or_else_def)
  note form = openEdit_edits(1) [OF assms(1-4)]
  then have "pg_pw ?q = pg_pw p" by (simp add: edits_def)
  then have load: "fst (loadData C collate pw Delivered (?q, k)) = show_data d ?q"
    using assms(4) by (simp add: loadData_def send_def)
  have again: "edits (show_data d ?q) (pg_pw p) a"
    using form by (simp add: edits_def show_data_def showMsg_def renderTable_def renderEditOptions_def renderNewOptions_def)
  have store: "af_store (pg_edit (show_data d ?q)) = first"
    by (simp add: show_data_def showMsg_def renderTable_def renderEditOptions_def renderNewOptions_def
        first_option_def assms(7))
  have "first \<in> store_ids k" using listed_store [OF assms(4), of first firstName] assms(7) by simp
  with assms(8) have "first = [] \<or> uuid_text C first \<and> first \<in> store_ids k" by simp
  from saveEdit_edits [OF assms(5,6,1,2) again pwd store this, of reload] assms(8)
  show ?thesis
    by (intro exI [of _ "cancelEdit (showMsg SavedMsg (show_data d ?q))"])
      (simp add: load uuid_text_def showMsg_def cancelEdit_def)
qed

text \<open>The names go into the markup of the page as they are.\<close>

lemma area_row_html_verbatim:
  "has_text (area_row_html (a, n)) (ar_name a)" "has_text (area_row_html (a, n)) n"
proof -
  have "\<exists>v. area_row_html (a, n) = ''<td>'' @ ar_name a @ v" by (simp add: area_row_html_def)
  then show "has_text (area_row_html (a, n)) (ar_name a)" unfolding has_text_iff by metis
  have "\<exists>v. area_row_html (a, n) = (''<td>'' @ ar_name a @ ''</td><td>'') @ n @ v" by (simp add: area_row_html_def)
  then show "has_text (area_row_html (a, n)) n" unfolding has_text_iff by metis
qed

section \<open>Samples\<close>

definition sample_area :: area_row where
  "sample_area = \<lparr>ar_id = ''a1'', ar_name = ''north'', ar_storeId = ''s2'', ar_isActive = True,
     ar_sortOrder = 1, ar_createdAt = 0\<rparr>"

definition two_stores :: catalog where
  "two_stores = sample_catalog\<lparr>c_db := seed_db\<lparr>t_stores :=
       [sample_store, sample_store\<lparr>st_id := ''s2'', st_name := ''Hongdae''\<rparr>]\<rparr>,
     c_areas := [sample_area]\<rparr>"

definition sample_page :: page where
  "sample_page = \<lparr>pg_pw = ''admin1234'', pg_msg = None, pg_areas = [], pg_stores = [],
     pg_newOptions = [], pg_editOptions = [], pg_rows = [], pg_addShown = False, pg_editShown = False,
     pg_new = \<lparr>af_name = [], af_store = [], af_sort = ''0''\<rparr>, pg_editId = [],
     pg_edit = \<lparr>af_name = [], af_store = [], af_sort = []\<rparr>, pg_editActive = True\<rparr>"

lemma two_stores_ok: "catalog_ok two_stores" "sample_area \<in> set (c_areas two_stores)"
  by (simp_all add: two_stores_def sample_area_def catalog_ok_def rows_ok_def items_have_menus_def
      menu_valid_def area_valid_def store_ids_def varchar_ok_def int4_ok_def trim_def js_space_def)
    (simp add: sample_menu_def price_ok_def)

lemma two_stores_data: "getAreasData (quiet_ctx 5) length None (Some (pg_pw sample_page)) two_stores =
    Inr (AdminOk ([(sample_area, ''Hongdae'')], [(''s1'', ''Gangnam''), (''s2'', ''Hongdae'')]))"
  by (simp add: getAreasData_def sample_page_def checkAdminPassword_def ADMIN_PASSWORD_def or_else_def
      catalog_stmt_def area_sort_def order_by_two_def areas_with_stores_def two_stores_def sql_select_def
      sample_store_def sample_area_def)

lemma sample_area_text: "text_value (ar_name sample_area) = ar_name sample_area"
    "uuid_text (quiet_ctx t) (ar_id sample_area)" "uuid_text (quiet_ctx t) (ar_storeId sample_area)"
    "uuid_text (quiet_ctx t) ''s1''"
  by (simp_all add: text_value_def sample_area_def uuid_text_def trim_def js_space_def)

theorem page_edit_round_trip_witness:
  "\<exists>p'. saveEdit (quiet_ctx 5) None Delivered (\<lambda>x. x) (openEdit ''a1'' (show_data
      ([(sample_area, ''Hongdae'')], [(''s1'', ''Gangnam''), (''s2'', ''Hongdae'')]) sample_page), two_stores) =
    (p', two_stores) \<and> pg_msg p' = Some SavedMsg"
proof -
  have open_store: "\<exists>st \<in> set (t_stores (c_db two_stores)). st_id st = ar_storeId sample_area \<and> st_isActive st"
    by (simp add: two_stores_def sample_store_def sample_area_def)
  from page_edit_round_trip [OF two_stores_ok sample_area_text(1) two_stores_data quiet_statements
      sample_area_text(2,3), of "\<lambda>x. x"] open_store
  show ?thesis by (simp add: sample_area_def)
qed

theorem reload_reassigns_store_witness:
  "\<exists>p' k'. saveEdit (quiet_ctx 5) None Delivered (\<lambda>x. x)
      (fst (loadData (quiet_ctx 5) length None Delivered (openEdit ''a1'' (show_data
        ([(sample_area, ''Hongdae'')], [(''s1'', ''Gangnam''), (''s2'', ''Hongdae'')]) sample_page), two_stores)),
       two_stores) = (p', k') \<and> map ar_storeId (c_areas k') = [''s1'']"
  using reload_reassigns_store [OF two_stores_ok sample_area_text(1) two_stores_data quiet_statements
      sample_area_text(2) _ sample_area_text(4), of _ _ "\<lambda>x. x"]
  by (auto simp: sample_area_def two_stores_def sql_update_def)

end
