(* ===== verification/Page_Session.thy ===== *)
theory Page_Session
  imports Areas_Page
begin

text \<open>
  A session with the administrator's page for areas: the page as it is delivered, what its user
  can type and click, in any order, while the areas and stores change behind its back and
  requests or answers are lost.
\<close>

section \<open>The page as it is delivered\<close>

definition initial_page :: page where
  "initial_page =
     \<lparr>pg_pw = [], pg_msg = None, pg_areas = [], pg_stores = [], pg_newOptions = [], pg_editOptions = [],
      pg_rows = [], pg_addShown = False, pg_editShown = False,
      pg_new = \<lparr>af_name = [], af_store = [], af_sort = ''0''\<rparr>, pg_editId = [],
      pg_edit = \<lparr>af_name = [], af_store = [], af_sort = []\<rparr>, pg_editActive = True\<rparr>"

section \<open>What its user does\<close>

definition put_new :: "string \<Rightarrow> string \<Rightarrow> string \<Rightarrow> page \<Rightarrow> page" where
  "put_new name store ord p = p\<lparr>pg_new :=
     \<lparr>af_name = text_value name, af_store = select_value (pg_newOptions p) store, af_sort = ord\<rparr>\<rparr>"

definition put_edit :: "string \<Rightarrow> string \<Rightarrow> string \<Rightarrow> bool \<Rightarrow> page \<Rightarrow> page" where
  "put_edit name store ord active p = p\<lparr>pg_edit :=
       \<lparr>af_name = text_value name, af_store = select_value (pg_editOptions p) store, af_sort = ord\<rparr>,
     pg_editActive := active\<rparr>"

text \<open>
  A click and its answer are one step; after a success the page reloads, at a later time. others is what other clients make
  of the catalogue; pw is the server's ADMIN_PASSWORD.
\<close>

inductive page_step :: "string option \<Rightarrow> (string \<Rightarrow> 'c::linorder) \<Rightarrow> page \<times> catalog \<Rightarrow> page \<times> catalog \<Rightarrow> bool"
  for pw collate where
  others: "page_step pw collate (p, k) (p, k')"
| password: "page_step pw collate (p, k) (p\<lparr>pg_pw := typed\<rparr>, k)"
| type_new: "page_step pw collate (p, k) (put_new name store ord p, k)"
| type_edit: "page_step pw collate (p, k) (put_edit name store ord active p, k)"
| load: "page_step pw collate s (loadData C collate pw net s)"
| add: "page_step pw collate s (addArea C pw fresh net (loadData C' collate pw net') s)"
| open_edit: "page_step pw collate (p, k) (openEdit i p, k)"
| cancel: "page_step pw collate (p, k) (cancelEdit p, k)"
| save: "page_step pw collate s (saveEdit C pw net (loadData C' collate pw net') s)"
| delete: "page_step pw collate s (page_deleteArea C pw confirmed i net (loadData C' collate pw net') s)"

inductive_cases page_stepE: "page_step pw collate s s'"

section \<open>What the page shows\<close>

text \<open>
  The table and the options are those of the last load, and a chosen store is an option; nothing
  is shown but an answer of the server to the right password.
\<close>

definition served :: "string option \<Rightarrow> (string \<Rightarrow> 'c::linorder) \<Rightarrow> page \<Rightarrow> bool" where
  "served pw collate p \<longleftrightarrow> (\<exists>C password k. checkAdminPassword pw password \<and>
     getAreasData C collate pw (Some password) k = Inr (AdminOk (pg_areas p, pg_stores p)))"

definition page_consistent :: "string option \<Rightarrow> (string \<Rightarrow> 'c::linorder) \<Rightarrow> page \<Rightarrow> bool" where
  "page_consistent pw collate p \<longleftrightarrow> pg_rows p = map area_row_html (pg_areas p) \<and>
     pg_newOptions p = pg_stores p \<and> pg_editOptions p = pg_stores p \<and>
     af_store (pg_new p) \<in> insert [] (fst ` set (pg_stores p)) \<and>
     af_store (pg_edit p) \<in> insert [] (fst ` set (pg_stores p)) \<and>
     (pg_addShown p \<or> pg_areas p = [] \<and> pg_stores p = []) \<and>
     (pg_editShown p \<longrightarrow> pg_addShown p) \<and> (pg_addShown p \<longrightarrow> served pw collate p)"

lemma first_option_in: "first_option os \<in> insert [] (fst ` set os)"
  by (auto simp: first_option_def split: list.split)

lemma select_value_in: "select_value os v \<in> insert [] (fst ` set os)"
  by (simp add: select_value_def)

lemma showMsg_consistent [simp]: "page_consistent pw collate (showMsg m p) = page_consistent pw collate p"
  by (simp add: page_consistent_def showMsg_def served_def)

lemma initial_consistent: "page_consistent pw collate initial_page"
  by (simp add: page_consistent_def initial_page_def)

lemma show_data_consistent:
  assumes "getAreasData C collate pw (Some password) k = Inr (AdminOk d)"
  shows "page_consistent pw collate (show_data d p)"
proof -
  have "served pw collate (show_data d p)"
    using assms getAreasData_ok(1) [OF assms]
    by (auto simp: served_def or_else_def show_data_def showMsg_def renderTable_def renderEditOptions_def
        renderNewOptions_def)
  then show ?thesis
    using first_option_in [of "snd d"]
    by (simp add: page_consistent_def show_data_def showMsg_def renderTable_def renderEditOptions_def
        renderNewOptions_def)
qed

lemma on_answer_consistent:
  "page_consistent pw collate p \<Longrightarrow> (\<And>a. r = Some (Inr (AdminOk a)) \<Longrightarrow> page_consistent pw collate (f a p)) \<Longrightarrow>
     page_consistent pw collate (on_answer f r p)"
  by (cases "(f, r)" rule: on_answer.cases) simp_all

lemma loadData_consistent:
  assumes "page_consistent pw collate (fst s)"
  shows "page_consistent pw collate (fst (loadData C collate pw net s))"
proof -
  obtain p k where s: "s = (p, k)" by force
  have "page_consistent pw collate (on_answer show_data
      (fst (send net (\<lambda>k. (getAreasData C collate pw (Some (pg_pw p)) k, k)) k)) p)"
    using assms s
    by (intro on_answer_consistent) (auto simp: send_def split: delivery.splits intro: show_data_consistent)
  then show ?thesis by (simp add: loadData_def s case_prod_beta)
qed

lemma then_load_consistent:
  assumes "page_consistent pw collate p" and "\<And>a. page_consistent pw collate (answered a p)"
  shows "page_consistent pw collate (fst (then_load answered (loadData C collate pw net) r (p, k)))"
  using on_answer_consistent [OF assms(1), of r answered] assms(2)
  by (auto simp: then_load_def Let_def loadData_consistent split: option.split sum.split admin_answer.split)

lemma edits_consistent:
  "page_consistent pw collate p \<Longrightarrow> page_consistent pw collate (p\<lparr>pg_pw := typed\<rparr>)"
  "page_consistent pw collate p \<Longrightarrow> page_consistent pw collate (put_new name store ord p)"
  "page_consistent pw collate p \<Longrightarrow> page_consistent pw collate (put_edit name store ord active p)"
  "page_consistent pw collate p \<Longrightarrow> page_consistent pw collate (cancelEdit p)"
  "page_consistent pw collate p \<Longrightarrow> page_consistent pw collate ((showMsg m p)\<lparr>pg_new := (pg_new p)\<lparr>af_name := n\<rparr>\<rparr>)"
  using select_value_in [of "pg_stores p" store]
  by (simp_all add: page_consistent_def put_new_def put_edit_def cancelEdit_def showMsg_def served_def)

lemma openEdit_consistent:
  assumes "page_consistent pw collate p"
  shows "page_consistent pw collate (openEdit i p)"
proof (cases "find (\<lambda>(a, _). ar_id a = i) (pg_areas p)")
  case None
  with assms show ?thesis by (simp add: openEdit_def)
next
  case (Some x)
  then have "pg_areas p \<noteq> []" by auto
  with assms Some select_value_in [of "pg_stores p" "ar_storeId (fst x)"] show ?thesis
    by (cases x) (simp add: page_consistent_def openEdit_def renderEditOptions_def served_def)
qed

lemma clicks_consistent:
  assumes "page_consistent pw collate (fst s)"
  shows "page_consistent pw collate (fst (addArea C pw fresh net (loadData C' collate pw net') s))"
    and "page_consistent pw collate (fst (saveEdit C pw net (loadData C' collate pw net') s))"
    and "page_consistent pw collate (fst (page_deleteArea C pw confirmed i net (loadData C' collate pw net') s))"
proof -
  obtain p k where s: "s = (p, k)" by force
  with assms have p: "page_consistent pw collate p" by simp
  show "page_consistent pw collate (fst (addArea C pw fresh net (loadData C' collate pw net') s))"
    unfolding addArea_def s case_prod_conv
    by (simp add: case_prod_beta, rule then_load_consistent [OF p], rule edits_consistent(5) [OF p])
  show "page_consistent pw collate (fst (saveEdit C pw net (loadData C' collate pw net') s))"
    unfolding saveEdit_def s case_prod_conv
    by (simp add: case_prod_beta, rule then_load_consistent [OF p], simp add: edits_consistent(4) p)
  show "page_consistent pw collate (fst (page_deleteArea C pw confirmed i net (loadData C' collate pw net') s))"
    unfolding page_deleteArea_def s case_prod_conv
    by (auto simp: case_prod_beta p intro: then_load_consistent [OF p])
qed

lemma page_step_consistent:
  "page_step pw collate s s' \<Longrightarrow> page_consistent pw collate (fst s) \<Longrightarrow> page_consistent pw collate (fst s')"
  by (induction rule: page_step.induct)
    (auto intro: edits_consistent openEdit_consistent loadData_consistent clicks_consistent)

lemma page_session_consistent:
  "(page_step pw collate)\<^sup>*\<^sup>* (initial_page, k0) s \<Longrightarrow> page_consistent pw collate (fst s)"
  by (induction rule: rtranclp_induct) (auto simp: initial_consistent intro: page_step_consistent)

section \<open>The property\<close>

text \<open>C36: whatever its user types and clicks, whatever is lost on the way and however the areas change
  meanwhile: the table on the page is that of the areas it loaded last; it shows areas, stores or a
  form only after the server took a password, and then just what it answered; and the store in a
  request of the page is one the server listed, or none, which it refuses.\<close>

theorem page_session:
  assumes "(page_step pw collate)\<^sup>*\<^sup>* (initial_page, k0) (p, k)"
  shows "pg_rows p = map area_row_html (pg_areas p) \<and>
    (pg_addShown p \<or> pg_editShown p \<or> pg_rows p \<noteq> [] \<or> pg_stores p \<noteq> [] \<longrightarrow>
      (\<exists>C password k'. checkAdminPassword pw password \<and>
         getAreasData C collate pw (Some password) k' = Inr (AdminOk (pg_areas p, pg_stores p)))) \<and>
    {ab_storeId (new_body p), ab_storeId (edit_body p)} \<subseteq> insert (Some []) (Some ` fst ` set (pg_stores p))"
  using page_session_consistent [OF assms]
  by (auto simp: page_consistent_def served_def new_body_def edit_body_def)

lemma sample_session:
  "(page_step None length)\<^sup>*\<^sup>* (initial_page, two_stores)
     (show_data ([(sample_area, ''Hongdae'')], [(''s1'', ''Gangnam''), (''s2'', ''Hongdae'')]) sample_page, two_stores)"
proof -
  have "sample_page = initial_page\<lparr>pg_pw := ''admin1234''\<rparr>" by (simp add: sample_page_def initial_page_def)
  then have one: "page_step None length (initial_page, two_stores) (sample_page, two_stores)"
    by (metis page_step.password)
  have two: "loadData (quiet_ctx 5) length None Delivered (sample_page, two_stores) =
      (show_data ([(sample_area, ''Hongdae'')], [(''s1'', ''Gangnam''), (''s2'', ''Hongdae'')]) sample_page, two_stores)"
    unfolding loadData_def case_prod_conv two_stores_data by (simp add: send_def two_stores_data)
  have "page_step None length (sample_page, two_stores)
      (loadData (quiet_ctx 5) length None Delivered (sample_page, two_stores))" by (rule page_step.load)
  then show ?thesis
    unfolding two by (rule converse_rtranclp_into_rtranclp [where r = "page_step None length", OF one r_into_rtranclp])
qed

theorem page_session_witness:
  "\<exists>C password k'. checkAdminPassword None password \<and>
     getAreasData C (length :: string \<Rightarrow> nat) None (Some password) k' =
       Inr (AdminOk ([(sample_area, ''Hongdae'')], [(''s1'', ''Gangnam''), (''s2'', ''Hongdae'')]))"
  using page_session [OF sample_session]
  by (simp add: show_data_def showMsg_def renderTable_def renderEditOptions_def renderNewOptions_def)

end
