(* ===== verification/Public_Content.thy ===== *)
theory Public_Content
  imports Order_Repository Js_Text
begin

text \<open>
  The endpoints of PublicController (src/common/public.controller.ts) that answer with
  constants: content of the apps, reports of riders, cancellations, audit lists and tables. None
  of them reads or changes anything, although some confirm a change. Texts are in UTF-8.
\<close>

type_synonym 'a endpoint = "(database, error, 'a) comp"

abbreviation ok_with :: "(string \<times> json) list \<Rightarrow> json endpoint" where
  "ok_with extra \<equiv> st_return (JObj ((''ok'', JBool True) # extra))"

definition public_health :: "time \<Rightarrow> json endpoint" where
  "public_health now = st_return (JObj [(''status'', JStr ''ok''), (''timestamp'', JStr (iso_datetime now))])"

section \<open>Changes of an order\<close>

definition items_changed_text :: string where
  "items_changed_text =
     [CHR 0xED, CHR 0x95, CHR 0xAD, CHR 0xEB, CHR 0xAA, CHR 0xA9, CHR 0x20, CHR 0xEC, CHR
      0x88, CHR 0x98, CHR 0xEC, CHR 0xA0, CHR 0x95, CHR 0xEC, CHR 0x9D, CHR 0xB4, CHR
      0x20, CHR 0xEB, CHR 0xB0, CHR 0x98, CHR 0xEC, CHR 0x98, CHR 0x81, CHR 0xEB, CHR
      0x90, CHR 0x98, CHR 0xEC, CHR 0x97, CHR 0x88, CHR 0xEC, CHR 0x8A, CHR 0xB5, CHR
      0xEB, CHR 0x8B, CHR 0x88, CHR 0xEB, CHR 0x8B, CHR 0xA4, CHR 0x2E]"

definition updateOrderItems :: "string \<Rightarrow> json \<Rightarrow> json endpoint" where
  "updateOrderItems i body = ok_with [(''orderId'', JStr i), (''message'', JStr items_changed_text)]"

definition partly_cancelled_text :: string where
  "partly_cancelled_text =
     [CHR 0xEB, CHR 0xB6, CHR 0x80, CHR 0xEB, CHR 0xB6, CHR 0x84, CHR 0x20, CHR 0xEC, CHR
      0xB7, CHR 0xA8, CHR 0xEC, CHR 0x86, CHR 0x8C, CHR 0xEA, CHR 0xB0, CHR 0x80, CHR
      0x20, CHR 0xEC, CHR 0xB2, CHR 0x98, CHR 0xEB, CHR 0xA6, CHR 0xAC, CHR 0xEB, CHR
      0x90, CHR 0x98, CHR 0xEC, CHR 0x97, CHR 0x88, CHR 0xEC, CHR 0x8A, CHR 0xB5, CHR
      0xEB, CHR 0x8B, CHR 0x88, CHR 0xEB, CHR 0x8B, CHR 0xA4, CHR 0x2E]"

definition cancelPartialOrder :: "string \<Rightarrow> json \<Rightarrow> json endpoint" where
  "cancelPartialOrder i body = ok_with [(''orderId'', JStr i), (''message'', JStr partly_cancelled_text)]"

section \<open>Customers and content\<close>

definition getCustomersCheck :: "json endpoint" where
  "getCustomersCheck = ok_with [(''exists'', JBool False)]"

definition getBanners :: "json endpoint" where
  "getBanners = ok_with [(''banners'', JArr [])]"

definition getSplash :: "json endpoint" where
  "getSplash = ok_with [(''imageUrl'', JNull)]"

definition getPromoImages :: "json endpoint" where
  "getPromoImages = ok_with [(''images'', JArr [])]"

definition promo_text :: string where
  "promo_text =
     [CHR 0xED, CHR 0x99, CHR 0x8D, CHR 0xEB, CHR 0xB3, CHR 0xB4, CHR 0x20, CHR 0xEC, CHR
      0x9D, CHR 0xB4, CHR 0xEB, CHR 0xAF, CHR 0xB8, CHR 0xEC, CHR 0xA7, CHR 0x80, CHR
      0x20, CHR 0xEA, CHR 0xB8, CHR 0xB0, CHR 0xEB, CHR 0x8A, CHR 0xA5, CHR 0xEC, CHR
      0x9D, CHR 0x80, CHR 0x20, CHR 0xEC, CHR 0xA4, CHR 0x80, CHR 0xEB, CHR 0xB9, CHR
      0x84, CHR 0x20, CHR 0xEC, CHR 0xA4, CHR 0x91, CHR 0xEC, CHR 0x9E, CHR 0x85, CHR
      0xEB, CHR 0x8B, CHR 0x88, CHR 0xEB, CHR 0x8B, CHR 0xA4, CHR 0x2E]"

definition addPromoImage :: "json endpoint" where
  "addPromoImage = ok_with [(''message'', JStr promo_text)]"

definition deletePromoImage :: "string \<Rightarrow> json endpoint" where
  "deletePromoImage index = ok_with []"

section \<open>Riders, cancellations and failed patches\<close>

definition getRiderReports :: "string option \<Rightarrow> json endpoint" where
  "getRiderReports storeId = ok_with [(''reports'', JArr [])]"

definition ackRiderReport :: "string \<Rightarrow> json endpoint" where
  "ackRiderReport i = ok_with []"

definition getPendingCancels :: "string option \<Rightarrow> json endpoint" where
  "getPendingCancels storeId = ok_with [(''pendingCancels'', JArr [])]"

definition deletePendingCancel :: "string \<Rightarrow> json endpoint" where
  "deletePendingCancel i = ok_with []"

definition saveFailedPatch :: "json \<Rightarrow> json endpoint" where
  "saveFailedPatch body = ok_with []"

definition getFailedPatches :: "string option \<Rightarrow> json endpoint" where
  "getFailedPatches storeId = ok_with [(''failedPatches'', JArr [])]"

definition deleteFailedPatch :: "string \<Rightarrow> json endpoint" where
  "deleteFailedPatch i = ok_with []"

section \<open>Audit and tables\<close>

definition getAuditLogs :: "string option \<Rightarrow> json endpoint" where
  "getAuditLogs storeId = ok_with [(''logs'', JArr [])]"

definition getAuditRisks :: "string option \<Rightarrow> json endpoint" where
  "getAuditRisks storeId = ok_with [(''risks'', JArr
     [JObj [(''type'', JStr ''cash_cancel''), (''count'', JNum 0), (''level'', JStr ''low''), (''items'', JArr [])],
      JObj [(''type'', JStr ''card_cancel''), (''count'', JNum 0), (''level'', JStr ''low''), (''items'', JArr [])],
      JObj [(''type'', JStr ''menu_cancel_rate''), (''items'', JArr [])]])]"

definition moveTable :: "json \<Rightarrow> json endpoint" where
  "moveTable body = ok_with []"

definition mergeTables :: "json \<Rightarrow> json endpoint" where
  "mergeTables body = ok_with []"

definition tablePaymentDone :: "string \<Rightarrow> json endpoint" where
  "tablePaymentDone no = ok_with []"

section \<open>They confirm what they do not do\<close>

lemma item_change_not_done: "updateOrderItems i body db = (Inr (JObj [(''ok'', JBool True), (''orderId'', JStr i),
    (''message'', JStr items_changed_text)]), db)"
  by (simp add: updateOrderItems_def)

lemma partial_cancel_not_done: "cancelPartialOrder i body db = (Inr (JObj [(''ok'', JBool True),
    (''orderId'', JStr i), (''message'', JStr partly_cancelled_text)]), db)"
  by (simp add: cancelPartialOrder_def)

text \<open>A patch handed in for later is gone: the list of failed patches stays empty.\<close>

lemma saved_patch_lost:
  "getFailedPatches storeId (snd (saveFailedPatch body db)) = (Inr (JObj [(''ok'', JBool True),
     (''failedPatches'', JArr [])]), db)"
  by (simp add: saveFailedPatch_def getFailedPatches_def)

end
