(* ===== verification/Modules.thy ===== *)
theory Modules
  imports Http_Edge
begin

text \<open>
  The modules (src/app*.module.ts and the *.module.ts of each part) and what the container of the
  framework makes of them: each class names in its constructor what is to be injected, each
  module what it provides, imports and exports. An entry of a module is created once per
  process; what it injects is looked up among the providers of its own module, the exports of the
  modules that it imports, and the global modules (settings and database). The entities and
  queues are names.
\<close>

section \<open>What can be injected\<close>

definition DLQ_QUEUE_NAME :: string where
  "DLQ_QUEUE_NAME = ''orders-dlq''"

datatype job_consumer = OrderProcessor | DlqProcessor | QueueMetricsService

datatype controller =
    OrderController | InternalBridgeController | PublicController | AdminController
  | MenuAdminController | AuthController

datatype token =
    ConfigService | DataSource | InjectQueue string | InjectRedis redis_client
  | AppLogger | OrderRepository | IdempotencyService | DistributedLockService
  | PosCircuitBreakerService | PosAdapterFactory | OrderGateway | OrderQueueService
  | CreateOrderService | ProcessOrderService | AdminService | NotificationService
  | OrderStatusPublisherService | BbqBridgeService
  | Consumer job_consumer | Handler controller

section \<open>The constructors\<close>

definition makeRedisProvider_inject :: "token list" where
  "makeRedisProvider_inject = [ConfigService]"

definition OrderRepository_constructor :: "token list" where
  "OrderRepository_constructor = [DataSource]"

definition IdempotencyService_constructor :: "token list" where
  "IdempotencyService_constructor = [InjectRedis IDEMPOTENCY_REDIS, ConfigService]"

definition DistributedLockService_constructor :: "token list" where
  "DistributedLockService_constructor = [InjectRedis LOCK_REDIS, ConfigService]"

definition PosCircuitBreakerService_constructor :: "token list" where
  "PosCircuitBreakerService_constructor = [InjectRedis CACHE_REDIS, ConfigService, AppLogger]"

definition OrderGateway_constructor :: "token list" where
  "OrderGateway_constructor = [AppLogger]"

definition OrderQueueService_constructor :: "token list" where
  "OrderQueueService_constructor =
     [InjectQueue ORDERS_QUEUE_NAME, InjectQueue DLQ_QUEUE_NAME, ConfigService]"

definition CreateOrderService_constructor :: "token list" where
  "CreateOrderService_constructor =
     [IdempotencyService, OrderQueueService, OrderRepository, AppLogger, OrderGateway, InjectRedis CACHE_REDIS]"

definition ProcessOrderService_constructor :: "token list" where
  "ProcessOrderService_constructor =
     [OrderRepository, DistributedLockService, PosCircuitBreakerService, PosAdapterFactory, OrderQueueService,
      NotificationService, AppLogger, ConfigService, DataSource]"

definition AdminService_constructor :: "token list" where
  "AdminService_constructor = [OrderRepository, OrderQueueService, PosCircuitBreakerService, AppLogger]"

definition NotificationService_constructor :: "token list" where
  "NotificationService_constructor = [ConfigService, AppLogger]"

definition OrderStatusPublisherService_constructor :: "token list" where
  "OrderStatusPublisherService_constructor = [DataSource, InjectRedis CACHE_REDIS]"

definition BbqBridgeService_constructor :: "token list" where
  "BbqBridgeService_constructor = [ConfigService]"

definition OrderProcessor_constructor :: "token list" where
  "OrderProcessor_constructor = [ProcessOrderService, AppLogger]"

definition DlqProcessor_constructor :: "token list" where
  "DlqProcessor_constructor = [AppLogger, NotificationService]"

definition QueueMetricsService_constructor :: "token list" where
  "QueueMetricsService_constructor = [OrderQueueService, ConfigService, AppLogger]"

definition OrderController_constructor :: "token list" where
  "OrderController_constructor = [CreateOrderService, OrderGateway, DataSource]"

definition InternalBridgeController_constructor :: "token list" where
  "InternalBridgeController_constructor = [CreateOrderService, ConfigService]"

definition PublicController_constructor :: "token list" where
  "PublicController_constructor = [DataSource, CreateOrderService, OrderGateway]"

definition AdminController_constructor :: "token list" where
  "AdminController_constructor = [AdminService, DataSource]"

definition MenuAdminController_constructor :: "token list" where
  "MenuAdminController_constructor = [DataSource]"

lemmas constructor_defs = makeRedisProvider_inject_def OrderRepository_constructor_def
  IdempotencyService_constructor_def DistributedLockService_constructor_def
  PosCircuitBreakerService_constructor_def OrderGateway_constructor_def OrderQueueService_constructor_def
  CreateOrderService_constructor_def ProcessOrderService_constructor_def AdminService_constructor_def
  NotificationService_constructor_def OrderStatusPublisherService_constructor_def
  BbqBridgeService_constructor_def OrderProcessor_constructor_def DlqProcessor_constructor_def
  QueueMetricsService_constructor_def OrderController_constructor_def
  InternalBridgeController_constructor_def PublicController_constructor_def
  AdminController_constructor_def MenuAdminController_constructor_def

text \<open>What an entry injects. PosAdapterFactory, AppLogger and AuthController have no constructor.\<close>

fun dependencies :: "token \<Rightarrow> token list" where
  "dependencies (InjectRedis _) = makeRedisProvider_inject"
| "dependencies OrderRepository = OrderRepository_constructor"
| "dependencies IdempotencyService = IdempotencyService_constructor"
| "dependencies DistributedLockService = DistributedLockService_constructor"
| "dependencies PosCircuitBreakerService = PosCircuitBreakerService_constructor"
| "dependencies OrderGateway = OrderGateway_constructor"
| "dependencies OrderQueueService = OrderQueueService_constructor"
| "dependencies CreateOrderService = CreateOrderService_constructor"
| "dependencies ProcessOrderService = ProcessOrderService_constructor"
| "dependencies AdminService = AdminService_constructor"
| "dependencies NotificationService = NotificationService_constructor"
| "dependencies OrderStatusPublisherService = OrderStatusPublisherService_constructor"
| "dependencies BbqBridgeService = BbqBridgeService_constructor"
| "dependencies (Consumer OrderProcessor) = OrderProcessor_constructor"
| "dependencies (Consumer DlqProcessor) = DlqProcessor_constructor"
| "dependencies (Consumer QueueMetricsService) = QueueMetricsService_constructor"
| "dependencies (Handler OrderController) = OrderController_constructor"
| "dependencies (Handler InternalBridgeController) = InternalBridgeController_constructor"
| "dependencies (Handler PublicController) = PublicController_constructor"
| "dependencies (Handler AdminController) = AdminController_constructor"
| "dependencies (Handler MenuAdminController) = MenuAdminController_constructor"
| "dependencies _ = []"

section \<open>The modules\<close>

datatype nest_module =
    AppModule | OrderApiModule | OrderWorkerModule | OrderSharedModule | AdminModule
  | MenuAdminModule | AuthModule | NotificationModule

text \<open>Registered queues are providers of the module that registers them.\<close>

record module_decl =
  md_imports :: "nest_module list"
  md_entities :: "string list" \<comment> \<open>TypeOrmModule.forFeature\<close>
  md_queues :: "string list" \<comment> \<open>BullModule.registerQueue\<close>
  md_providers :: "token list"
  md_controllers :: "controller list"
  md_exports :: "token list"

text \<open>The root module's settings and database are global.\<close>

definition AppModule_decl :: module_decl where
  "AppModule_decl = \<lparr>md_imports = [], md_entities = [], md_queues = [],
     md_providers = [ConfigService, DataSource], md_controllers = [], md_exports = [ConfigService, DataSource]\<rparr>"

definition OrderSharedModule_decl :: module_decl where
  "OrderSharedModule_decl = \<lparr>md_imports = [],
     md_entities = [''OrderEntity'', ''OrderItemEntity'', ''OrderStateTransitionEntity'', ''StoreEntity'',
       ''MenuEntity''],
     md_queues = [],
     md_providers = [InjectRedis IDEMPOTENCY_REDIS, InjectRedis LOCK_REDIS, InjectRedis CACHE_REDIS,
       OrderRepository, IdempotencyService, DistributedLockService, PosCircuitBreakerService, PosAdapterFactory,
       AppLogger, OrderGateway],
     md_controllers = [],
     md_exports = [InjectRedis IDEMPOTENCY_REDIS, InjectRedis LOCK_REDIS, InjectRedis CACHE_REDIS,
       OrderRepository, IdempotencyService, DistributedLockService, PosCircuitBreakerService, PosAdapterFactory,
       AppLogger, OrderGateway]\<rparr>"

definition OrderApiModule_decl :: module_decl where
  "OrderApiModule_decl = \<lparr>md_imports = [OrderSharedModule], md_entities = [],
     md_queues = [ORDERS_QUEUE_NAME, DLQ_QUEUE_NAME],
     md_providers = [OrderQueueService, CreateOrderService],
     md_controllers = [OrderController, InternalBridgeController, PublicController], md_exports = []\<rparr>"

definition OrderWorkerModule_decl :: module_decl where
  "OrderWorkerModule_decl = \<lparr>md_imports = [OrderSharedModule, NotificationModule], md_entities = [],
     md_queues = [ORDERS_QUEUE_NAME, DLQ_QUEUE_NAME],
     md_providers = [OrderQueueService, ProcessOrderService, Consumer OrderProcessor, Consumer DlqProcessor,
       Consumer QueueMetricsService],
     md_controllers = [], md_exports = []\<rparr>"

definition AdminModule_decl :: module_decl where
  "AdminModule_decl = \<lparr>md_imports = [OrderSharedModule], md_entities = [],
     md_queues = [ORDERS_QUEUE_NAME, DLQ_QUEUE_NAME], md_providers = [AdminService, OrderQueueService],
     md_controllers = [AdminController], md_exports = []\<rparr>"

definition MenuAdminModule_decl :: module_decl where
  "MenuAdminModule_decl = \<lparr>md_imports = [], md_entities = [], md_queues = [], md_providers = [],
     md_controllers = [MenuAdminController], md_exports = []\<rparr>"

definition AuthModule_decl :: module_decl where
  "AuthModule_decl = \<lparr>md_imports = [], md_entities = [], md_queues = [], md_providers = [],
     md_controllers = [AuthController], md_exports = []\<rparr>"

definition NotificationModule_decl :: module_decl where
  "NotificationModule_decl = \<lparr>md_imports = [], md_entities = [], md_queues = [],
     md_providers = [NotificationService, AppLogger], md_controllers = [], md_exports = [NotificationService]\<rparr>"

lemmas module_defs = AppModule_decl_def OrderSharedModule_decl_def OrderApiModule_decl_def
  OrderWorkerModule_decl_def AdminModule_decl_def MenuAdminModule_decl_def AuthModule_decl_def
  NotificationModule_decl_def

fun module_decl_of :: "nest_module \<Rightarrow> module_decl" where
  "module_decl_of AppModule = AppModule_decl"
| "module_decl_of OrderApiModule = OrderApiModule_decl"
| "module_decl_of OrderWorkerModule = OrderWorkerModule_decl"
| "module_decl_of OrderSharedModule = OrderSharedModule_decl"
| "module_decl_of AdminModule = AdminModule_decl"
| "module_decl_of MenuAdminModule = MenuAdminModule_decl"
| "module_decl_of AuthModule = AuthModule_decl"
| "module_decl_of NotificationModule = NotificationModule_decl"

definition AppApiModule_imports :: "nest_module list" where
  "AppApiModule_imports = [AppModule, OrderApiModule, AdminModule, MenuAdminModule, AuthModule]"

definition AppWorkerModule_imports :: "nest_module list" where
  "AppWorkerModule_imports = [AppModule, OrderWorkerModule]"

definition AppAllModule_imports :: "nest_module list" where
  "AppAllModule_imports = [AppModule, OrderApiModule, OrderWorkerModule, AdminModule, MenuAdminModule, AuthModule]"

lemmas root_defs = AppApiModule_imports_def AppWorkerModule_imports_def AppAllModule_imports_def

fun root_imports :: "root_module \<Rightarrow> nest_module list" where
  "root_imports ApiModule = AppApiModule_imports"
| "root_imports WorkerModule = AppWorkerModule_imports"
| "root_imports AllModule = AppAllModule_imports"

section \<open>What a process creates\<close>

text \<open>The modules of a process; imported modules import nothing further (modules_closed below).\<close>

definition modules_of :: "root_module \<Rightarrow> nest_module list" where
  "modules_of root = remdups (root_imports root @ concat (map (md_imports \<circ> module_decl_of) (root_imports root)))"

definition provided_by :: "nest_module \<Rightarrow> token list" where
  "provided_by m = md_providers (module_decl_of m) @ map InjectQueue (md_queues (module_decl_of m))"

definition entries :: "nest_module \<Rightarrow> token list" where
  "entries m = provided_by m @ map Handler (md_controllers (module_decl_of m))"

definition global_modules :: "nest_module list" where
  "global_modules = [AppModule]"

text \<open>The modules that can supply an entry of module m with t.\<close>

definition suppliers :: "root_module \<Rightarrow> nest_module \<Rightarrow> token \<Rightarrow> nest_module list" where
  "suppliers root m t =
     (if t \<in> set (provided_by m) then [m]
      else filter (\<lambda>m'. m' \<in> set (modules_of root) \<and> t \<in> set (provided_by m') \<and>
        t \<in> set (md_exports (module_decl_of m'))) (md_imports (module_decl_of m) @ global_modules))"

text \<open>The modules that create an instance of t.\<close>

definition instances :: "root_module \<Rightarrow> token \<Rightarrow> nest_module list" where
  "instances root t = filter (\<lambda>m. t \<in> set (entries m)) (modules_of root)"

definition depends_on :: "token \<Rightarrow> token \<Rightarrow> bool" where
  "depends_on t d \<longleftrightarrow> d \<in> set (dependencies t)"

text \<open>The entities that the database is opened with (app.module.ts).\<close>

definition database_entities :: "string list" where
  "database_entities = [''OrderEntity'', ''OrderItemEntity'', ''OrderStateTransitionEntity'', ''StoreEntity'',
     ''MenuEntity'']"

section \<open>Lemmas\<close>

lemma module_in_cases:
  "m \<in> set (modules_of root) \<Longrightarrow> (m = NotificationModule \<or> m = OrderWorkerModule \<longrightarrow> root \<noteq> ApiModule) \<and>
     (m \<in> {OrderApiModule, AdminModule, MenuAdminModule, AuthModule} \<longrightarrow> root \<noteq> WorkerModule)"
  by (cases root) (auto simp: modules_of_def root_defs module_defs)

lemma modules_closed:
  "m \<in> set (modules_of root) \<Longrightarrow> set (md_imports (module_decl_of m)) \<subseteq> set (modules_of root) \<and>
     set global_modules \<subseteq> set (modules_of root)"
  by (cases root; cases m) (simp_all add: modules_of_def root_defs module_defs global_modules_def)

text \<open>An entry is created after what it injects.\<close>

fun creation_rank :: "token \<Rightarrow> nat" where
  "creation_rank ConfigService = 0"
| "creation_rank DataSource = 0"
| "creation_rank (InjectQueue _) = 0"
| "creation_rank AppLogger = 0"
| "creation_rank PosAdapterFactory = 0"
| "creation_rank (InjectRedis _) = 1"
| "creation_rank CreateOrderService = 3"
| "creation_rank ProcessOrderService = 3"
| "creation_rank AdminService = 3"
| "creation_rank (Consumer _) = 4"
| "creation_rank (Handler _) = 4"
| "creation_rank _ = 2"

lemma depends_on_rank: "depends_on t d \<Longrightarrow> creation_rank d < creation_rank t"
  by (cases t rule: dependencies.cases) (auto simp: depends_on_def constructor_defs)

lemma depends_on_acyclic: "depends_on\<^sup>+\<^sup>+ t d \<Longrightarrow> creation_rank d < creation_rank t"
  by (induction rule: tranclp_induct) (auto dest: depends_on_rank)

text \<open>Evaluated for each process.\<close>

definition supplied :: "root_module \<Rightarrow> nest_module \<Rightarrow> bool" where
  "supplied root m = list_all (\<lambda>t. list_all (\<lambda>d. length (suppliers root m d) = 1 \<and>
     set (suppliers root m d) \<subseteq> set (modules_of root)) (dependencies t)) (entries m)"

lemma api_supplied: "list_all (supplied ApiModule) (modules_of ApiModule)"
  by code_simp

lemma worker_supplied: "list_all (supplied WorkerModule) (modules_of WorkerModule)"
  by code_simp

lemma all_supplied: "list_all (supplied AllModule) (modules_of AllModule)"
  by code_simp

lemma modules_supplied:
  assumes "m \<in> set (modules_of root)" and t: "t \<in> set (entries m)" and d: "d \<in> set (dependencies t)"
  shows "\<exists>s \<in> set (modules_of root). suppliers root m d = [s]"
proof -
  have "supplied root m"
    using assms(1) api_supplied worker_supplied all_supplied by (cases root) (auto simp: list_all_iff)
  with t d have "length (suppliers root m d) = 1" "set (suppliers root m d) \<subseteq> set (modules_of root)"
    by (auto simp: supplied_def list_all_iff)
  then show ?thesis by (auto simp: length_Suc_conv)
qed

text \<open>C32: in every process each entry of each module gets all that its constructor injects, from exactly one
  module; no entry waits for itself; a module exports only what it provides and has only entities
  that the database is opened with.\<close>

theorem modules_resolve:
  assumes "m \<in> set (modules_of root)"
  shows "(\<forall>t \<in> set (entries m). (\<forall>d \<in> set (dependencies t). \<exists>s \<in> set (modules_of root). suppliers root m d = [s]) \<and>
      \<not> depends_on\<^sup>+\<^sup>+ t t) \<and>
    set (md_exports (module_decl_of m)) \<subseteq> set (provided_by m) \<and>
    set (md_entities (module_decl_of m)) \<subseteq> set database_entities"
proof -
  have "set (md_exports (module_decl_of m)) \<subseteq> set (provided_by m) \<and>
      set (md_entities (module_decl_of m)) \<subseteq> set database_entities"
    by (cases m) (simp_all add: module_defs provided_by_def database_entities_def)
  then show ?thesis using modules_supplied [OF assms] depends_on_acyclic by blast
qed

theorem modules_resolve_witness:
  "suppliers WorkerModule OrderWorkerModule AppLogger = [OrderSharedModule] \<and>
   (\<exists>s. suppliers WorkerModule OrderWorkerModule DataSource = [s])"
proof -
  have m: "OrderWorkerModule \<in> set (modules_of WorkerModule)"
    by (simp add: modules_of_def root_defs module_defs)
  from modules_resolve [OF m] have "\<exists>s. suppliers WorkerModule OrderWorkerModule DataSource = [s]"
    by (simp add: entries_def provided_by_def module_defs constructor_defs) blast
  then show ?thesis
    by (simp add: suppliers_def modules_of_def root_defs module_defs provided_by_def global_modules_def)
qed

text \<open>
  The services that keep a state of their own exist once in a process, so one model of their
  state is enough. The queue service and the logger may exist more than once.
\<close>

lemma services_once:
  "t \<in> {InjectRedis c, PosCircuitBreakerService, OrderGateway, IdempotencyService, DistributedLockService} \<Longrightarrow>
     instances root t = [OrderSharedModule]"
  by (cases root; cases c) (auto simp: instances_def modules_of_def root_defs module_defs entries_def provided_by_def)

definition worker_services :: "token set" where
  "worker_services = {ConfigService, DataSource, InjectQueue ORDERS_QUEUE_NAME, InjectQueue DLQ_QUEUE_NAME,
     InjectRedis LOCK_REDIS, InjectRedis CACHE_REDIS, AppLogger, OrderRepository, DistributedLockService,
     PosCircuitBreakerService, PosAdapterFactory, OrderQueueService, ProcessOrderService, NotificationService,
     Consumer OrderProcessor, Consumer DlqProcessor, Consumer QueueMetricsService}"

lemma worker_services_closed: "t \<in> worker_services \<Longrightarrow> depends_on t d \<Longrightarrow> d \<in> worker_services"
  by (auto simp: worker_services_def depends_on_def constructor_defs)

lemma consumers_use: "depends_on\<^sup>*\<^sup>* (Consumer c) d \<Longrightarrow> d \<in> worker_services"
proof (induction rule: rtranclp_induct)
  case base
  show ?case by (cases c) (simp_all add: worker_services_def)
qed (rule worker_services_closed)

text \<open>What a worker makes of an order is told to nobody: in no process does anything that consumes
  jobs have the socket gateway, directly or through other services, and no process creates the
  publisher of status events or the payment bridge at all.\<close>

lemma worker_tells_nobody:
  "\<not> depends_on\<^sup>*\<^sup>* (Consumer c) OrderGateway \<and>
   instances root OrderStatusPublisherService = [] \<and> instances root BbqBridgeService = []"
proof
  show "\<not> depends_on\<^sup>*\<^sup>* (Consumer c) OrderGateway"
    using consumers_use [of c OrderGateway] by (auto simp: worker_services_def)
  show "instances root OrderStatusPublisherService = [] \<and> instances root BbqBridgeService = []"
    by (cases root) (simp_all add: instances_def modules_of_def root_defs module_defs entries_def provided_by_def)
qed

end
