(* ===== verification/Wiring.thy ===== *)
theory Wiring
  imports Modules Auth_Otp
begin

text \<open>
  How the processes are put together: main.ts and the modules decide what a process serves and
  consumes, and with which options the database, the queues, the workers and the Redis clients
  are opened. Also the trace
  storage and the logger (src/common), and the SMS service behind AuthController.sendSms. The
  libraries are parameters: what the file .env adds to the environment, new URL, the HMAC
  function and fetch.
\<close>

section \<open>Processes\<close>

text \<open>The consumers of jobs among the providers of a module.\<close>

definition module_consumers :: "nest_module \<Rightarrow> job_consumer list" where
  "module_consumers m =
     concat (map (\<lambda>t. case t of Consumer c \<Rightarrow> [c] | _ \<Rightarrow> []) (md_providers (module_decl_of m)))"

text \<open>
  main.ts: env is the environment the process is started with, loaded what it is once the root
  module has read the file .env. The mode is read before, the port after.
\<close>

record process_plan =
  pp_root :: root_module
  pp_controllers :: "controller list"
  pp_consumers :: "job_consumer list"
  pp_validation :: "string list" \<comment> \<open>the options of the validation pipe that are on\<close>
  pp_listen :: "int option option" \<comment> \<open>app.listen and its port\<close>

definition bootstrap :: "environment \<Rightarrow> environment \<Rightarrow> process_plan" where
  "bootstrap env loaded =
     (let mode = env_or env ''APP_MODE'' ''all'';
          root = root_module_of mode;
          modules = root_imports root
      in \<lparr>pp_root = root, pp_controllers = concat (map (md_controllers \<circ> module_decl_of) modules),
          pp_consumers = concat (map module_consumers modules),
          pp_validation = [''whitelist'', ''forbidNonWhitelisted'', ''transform''],
          pp_listen = (if mode = ''worker'' then None else Some (env_int loaded ''PORT'' ''3000''))\<rparr>)"

text \<open>SIGTERM closes the application and ends the process; a close that fails leaves it running.\<close>

datatype shutdown_event = ShutdownStart | AppClose | ShutdownComplete | ExitProcess nat

definition on_sigterm :: "error + unit \<Rightarrow> shutdown_event list" where
  "on_sigterm closed =
     [ShutdownStart, AppClose] @ (case closed of Inl _ \<Rightarrow> [] | Inr _ \<Rightarrow> [ShutdownComplete, ExitProcess 0])"

text \<open>What the process does once bootstrap has ended: a failed start ends it.\<close>

datatype start_event = StartFailed message | StartExit nat

definition on_bootstrap :: "error + process_plan \<Rightarrow> start_event list" where
  "on_bootstrap started =
     (case started of Inl err \<Rightarrow> [StartFailed (err_message err), StartExit 1] | Inr _ \<Rightarrow> [])"

section \<open>Settings that services keep\<close>

text \<open>The defaults of config.get are never used: the settings object has these keys.\<close>

definition lock_ttl :: "environment \<Rightarrow> int option" where
  "lock_ttl env = cf_lockTtlSeconds (configuration_of env)"

definition idempotency_ttl :: "environment \<Rightarrow> int option" where
  "idempotency_ttl env = cf_idempotencyTtlSeconds (configuration_of env)"

definition breaker_settings :: "environment \<Rightarrow> int option \<times> int option" where
  "breaker_settings env =
     (cf_failureThreshold (configuration_of env), cf_openDurationMs (configuration_of env))"

definition queue_settings :: "environment \<Rightarrow> int option \<times> int option" where
  "queue_settings env = (cf_maxAttempts (configuration_of env), cf_baseDelayMs (configuration_of env))"

definition bridge_settings :: "environment \<Rightarrow> string \<times> string" where
  "bridge_settings env = (cf_bbqGatewayUrl (configuration_of env), cf_bbqApiKey (configuration_of env))"

definition metrics_region :: "environment \<Rightarrow> string" where
  "metrics_region env =
     (case env ''AWS_REGION'' of Some r \<Rightarrow> r
      | None \<Rightarrow> (case env ''AWS_DEFAULT_REGION'' of Some r \<Rightarrow> r | None \<Rightarrow> ''ap-northeast-2''))"

section \<open>The database\<close>

record database_options =
  do_connection :: connection
  do_username :: string
  do_database :: string
  do_entities :: "string list"
  do_synchronize :: bool
  do_logging :: bool
  do_ssl :: bool \<comment> \<open>encrypted; certificates are never checked\<close>
  do_poolMax :: "int option"
  do_idleTimeoutMillis :: nat
  do_connectionTimeoutMillis :: nat
  do_statementTimeout :: nat

definition database_options_of :: "environment \<Rightarrow> database_options" where
  "database_options_of env =
     (let config = configuration_of env in
      \<lparr>do_connection = cf_database config, do_username = cf_username config,
       do_database = cf_databaseName config,
       do_entities = database_entities,
       do_synchronize = False,
       do_logging = (env ''NODE_ENV'' \<noteq> Some ''production''),
       do_ssl = ((case env ''DATABASE_HOST'' of None \<Rightarrow> False | Some h \<Rightarrow> has_text h ''neon.tech'') \<or>
         env ''NODE_ENV'' = Some ''production''),
       do_poolMax = env_int env ''DB_POOL_MAX'' ''30'', do_idleTimeoutMillis = 30000,
       do_connectionTimeoutMillis = 5000, do_statementTimeout = 5000\<rparr>)"

section \<open>Queues, workers and Redis clients\<close>

text \<open>
  Every module that uses the queues opens its own connections. The API and the worker use
  buildRedisOptions, the admin module only the host and the port of the settings.
\<close>

datatype queue_owner = ByApi | ByWorker | ByAdmin

fun queue_connection ::
  "(string \<Rightarrow> error + parsed_url) \<Rightarrow> environment \<Rightarrow> queue_owner \<Rightarrow> error + connection" where
  "queue_connection new_URL env ByAdmin =
     (let redis = cf_redis (configuration_of env)
      in Inr \<lparr>cn_host = cn_host redis, cn_port = cn_port redis, cn_password = None, cn_tls = False\<rparr>)"
| "queue_connection new_URL env _ = buildRedisOptions new_URL env"

record queue_defaults =
  qo_attempts :: "int option"
  qo_backoffDelay :: "int option"
  qo_removeOnComplete :: retention
  qo_removeOnFail :: retention

definition worker_queue_defaults :: "environment \<Rightarrow> queue_defaults" where
  "worker_queue_defaults env =
     \<lparr>qo_attempts = env_int env ''MAX_RETRY_ATTEMPTS'' ''3'',
      qo_backoffDelay = env_int env ''RETRY_BASE_DELAY_MS'' ''1000'',
      qo_removeOnComplete = KeepCount 1000, qo_removeOnFail = Keep\<rparr>"

record worker_options =
  wo_concurrency :: "int option"
  wo_limiterMax :: "int option"
  wo_limiterDuration :: nat

definition order_worker_options :: "environment \<Rightarrow> worker_options" where
  "order_worker_options env =
     \<lparr>wo_concurrency = env_int env ''WORKER_CONCURRENCY'' ''20'',
      wo_limiterMax = env_int env ''WORKER_RATE_LIMIT'' ''100'', wo_limiterDuration = 1000\<rparr>"

definition WORKER_ID :: "environment \<Rightarrow> nat \<Rightarrow> string" where
  "WORKER_ID env pid = ''worker-'' @ env_or env ''HOSTNAME'' ''local'' @ ''-'' @ show_nat pid"

record client_options =
  co_connection :: connection
  co_keyPrefix :: string
  co_maxRetriesPerRequest :: "nat option" \<comment> \<open>None: a command waits for the reconnection\<close>

definition makeRedisProvider ::
  "(string \<Rightarrow> error + parsed_url) \<Rightarrow> environment \<Rightarrow> string \<Rightarrow> error + client_options" where
  "makeRedisProvider new_URL env prefix =
     bind_res (buildRedisOptions new_URL env) (\<lambda>conn.
       Inr \<lparr>co_connection = conn, co_keyPrefix = prefix, co_maxRetriesPerRequest = None\<rparr>)"

definition TRANSIENT_ERRORS :: "string list" where
  "TRANSIENT_ERRORS = [''ECONNRESET'', ''EPIPE'', ''ENOTFOUND'', ''ETIMEDOUT'']"

text \<open>The listener of a client's errors: what it prints.\<close>

definition on_redis_error :: "string option \<Rightarrow> string \<Rightarrow> string option" where
  "on_redis_error errCode message =
     (if (case errCode of None \<Rightarrow> [] | Some c \<Rightarrow> c) \<notin> set TRANSIENT_ERRORS then Some message else None)"

section \<open>Trace storage and logger\<close>

type_synonym fields = "(string \<times> json) list"

text \<open>{ ...a, ...b }: b's values win, at the place where the name first occurs.\<close>

definition spread :: "fields \<Rightarrow> fields \<Rightarrow> fields" where
  "spread a b = map (\<lambda>(f, v). (f, case map_of b f of Some v' \<Rightarrow> v' | None \<Rightarrow> v)) a @
     filter (\<lambda>(f, _). f \<notin> fst ` set a) b"

record trace_context =
  tc_traceId :: string
  tc_orderId :: "string option"
  tc_storeId :: "string option"
  tc_workerId :: "string option"

definition trace_fields :: "trace_context \<Rightarrow> fields" where
  "trace_fields c = (''traceId'', JStr (tc_traceId c)) #
     concat (map (\<lambda>(f, v). case v of None \<Rightarrow> [] | Some x \<Rightarrow> [(f, JStr x)])
       [(''orderId'', tc_orderId c), (''storeId'', tc_storeId c), (''workerId'', tc_workerId c)])"

text \<open>The store of the running call, None outside of any; a nested run hides the outer one.\<close>

definition getTraceContext :: "trace_context option \<Rightarrow> fields" where
  "getTraceContext store = (case store of None \<Rightarrow> [] | Some c \<Rightarrow> trace_fields c)"

definition runWithTrace :: "trace_context \<Rightarrow> (trace_context option \<Rightarrow> 'a) \<Rightarrow> trace_context option \<Rightarrow> 'a" where
  "runWithTrace ctx fn outer = fn (Some ctx)"

record pino_options =
  po_level :: string
  po_pretty :: bool
  po_base :: fields

definition pino_options_of :: "environment \<Rightarrow> pino_options" where
  "pino_options_of env =
     \<lparr>po_level = env_or env ''LOG_LEVEL'' ''info'', po_pretty = (env ''NODE_ENV'' \<noteq> Some ''production''),
      po_base = [(''service'', JStr (env_or env ''APP_MODE'' ''app'')),
        (''instanceId'', JStr (env_or env ''HOSTNAME'' ''local''))]\<rparr>"

datatype log_level = LTrace | LDebug | LInfo | LWarn | LError

record logger_state =
  lg_ctx :: fields
  lg_lines :: "(log_level \<times> fields) list"

datatype log_data = Text string | Fields fields

definition setContext :: "fields \<Rightarrow> logger_state \<Rightarrow> logger_state" where
  "setContext context s = s\<lparr>lg_ctx := context\<rparr>"

definition log_base :: "trace_context option \<Rightarrow> logger_state \<Rightarrow> fields" where
  "log_base store s = spread (getTraceContext store) (lg_ctx s)"

definition pino_line ::
  "log_level \<Rightarrow> trace_context option \<Rightarrow> fields \<Rightarrow> logger_state \<Rightarrow> logger_state" where
  "pino_line level store data s =
     s\<lparr>lg_lines := lg_lines s @ [(level, spread (log_base store s) data)]\<rparr>"

fun log_log :: "trace_context option \<Rightarrow> log_data \<Rightarrow> logger_state \<Rightarrow> logger_state" where
  "log_log store (Text m) s = pino_line LInfo store [(''message'', JStr m)] s"
| "log_log store (Fields d) s = pino_line LInfo store d s"

definition log_info :: "trace_context option \<Rightarrow> fields \<Rightarrow> logger_state \<Rightarrow> logger_state" where
  "log_info = pino_line LInfo"

definition log_warn :: "trace_context option \<Rightarrow> fields \<Rightarrow> logger_state \<Rightarrow> logger_state" where
  "log_warn = pino_line LWarn"

text \<open>An undefined trace is not written.\<close>

fun log_error :: "trace_context option \<Rightarrow> log_data \<Rightarrow> string option \<Rightarrow> logger_state \<Rightarrow> logger_state" where
  "log_error store (Text m) trace s =
     pino_line LError store ((''message'', JStr m) # (case trace of None \<Rightarrow> [] | Some t \<Rightarrow> [(''trace'', JStr t)])) s"
| "log_error store (Fields d) trace s = pino_line LError store d s"

definition log_debug :: "trace_context option \<Rightarrow> fields \<Rightarrow> logger_state \<Rightarrow> logger_state" where
  "log_debug = pino_line LDebug"

definition log_verbose :: "trace_context option \<Rightarrow> string \<Rightarrow> logger_state \<Rightarrow> logger_state" where
  "log_verbose store m = pino_line LTrace store [(''message'', JStr m)]"

section \<open>What the gateway and the worker log\<close>

definition log_handleConnection :: "trace_context option \<Rightarrow> string \<Rightarrow> logger_state \<Rightarrow> logger_state" where
  "log_handleConnection store client =
     log_info store [(''event'', JStr ''SOCKET_CONNECTED''), (''socketId'', JStr client)]"

definition log_handleDisconnect :: "trace_context option \<Rightarrow> string \<Rightarrow> logger_state \<Rightarrow> logger_state" where
  "log_handleDisconnect store client =
     log_info store [(''event'', JStr ''SOCKET_DISCONNECTED''), (''socketId'', JStr client)]"

definition log_joinStoreRoom ::
  "trace_context option \<Rightarrow> string \<Rightarrow> string option \<Rightarrow> logger_state \<Rightarrow> logger_state" where
  "log_joinStoreRoom store client storeId s =
     (case storeId of None \<Rightarrow> s | Some i \<Rightarrow> if i = [] then s
      else log_info store [(''event'', JStr ''POS_JOINED''), (''storeId'', JStr i), (''socketId'', JStr client)] s)"

definition onCompleted :: "trace_context option \<Rightarrow> string \<Rightarrow> logger_state \<Rightarrow> logger_state" where
  "onCompleted store jobId = log_debug store [(''event'', JStr ''JOB_COMPLETED''), (''jobId'', JStr jobId)]"

section \<open>The SMS service\<close>

record sms_request =
  sr_authorization :: string
  sr_to :: string
  sr_from :: string
  sr_text :: string

datatype sms_event =
    SmsDevMode string string
  | SmsPosted sms_request
  | SmsRefused nat string
  | SmsFailed string

text \<open>fetch answers with a status and a text, or throws; the state is what was done, in order.\<close>

definition sendSms ::
  "environment \<Rightarrow> (string \<Rightarrow> string \<Rightarrow> string) \<Rightarrow> string \<Rightarrow> time \<Rightarrow> (sms_request \<Rightarrow> string + nat \<times> string) \<Rightarrow>
   string \<Rightarrow> string \<Rightarrow> (sms_event list, error, unit) comp" where
  "sendSms env hmac salt now fetch to text log =
     (let apiKey = env ''SOLAPI_API_KEY''; apiSecret = env ''SOLAPI_API_SECRET'';
          sender = env ''SOLAPI_SENDER''
      in if \<not> truthy apiKey \<or> \<not> truthy apiSecret \<or> \<not> truthy sender
         then (Inr (), log @ [SmsDevMode to text])
         else
           (let date = iso_datetime now;
                signature = hmac (the apiSecret) (date @ salt);
                rq = \<lparr>sr_authorization = ''HMAC-SHA256 apiKey='' @ the apiKey @ '', date='' @ date @
                        '', salt='' @ salt @ '', signature='' @ signature,
                      sr_to = to, sr_from = the sender, sr_text = text\<rparr>
            in case fetch rq of
                 Inl why \<Rightarrow> (Inr (), log @ [SmsPosted rq, SmsFailed why])
               | Inr (status, body) \<Rightarrow>
                   (Inr (), log @ (SmsPosted rq # (if 200 \<le> status \<and> status < 300 then []
                      else [SmsRefused status body])))))"

section \<open>Lemmas\<close>

lemma map_of_map_value: "map_of (map (\<lambda>(g, v). (g, h g v)) a) f = map_option (h f) (map_of a f)"
  by (induction a) auto

lemma map_of_filter_key: "map_of (filter (\<lambda>(g, _). g \<notin> A) b) f = (if f \<in> A then None else map_of b f)"
  by (induction b) auto

lemma map_of_spread: "map_of (spread a b) f = (case map_of b f of Some v \<Rightarrow> Some v | None \<Rightarrow> map_of a f)"
proof (cases "map_of a f")
  case None
  then have "f \<notin> fst ` set a" by (simp add: map_of_eq_None_iff)
  then show ?thesis
    using None by (simp add: spread_def map_add_def map_of_map_value map_of_filter_key split: option.split)
next
  case (Some v)
  then have "f \<in> fst ` set a" by (force dest: map_of_SomeD)
  then show ?thesis
    using Some by (simp add: spread_def map_add_def map_of_map_value map_of_filter_key split: option.split)
qed

lemma sendSms_total: "\<exists>evs. sendSms env hmac salt now fetch to text log = (Inr (), log @ evs)"
  by (auto simp: sendSms_def Let_def split: sum.splits)

lemma sendSms_unconfigured:
  "env ''SOLAPI_API_KEY'' = None \<Longrightarrow>
     sendSms env hmac salt now fetch to text log = (Inr (), log @ [SmsDevMode to text])"
  by (simp add: sendSms_def truthy_def)

section \<open>Properties\<close>

lemma queue_owners_agree: "queue_connection new_URL env ByApi = queue_connection new_URL env ByWorker"
  by simp

text \<open>The worker's own defaults for jobs are those that the producers pass along.\<close>

lemma worker_defaults_agree:
  "cf_maxAttempts (configuration_of env) = Some (int n) \<Longrightarrow> cf_baseDelayMs (configuration_of env) = Some (int d) \<Longrightarrow>
     worker_queue_defaults env =
       \<lparr>qo_attempts = Some (int (opt_attempts (defaultJobOptions n d j))), qo_backoffDelay = Some (int d),
        qo_removeOnComplete = opt_removeOnComplete (defaultJobOptions n d j),
        qo_removeOnFail = opt_removeOnFail (defaultJobOptions n d j)\<rparr> \<and>
     opt_backoff (defaultJobOptions n d j) = Some (Backoff_exponential d)"
  by (simp add: worker_queue_defaults_def configuration_of_def defaultJobOptions_def)

text \<open>The admin module reaches the queues of the workers only if Redis is set up by host and port
  alone: a password or TLS in the settings, or a URL with a password, TLS or another host, and its
  connection is a different one.\<close>

theorem admin_queue_same_redis:
  shows "if truthy (env ''REDIS_URL'')
    then \<forall>u. new_URL (the (env ''REDIS_URL'')) = Inr u \<and> (pu_password u \<noteq> [] \<or>
        starts_with ''rediss://'' (the (env ''REDIS_URL'')) \<or> pu_hostname u \<noteq> cn_host (redis_settings env)) \<longrightarrow>
      queue_connection new_URL env ByAdmin \<noteq> queue_connection new_URL env ByWorker
    else queue_connection new_URL env ByAdmin = queue_connection new_URL env ByWorker \<longleftrightarrow>
      \<not> truthy (env ''REDIS_PASSWORD'') \<and> env ''REDIS_TLS'' \<noteq> Some ''true''"
  by (auto simp: buildRedisOptions_def configuration_of_def redis_settings_def Let_def truthy_def
      split: option.splits if_splits)

theorem admin_queue_same_redis_witness:
  "let env = (\<lambda>x. if x = ''REDIS_TLS'' then Some ''true'' else None) in
   queue_connection (\<lambda>_. Inl (mk_error TypeError (TextMsg ''Invalid URL''))) env ByAdmin \<noteq>
     queue_connection (\<lambda>_. Inl (mk_error TypeError (TextMsg ''Invalid URL''))) env ByWorker"
  using admin_queue_same_redis [of "\<lambda>x. if x = ''REDIS_TLS'' then Some ''true'' else None"
      "\<lambda>_. Inl (mk_error TypeError (TextMsg ''Invalid URL''))"]
  by (simp add: truthy_def)

end
