(* ===== verification/Deployment.thy ===== *)
theory Deployment
  imports Wiring Order_Api
begin

text \<open>
  The deployment (src/infra): what the stacks of bin/app.ts and lib hand to the cloud, for each
  stage, as data: networks, database, Redis, image repository, roles, the tasks of the two
  services with the environments of their containers, scaling, and alarms. Addresses that the
  cloud assigns are parameters, and so is what the image and the platform add to a
  container's environment.
\<close>

datatype stage = Staging | Production

fun stage_name :: "stage \<Rightarrow> string" where
  "stage_name Staging = ''staging''"
| "stage_name Production = ''production''"

abbreviation isProd :: "stage \<Rightarrow> bool" where
  "isProd s \<equiv> s = Production"

section \<open>Network, repository and roles\<close>

datatype subnet_type = PublicSubnet | PrivateWithEgress

record network =
  nw_name :: string
  nw_maxAzs :: nat
  nw_natGateways :: nat
  nw_subnets :: "(string \<times> nat \<times> subnet_type) list" \<comment> \<open>name and mask\<close>
  nw_flowLog :: bool

definition network_stack :: "stage \<Rightarrow> network" where
  "network_stack s =
     \<lparr>nw_name = ''order-system-'' @ stage_name s, nw_maxAzs = 2,
      nw_natGateways = (if isProd s then 2 else 1),
      nw_subnets = [(''Public'', 24, PublicSubnet), (''Private'', 24, PrivateWithEgress)],
      nw_flowLog = isProd s\<rparr>"

record lifecycle_rule =
  lr_priority :: nat
  lr_tagPrefixes :: "string list"
  lr_maxImageCount :: nat

record repository =
  rp_name :: string
  rp_lifecycle :: "lifecycle_rule list"
  rp_scanOnPush :: bool
  rp_retained :: bool

definition ecr_stack :: repository where
  "ecr_stack =
     \<lparr>rp_name = ''chicken-order-system'',
      rp_lifecycle =
        [\<lparr>lr_priority = 1, lr_tagPrefixes = [''staging-''], lr_maxImageCount = 10\<rparr>,
         \<lparr>lr_priority = 2, lr_tagPrefixes = [''v-''], lr_maxImageCount = 30\<rparr>],
      rp_scanOnPush = True, rp_retained = True\<rparr>"

definition image_tag :: "stage \<Rightarrow> string" where
  "image_tag s = (if isProd s then ''latest'' else ''staging'')"

record policy_statement =
  ps_actions :: "string list"
  ps_resources :: "string list"
  ps_conditions :: "(string \<times> string \<times> string) list" \<comment> \<open>operator, key, value\<close>

record github_role =
  gr_name :: string
  gr_provider :: string
  gr_trust :: "(string \<times> string \<times> string) list"
  gr_policy :: "policy_statement list"

definition iam_stack :: "string \<Rightarrow> string \<Rightarrow> string \<Rightarrow> github_role" where
  "iam_stack ecrArn githubOrg githubRepo =
     \<lparr>gr_name = ''order-system-github-actions'',
      gr_provider = ''https://token.actions.githubusercontent.com'',
      gr_trust =
        [(''StringLike'', ''token.actions.githubusercontent.com:sub'', ''repo:'' @ githubOrg @ ''/'' @ githubRepo @ '':*''),
         (''StringEquals'', ''token.actions.githubusercontent.com:aud'', ''sts.amazonaws.com'')],
      gr_policy =
        [\<lparr>ps_actions = [''ecr:GetAuthorizationToken'', ''ecr:BatchCheckLayerAvailability'',
            ''ecr:GetDownloadUrlForLayer'', ''ecr:BatchGetImage'', ''ecr:InitiateLayerUpload'',
            ''ecr:UploadLayerPart'', ''ecr:CompleteLayerUpload'', ''ecr:PutImage''],
          ps_resources = [ecrArn, ecrArn @ '':*''], ps_conditions = []\<rparr>,
         \<lparr>ps_actions = [''ecr:GetAuthorizationToken''], ps_resources = [''*''], ps_conditions = []\<rparr>,
         \<lparr>ps_actions = [''ecs:DescribeServices'', ''ecs:DescribeTaskDefinition'', ''ecs:DescribeTasks'',
            ''ecs:ListTasks'', ''ecs:RegisterTaskDefinition'', ''ecs:UpdateService''],
          ps_resources = [''*''], ps_conditions = []\<rparr>,
         \<lparr>ps_actions = [''iam:PassRole''], ps_resources = [''*''],
          ps_conditions = [(''StringLike'', ''iam:PassedToService'', ''ecs-tasks.amazonaws.com'')]\<rparr>,
         \<lparr>ps_actions = [''codedeploy:CreateDeployment'', ''codedeploy:GetDeployment'',
            ''codedeploy:GetDeploymentConfig'', ''codedeploy:RegisterApplicationRevision''],
          ps_resources = [''*''], ps_conditions = []\<rparr>]\<rparr>"

text \<open>The role the tasks run under.\<close>

definition task_role :: "policy_statement list" where
  "task_role = [\<lparr>ps_actions = [''cloudwatch:PutMetricData''], ps_resources = [''*''], ps_conditions = []\<rparr>]"

text \<open>The role ECS starts the tasks with: managed policies and secrets that it may read.\<close>

definition execution_role :: "stage \<Rightarrow> string list \<times> string list" where
  "execution_role s = ([''service-role/AmazonECSTaskExecutionRolePolicy''], [''/order-system/'' @ stage_name s @ ''/db''])"

text \<open>The repository whose workflows may take the role.\<close>

definition app_github_role :: "string \<Rightarrow> github_role" where
  "app_github_role ecrArn = iam_stack ecrArn ''asenjoy33324332-tech'' ''chicken-order-system''"

section \<open>Database and Redis\<close>

record ingress =
  ig_port :: nat
  ig_description :: string

definition data_ingress :: "ingress \<times> ingress" where
  "data_ingress = (\<lparr>ig_port = 5432, ig_description = ''ECS to RDS''\<rparr>,
     \<lparr>ig_port = 6379, ig_description = ''ECS to Redis''\<rparr>)"

record db_instance =
  di_secretName :: string
  di_username :: string
  di_punctuation :: bool \<comment> \<open>in the generated password\<close>
  di_engine :: "string \<times> nat"
  di_class :: "string \<times> string"
  di_databaseName :: string
  di_subnets :: subnet_type
  di_multiAz :: bool
  di_autoMinorUpgrade :: bool
  di_backupDays :: nat
  di_deletionProtection :: bool
  di_retained :: bool
  di_parameters :: "(string \<times> string) list"
  di_replica :: "(string \<times> string) option"

definition db_parameters :: "(string \<times> string) list" where
  "db_parameters =
     [(''statement_timeout'', ''5000''), (''idle_in_transaction_session_timeout'', ''30000''),
      (''log_min_duration_statement'', ''1000''), (''autovacuum_vacuum_scale_factor'', ''0.01''),
      (''autovacuum_analyze_scale_factor'', ''0.005''), (''autovacuum_vacuum_cost_delay'', ''2''),
      (''autovacuum_max_workers'', ''5''), (''autovacuum_vacuum_threshold'', ''50''),
      (''autovacuum_analyze_threshold'', ''50'')]"

definition database_of :: "stage \<Rightarrow> db_instance" where
  "database_of s =
     \<lparr>di_secretName = ''/order-system/'' @ stage_name s @ ''/db'', di_username = ''orderuser'',
      di_punctuation = False, di_engine = (''postgres'', 15),
      di_class = (if isProd s then (''R7G'', ''XLARGE'') else (''T4G'', ''MICRO'')),
      di_databaseName = ''orderdb'', di_subnets = PrivateWithEgress, di_multiAz = isProd s,
      di_autoMinorUpgrade = True, di_backupDays = (if isProd s then 7 else 1),
      di_deletionProtection = isProd s, di_retained = isProd s, di_parameters = db_parameters,
      di_replica = (if isProd s then Some (''R7G'', ''LARGE'') else None)\<rparr>"

record redis_cluster =
  rc_engine :: "string \<times> string"
  rc_nodes :: nat
  rc_nodeType :: string
  rc_automaticFailover :: bool
  rc_multiAz :: bool
  rc_atRestEncryption :: bool
  rc_transitEncryption :: bool
  rc_snapshotLimit :: nat
  rc_snapshotWindow :: string
  rc_parameters :: "(string \<times> string) list"
  rc_port :: nat

definition redis_of :: "stage \<Rightarrow> redis_cluster" where
  "redis_of s =
     \<lparr>rc_engine = (''redis'', ''7.1''), rc_nodes = (if isProd s then 2 else 1),
      rc_nodeType = (if isProd s then ''cache.r7g.large'' else ''cache.t3.micro''),
      rc_automaticFailover = isProd s, rc_multiAz = isProd s, rc_atRestEncryption = True,
      rc_transitEncryption = True, rc_snapshotLimit = (if isProd s then 5 else 0),
      rc_snapshotWindow = ''03:00-04:00'',
      rc_parameters = [(''maxmemory-policy'', ''noeviction''), (''tcp-keepalive'', ''60'')],
      rc_port = 6379\<rparr>"

definition redis_subnet_group :: "stage \<Rightarrow> string \<times> subnet_type" where
  "redis_subnet_group s = (''Order system Redis subnet group ('' @ stage_name s @ '')'', PrivateWithEgress)"

section \<open>The two services\<close>

record ecs_cluster =
  ec_name :: string
  ec_containerInsights :: bool

definition ecs_cluster_of :: "stage \<Rightarrow> ecs_cluster" where
  "ecs_cluster_of s = \<lparr>ec_name = ''order-system-'' @ stage_name s, ec_containerInsights = True\<rparr>"

datatype ecs_service = ApiService | WorkerService

record health_check =
  hc_command :: string
  hc_interval :: nat
  hc_timeout :: nat
  hc_retries :: nat
  hc_startPeriod :: nat

record container =
  ct_environment :: "(string \<times> string) list"
  ct_secrets :: "(string \<times> string) list" \<comment> \<open>variable and field of the database's secret\<close>
  ct_logGroup :: string
  ct_logDays :: nat
  ct_logRetained :: bool
  ct_logPrefix :: string
  ct_ports :: "nat list"
  ct_health :: "health_check option"

text \<open>The settings that both containers get with the same values.\<close>

definition retry_settings :: "(string \<times> string) list" where
  "retry_settings =
     [(''CB_FAILURE_THRESHOLD'', ''5''), (''CB_OPEN_DURATION_MS'', ''30000''), (''MAX_RETRY_ATTEMPTS'', ''3''),
      (''RETRY_BASE_DELAY_MS'', ''1000''), (''LOCK_TTL_SECONDS'', ''60''), (''IDEMPOTENCY_TTL_SECONDS'', ''86400'')]"

definition api_environment :: "string \<Rightarrow> nat \<Rightarrow> (string \<times> string) list" where
  "api_environment redisEndpoint redisPort =
     [(''APP_MODE'', ''api''), (''PORT'', ''3000''), (''DB_POOL_MAX'', ''30''), (''NODE_ENV'', ''production''),
      (''REDIS_HOST'', redisEndpoint), (''REDIS_PORT'', show_nat redisPort), (''DATABASE_NAME'', ''orderdb'')] @
     retry_settings"

definition worker_environment :: "string \<Rightarrow> nat \<Rightarrow> (string \<times> string) list" where
  "worker_environment redisEndpoint redisPort =
     [(''APP_MODE'', ''worker''), (''DB_POOL_MAX'', ''20''), (''NODE_ENV'', ''production''),
      (''REDIS_HOST'', redisEndpoint), (''REDIS_PORT'', show_nat redisPort), (''DATABASE_NAME'', ''orderdb''),
      (''WORKER_CONCURRENCY'', ''20''), (''WORKER_RATE_LIMIT'', ''100'')] @
     retry_settings"

definition container_secrets :: "(string \<times> string) list" where
  "container_secrets =
     [(''DATABASE_HOST'', ''host''), (''DATABASE_PORT'', ''port''), (''DATABASE_USER'', ''username''),
      (''DATABASE_PASSWORD'', ''password'')]"

definition log_days :: "stage \<Rightarrow> nat" where
  "log_days s = (if isProd s then 30 else 7)"

definition api_container :: "stage \<Rightarrow> string \<Rightarrow> nat \<Rightarrow> container" where
  "api_container s redisEndpoint redisPort =
     \<lparr>ct_environment = api_environment redisEndpoint redisPort, ct_secrets = container_secrets,
      ct_logGroup = ''/order-system/'' @ stage_name s @ ''/api'', ct_logDays = log_days s,
      ct_logRetained = isProd s, ct_logPrefix = ''api'', ct_ports = [3000],
      ct_health = Some \<lparr>hc_command = ''wget -qO- http://localhost:3000/admin/health || exit 1'',
        hc_interval = 30, hc_timeout = 5, hc_retries = 3, hc_startPeriod = 30\<rparr>\<rparr>"

definition worker_container :: "stage \<Rightarrow> string \<Rightarrow> nat \<Rightarrow> container" where
  "worker_container s redisEndpoint redisPort =
     \<lparr>ct_environment = worker_environment redisEndpoint redisPort, ct_secrets = container_secrets,
      ct_logGroup = ''/order-system/'' @ stage_name s @ ''/worker'', ct_logDays = log_days s,
      ct_logRetained = isProd s, ct_logPrefix = ''worker'', ct_ports = [],
      ct_health = None\<rparr>"

record metric_query =
  mq_namespace :: string
  mq_name :: string
  mq_stage :: string
  mq_queue :: string
  mq_period :: nat \<comment> \<open>seconds; the statistic is the maximum\<close>

definition waiting_jobs_metric :: "stage \<Rightarrow> metric_query" where
  "waiting_jobs_metric s =
     \<lparr>mq_namespace = ''OrderSystem/Queue'', mq_name = ''WaitingJobCount'', mq_stage = stage_name s,
      mq_queue = ''orders-main'', mq_period = 60\<rparr>"

record scaling_step =
  ss_lower :: "nat option"
  ss_upper :: "nat option"
  ss_change :: int

datatype scaling_policy =
    OnCpu nat "(nat \<times> nat) option" \<comment> \<open>target, cooldowns in and out\<close>
  | OnMemory nat
  | OnMetric metric_query "scaling_step list" nat

record task_service =
  ts_cpu :: nat
  ts_memory :: nat
  ts_container :: container
  ts_desired :: nat
  ts_subnets :: subnet_type
  ts_rollback :: bool
  ts_executeCommand :: bool
  ts_min :: nat
  ts_max :: nat
  ts_policies :: "scaling_policy list"
  ts_ingress :: "nat option" \<comment> \<open>the port that the load balancer may reach\<close>

definition api_service :: "stage \<Rightarrow> string \<Rightarrow> nat \<Rightarrow> nat \<Rightarrow> task_service" where
  "api_service s redisEndpoint redisPort apiTaskCount =
     \<lparr>ts_cpu = 512, ts_memory = 1024, ts_container = api_container s redisEndpoint redisPort,
      ts_desired = apiTaskCount, ts_subnets = PrivateWithEgress, ts_rollback = True, ts_executeCommand = True,
      ts_min = apiTaskCount, ts_max = (if isProd s then 20 else 3),
      ts_policies = [OnCpu 70 (Some (600, 120)), OnMemory 80], ts_ingress = Some 3000\<rparr>"

definition scaling_steps :: "scaling_step list" where
  "scaling_steps =
     [\<lparr>ss_lower = None, ss_upper = Some 10, ss_change = - 1\<rparr>,
      \<lparr>ss_lower = Some 100, ss_upper = None, ss_change = 2\<rparr>,
      \<lparr>ss_lower = Some 500, ss_upper = None, ss_change = 5\<rparr>]"

definition worker_service :: "stage \<Rightarrow> string \<Rightarrow> nat \<Rightarrow> nat \<Rightarrow> task_service" where
  "worker_service s redisEndpoint redisPort workerTaskCount =
     \<lparr>ts_cpu = 1024, ts_memory = 2048, ts_container = worker_container s redisEndpoint redisPort,
      ts_desired = workerTaskCount, ts_subnets = PrivateWithEgress, ts_rollback = True, ts_executeCommand = True,
      ts_min = workerTaskCount, ts_max = (if isProd s then 30 else 3),
      ts_policies = [OnMetric (waiting_jobs_metric s) scaling_steps (if isProd s then 300 else 60)],
      ts_ingress = None\<rparr>"

record load_balancer =
  lb_name :: string
  lb_port :: nat
  lb_targetPort :: nat
  lb_healthPath :: string
  lb_interval :: nat
  lb_healthy :: nat
  lb_unhealthy :: nat
  lb_deregistration :: nat

definition alb_of :: "stage \<Rightarrow> load_balancer" where
  "alb_of s =
     \<lparr>lb_name = ''order-'' @ stage_name s, lb_port = 80, lb_targetPort = 3000,
      lb_healthPath = ''/admin/health'', lb_interval = 30, lb_healthy = 2, lb_unhealthy = 3,
      lb_deregistration = 30\<rparr>"

section \<open>Alarms\<close>

datatype alarm_metric =
    ServiceCpu ecs_service nat \<comment> \<open>the average over a number of seconds\<close>
  | LoadBalancer5xxRate nat
  | DatabaseCpu nat
  | DatabaseFreeStorage nat
  | QueueMetric metric_query

datatype comparison = GreaterThan | LessThan

record alarm =
  al_name :: string
  al_metric :: alarm_metric
  al_threshold :: nat
  al_comparison :: comparison
  al_periods :: nat \<comment> \<open>in a row; missing data does not breach\<close>

definition alarms :: "stage \<Rightarrow> alarm list" where
  "alarms s =
     (let name = (\<lambda>what. ''order-'' @ stage_name s @ what) in
      [\<lparr>al_name = name ''-api-cpu-high'', al_metric = ServiceCpu ApiService 300, al_threshold = 80,
        al_comparison = GreaterThan, al_periods = 2\<rparr>,
       \<lparr>al_name = name ''-worker-cpu-high'', al_metric = ServiceCpu WorkerService 300, al_threshold = 70,
        al_comparison = GreaterThan, al_periods = 2\<rparr>,
       \<lparr>al_name = name ''-alb-5xx-high'', al_metric = LoadBalancer5xxRate 60, al_threshold = 1,
        al_comparison = GreaterThan, al_periods = 2\<rparr>,
       \<lparr>al_name = name ''-rds-cpu-high'', al_metric = DatabaseCpu 300, al_threshold = 70,
        al_comparison = GreaterThan, al_periods = 2\<rparr>,
       \<lparr>al_name = name ''-rds-storage-low'', al_metric = DatabaseFreeStorage 600,
        al_threshold = 5 * 1024 * 1024 * 1024, al_comparison = LessThan, al_periods = 1\<rparr>,
       \<lparr>al_name = name ''-queue-depth-high'', al_metric = QueueMetric (waiting_jobs_metric s),
        al_threshold = 500, al_comparison = GreaterThan, al_periods = 2\<rparr>])"

text \<open>The text that the alarm function sends to Slack, in UTF-8.\<close>

definition slack_text :: "string \<Rightarrow> string \<Rightarrow> string \<Rightarrow> string \<Rightarrow> string" where
  "slack_text STAGE newState alarmName reason =
     (if newState = ''ALARM''
      then [CHR 0xF0, CHR 0x9F, CHR 0x9A, CHR 0xA8] @ '' *['' @ STAGE @ ''] '' @ alarmName @ ''*'' @
        [CHR 0x0A] @ reason
      else [CHR 0xE2, CHR 0x9C, CHR 0x85] @ '' *['' @ STAGE @ ''] '' @ alarmName @ ''* '' @
        [CHR 0xEB, CHR 0xB3, CHR 0xB5, CHR 0xEA, CHR 0xB5, CHR 0xAC, CHR 0xEB, CHR 0x90, CHR 0xA8])"

record alarm_stack =
  as_topic :: string
  as_slackFunction :: "(string \<times> string) list option" \<comment> \<open>its environment, if there is one\<close>
  as_alarms :: "alarm list"

definition alarm_stack_of :: "stage \<Rightarrow> string \<Rightarrow> alarm_stack" where
  "alarm_stack_of s slackWebhookUrl =
     \<lparr>as_topic = ''order-system-'' @ stage_name s @ ''-alarms'',
      as_slackFunction = (if slackWebhookUrl = [] then None
        else Some [(''SLACK_WEBHOOK_URL'', slackWebhookUrl), (''STAGE'', stage_name s)]),
      as_alarms = alarms s\<rparr>"

section \<open>The app\<close>

record stage_plan =
  sp_network :: network
  sp_database :: db_instance
  sp_redis :: redis_cluster
  sp_api :: task_service
  sp_worker :: task_service
  sp_imageTag :: string
  sp_alb :: load_balancer
  sp_alarmStack :: alarm_stack

definition task_count :: "stage \<Rightarrow> nat" where
  "task_count s = (if isProd s then 2 else 1)"

text \<open>synthEnv is the environment of the deploying process, redisEndpoint the address of the cluster.\<close>

definition app_stage :: "environment \<Rightarrow> (stage \<Rightarrow> string) \<Rightarrow> stage \<Rightarrow> stage_plan" where
  "app_stage synthEnv redisEndpoint s =
     (let redis = redis_of s in
      \<lparr>sp_network = network_stack s, sp_database = database_of s, sp_redis = redis,
       sp_api = api_service s (redisEndpoint s) (rc_port redis) (task_count s),
       sp_worker = worker_service s (redisEndpoint s) (rc_port redis) (task_count s),
       sp_imageTag = image_tag s, sp_alb = alb_of s,
       sp_alarmStack = alarm_stack_of s (or_else (synthEnv ''SLACK_WEBHOOK_URL'') [])\<rparr>)"

definition app_region :: "environment \<Rightarrow> string" where
  "app_region synthEnv = or_else (synthEnv ''CDK_DEFAULT_REGION'') ''ap-northeast-2''"

section \<open>What a container sees\<close>

text \<open>Its own variables, then the fields of the secret, then what the image and the platform set.\<close>

definition container_env :: "environment \<Rightarrow> (string \<Rightarrow> string) \<Rightarrow> container \<Rightarrow> environment" where
  "container_env platform secret c x =
     (case map_of (ct_environment c) x of
        Some v \<Rightarrow> Some v
      | None \<Rightarrow> (case map_of (ct_secrets c) x of Some f \<Rightarrow> Some (secret f) | None \<Rightarrow> platform x))"

fun service_of :: "stage_plan \<Rightarrow> ecs_service \<Rightarrow> task_service" where
  "service_of plan ApiService = sp_api plan"
| "service_of plan WorkerService = sp_worker plan"

definition service_env ::
  "environment \<Rightarrow> environment \<Rightarrow> (string \<Rightarrow> string) \<Rightarrow> (stage \<Rightarrow> string) \<Rightarrow> stage \<Rightarrow> ecs_service \<Rightarrow> environment"
where
  "service_env synthEnv platform secret redisEndpoint s v =
     container_env platform secret (ts_container (service_of (app_stage synthEnv redisEndpoint s) v))"

text \<open>A variable that neither the tasks nor the secret set is what the platform says.\<close>

definition task_variables :: "string set" where
  "task_variables = fst ` set (api_environment [] 0 @ worker_environment [] 0 @ container_secrets)"

lemma service_env_unset:
  "x \<notin> task_variables \<Longrightarrow> service_env synthEnv platform secret redisEndpoint s v x = platform x"
  by (cases v)
    (simp_all add: task_variables_def service_env_def app_stage_def Let_def api_service_def worker_service_def
      container_env_def api_container_def worker_container_def api_environment_def worker_environment_def
      retry_settings_def container_secrets_def)

lemma service_env_common:
  "service_env y pl sec re s v ''NODE_ENV'' = Some ''production''"
  "service_env y pl sec re s v ''REDIS_HOST'' = Some (re s)"
  "service_env y pl sec re s v ''REDIS_PORT'' = Some (show_nat 6379)"
  "service_env y pl sec re s v ''DB_POOL_MAX'' = Some (case v of ApiService \<Rightarrow> ''30'' | WorkerService \<Rightarrow> ''20'')"
  "service_env y pl sec re s v ''APP_MODE'' = Some (case v of ApiService \<Rightarrow> ''api'' | WorkerService \<Rightarrow> ''worker'')"
  "service_env y pl sec re s v ''DATABASE_HOST'' = Some (sec ''host'')"
  by (cases v;
      simp add: service_env_def app_stage_def Let_def api_service_def worker_service_def container_env_def
        api_container_def worker_container_def api_environment_def worker_environment_def retry_settings_def
        container_secrets_def redis_of_def)+

lemma not_task_variables [simp]:
  "''REDIS_URL'' \<notin> task_variables" "''REDIS_TLS'' \<notin> task_variables" "''REDIS_PASSWORD'' \<notin> task_variables"
  "''SLACK_WEBHOOK_URL'' \<notin> task_variables" "''ADMIN_PASSWORD'' \<notin> task_variables"
  "''BBQ_API_KEY'' \<notin> task_variables" "''BBQ_GATEWAY_URL'' \<notin> task_variables"
  "''SOLAPI_API_KEY'' \<notin> task_variables" "''ADMIN_BASE_URL'' \<notin> task_variables" "''nodeEnv'' \<notin> task_variables"
  "''AWS_REGION'' \<notin> task_variables"
  by (simp_all add: task_variables_def api_environment_def worker_environment_def retry_settings_def
      container_secrets_def)

end
