(* ===== verification/Job_Attempts.thy ===== *)
theory Job_Attempts
  imports Worker_Correctness
begin

text \<open>
  All attempts of one job: the queue gives a job to OrderProcessor.process, and after each
  attempt that throws it raises the failed event, with the number of attempts made so far, and
  tries again until the job's option attempts is used up (order.processor.ts over the options of
  order-queue.service.ts). The retry loop is the queue library's: it is an interface here
  (locale retry_queue), whose laws are the library's documented behaviour.
\<close>

section \<open>The interface of the retry loop\<close>

text \<open>
  deliver attempts n run failed s: run is called with n attempts made before; the result says
  whether the job completed.
\<close>

locale retry_queue =
  fixes deliver :: "nat \<Rightarrow> nat \<Rightarrow> (nat \<Rightarrow> 's \<Rightarrow> (error + unit) \<times> 's) \<Rightarrow> (nat \<Rightarrow> error \<Rightarrow> 's \<Rightarrow> 's) \<Rightarrow>
      's \<Rightarrow> bool \<times> 's"
  assumes completes: "run n s = (Inr (), s') \<Longrightarrow> deliver attempts n run failed s = (True, s')"
    and tries_again: "run n s = (Inl e, s') \<Longrightarrow> Suc n < attempts \<Longrightarrow>
      deliver attempts n run failed s = deliver attempts (Suc n) run failed (failed (Suc n) e s')"
    and gives_up: "run n s = (Inl e, s') \<Longrightarrow> attempts \<le> Suc n \<Longrightarrow>
      deliver attempts n run failed s = (False, failed (Suc n) e s')"
begin

lemma two_failures:
  assumes "run 0 s0 = (Inl e1, t1)" and "run 1 (failed 1 e1 t1) = (Inl e2, t2)"
  shows "deliver 3 0 run failed s0 = deliver 3 2 run failed (failed 2 e2 t2)"
  using assms tries_again [of run 0 s0 e1 t1 3 failed] tries_again [of run 1 _ e2 t2 3 failed]
  by (simp add: numeral_2_eq_2)

lemma third_failure: "run 2 s = (Inl e, t) \<Longrightarrow> deliver 3 2 run failed s = (False, failed 3 e t)"
  using gives_up [of run 2 s e t 3 failed] by (simp add: numeral_3_eq_3 numeral_2_eq_2)

lemma only_attempt: "run 0 s = (Inl e, t) \<Longrightarrow> deliver 1 0 run failed s = (False, failed 1 e t)"
  using gives_up [of run 0 s e t 1 failed] by simp

end

function bull_deliver ::
  "nat \<Rightarrow> nat \<Rightarrow> (nat \<Rightarrow> 's \<Rightarrow> (error + unit) \<times> 's) \<Rightarrow> (nat \<Rightarrow> error \<Rightarrow> 's \<Rightarrow> 's) \<Rightarrow> 's \<Rightarrow> bool \<times> 's"
where
  "bull_deliver attempts n run failed s =
     (case run n s of
        (Inr _, s') \<Rightarrow> (True, s')
      | (Inl e, s') \<Rightarrow>
          if Suc n < attempts then bull_deliver attempts (Suc n) run failed (failed (Suc n) e s')
          else (False, failed (Suc n) e s'))"
  by pat_completeness auto
termination by (relation "measure (\<lambda>(attempts, n, _). attempts - n)") auto

declare bull_deliver.simps [simp del]

interpretation bull_retries: retry_queue bull_deliver
  by unfold_locales (subst bull_deliver.simps; simp)+

section \<open>The attempts of an order's job\<close>

text \<open>R n surrounds the run after n attempts, F n the failed event of the n-th attempt.\<close>

definition job_run ::
  "(nat \<Rightarrow> 'p worker_env) \<Rightarrow> string \<Rightarrow> string \<Rightarrow> order_job_payload \<Rightarrow> nat \<Rightarrow> ('p, unit) worker" where
  "job_run R WORKER_ID jobId payload n = order_processor_process (R n) WORKER_ID jobId n payload"

definition job_failed ::
  "(nat \<Rightarrow> 'p worker_env) \<Rightarrow> string \<Rightarrow> string \<Rightarrow> order_job_payload \<Rightarrow> nat \<Rightarrow> error \<Rightarrow>
   'p worker_state \<Rightarrow> 'p worker_state" where
  "job_failed F WORKER_ID jobId payload n err s =
     snd (onFailed (F n) WORKER_ID jobId n payload err s)"

abbreviation meta :: "string \<Rightarrow> string \<Rightarrow> nat \<Rightarrow> job_meta" where
  "meta w j n \<equiv> \<lparr>jm_jobId = j, jm_workerId = w, jm_attemptsMade = n\<rparr>"

lemma job_run_process: "job_run R w j p n = process (R n) p (meta w j n)"
  by (simp add: job_run_def order_processor_rethrows)

lemma job_failed_handle: "job_failed F w j p n err s = snd (handleFailure (F n) p err (meta w j n) s)"
  by (simp add: job_failed_def onFailed_def)

section \<open>Failures of a job whose order has no row\<close>

lemma sql_update_absent:
  "find (\<lambda>r. k r = i) t = None \<Longrightarrow> sql_update (\<lambda>r. k r = i) f t = t"
  by (auto simp: sql_update_def find_None_iff intro: map_idI)

lemma counted_absent:
  assumes "env_quiet (F n) (jp_orderId p) i" and "\<not> instanceof err BusinessLogicError" and "n < 2"
    and "row_with_id i (w_db s) = None"
  shows "job_failed F w j p n err s = s"
  using handleFailure_retry [OF assms(1,2), of "meta w j n" s] assms(3,4)
  by (simp add: job_failed_handle row_with_id_def sql_update_absent)

lemma filed_absent:
  assumes E: "env_quiet (F n) (jp_orderId p) i" and "2 \<le> n" and no: "row_with_id i (w_db s) = None"
  shows "w_db (job_failed F w j p n err s) = w_db s" (is ?db)
    and "filed (F n) p err (meta w j n) i s (job_failed F w j p n err s)" (is ?filed)
    and "w_breaker (job_failed F w j p n err s) = w_breaker s" (is ?breaker)
    and "w_locks (job_failed F w j p n err s) = w_locks s" (is ?locks)
proof -
  note d = env_quietD [OF E]
  let ?m = "meta w j n"
  have "read_db (F n) CallFindFailed (\<lambda>C. findById C (jp_orderId p)) s = (Inr None, s)"
    by (simp add: read_db_def on_db_def d(4) findById_quiet [OF d(1) d(3)] no)
  then have f: "fail_order (F n) p err ?m s = (Inr (), s)" by (simp add: fail_order_def st_bind_Inr)
  from moveToDlq_caught [OF E f] obtain s' where
    s': "moveToDlq (F n) p err ?m s = (Inr (), s')" "filed (F n) p err ?m i s s'" by auto
  have h: "job_failed F w j p n err s = s'"
    using s'(1) assms(2) by (simp add: job_failed_handle handleFailure_final)
  from s'(2) h show ?filed by simp
  have "st_catch (fail_order (F n) p err ?m) (\<lambda>e. if \<not> instanceof e StaleOrderVersionError
      then st_throw e else st_return ()) s = (Inr (), s)"
    by (simp add: st_catch_def f)
  then have "s' = snd (st_bind (on_db (F n) CallMarkDlq (\<lambda>C. markDlq C (jp_orderId p) (err_message err)))
      (\<lambda>_. st_bind (publish_dlq (F n) p err ?m) (\<lambda>_. send_alert (F n)
       \<lparr>al_orderId = jp_orderId p, al_traceId = jp_traceId p, al_storeId = jp_storeId p,
        al_reason = err_message err, al_attempts = int n,
        al_dashboardUrl = Some (we_adminBaseUrl (F n) @ ''/admin/orders/'' @ jp_orderId p)\<rparr>)) s)"
    using s'(1) by (simp add: moveToDlq_def st_bind_Inr)
  then show ?db ?breaker ?locks
    using no
    by (simp_all add: h st_bind_def on_db_def publish_dlq_def send_alert_def d
        markDlq_quiet [OF d(1) d(3)] row_with_id_def sql_update_absent split: prod.splits)
qed

section \<open>Failures of a job whose order has a row\<close>

lemma handleFailure_keeps_locks: "keeps (\<lambda>s. w_locks s = l) (handleFailure E p err m)"
  unfolding handleFailure_def moveToDlq_def fail_order_def Let_def
  by (intro keeps_intros keeps_locks_frame [of "on_db E _ _"] keeps_locks_frame [of "read_db E _ _"]
      keeps_locks_frame [of "publish_dlq E _ _ _"] keeps_locks_frame [of "send_alert E _"])
    (simp_all add: read_db_locks publish_dlq_def send_alert_def case_prod_beta split: option.splits)

lemma job_failed_locks [simp]: "w_locks (job_failed F w j p n err s) = w_locks s"
  using keepsD [OF handleFailure_keeps_locks [of "w_locks s" "F n" p err "meta w j n"]]
  by (simp add: job_failed_handle)

lemma job_failed_inv:
  "env_ok (F n) \<Longrightarrow> db_inv (w_db s) \<Longrightarrow> db_inv (w_db (job_failed F w j p n err s))"
  using keepsD [OF handleFailure_inv [of "F n" p err "meta w j n"]] by (simp add: job_failed_handle)

lemma counted_row:
  assumes "env_quiet (F n) (jp_orderId p) i" and "\<not> instanceof err BusinessLogicError" and "n < 2"
    and "row_with_id i (w_db s) = Some r"
  shows "row_with_id i (w_db (job_failed F w j p n err s)) = Some (r\<lparr>o_retryCount := o_retryCount r + 1\<rparr>)"
    and "w_dlq (job_failed F w j p n err s) = w_dlq s"
    and "w_alerts (job_failed F w j p n err s) = w_alerts s"
  using handleFailure_retry [OF assms(1,2), of "meta w j n" s] assms(3,4) row_with_id_Some [OF assms(4)]
  by (simp_all add: job_failed_handle row_with_id_def find_sql_update_key)

definition dead_letter :: "order_job_payload \<Rightarrow> error \<Rightarrow> nat \<Rightarrow> dlq_payload" where
  "dead_letter p err n = \<lparr>dp_payload = p, dp_failureReason = err_message err, dp_attempts = int n\<rparr>"

lemma fail_order_open:
  assumes E: "env_quiet E (jp_orderId p) i" and inv: "db_inv (w_db s)"
    and row: "row_with_id i (w_db s) = Some r" "o_status r \<in> {QUEUED, SAVED, FAILED}"
  shows "\<exists>t r'. fail_order E p err m s = (Inr (), t) \<and> row_with_id i (w_db t) = Some r' \<and>
    o_status r' = FAILED \<and> w_dlq t = w_dlq s \<and> w_alerts t = w_alerts s"
proof (cases "o_status r = FAILED")
  case True
  with fail_order_quiet [OF E row(1), of err m] row(1) show ?thesis by simp
next
  case False
  with row(2) have v: "validate (o_status r) FAILED False = Inr ()" by (auto simp: validate_ok)
  let ?step = "on_db E CallFailed (\<lambda>C. transitionStatus C (fail_params p err m r)) s"
  from transition_quiet [OF E _ inv row(1) refl v, of "jp_orderId p" CallFailed m None
      "Some (err_message err)"]
  obtain t r' where t: "?step = (Inr (), t)" "row_with_id i (w_db t) = Some r'" "o_status r' = FAILED"
    by (auto simp: fail_params_def)
  then have "w_dlq t = w_dlq s" "w_alerts t = w_alerts s"
    using on_db_frame(4,5) [of E CallFailed "\<lambda>C. transitionStatus C (fail_params p err m r)" s] by simp_all
  with t False row(2) show ?thesis by (auto simp: fail_order_quiet [OF E row(1)])
qed

lemma filed_row:
  assumes E: "env_quiet (F n) (jp_orderId p) i" and inv: "db_inv (w_db s)" and n: "2 \<le> n"
    and row: "row_with_id i (w_db s) = Some r" "o_status r \<in> {QUEUED, SAVED, FAILED}"
  shows "\<exists>r'. row_with_id i (w_db (job_failed F w j p n err s)) = Some r' \<and> o_status r' = FAILED \<and>
    o_dlqAt r' = Some (cx_now (we_ctx (F n) CallMarkDlq)) \<and>
    w_dlq (job_failed F w j p n err s) =
      publishToDlq bull_add show_nat (we_dlqTime (F n)) (dead_letter p err n) (w_dlq s) \<and>
    length (w_alerts (job_failed F w j p n err s)) = length (w_alerts s) + 1"
proof -
  obtain t r1 where t: "fail_order (F n) p err (meta w j n) s = (Inr (), t)"
      "row_with_id i (w_db t) = Some r1" "o_status r1 = FAILED" "w_dlq t = w_dlq s"
      "w_alerts t = w_alerts s"
    using fail_order_open [OF E inv row] by blast
  from moveToDlq_caught [OF E t(1)] obtain s' where
    s': "moveToDlq (F n) p err (meta w j n) s = (Inr (), s')" "filed (F n) p err (meta w j n) i t s'"
    by auto
  have "job_failed F w j p n err s = s'"
    using s'(1) n by (simp add: job_failed_handle handleFailure_final)
  with s'(2) t row_with_id_Some [OF t(2)] show ?thesis
    by (simp add: filed_def dead_letter_def row_with_id_def find_sql_update_key)
qed

section \<open>A run files and alerts nothing\<close>

lemma processWithLock_keeps_letters:
  "keeps (\<lambda>s. w_dlq s = d \<and> w_alerts s = a) (processWithLock E p m)"
  unfolding processWithLock_def transitionToSaved_def sendToPos_def confirm_sent_def Let_def read_db_def
  by (intro keeps_intros) (simp_all add: keeps_def)

lemma process_letters:
  assumes "lock_undisturbed E"
    and "lock_holder kv_cmds (we_lockTime E) (jp_orderId p) (w_locks s) = None"
  shows "w_dlq (snd (process E p m s)) = w_dlq s" "w_alerts (snd (process E p m s)) = w_alerts s"
  using keepsD [OF processWithLock_keeps_letters [of "w_dlq s" "w_alerts s" E p m], of "with_lock E p m s"]
  by (simp_all add: process_admitted [OF assms])

text \<open>
  handleFailure counts to two whatever MAX_RETRY_ATTEMPTS says: set to 1, a failed job is given
  up by the queue and never filed.
\<close>

lemma single_attempt_not_filed:
  assumes "retry_queue deliver" and "job_run R w j p 0 s = (Inl e, t)"
    and "\<not> instanceof e BusinessLogicError" and "env_quiet (F 1) (jp_orderId p) i"
  shows "\<exists>s'. deliver 1 0 (job_run R w j p) (job_failed F w j p) s = (False, s') \<and>
    w_dlq s' = w_dlq t \<and> w_alerts s' = w_alerts t"
  using retry_queue.only_attempt [where run = "job_run R w j p" and failed = "job_failed F w j p",
      OF assms(1,2)]
    handleFailure_retry [OF assms(4,3), of "meta w j 1" t]
  by (simp add: job_failed_handle)

section \<open>Samples\<close>

definition redis_down :: error where
  "redis_down = mk_error Error (TextMsg ''ECONNREFUSED'')"

text \<open>An order that another worker is processing.\<close>

definition held_state :: "nat worker_state" where
  "held_state = sample_start\<lparr>w_db := queued_db,
     w_locks := kv_set 15 60 (lockKey ''o1'') ''w1:order-o1'' Map.empty\<rparr>"

section \<open>Properties\<close>

text \<open>C16: handleFailure takes the second failure for the last, the queue makes a third attempt: a
  job whose first two attempts fail before its order has a row is put into the dead letter queue
  and alerted as given up, and is then run again and completes the order at its POS.\<close>

theorem given_up_then_completed:
  assumes q: "retry_queue deliver"
    and fails: "process (R 0) p (meta w j 0) s = (Inl e1, s)" "\<not> instanceof e1 BusinessLogicError"
      "process (R 1) p (meta w j 1) s = (Inl e2, s)"
    and quiet: "\<And>n. env_quiet (F n) (jp_orderId p) i" and no_row: "row_with_id i (w_db s) = None"
    and third: "fresh_job (R 2) p (meta w j 2) i s (Inr res)" "lock_undisturbed (R 2)"
      "lock_holder kv_cmds (we_lockTime (R 2)) (jp_orderId p) (w_locks s) = None"
  shows "\<exists>s' row. deliver 3 0 (job_run R w j p) (job_failed F w j p) s = (True, s') \<and>
    row_with_id i (w_db s') = Some row \<and> o_status row = COMPLETED \<and>
    w_dlq s' = publishToDlq bull_add show_nat (we_dlqTime (F 2)) (dead_letter p e2 2) (w_dlq s) \<and>
    length (w_alerts s') = length (w_alerts s) + 1"
proof -
  let ?run = "job_run R w j p" and ?failed = "job_failed F w j p"
  let ?t = "?failed 2 e2 s"
  have 1: "?failed 1 e1 s = s" by (rule counted_absent [OF quiet fails(2) _ no_row]) simp
  have "deliver 3 0 ?run ?failed s = deliver 3 2 ?run ?failed ?t"
    using retry_queue.two_failures [OF q, of ?run s e1 s ?failed e2 s] fails 1
    by (simp add: job_run_process)
  note filed = filed_absent [where w = w and j = j and err = e2, OF quiet order_refl no_row]
  have f: "w_dlq ?t = publishToDlq bull_add show_nat (we_dlqTime (F 2)) (dead_letter p e2 2) (w_dlq s)"
    "length (w_alerts ?t) = length (w_alerts s) + 1"
    using filed(2) by (simp_all add: filed_def dead_letter_def)
  have job: "fresh_job (R 2) p (meta w j 2) i ?t (Inr res)"
    using third(1) by (simp add: fresh_job_def filed(1,3))
  have free: "lock_holder kv_cmds (we_lockTime (R 2)) (jp_orderId p) (w_locks ?t) = None"
    using third(3) by simp
  note run = process_fresh [OF job third(2) free] and kept = process_letters [OF third(2) free, of "meta w j 2"]
  have "?run 2 ?t = (Inr (), snd (process (R 2) p (meta w j 2) ?t))"
    using run by (simp add: job_run_process prod_eq_iff)
  from retry_queue.completes [where run = ?run and failed = ?failed and attempts = 3, OF q this]
  show ?thesis using run f kept \<open>deliver 3 0 ?run ?failed s = _\<close> by auto
qed

theorem given_up_then_completed_witness:
  "\<exists>s' row. bull_deliver 3 0
      (job_run (\<lambda>n. (sample_env 10 flaky_http)\<lparr>we_lockFault := if n < 2 then Some redis_down else None\<rparr>)
        ''w1'' ''order-o1'' sample_payload)
      (job_failed (\<lambda>n. sample_env 11 dead_http) ''w1'' ''order-o1'' sample_payload) sample_start = (True, s') \<and>
    row_with_id ''o1'' (w_db s') = Some row \<and> o_status row = COMPLETED \<and> length (w_dlq s') = 1"
proof -
  let ?R = "\<lambda>n :: nat. (sample_env 10 flaky_http)\<lparr>we_lockFault := if n < 2 then Some redis_down else None\<rparr>"
  have down: "process (?R n) sample_payload (meta ''w1'' ''order-o1'' n) sample_start =
      (Inl redis_down, sample_start)" if "n < 2" for n
    using that by (simp add: process_def lock_acquire_def st_bind_def)
  have up: "?R 2 = sample_env 10 flaky_http" by (simp add: sample_env_def)
  obtain res where job: "fresh_job (?R 2) sample_payload (meta ''w1'' ''order-o1'' 2) ''o1'' sample_start (Inr res)"
    using flaky_job [of 2] up by (auto simp: sample_meta_def)
  have soft: "\<not> instanceof redis_down BusinessLogicError"
    by (simp add: instanceof_def redis_down_def entity_simps)
  have undisturbed: "lock_undisturbed (?R 2)"
    unfolding up by simp
  from given_up_then_completed [where R = ?R and F = "\<lambda>n. sample_env 11 dead_http"
      and deliver = bull_deliver, OF bull_retries.retry_queue_axioms down soft down _ _ job undisturbed]
  show ?thesis
    by (auto simp: row_with_id_def publishToDlq_def bull_add_def bull_lookup_def)
qed

text \<open>C17: a job that finds its order locked at each of its three attempts (its first worker was
  only slow) moves that order to FAILED although the holder of the lock is processing it, and
  leaves two dead letters and two alerts for the one order.\<close>

theorem refused_job_fails_order:
  assumes q: "retry_queue deliver"
    and held: "\<And>n. we_lockFault (R n) = None"
      "\<And>n. lock_holder kv_cmds (we_lockTime (R n)) (jp_orderId p) (w_locks s) = Some h"
    and quiet: "\<And>n. env_quiet (F n) (jp_orderId p) i" and inv: "inv_state s"
    and row: "row_with_id i (w_db s) = Some r" "o_status r \<in> {QUEUED, SAVED}"
  shows "\<exists>s' r'. deliver 3 0 (job_run R w j p) (job_failed F w j p) s = (False, s') \<and>
    row_with_id i (w_db s') = Some r' \<and> o_status r' = FAILED \<and>
    (let e = lockAcquisitionError (jp_orderId p)
     in w_dlq s' = publishToDlq bull_add show_nat (we_dlqTime (F 3)) (dead_letter p e 3)
          (publishToDlq bull_add show_nat (we_dlqTime (F 2)) (dead_letter p e 2) (w_dlq s))) \<and>
    length (w_alerts s') = length (w_alerts s) + 2"
proof -
  let ?run = "job_run R w j p" and ?failed = "job_failed F w j p"
    and ?e = "lockAcquisitionError (jp_orderId p)"
  have refused: "?run n t = (Inl ?e, t)" if "w_locks t = w_locks s" for n t
    using process_refused [of "R n" p t h] held that by (simp add: job_run_process)
  have soft: "\<not> instanceof ?e BusinessLogicError"
    by (simp add: instanceof_def entity_simps class_extends.simps)
  let ?s1 = "?failed 1 ?e s"
  let ?s2 = "?failed 2 ?e ?s1"
  let ?s3 = "?failed 3 ?e ?s2"
  have "deliver 3 0 ?run ?failed s = deliver 3 2 ?run ?failed ?s2"
    by (rule retry_queue.two_failures [OF q]; rule refused) simp_all
  moreover have "deliver 3 2 ?run ?failed ?s2 = (False, ?s3)"
    by (rule retry_queue.third_failure [OF q]; rule refused) simp
  moreover
  let ?r1 = "r\<lparr>o_retryCount := o_retryCount r + 1\<rparr>"
  have "1 < (2 :: nat)" by simp
  note 1 = counted_row [where F = F and w = w and j = j, OF quiet soft this row(1)]
  have keeps: "db_inv (w_db t) \<Longrightarrow> db_inv (w_db (?failed n err t))" for n err t
    using job_failed_inv [where F = F and w = w and j = j and n = n and err = err] env_quiet_ok [OF quiet [of n]] by simp
  have "o_status ?r1 \<in> {QUEUED, SAVED, FAILED}" using row(2) by auto
  from filed_row [where F = F and w = w and j = j and err = ?e, OF quiet keeps [OF inv] order_refl 1(1) this] obtain r2 where
    2: "row_with_id i (w_db ?s2) = Some r2" "o_status r2 = FAILED"
      "w_dlq ?s2 = publishToDlq bull_add show_nat (we_dlqTime (F 2)) (dead_letter p ?e 2) (w_dlq ?s1)"
      "length (w_alerts ?s2) = length (w_alerts ?s1) + 1"
    by auto
  have "o_status r2 \<in> {QUEUED, SAVED, FAILED}" using 2(2) by simp
  from filed_row [where F = F and w = w and j = j and n = 3 and err = ?e, OF quiet keeps [OF keeps [OF inv]] _ 2(1) this]
  obtain r3 where
    "row_with_id i (w_db ?s3) = Some r3" "o_status r3 = FAILED"
      "w_dlq ?s3 = publishToDlq bull_add show_nat (we_dlqTime (F 3)) (dead_letter p ?e 3) (w_dlq ?s2)"
      "length (w_alerts ?s3) = length (w_alerts ?s2) + 1"
    by auto
  ultimately show ?thesis using 1(2,3) 2(3,4) by (auto simp: Let_def)
qed

theorem refused_job_fails_order_witness:
  "\<exists>s' r. bull_deliver 3 0
      (job_run (\<lambda>n. sample_env 20 flaky_http) ''w2'' ''order-o1'' sample_payload)
      (job_failed (\<lambda>n. sample_env (20 + n) dead_http) ''w2'' ''order-o1'' sample_payload) held_state = (False, s') \<and>
    row_with_id ''o1'' (w_db s') = Some r \<and> o_status r = FAILED"
proof -
  have free: "we_lockFault (sample_env 20 flaky_http) = None"
    and held: "lock_holder kv_cmds (we_lockTime (sample_env 20 flaky_http)) (jp_orderId sample_payload)
      (w_locks held_state) = Some ''w1:order-o1''"
    and inv: "inv_state held_state" and row: "row_with_id ''o1'' (w_db held_state) = Some sample_row"
    by (simp_all add: held_state_def queued_inv sample_env_def lock_holder_def kv_get_def kv_set_def
        expires_at_def)
  have "o_status sample_row \<in> {QUEUED, SAVED}" by simp
  from refused_job_fails_order [where R = "\<lambda>n. sample_env 20 flaky_http"
      and F = "\<lambda>n. sample_env (20 + n) dead_http" and deliver = bull_deliver and w = "''w2''"
      and j = "''order-o1''", OF bull_retries.retry_queue_axioms free held _ inv row this]
  show ?thesis by auto
qed

end
