(* ===== verification/Deployment_Properties.thy ===== *)
theory Deployment_Properties
  imports Deployment Job_Attempts
begin

text \<open>
  The program in its deployment: what the processes make of the environments that the stacks
  give to the containers. The hypotheses say which variables the image and the platform leave
  unset.
\<close>

section \<open>Redis\<close>

text \<open>C27: in every stage and service the deployed program speaks to Redis in clear although the cluster
  demands TLS: nothing in the containers' environments turns it on.\<close>

theorem deployed_redis_without_tls:
  assumes "platform ''REDIS_URL'' = None" and "platform ''REDIS_TLS'' \<noteq> Some ''true''"
  shows "\<exists>conn. buildRedisOptions new_URL (service_env synthEnv platform secret redisEndpoint s v) = Inr conn \<and>
    (redisEndpoint s \<noteq> [] \<longrightarrow> cn_host conn = redisEndpoint s) \<and>
    cn_port conn = Some (int (rc_port (sp_redis (app_stage synthEnv redisEndpoint s)))) \<and>
    rc_transitEncryption (sp_redis (app_stage synthEnv redisEndpoint s)) \<and> \<not> cn_tls conn"
proof -
  let ?env = "service_env synthEnv platform secret redisEndpoint s v"
  have unset: "?env ''REDIS_URL'' = None" "?env ''REDIS_TLS'' \<noteq> Some ''true''"
    using assms by (simp_all add: service_env_unset)
  have "show_int 6379 = show_nat 6379" by (simp add: show_int_def)
  then have "parseInt (show_nat 6379) = Some 6379" using parseInt_show_int [of 6379] by simp
  then show ?thesis
    using unset
    by (simp add: buildRedisOptions_def truthy_def redis_settings_def env_int_def env_or_def service_env_common
        app_stage_def redis_of_def Let_def)
qed

theorem deployed_redis_without_tls_witness:
  "\<exists>conn. buildRedisOptions (\<lambda>_. Inl (mk_error TypeError (TextMsg ''Invalid URL'')))
      (service_env (\<lambda>_. None) (\<lambda>_. None) (\<lambda>f. f) (\<lambda>_. ''redis.internal'') Production WorkerService) = Inr conn \<and>
    cn_host conn = ''redis.internal'' \<and> \<not> cn_tls conn"
  using deployed_redis_without_tls [of "\<lambda>_. None" "\<lambda>_. Inl (mk_error TypeError (TextMsg ''Invalid URL''))"
      "\<lambda>_. None" "\<lambda>f. f" "\<lambda>_. ''redis.internal''" Production WorkerService]
  by auto

section \<open>Secrets\<close>

text \<open>No stage hands the program its webhook, the administrator's password, the bridge's key or
  the keys of the SMS service: a dead letter is never posted to Slack, the password in the source
  opens the areas, the bridge takes orders with any key, and one-time codes are logged instead
  of sent.\<close>

theorem deployed_without_secrets:
  assumes "\<forall>x \<in> {''SLACK_WEBHOOK_URL'', ''ADMIN_PASSWORD'', ''BBQ_API_KEY'', ''SOLAPI_API_KEY''}. platform x = None"
    and "env = service_env synthEnv platform secret redisEndpoint s v"
  shows "sendDlqAlert (cf_slackWebhookUrl (configuration_of env)) post alert log =
      (Inr (), log @ [SLACK_NOT_CONFIGURED (al_orderId alert)]) \<and>
    checkAdminPassword (env ''ADMIN_PASSWORD'') ''admin1234'' \<and>
    bridgeOrder E (cf_bbqApiKey (configuration_of env)) key dto =
      st_bind (execute E (bridge_command dto)) (\<lambda>result.
        st_return (bd_orderId dto, cr_orderId result, cr_replayed result)) \<and>
    sendSms env hmac salt now fetch to code sms = (Inr (), sms @ [SmsDevMode to code])"
  using assms
  by (simp add: service_env_unset configuration_of_def env_or_def truthy_def sendDlqAlert_def
      checkAdminPassword_def ADMIN_PASSWORD_def or_else_def bridgeOrder_def sendSms_def)

theorem deployed_without_secrets_witness:
  "checkAdminPassword (service_env (\<lambda>_. None) (\<lambda>_. None) (\<lambda>f. f) (\<lambda>_. ''r'') Production ApiService
     ''ADMIN_PASSWORD'') ''admin1234''"
proof -
  have "\<forall>x \<in> {''SLACK_WEBHOOK_URL'', ''ADMIN_PASSWORD'', ''BBQ_API_KEY'', ''SOLAPI_API_KEY''}.
      (\<lambda>_. None :: string option) x = None" by simp
  from deployed_without_secrets [OF this refl] show ?thesis by blast
qed

section \<open>Queue metrics\<close>

text \<open>config.get('nodeEnv', 'production'): a variable of this very name, since the settings have none.\<close>

definition nodeEnv_setting :: "environment \<Rightarrow> string" where
  "nodeEnv_setting env = or_else (env ''nodeEnv'') ''production''"

text \<open>One report at the start, then one per tick of the timer; each with what the queue and the service answer.\<close>

fun metrics_run :: "string \<Rightarrow> ((error + queue_depth) \<times> error option) list \<Rightarrow> metrics_state \<Rightarrow> metrics_state" where
  "metrics_run stage [] s = s"
| "metrics_run stage ((d, f) # reports) s = metrics_run stage reports (snd (publish_metrics stage d f s))"

definition worker_metrics ::
  "environment \<Rightarrow> ((error + queue_depth) \<times> error option) list \<Rightarrow> metrics_state \<Rightarrow> metrics_state" where
  "worker_metrics env reports s =
     (case reports of
        [] \<Rightarrow> s
      | (d, f) # ticks \<Rightarrow>
          (let stage = metrics_stage (nodeEnv_setting env);
               s1 = snd (onApplicationBootstrap (metrics_enabled env) stage d f s)
           in if ms_timer s1 then metrics_run stage ticks s1 else s1))"

text \<open>A metric is identified by its name and its dimensions.\<close>

definition watches :: "metric_query \<Rightarrow> metric \<Rightarrow> bool" where
  "watches q m \<longleftrightarrow> mq_name q = mt_name m \<and> mq_stage q = mt_stage m \<and> mq_queue q = mt_queue m"

definition sent_metrics :: "metrics_state \<Rightarrow> metric set" where
  "sent_metrics s = \<Union> (set ` set (ms_sent s))"

lemma publish_metrics_stage:
  "sent_metrics (snd (publish_metrics stage d f s)) \<subseteq>
     sent_metrics s \<union> {m. mt_stage m = stage \<and> mt_queue m = ORDERS_QUEUE_NAME}"
  by (auto simp: publish_metrics_def sent_metrics_def queue_metrics_def split: sum.splits option.splits)

lemma metrics_run_stage:
  "sent_metrics (metrics_run stage reports s) \<subseteq>
     sent_metrics s \<union> {m. mt_stage m = stage \<and> mt_queue m = ORDERS_QUEUE_NAME}"
proof (induction stage reports s rule: metrics_run.induct)
  case (2 stage d f reports s)
  then show ?case using publish_metrics_stage [of stage d f s] by auto
qed simp

lemma bootstrap_sent:
  "sent_metrics (snd (onApplicationBootstrap enabled stage d f s)) =
     (if enabled then sent_metrics (snd (publish_metrics stage d f s)) else sent_metrics s)"
  by (cases "publish_metrics stage d f s"; cases "fst (publish_metrics stage d f s)")
    (simp_all add: onApplicationBootstrap_def st_bind_def sent_metrics_def)

lemma worker_metrics_stage:
  "sent_metrics (worker_metrics env reports s) \<subseteq> sent_metrics s \<union>
     {m. mt_stage m = metrics_stage (nodeEnv_setting env) \<and> mt_queue m = ORDERS_QUEUE_NAME}"
proof (cases reports)
  case (Cons r ticks)
  let ?g = "metrics_stage (nodeEnv_setting env)"
  let ?s1 = "snd (onApplicationBootstrap (metrics_enabled env) ?g (fst r) (snd r) s)"
  have "sent_metrics ?s1 \<subseteq> sent_metrics s \<union> {m. mt_stage m = ?g \<and> mt_queue m = ORDERS_QUEUE_NAME}"
    using publish_metrics_stage [of ?g "fst r" "snd r" s] by (simp add: bootstrap_sent)
  then show ?thesis
    using metrics_run_stage [of ?g ticks ?s1]
    by (auto simp: worker_metrics_def Cons case_prod_beta Let_def)
qed (simp add: worker_metrics_def)

text \<open>C28: whatever a staging worker reports of its queue, neither the alarm on the queue nor the scaling
  of the staging workers ever sees it; what it reports is read as production's.\<close>

theorem staging_metrics_lost:
  assumes "platform ''nodeEnv'' = None"
    and "m \<in> sent_metrics (worker_metrics
      (service_env synthEnv platform secret redisEndpoint Staging WorkerService) reports
      \<lparr>ms_timer = False, ms_sent = []\<rparr>)"
    and "QueueMetric q \<in> al_metric ` set (as_alarms (sp_alarmStack (app_stage synthEnv redisEndpoint st))) \<or>
      OnMetric q steps cooldown \<in> set (ts_policies (sp_worker (app_stage synthEnv redisEndpoint st)))"
  shows "watches q m \<longleftrightarrow> st = Production \<and> mt_name m = ''WaitingJobCount''"
proof -
  have "mt_stage m = ''production''" "mt_queue m = ORDERS_QUEUE_NAME"
    using assms(1,2) worker_metrics_stage
      [of "service_env synthEnv platform secret redisEndpoint Staging WorkerService" reports
        "\<lparr>ms_timer = False, ms_sent = []\<rparr>"]
    by (auto simp: sent_metrics_def nodeEnv_setting_def service_env_unset or_else_def metrics_stage_def)
  moreover have "q = waiting_jobs_metric st"
    using assms(3)
    by (auto simp: app_stage_def Let_def alarm_stack_of_def alarms_def worker_service_def)
  ultimately show ?thesis
    by (cases st) (auto simp: watches_def waiting_jobs_metric_def ORDERS_QUEUE_NAME_def)
qed

theorem staging_metrics_lost_witness:
  "let m = \<lparr>mt_name = ''WaitingJobCount'', mt_value = 700, mt_stage = ''production'', mt_queue = ORDERS_QUEUE_NAME\<rparr>
   in \<not> watches (waiting_jobs_metric Staging) m \<and> watches (waiting_jobs_metric Production) m"
proof -
  let ?m = "\<lparr>mt_name = ''WaitingJobCount'', mt_value = 700, mt_stage = ''production'', mt_queue = ORDERS_QUEUE_NAME\<rparr>"
  let ?p = "\<lambda>x. if x = ''AWS_REGION'' then Some ''ap-northeast-2'' else None"
  let ?depth = "\<lparr>qd_waiting = 700, qd_active = 20, qd_failed = 0\<rparr>"
  let ?env = "service_env (\<lambda>_. None) ?p (\<lambda>f. f) (\<lambda>_. ''r'') Staging WorkerService"
  have on: "metrics_enabled ?env" by (simp add: metrics_enabled_def service_env_unset truthy_def)
  have node: "nodeEnv_setting ?env = ''production''" by (simp add: nodeEnv_setting_def service_env_unset or_else_def)
  have "?m \<in> sent_metrics (worker_metrics ?env [(Inr ?depth, None)] \<lparr>ms_timer = False, ms_sent = []\<rparr>)"
    using on by (simp add: worker_metrics_def node metrics_stage_def onApplicationBootstrap_def publish_metrics_def
        st_bind_def sent_metrics_def queue_metrics_def Let_def)
  note lost = staging_metrics_lost [where platform = ?p, OF _ this, where q = "waiting_jobs_metric st" and st = st for st]
  have "QueueMetric (waiting_jobs_metric st) \<in>
      al_metric ` set (as_alarms (sp_alarmStack (app_stage (\<lambda>_. None) (\<lambda>_. ''r'') st)))" for st
    by (simp add: app_stage_def Let_def alarm_stack_of_def alarms_def)
  then show ?thesis using lost [of Staging] lost [of Production] by (simp add: Let_def)
qed

section \<open>Processes and connections\<close>

text \<open>The api tasks serve every controller and take no job; the workers take the jobs and serve nothing.\<close>

lemma deployed_roles:
  "pp_consumers (bootstrap (service_env y p sec re s ApiService) loaded) = []"
  "pp_controllers (bootstrap (service_env y p sec re s ApiService) loaded) =
     [OrderController, InternalBridgeController, PublicController, AdminController, MenuAdminController, AuthController]"
  "pp_consumers (bootstrap (service_env y p sec re s WorkerService) loaded) =
     [OrderProcessor, DlqProcessor, QueueMetricsService]"
  "pp_controllers (bootstrap (service_env y p sec re s WorkerService) loaded) = []"
  "pp_listen (bootstrap (service_env y p sec re s WorkerService) loaded) = None"
  by (simp_all add: bootstrap_def Let_def env_or_def service_env_common truthy_def root_module_of_def
      root_defs module_defs module_consumers_def)

text \<open>What the pools of all tasks may open at the database.\<close>

definition pool_max :: "environment \<Rightarrow> int" where
  "pool_max env = (case do_poolMax (database_options_of env) of Some n \<Rightarrow> n | None \<Rightarrow> 0)"

lemma connection_bound:
  assumes "na \<le> ts_max (sp_api (app_stage y re s))" and "nw \<le> ts_max (sp_worker (app_stage y re s))"
  shows "int na * pool_max (service_env y p sec re s ApiService) +
    int nw * pool_max (service_env y p sec re s WorkerService) \<le> (if isProd s then 1200 else 150)"
proof -
  have "show_int 30 = ''30''" "show_int 20 = ''20''"
    by code_simp+
  then have n: "parseInt ''30'' = Some 30" "parseInt ''20'' = Some 20"
    using parseInt_show_int [of 30] parseInt_show_int [of 20] by simp_all
  have "pool_max (service_env y p sec re s ApiService) = 30" "pool_max (service_env y p sec re s WorkerService) = 20"
    by (simp_all add: pool_max_def database_options_of_def Let_def env_int_def env_or_def service_env_common
        truthy_def n)
  then show ?thesis
    using assms by (cases s) (simp_all add: app_stage_def Let_def api_service_def worker_service_def)
qed

end
