(* ===== verification/Order_Board.thy ===== *)
theory Order_Board
  imports Order_System
begin

text \<open>
  A specification of the statuses for the program as a whole. The board shows the current
  status of each order. Orders are placed as QUEUED, move along the life cycle, and are taken
  over by the POS, which may set its own statuses at any time. The old endpoint of the apps (PATCH
  order/:id/status) may set any status of the column: the orders it was given a status for that is
  none of the POS's are collected in a set, and the board allows anything of them but to disappear.
  Unlike the ledger the board needs no invariant of the database, so it also holds where status
  updates have broken the audit log.
\<close>

section \<open>The specification\<close>

type_synonym board = "uuid \<rightharpoonup> order_status"

definition pos_statuses :: "order_status set" where
  "pos_statuses = {ACCEPTED, COOKING, DONE, CANCELLED}"

inductive board_step :: "uuid set \<Rightarrow> board \<Rightarrow> board \<Rightarrow> bool" for X where
  place: "B i = None \<Longrightarrow> board_step X B (B(i \<mapsto> QUEUED))"
| move: "B i = Some st \<Longrightarrow> (st, st') \<in> order_moves \<Longrightarrow> board_step X B (B(i \<mapsto> st'))"
| take_over: "B i = Some st \<Longrightarrow> st' \<in> pos_statuses \<Longrightarrow> board_step X B (B(i \<mapsto> st'))"
| overwrite: "B i = Some st \<Longrightarrow> i \<in> X \<Longrightarrow> board_step X B (B(i \<mapsto> st'))"

inductive_cases board_stepE: "board_step X B B'"

fun order_rank :: "order_status \<Rightarrow> nat" where
  "order_rank QUEUED = 0"
| "order_rank SAVED = 1"
| "order_rank SENT_TO_POS = 2"
| "order_rank COMPLETED = 3"
| "order_rank FAILED = 3"
| "order_rank _ = 4"

text \<open>What may become of a status: it gains rank, and an end is left only for the POS.\<close>

definition advances :: "order_status \<Rightarrow> order_status \<Rightarrow> bool" where
  "advances st st' \<longleftrightarrow> order_rank st \<le> order_rank st' \<and> (3 \<le> order_rank st \<longrightarrow> st' = st \<or> st' \<in> pos_statuses)"

lemma advances_refl [simp]: "advances st st"
  by (simp add: advances_def)

lemma pos_rank: "st \<in> pos_statuses \<longleftrightarrow> order_rank st = 4"
  by (cases st) (simp_all add: pos_statuses_def)

lemma advances_trans: "advances a b \<Longrightarrow> advances b c \<Longrightarrow> advances a c"
  by (auto simp: advances_def pos_rank)

lemma move_advances: "(st, st') \<in> order_moves \<Longrightarrow> advances st st'"
  by (auto simp: order_moves_def advances_def)

lemma take_over_advances: "st' \<in> pos_statuses \<Longrightarrow> advances st st'"
  by (cases st) (simp_all add: advances_def pos_rank)

lemma board_step_kept:
  "board_step X B B' \<Longrightarrow> B i = Some st \<Longrightarrow> \<exists>st'. B' i = Some st' \<and> (i \<notin> X \<longrightarrow> advances st st')"
  by (induction rule: board_step.induct) (auto simp: move_advances take_over_advances)

lemma board_steps_kept:
  "(board_step X)\<^sup>*\<^sup>* B B' \<Longrightarrow> B i = Some st \<Longrightarrow> \<exists>st'. B' i = Some st' \<and> (i \<notin> X \<longrightarrow> advances st st')"
proof (induction rule: rtranclp_induct)
  case (step B1 B2)
  then obtain st1 where "B1 i = Some st1" "i \<notin> X \<longrightarrow> advances st st1" by blast
  with board_step_kept [OF step(2)] show ?case by (meson advances_trans)
qed simp

section \<open>The abstraction\<close>

definition board_of :: "database \<Rightarrow> board" where
  "board_of db i = map_option o_status (row_with_id i db)"

lemma board_of_update:
  "(\<And>r. o_id (f r) = o_id r) \<Longrightarrow> board_of (db\<lparr>t_orders := sql_update q f (t_orders db)\<rparr>) i =
     map_option (\<lambda>r. o_status (if q r then f r else r)) (row_with_id i db)"
  by (simp add: board_of_def row_with_id_def find_sql_update_key option.map_comp comp_def)

lemma board_of_frame [simp]:
  "board_of (db\<lparr>t_menus := ms\<rparr>) = board_of db" "board_of (db\<lparr>t_transitions := ts\<rparr>) = board_of db"
  by (simp_all add: board_of_def row_with_id_def fun_eq_iff)

lemma board_kept:
  "(\<And>r. row_with_id j db = Some r \<Longrightarrow> g r = o_status r) \<Longrightarrow> map_option g (row_with_id j db) = board_of db j"
  by (cases "row_with_id j db") (simp_all add: board_of_def)

text \<open>An update that changes the status of one order, or of none.\<close>

lemma board_changed:
  assumes B: "\<And>j. board_of db' j = map_option g (row_with_id j db)"
    and other: "\<And>r. o_id r \<noteq> i \<Longrightarrow> g r = o_status r" and row: "row_with_id i db = Some r" "g r = st"
  shows "board_of db' = (board_of db)(i \<mapsto> st)"
proof (rule ext)
  fix j
  show "board_of db' j = ((board_of db)(i \<mapsto> st)) j"
    using row by (cases "j = i") (auto simp: B intro!: board_kept other dest: row_with_id_Some)
qed

lemma board_unchanged:
  assumes "\<And>j. board_of db' j = map_option g (row_with_id j db)"
    and "\<And>j r. row_with_id j db = Some r \<Longrightarrow> g r = o_status r"
  shows "board_of db' = board_of db"
  using assms by (auto simp: fun_eq_iff intro: board_kept)

lemma createOrder_board: "(board_step X)\<^sup>*\<^sup>* (board_of db) (board_of (snd (createOrder C p db)))"
proof (cases "\<exists>db'. createOrder_tx C p db = Inr (True, db')")
  case False
  then have "snd (createOrder C p db) = db"
    by (auto simp: createOrder_state split: sum.splits prod.splits bool.splits)
  then show ?thesis by simp
next
  case True
  then obtain db' where tx: "createOrder_tx C p db = Inr (True, db')" by blast
  from createOrder_tx_True [OF tx] obtain i row its tr where
    row: "o_id row = i" "o_status row = QUEUED" and new: "i \<notin> o_id ` set (t_orders db)"
    and db': "db' = db\<lparr>t_orders := t_orders db @ [row], t_items := t_items db @ its,
       t_transitions := t_transitions db @ [tr]\<rparr>"
    by (auto simp: fresh_row_of_def)
  have none: "find (\<lambda>r. o_id r = i) (t_orders db) = None" using new by (simp only: find_None_key) simp
  then have "board_of db i = None" by (simp add: board_of_def row_with_id_def)
  moreover have "board_of db' = (board_of db)(i \<mapsto> QUEUED)"
    using none row by (auto simp: board_of_def row_with_id_def db' find_append fun_eq_iff split: option.split)
  ultimately have "board_step X (board_of db) (board_of db')" by (metis board_step.place)
  then show ?thesis by (simp add: createOrder_state tx)
qed

lemma transitionStatus_board:
  assumes C: "driver_counts C"
  shows "(board_step X)\<^sup>*\<^sup>* (board_of db) (board_of (snd (transitionStatus C p db)))"
proof (cases "transitionStatus C p db")
  case (Pair res db')
  show ?thesis
  proof (cases res)
    case (Inl e)
    with Pair show ?thesis using transitionStatus_Inl [of C p db e] by simp
  next
    case (Inr u)
    with Pair have ok: "transitionStatus C p db = (Inr (), db')" by simp
    from transitionStatus_Inr [OF ok C] obtain i col tr where
      v: "(tp_expectedStatus p, tp_nextStatus p) \<in> order_moves"
      and db': "db' = (db\<lparr>t_orders := sql_update (transition_where i p) (transition_row col (cx_now C) p)
        (t_orders db)\<rparr>)\<lparr>t_transitions := t_transitions db @ [tr]\<rparr>"
      by (auto simp: moves_allowed)
    have B: "board_of db' j = map_option (\<lambda>r. o_status (if transition_where i p r
        then transition_row col (cx_now C) p r else r)) (row_with_id j db)" for j
      unfolding db' board_of_frame by (rule board_of_update) simp
    show ?thesis
    proof (cases "\<exists>r. row_with_id i db = Some r \<and> transition_where i p r")
      case True
      then obtain r where r: "row_with_id i db = Some r" "transition_where i p r" by blast
      have "board_of db' = (board_of db)(i \<mapsto> tp_nextStatus p)"
        using r by (intro board_changed [OF B]) (auto simp: transition_where_def)
      moreover have "board_of db i = Some (tp_expectedStatus p)"
        using r by (simp add: board_of_def transition_where_def)
      ultimately have "board_step X (board_of db) (board_of db')" using v by (metis board_step.move)
      then show ?thesis by (simp add: Pair)
    next
      case False
      then have "board_of db' = board_of db"
        by (intro board_unchanged [OF B]) (auto simp: transition_where_def dest: row_with_id_Some)
      then show ?thesis by (simp add: Pair)
    qed
  qed
qed

lemma bookkeeping_board:
  "board_of (snd (markDlq C i m db)) = board_of db"
  "board_of (snd (incrementRetryCount C i db)) = board_of db"
  by (auto simp: markDlq_def incrementRetryCount_def split: sum.splits
      intro!: board_unchanged [OF board_of_update])

lemma posStatusUpdate_board:
  assumes "st \<in> pos_statuses \<or> (\<forall>i. cx_uuid_in C orderId = Some i \<longrightarrow> i \<in> X)"
  shows "(board_step X)\<^sup>*\<^sup>* (board_of db) (board_of (snd (posStatusUpdate C st orderId db)))"
proof (cases "bind_res (run_stmt C UpdateOrder) (\<lambda>_. uuid_arg C orderId)")
  case (Inl e)
  then show ?thesis by (simp add: posStatusUpdate_def)
next
  case (Inr i)
  let ?db' = "snd (posStatusUpdate C st orderId db)"
  have db': "?db' = db\<lparr>t_orders := sql_update (\<lambda>r. o_id r = i)
      (\<lambda>r. r\<lparr>o_status := st, o_updatedAt := Some (cx_now C)\<rparr>) (t_orders db)\<rparr>"
    using Inr by (simp add: posStatusUpdate_def Let_def)
  have B: "board_of ?db' j = map_option (\<lambda>r. o_status (if o_id r = i
      then r\<lparr>o_status := st, o_updatedAt := Some (cx_now C)\<rparr> else r)) (row_with_id j db)" for j
    unfolding db' by (rule board_of_update) simp
  show ?thesis
  proof (cases "row_with_id i db")
    case None
    then have "o_id r \<noteq> i" if "row_with_id j db = Some r" for j r
      using that row_with_id_Some [OF that] by auto
    then have "board_of ?db' = board_of db" by (intro board_unchanged [OF B]) simp
    then show ?thesis by simp
  next
    case (Some r)
    then have "board_of ?db' = (board_of db)(i \<mapsto> st)"
      by (intro board_changed [OF B]) (auto dest: row_with_id_Some)
    moreover have "board_of db i = Some (o_status r)" using Some by (simp add: board_of_def)
    moreover have "cx_uuid_in C orderId = Some i" using Inr by (auto simp: bind_res_Inr)
    ultimately have "board_step X (board_of db) (board_of ?db')"
      using assms by (metis board_step.take_over board_step.overwrite)
    then show ?thesis by simp
  qed
qed

section \<open>The clients of the database\<close>

text \<open>Intake leaves the orders to the workers.\<close>

lemma accept_order_db: "keeps (\<lambda>t. a_db t = db) (accept_order E cmd (ae_uuid E 0))"
proof (rule keepsI)
  fix s :: api_state assume s: "a_db s = db"
  obtain v t where v: "validateAndEnrichItems E cmd s = (v, t)" by force
  have "a_db t = db" using s validate_frame [of E cmd s] by (simp add: v)
  then show "a_db (snd (accept_order E cmd (ae_uuid E 0) s)) = db"
    unfolding accept_order_cases [OF v]
    by (auto simp: accepted_state_def Let_def split: sum.splits option.splits)
qed

lemma execute_db: "keeps (\<lambda>t. a_db t = db) (execute E cmd)"
  unfolding execute_def Let_def
  by (intro keeps_intros accept_order_db)
    (simp_all add: keeps_def api_tryAcquire_def api_getCachedResponse_def api_release_def guarded_def case_prod_beta
      split: option.splits)

lemma intake_db:
  "keeps (\<lambda>t. a_db t = db) (controller_create E dto)"
  "keeps (\<lambda>t. a_db t = db) (bridgeOrder E bridgeKey apiKey bdto)"
  "keeps (\<lambda>t. a_db t = db) (createOrderCompat E fresh body)"
  unfolding controller_create_def bridgeOrder_def createOrderCompat_def
  by (intro keeps_intros execute_db)+

lemmas intake_leaves_db = intake_db [THEN keepsD, OF refl]

lemma same_menus: "\<exists>ms. db = db\<lparr>t_menus := ms\<rparr>"
  by (rule exI [of _ "t_menus db"]) simp

text \<open>The status endpoint of the apps: a status of the POS, any other status for an order of the set, or
  a text that is no status, which writes no row.\<close>

definition app_status_in :: "uuid set \<Rightarrow> db_ctx \<Rightarrow> string \<Rightarrow> string \<Rightarrow> bool" where
  "app_status_in X C orderId text \<longleftrightarrow>
     (\<forall>st i. read_status (toUpperCase text) = Some st \<and> cx_uuid_in C orderId = Some i \<longrightarrow>
        st \<in> pos_statuses \<or> i \<in> X)"

lemma forward_effect:
  "a_db (snd (st_bind (controller_updateStatus C now orderId st) (\<lambda>r. st_return (Some r)) a)) =
     snd (posStatusUpdate C st orderId (a_db a))"
  using updateStatus_effect(2) [of C now orderId st a] by (auto simp: st_bind_def split: prod.splits sum.splits)

lemma posStatusUpdate_no_row:
  assumes "\<forall>r \<in> set (t_orders db). cx_uuid_in C orderId \<noteq> Some (o_id r)"
  shows "snd (posStatusUpdate C st orderId db) = db"
proof (cases "bind_res (run_stmt C UpdateOrder) (\<lambda>_. uuid_arg C orderId)")
  case (Inl e)
  then show ?thesis by (simp add: posStatusUpdate_def)
next
  case (Inr i)
  with assms have "\<forall>r \<in> set (t_orders db). o_id r \<noteq> i" by (auto simp: bind_res_Inr)
  then have "sql_update (\<lambda>r. o_id r = i) f (t_orders db) = t_orders db" for f by (rule sql_update_none)
  with Inr show ?thesis by (simp add: posStatusUpdate_def Let_def)
qed

lemma app_status_board:
  assumes "app_status_in X C orderId text"
  shows "(board_step X)\<^sup>*\<^sup>* (board_of (a_db a)) (board_of (a_db (snd (updateOrderStatus C now orderId text a))))"
proof (cases "toUpperCase text = [] \<or> read_status (toUpperCase text) = None")
  case True
  then have "a_db (snd (updateOrderStatus C now orderId text a)) = a_db a"
    by (auto simp: updateOrderStatus_def Let_def forward_effect intro: posStatusUpdate_no_row)
  then show ?thesis by simp
next
  case False
  then obtain st where st: "toUpperCase text \<noteq> []" "read_status (toUpperCase text) = Some st" by blast
  then have "a_db (snd (updateOrderStatus C now orderId text a)) = snd (posStatusUpdate C st orderId (a_db a))"
    by (simp add: updateOrderStatus_def Let_def forward_effect)
  moreover have "st \<in> pos_statuses \<or> (\<forall>i. cx_uuid_in C orderId = Some i \<longrightarrow> i \<in> X)"
    using assms st(2) by (auto simp: app_status_in_def)
  ultimately show ?thesis by (simp add: posStatusUpdate_board)
qed

text \<open>What other clients do to the database: the repository's operations, status updates by either
  endpoint, and anything in other tables.\<close>

inductive outside_write :: "uuid set \<Rightarrow> database \<Rightarrow> database \<Rightarrow> bool" for X where
  repository: "repo_step db db' \<Longrightarrow> outside_write X db db'"
| status: "st \<in> pos_statuses \<or> (\<forall>i. cx_uuid_in C orderId = Some i \<longrightarrow> i \<in> X) \<Longrightarrow>
    outside_write X db (snd (posStatusUpdate C st orderId db))"
| other_tables: "t_orders db' = t_orders db \<Longrightarrow> outside_write X db db'"

lemma outside_write_board: "outside_write X db db' \<Longrightarrow> (board_step X)\<^sup>*\<^sup>* (board_of db) (board_of db')"
proof (induction rule: outside_write.induct)
  case (repository db db')
  then show ?case
    by (induction rule: repo_step.induct) (simp_all add: createOrder_board transitionStatus_board bookkeeping_board)
next
  case (status st C orderId db)
  then show ?case by (rule posStatusUpdate_board)
next
  case (other_tables db' db)
  then have "board_of db' = board_of db" by (simp add: board_of_def row_with_id_def fun_eq_iff)
  then show ?case by simp
qed

lemma outside_writes_board:
  "(outside_write X)\<^sup>*\<^sup>* db db' \<Longrightarrow> (board_step X)\<^sup>*\<^sup>* (board_of db) (board_of db')"
  by (induction rule: rtranclp_induct) (auto dest: outside_write_board intro: rtranclp_trans)

definition board_env :: "uuid set \<Rightarrow> 'p worker_env \<Rightarrow> bool" where
  "board_env X E \<longleftrightarrow> (\<forall>c. driver_counts (we_ctx E c)) \<and>
     (\<forall>c db. (outside_write X)\<^sup>*\<^sup>* db (we_others E c db))"

interpretation board: db_invariant "\<lambda>db. (board_step X)\<^sup>*\<^sup>* B (board_of db)" "board_env X" "\<lambda>_. True" for X B
proof unfold_locales
  fix E :: "'a worker_env" and db c i msg p m tp
  assume E: "board_env X E" and B: "(board_step X)\<^sup>*\<^sup>* B (board_of db)"
  have C: "driver_counts (we_ctx E c)" and others: "(outside_write X)\<^sup>*\<^sup>* db (we_others E c db)"
    using E by (simp_all add: board_env_def)
  show "(board_step X)\<^sup>*\<^sup>* B (board_of (we_others E c db))"
    using B outside_writes_board [OF others] by (rule rtranclp_trans)
  show "(board_step X)\<^sup>*\<^sup>* B (board_of (snd (createOrder (we_ctx E c) (create_params p m) db)))"
    using B createOrder_board by (rule rtranclp_trans)
  show "(board_step X)\<^sup>*\<^sup>* B (board_of (snd (transitionStatus (we_ctx E c) tp db)))"
    using B transitionStatus_board [OF C] by (rule rtranclp_trans)
  show "(board_step X)\<^sup>*\<^sup>* B (board_of (snd (markDlq (we_ctx E c) i msg db)))"
    "(board_step X)\<^sup>*\<^sup>* B (board_of (snd (incrementRetryCount (we_ctx E c) i db)))"
    using B by (simp_all add: bookkeeping_board)
qed

text \<open>
  The operations that write no order: the three ways in which orders are requested, dead letters,
  re-drives and the menu editor. apis tells which environments the API may meet.
\<close>

inductive side_step :: "('d api_env \<Rightarrow> bool) \<Rightarrow> 'p system_state \<Rightarrow> 'p system_state \<Rightarrow> bool" for apis where
  create: "apis A \<Longrightarrow> side_step apis s (s\<lparr>y_api := snd (controller_create A dto (y_api s))\<rparr>)"
| bridge: "apis A \<Longrightarrow> side_step apis s (s\<lparr>y_api := snd (bridgeOrder A bridgeKey apiKey bdto (y_api s))\<rparr>)"
| compat: "apis A \<Longrightarrow> side_step apis s (s\<lparr>y_api := snd (createOrderCompat A fresh body (y_api s))\<rparr>)"
| dead_letter: "side_step apis s (put_worker (snd (dlq_processor_process E d (worker_view s))) s)"
| redrive: "side_step apis s (put_admin (snd (redriveOrder V orderId (admin_view s))) s)"
| catalogue: "catalog_step (catalog_view s) k \<Longrightarrow> side_step apis s (put_catalog k s)"

lemma side_step_effect:
  "side_step apis s s' \<Longrightarrow>
     (\<exists>ms. system_db s' = (system_db s)\<lparr>t_menus := ms\<rparr>) \<and> w_calls (y_worker s') = w_calls (y_worker s)"
proof (induction rule: side_step.induct)
  case (dead_letter s E d)
  show ?case
    by (simp add: dlq_processor_process_def send_alert_def case_prod_beta worker_view_def put_worker_def
        system_db_def same_menus)
next
  case (redrive s V orderId)
  show ?case
    by (simp add: redrive_unchanged put_admin_def admin_view_def system_db_def same_menus)
next
  case (catalogue s k)
  from catalog_step_db [OF this] show ?case by (auto simp: catalog_view_def put_catalog_def system_db_def)
qed (simp_all add: system_db_def intake_leaves_db same_menus)

text \<open>
  Every operation of the system: also workers, failure events, and both status endpoints. The POS's
  endpoint takes the four statuses of its DTO.
\<close>

inductive client_step ::
  "('d api_env \<Rightarrow> bool) \<Rightarrow> uuid set \<Rightarrow> 'p system_state \<Rightarrow> 'p system_state \<Rightarrow> bool" for apis X where
  side: "side_step apis s s' \<Longrightarrow> client_step apis X s s'"
| job: "board_env X E \<Longrightarrow>
    client_step apis X s (put_worker (snd (order_processor_process E w j n p (worker_view s))) s)"
| failed: "board_env X E \<Longrightarrow> client_step apis X s (put_worker (snd (onFailed E w j n p err (worker_view s))) s)"
| pos: "st \<in> pos_statuses \<Longrightarrow>
    client_step apis X s (s\<lparr>y_api := snd (controller_updateStatus C now orderId st (y_api s))\<rparr>)"
| app: "app_status_in X C orderId text \<Longrightarrow>
    client_step apis X s (s\<lparr>y_api := snd (updateOrderStatus C now orderId text (y_api s))\<rparr>)"

lemma worker_step_board:
  assumes "keeps (\<lambda>w. (board_step X)\<^sup>*\<^sup>* (board_of (system_db s)) (board_of (w_db w))) m"
  shows "(board_step X)\<^sup>*\<^sup>* (board_of (system_db s)) (board_of (system_db (put_worker (snd (m (worker_view s))) s)))"
  using keepsD [OF assms, of "worker_view s"] by (simp add: worker_view_def put_worker_def system_db_def)

lemma client_step_board:
  "client_step apis X s s' \<Longrightarrow> (board_step X)\<^sup>*\<^sup>* (board_of (system_db s)) (board_of (system_db s'))"
proof (induction rule: client_step.induct)
  case (side s s')
  then show ?case using side_step_effect [OF side] by auto
next
  case (job E s w j n p)
  then show ?case by (intro worker_step_board board.queue_workers(1) TrueI)
next
  case (failed E s w j n p err)
  then show ?case by (intro worker_step_board board.queue_workers(2))
next
  case (pos st s C now orderId)
  then show ?case by (simp add: system_db_def updateStatus_effect posStatusUpdate_board)
next
  case (app C orderId status_text s now)
  then show ?case by (simp add: system_db_def app_status_board)
qed

text \<open>C5: the whole service keeps to the board: whatever requests, workers, failure events, re-drives,
  status updates by the POS and by the apps, and menu edits do, in any order and with any faults, each
  order stays on the board. Unless the apps' endpoint gave it a status that is none of the POS's, its
  status never loses rank, and one that is COMPLETED or FAILED is left only for a status of the POS,
  and those only for one another.\<close>

theorem service_refines_board:
  assumes "(client_step apis X)\<^sup>*\<^sup>* s s'"
  shows "(board_step X)\<^sup>*\<^sup>* (board_of (system_db s)) (board_of (system_db s')) \<and>
    (\<forall>i st. board_of (system_db s) i = Some st \<longrightarrow> (\<exists>st'. board_of (system_db s') i = Some st' \<and>
       (i \<notin> X \<longrightarrow>
          order_rank st \<le> order_rank st' \<and> (st \<in> {COMPLETED, FAILED} \<longrightarrow> st' = st \<or> st' \<in> pos_statuses) \<and>
          (st \<in> pos_statuses \<longrightarrow> st' \<in> pos_statuses))))"
proof -
  let ?B = "board_of (system_db s)" and ?B' = "board_of (system_db s')"
  have steps: "(board_step X)\<^sup>*\<^sup>* ?B ?B'"
    using assms by (induction rule: rtranclp_induct) (auto dest: client_step_board intro: rtranclp_trans)
  have ends: "advances st st' \<Longrightarrow> order_rank st \<le> order_rank st' \<and>
      (st \<in> {COMPLETED, FAILED} \<longrightarrow> st' = st \<or> st' \<in> pos_statuses) \<and>
      (st \<in> pos_statuses \<longrightarrow> st' \<in> pos_statuses)" for st st'
    by (auto simp: advances_def pos_rank)
  with steps board_steps_kept [OF steps] show ?thesis by blast
qed

definition cooking_system :: "nat system_state" where
  "cooking_system = \<lparr>y_api = sample_api\<lparr>a_db := snd (posStatusUpdate (quiet_ctx 20) COOKING ''o1'' queued_db)\<rparr>,
     y_worker = sample_start, y_catalog = sample_catalog\<rparr>"

text \<open>An order the POS is cooking, while the apps set another one back and its job fails for good.\<close>

theorem service_refines_board_witness:
  "let s1 = cooking_system\<lparr>y_api := snd (updateOrderStatus (quiet_ctx 25) 25 ''o2'' ''queued'' (y_api cooking_system))\<rparr>
   in \<exists>st. board_of (system_db (put_worker (snd (onFailed (sample_env 30 dead_http) ''w1'' ''order-o1'' 2 sample_payload
     (menuNotFoundError ''m9'') (worker_view s1))) s1)) ''o1'' = Some st \<and> st \<in> pos_statuses"
proof -
  let ?s1 = "cooking_system\<lparr>y_api := snd (updateOrderStatus (quiet_ctx 25) 25 ''o2'' ''queued'' (y_api cooking_system))\<rparr>"
  let ?apis = "\<lambda>A. A = sample_api_env 5"
  have "app_status_in {''o2''} (quiet_ctx 25) ''o2'' ''queued''" by (simp add: app_status_in_def)
  then have "client_step ?apis {''o2''} cooking_system ?s1" by (rule client_step.app)
  moreover have "board_env {''o2''} (sample_env 30 dead_http)" by (simp add: board_env_def)
  from client_step.failed [OF this, of ?apis ?s1 "''w1''" "''order-o1''" 2 sample_payload "menuNotFoundError ''m9''"]
  have "client_step ?apis {''o2''} ?s1 (put_worker (snd (onFailed (sample_env 30 dead_http) ''w1'' ''order-o1'' 2
      sample_payload (menuNotFoundError ''m9'') (worker_view ?s1))) ?s1)" .
  ultimately have "(client_step ?apis {''o2''})\<^sup>*\<^sup>* cooking_system (put_worker (snd (onFailed (sample_env 30 dead_http)
      ''w1'' ''order-o1'' 2 sample_payload (menuNotFoundError ''m9'') (worker_view ?s1))) ?s1)"
    by (meson rtranclp.rtrancl_refl rtranclp.rtrancl_into_rtrancl)
  moreover have "board_of (system_db cooking_system) ''o1'' = Some COOKING"
    by (simp add: cooking_system_def system_db_def posStatusUpdate_def uuid_arg_def board_of_def row_with_id_def
        sql_update_def Let_def)
  moreover have "COOKING \<in> pos_statuses" "''o1'' \<notin> {''o2''}" by (simp_all add: pos_statuses_def)
  ultimately show ?thesis unfolding Let_def using service_refines_board by blast
qed

text \<open>
  What the set is for: the endpoint of the apps brings a finished order back to the start.
\<close>

lemma app_status_sets_any:
  assumes "read_status (toUpperCase text) = Some st" and "toUpperCase text \<noteq> []"
    and "statements_succeed C" and "cx_uuid_in C orderId = Some i" and "row_with_id i (a_db a) \<noteq> None"
  shows "board_of (a_db (snd (updateOrderStatus C now orderId text a))) i = Some st"
proof -
  have "a_db (snd (updateOrderStatus C now orderId text a)) = a_db (snd (controller_updateStatus C now orderId st a))"
    using assms(1,2) by (simp add: updateOrderStatus_def Let_def st_bind_def split: prod.splits sum.splits)
  also have "\<dots> = (a_db a)\<lparr>t_orders := sql_update (\<lambda>r. o_id r = i)
      (\<lambda>r. r\<lparr>o_status := st, o_updatedAt := Some (cx_now C)\<rparr>) (t_orders (a_db a))\<rparr>"
    using assms(3,4) by (simp add: updateStatus_effect posStatusUpdate_def statements_succeedD uuid_arg_def Let_def)
  finally show ?thesis
    using assms(5) by (auto simp: board_of_update dest: row_with_id_Some)
qed

end
