(* ===== verification/Pos_Once.thy ===== *)
theory Pos_Once
  imports Order_Board
begin

text \<open>
  How often the POS is asked for one order. The queue may deliver a job again and again, after
  failures, crashes or by re-drives, and several requests may carry one idempotency key; the
  unique key of the orders lets one of the deliveries through. The runs here keep, beside the
  state of the system, the requests that each delivery of a job made.
\<close>

section \<open>Keys that have an order\<close>

definition order_keys :: "database \<Rightarrow> string set" where
  "order_keys db = o_idempotencyKey ` set (t_orders db)"

text \<open>Other clients take no order away.\<close>

definition keys_env :: "'p worker_env \<Rightarrow> bool" where
  "keys_env E \<longleftrightarrow> (\<forall>c. driver_counts (we_ctx E c)) \<and>
     (\<forall>c db. order_keys db \<subseteq> order_keys (we_others E c db))"

lemma order_keys_update:
  "(\<And>r. o_idempotencyKey (f r) = o_idempotencyKey r) \<Longrightarrow>
     order_keys (db\<lparr>t_orders := sql_update q f (t_orders db)\<rparr>) = order_keys db"
  by (simp add: order_keys_def sql_update_def o_def if_distrib [of o_idempotencyKey] flip: set_map cong: if_cong)

lemma order_keys_frame [simp]:
  "order_keys (db\<lparr>t_menus := ms\<rparr>) = order_keys db" "order_keys (db\<lparr>t_transitions := ts\<rparr>) = order_keys db"
  by (simp_all add: order_keys_def)

lemma createOrder_keys: "order_keys db \<subseteq> order_keys (snd (createOrder C p db))"
proof (cases "\<exists>db'. createOrder_tx C p db = Inr (True, db')")
  case True
  then obtain db' where tx: "createOrder_tx C p db = Inr (True, db')" by blast
  from createOrder_tx_True [OF tx] show ?thesis by (auto simp: createOrder_state tx order_keys_def)
next
  case False
  then show ?thesis by (auto simp: createOrder_state split: sum.splits prod.splits bool.splits)
qed

lemma createOrder_new_key:
  assumes "createOrder C p db = (Inr (Some ord), db')"
  shows "cp_idempotencyKey p \<notin> order_keys db \<and> cp_idempotencyKey p \<in> order_keys db'"
proof -
  from createOrder_Some [OF assms] have tx: "createOrder_tx C p db = Inr (True, db')" by simp
  from createOrder_tx_True [OF tx] show ?thesis by (auto simp: order_keys_def fresh_row_of_def)
qed

lemma transitionStatus_keys:
  assumes "driver_counts C"
  shows "order_keys (snd (transitionStatus C tp db)) = order_keys db"
proof (cases "transitionStatus C tp db")
  case (Pair res db')
  show ?thesis
  proof (cases res)
    case (Inl e)
    with Pair show ?thesis using transitionStatus_Inl [of C tp db e] by simp
  next
    case (Inr u)
    with Pair have ok: "transitionStatus C tp db = (Inr (), db')" by simp
    from transitionStatus_Inr [OF ok assms] obtain i col tr where
      "db' = (db\<lparr>t_orders := sql_update (transition_where i tp) (transition_row col (cx_now C) tp)
        (t_orders db)\<rparr>)\<lparr>t_transitions := t_transitions db @ [tr]\<rparr>"
      by auto
    with Pair show ?thesis by (simp add: order_keys_update)
  qed
qed

lemma bookkeeping_keys:
  "order_keys (snd (markDlq C i m db)) = order_keys db"
  "order_keys (snd (incrementRetryCount C i db)) = order_keys db"
  "order_keys (snd (posStatusUpdate C st orderId db)) = order_keys db"
  by (auto simp: markDlq_def incrementRetryCount_def posStatusUpdate_def Let_def split: sum.splits
      intro!: order_keys_update)

interpretation held: db_invariant "\<lambda>db. K \<subseteq> order_keys db" keys_env "\<lambda>_. True" for K
proof unfold_locales
  fix E :: "'a worker_env" and db c i msg p m tp
  assume E: "keys_env E" and K: "K \<subseteq> order_keys db"
  show "K \<subseteq> order_keys (we_others E c db)" using E K unfolding keys_env_def by blast
  show "K \<subseteq> order_keys (snd (createOrder (we_ctx E c) (create_params p m) db))"
    using K createOrder_keys by (rule order_trans)
  show "K \<subseteq> order_keys (snd (transitionStatus (we_ctx E c) tp db))"
    using E K by (simp add: keys_env_def transitionStatus_keys)
  show "K \<subseteq> order_keys (snd (markDlq (we_ctx E c) i msg db))"
    "K \<subseteq> order_keys (snd (incrementRetryCount (we_ctx E c) i db))"
    using K by (simp_all add: bookkeeping_keys)
qed

section \<open>The requests of one delivery\<close>

definition pos_requests :: "'p worker_env \<Rightarrow> order_job_payload \<Rightarrow> http_request list \<Rightarrow> bool" where
  "pos_requests E p rqs \<longleftrightarrow> (\<exists>a n. n \<le> 4 \<and>
     rqs = map (\<lambda>i. send_request a (domain_order_of p (we_posTime E i))) [0..<n])"

lemma no_requests [simp]: "pos_requests E p []"
  unfolding pos_requests_def by (rule exI, rule exI [of _ 0]) simp

definition adds_requests :: "'p worker_env \<Rightarrow> order_job_payload \<Rightarrow> 'p worker_state \<Rightarrow> 'p worker_state \<Rightarrow> bool" where
  "adds_requests E p s s' \<longleftrightarrow> (\<exists>rqs. pos_requests E p rqs \<and> w_calls s' = w_calls s @ rqs)"

lemma adds_none: "w_calls s' = w_calls s \<Longrightarrow> adds_requests E p s s'"
  unfolding adds_requests_def by (intro exI [of _ "[]"]) simp

lemma call_pos_adds: "policy_sound (we_policies E) \<Longrightarrow> adds_requests E p s (snd (call_pos E a p s))"
proof (cases "breaker_execute (we_policies E) (we_failureThreshold E) (we_openDurationMs E)
             (jp_storeId p) (we_posTime E 0) (pos_attempt E a p) (w_breaker s)")
  case (fields r n b)
  assume "policy_sound (we_policies E)"
  from breaker_execute_sound [OF this fields] have "n \<le> 4" by simp
  then show ?thesis
    by (auto simp: call_pos_def fields adds_requests_def pos_requests_def)
qed

lemma sendToPos_adds:
  assumes L: "policy_sound (we_policies E)"
  shows "adds_requests E p s (snd (sendToPos E p m s))"
proof -
  let ?rest = "\<lambda>a. st_bind (call_pos E a p) (\<lambda>posResult. confirm_sent E p m posResult)"
  have rest: "adds_requests E p t (snd (?rest a t))" for a t
  proof (cases rule: st_bind_cases [of "call_pos E a p" t "\<lambda>r. confirm_sent E p m r"])
    case (err e)
    then show ?thesis by (simp add: call_pos_adds [OF L])
  next
    case (ok res)
    then show ?thesis using call_pos_adds [OF L, of p t a] by (simp add: adds_requests_def confirm_sent_calls)
  qed
  let ?q = "read_db E CallStore (selectStore (jp_storeId p))"
  have q: "w_calls (snd (?q s)) = w_calls s" by (simp add: read_db_def)
  then have from_q: "adds_requests E p (snd (?q s)) t \<Longrightarrow> adds_requests E p s t" for t
    by (simp add: adds_requests_def)
  let ?create = "\<lambda>store. pos_create (st_posType store) (st_posEndpoint store) (st_posApiKeyEnc store)"
  let ?next = "\<lambda>storeRow. case storeRow of None \<Rightarrow> st_throw (storeMissing (jp_storeId p))
      | Some store \<Rightarrow> st_bind (st_lift (?create store)) ?rest"
  have run: "sendToPos E p m s = st_bind ?q ?next s" by (simp only: sendToPos_def)
  show ?thesis
  proof (cases rule: st_bind_cases [of ?q s ?next])
    case (err e)
    with q run show ?thesis by (simp add: adds_none)
  next
    case (ok row)
    show ?thesis
    proof (cases row)
      case None
      with ok q run show ?thesis by (simp add: adds_none)
    next
      case (Some store)
      with ok run have "sendToPos E p m s = st_bind (st_lift (?create store)) ?rest (snd (?q s))" by simp
      with q rest show ?thesis
        by (cases "?create store") (simp_all add: adds_none st_bind_def [of "st_lift _"] from_q)
    qed
  qed
qed

lemma transitionToSaved_calls [simp]: "w_calls (snd (transitionToSaved E ord m s)) = w_calls s"
  by (simp add: transitionToSaved_def)

text \<open>A delivery that asks the POS is the one that created the order of its key.\<close>

definition delivery_ok :: "'p worker_env \<Rightarrow> order_job_payload \<Rightarrow> 'p worker_state \<Rightarrow> 'p worker_state \<Rightarrow> bool" where
  "delivery_ok E p s s' \<longleftrightarrow> order_keys (w_db s) \<subseteq> order_keys (w_db s') \<and>
     (w_calls s' = w_calls s \<or>
      jp_idempotencyKey p \<notin> order_keys (w_db s) \<and> jp_idempotencyKey p \<in> order_keys (w_db s') \<and>
        adds_requests E p s s')"

lemma processWithLock_delivery:
  assumes E: "keys_env E" and L: "policy_sound (we_policies E)"
  shows "delivery_ok E p s (snd (processWithLock E p m s))"
proof -
  let ?c = "on_db E CallCreate (\<lambda>C. createOrder C (create_params p m))"
  let ?next = "\<lambda>created. case created of None \<Rightarrow> st_return ()
      | Some order \<Rightarrow> st_bind (transitionToSaved E order m) (\<lambda>_. sendToPos E p m)"
  have run: "processWithLock E p m s = st_bind ?c ?next s" by (simp only: processWithLock_def)
  have grows: "order_keys (w_db s) \<subseteq> order_keys (w_db (snd (processWithLock E p m s)))"
    using keepsD [OF held.processWithLock [OF E TrueI], of "order_keys (w_db s)" s p m] by simp
  have "w_calls (snd (processWithLock E p m s)) = w_calls s \<or>
      jp_idempotencyKey p \<notin> order_keys (w_db s) \<and>
      jp_idempotencyKey p \<in> order_keys (w_db (snd (processWithLock E p m s))) \<and>
      adds_requests E p s (snd (processWithLock E p m s))"
  proof (cases rule: st_bind_cases [of ?c s ?next])
    case (err e)
    with run show ?thesis by simp
  next
    case (ok created)
    show ?thesis
    proof (cases created)
      case None
      with ok run show ?thesis by simp
    next
      case (Some ord)
      let ?s = "snd (?c s)"
      from ok(1) Some have "createOrder (we_ctx E CallCreate) (create_params p m)
          (we_others E CallCreate (w_db s)) = (Inr (Some ord), w_db ?s)" by (simp add: prod_eq_iff)
      from createOrder_new_key [OF this] have new: "jp_idempotencyKey p \<notin> order_keys (w_db s)"
        "{jp_idempotencyKey p} \<subseteq> order_keys (w_db ?s)"
        using E by (auto simp: create_params_def keys_env_def)
      let ?rest = "st_bind (transitionToSaved E ord m) (\<lambda>_. sendToPos E p m)"
      have rest: "processWithLock E p m s = ?rest ?s" using ok(2) Some run by simp
      have "keeps (\<lambda>t. {jp_idempotencyKey p} \<subseteq> order_keys (w_db t)) ?rest"
        unfolding transitionToSaved_def by (intro keeps_intros held.transition_step held.sendToPos E)
      from keepsD [OF this new(2)] have "jp_idempotencyKey p \<in> order_keys (w_db (snd (?rest ?s)))" by simp
      moreover have "adds_requests E p ?s (snd (?rest ?s))"
      proof (cases rule: st_bind_cases [of "transitionToSaved E ord m" ?s "\<lambda>_. sendToPos E p m"])
        case (err e)
        then show ?thesis by (simp add: adds_none)
      next
        case (ok u)
        then show ?thesis
          using sendToPos_adds [OF L, of p "snd (transitionToSaved E ord m ?s)" m]
          by (simp add: adds_requests_def)
      qed
      ultimately show ?thesis using new(1) by (simp add: rest adds_requests_def)
    qed
  qed
  with grows show ?thesis by (simp add: delivery_ok_def)
qed

lemma process_delivery:
  assumes E: "keys_env E" and L: "policy_sound (we_policies E)"
  shows "delivery_ok E p s (snd (process E p m s))"
proof (cases rule: process_outcome [of E p m s])
  case (no_lock e)
  then show ?thesis by (simp add: delivery_ok_def)
next
  case (ran t r)
  with processWithLock_delivery [OF E L, of p t m] show ?thesis
    by (simp add: delivery_ok_def adds_requests_def)
qed

lemma onFailed_calls: "w_calls (snd (onFailed E w j n p err s)) = w_calls s"
proof -
  have "keeps (\<lambda>t. w_calls t = w_calls s) (onFailed E w j n p err)"
    unfolding onFailed_def handleFailure_def moveToDlq_def fail_order_def read_db_def Let_def
    by (intro keeps_intros)
      (simp_all add: keeps_def publish_dlq_def send_alert_def case_prod_beta split: option.splits)
  then show ?thesis by (auto dest: keepsD)
qed

section \<open>Runs of the system\<close>

type_synonym delivery = "order_job_payload \<times> http_request list"

text \<open>
  Deliveries come in any number and order, of any job; between them everything else happens, the
  old endpoint of the apps included. What a delivery asked the POS is what it added to the calls.
  Deliveries that overlap stand in the order of their inserts; what one sees of another while it
  runs is in we_others.
\<close>

definition deliver_job :: "'p worker_env \<Rightarrow> string \<Rightarrow> string \<Rightarrow> nat \<Rightarrow> order_job_payload \<Rightarrow>
  'p system_state \<Rightarrow> 'p system_state" where
  "deliver_job E w j n p s = put_worker (snd (order_processor_process E w j n p (worker_view s))) s"

definition system_calls :: "'p system_state \<Rightarrow> http_request list" where
  "system_calls s = w_calls (y_worker s)"

inductive service_run ::
  "('d api_env \<Rightarrow> bool) \<Rightarrow> 'p system_state \<Rightarrow> delivery list \<Rightarrow> 'p system_state \<Rightarrow> bool" for apis s where
  start: "service_run apis s [] s"
| delivery: "service_run apis s ds t \<Longrightarrow> keys_env E \<Longrightarrow> policy_sound (we_policies E) \<Longrightarrow>
    service_run apis s (ds @ [(p, drop (length (system_calls t)) (system_calls (deliver_job E w j n p t)))])
      (deliver_job E w j n p t)"
| failed: "service_run apis s ds t \<Longrightarrow> keys_env E \<Longrightarrow>
    service_run apis s ds (put_worker (snd (onFailed E w j n p err (worker_view t))) t)"
| pos: "service_run apis s ds t \<Longrightarrow>
    service_run apis s ds (t\<lparr>y_api := snd (controller_updateStatus C now orderId st (y_api t))\<rparr>)"
| app: "service_run apis s ds t \<Longrightarrow>
    service_run apis s ds (t\<lparr>y_api := snd (updateOrderStatus C now orderId text (y_api t))\<rparr>)"
| side: "service_run apis s ds t \<Longrightarrow> side_step apis t t' \<Longrightarrow> service_run apis s ds t'"

inductive_cases service_runE: "service_run apis s ds t"

definition asked_for :: "string \<Rightarrow> delivery list \<Rightarrow> delivery list" where
  "asked_for k ds = filter (\<lambda>d. jp_idempotencyKey (fst d) = k \<and> snd d \<noteq> []) ds"

lemma asked_for_simps [simp]:
  "asked_for k [] = []"
  "asked_for k (ds @ [d]) = asked_for k ds @ (if jp_idempotencyKey (fst d) = k \<and> snd d \<noteq> [] then [d] else [])"
  by (simp_all add: asked_for_def)

text \<open>What the run keeps: a key that was asked for has an order now, and had none at first.\<close>

definition asked_once :: "'p system_state \<Rightarrow> delivery list \<Rightarrow> 'p system_state \<Rightarrow> bool" where
  "asked_once s ds t \<longleftrightarrow> order_keys (system_db s) \<subseteq> order_keys (system_db t) \<and>
     system_calls t = system_calls s @ concat (map snd ds) \<and>
     (\<forall>d \<in> set ds. \<exists>E :: 'p worker_env. pos_requests E (fst d) (snd d)) \<and>
     (\<forall>k. length (asked_for k ds) \<le> 1 \<and> (asked_for k ds \<noteq> [] \<longrightarrow>
        k \<notin> order_keys (system_db s) \<and> k \<in> order_keys (system_db t)))"

lemma asked_once_quiet:
  "asked_once s ds t \<Longrightarrow> order_keys (system_db t) \<subseteq> order_keys (system_db t') \<Longrightarrow>
     system_calls t' = system_calls t \<Longrightarrow> asked_once s ds t'"
  by (auto simp: asked_once_def)

lemma deliver_ok:
  assumes "keys_env E" "policy_sound (we_policies E)"
  shows "\<exists>rqs. system_calls (deliver_job E w j n p t) = system_calls t @ rqs \<and> pos_requests E p rqs \<and>
    order_keys (system_db t) \<subseteq> order_keys (system_db (deliver_job E w j n p t)) \<and>
    (rqs \<noteq> [] \<longrightarrow> jp_idempotencyKey p \<notin> order_keys (system_db t) \<and>
       jp_idempotencyKey p \<in> order_keys (system_db (deliver_job E w j n p t)))"
  using process_delivery [OF assms, of p "worker_view t" "\<lparr>jm_jobId = j, jm_workerId = w, jm_attemptsMade = n\<rparr>"]
  by (auto simp: delivery_ok_def adds_requests_def deliver_job_def order_processor_rethrows system_calls_def
      system_db_def worker_view_def put_worker_def)

lemma asked_once_delivery:
  assumes t: "asked_once s ds t" and E: "keys_env E" "policy_sound (we_policies E)"
  shows "asked_once s (ds @ [(p, drop (length (system_calls t)) (system_calls (deliver_job E w j n p t)))])
    (deliver_job E w j n p t)"
proof -
  let ?t = "deliver_job E w j n p t"
  from deliver_ok [OF E, of w j n p t] obtain rqs where
    calls: "system_calls ?t = system_calls t @ rqs" and rqs: "pos_requests E p rqs" and
    keys: "order_keys (system_db t) \<subseteq> order_keys (system_db ?t)" and
    new: "rqs \<noteq> [] \<Longrightarrow> jp_idempotencyKey p \<notin> order_keys (system_db t) \<and>
      jp_idempotencyKey p \<in> order_keys (system_db ?t)" by blast
  have "asked_for k ds = []" if "rqs \<noteq> []" "jp_idempotencyKey p = k" for k
    using t new that by (auto simp: asked_once_def)
  then show ?thesis
    using t keys rqs new by (auto simp: asked_once_def calls)
qed

lemma service_run_asked: "service_run apis s ds t \<Longrightarrow> asked_once s ds t"
proof (induction rule: service_run.induct)
  case start
  then show ?case by (simp add: asked_once_def)
next
  case (delivery ds t E p w j n)
  then show ?case by (intro asked_once_delivery)
next
  case (failed ds t E w j n p err)
  from keepsD [OF held.queue_workers(2) [OF failed(2)], of "order_keys (system_db t)" "worker_view t"] failed(3)
  show ?case
    by (intro asked_once_quiet [OF failed(3)])
      (simp_all add: onFailed_calls system_calls_def system_db_def worker_view_def put_worker_def)
next
  case (pos ds t C now orderId st)
  then show ?case
    by (elim asked_once_quiet) (simp_all add: system_calls_def system_db_def updateStatus_effect bookkeeping_keys)
next
  case (app ds t C now orderId what)
  then show ?case
    using app_status_effect [of C now orderId what "y_api t"]
    by (elim asked_once_quiet) (auto simp: system_calls_def system_db_def bookkeeping_keys)
next
  case (side ds t t')
  from side_step_effect [OF side(2)] show ?case
    by (intro asked_once_quiet [OF side(3)]) (auto simp: system_calls_def)
qed

section \<open>The property\<close>

text \<open>C2: however often the jobs of orders are delivered, after failures, crashes and re-drives, with any
  faults and whatever else happens in between: for each idempotency key at most one delivery asks the
  POS, with at most four requests, all of the order of that job; none does if there was an order with
  the key before; and no other request is ever sent.\<close>

theorem pos_asked_by_one_delivery:
  assumes "service_run apis s ds t"
  shows "system_calls t = system_calls s @ concat (map snd ds) \<and>
    (\<forall>d \<in> set ds. length (snd d) \<le> 4 \<and>
       (\<exists>a times. snd d = map (\<lambda>now. send_request a (domain_order_of (fst d) now)) times)) \<and>
    (\<forall>k. let asked = filter (\<lambda>d. jp_idempotencyKey (fst d) = k \<and> snd d \<noteq> []) ds
         in length asked \<le> 1 \<and> (k \<in> order_keys (system_db s) \<longrightarrow> asked = []))"
proof -
  from service_run_asked [OF assms] have once: "asked_once s ds t" .
  have "length (snd d) \<le> 4 \<and> (\<exists>a times. snd d = map (\<lambda>now. send_request a (domain_order_of (fst d) now)) times)"
    if d: "d \<in> set ds" for d
  proof -
    from once d obtain E :: "'b worker_env" where "pos_requests E (fst d) (snd d)"
      unfolding asked_once_def by blast
    then obtain a n where n: "n \<le> 4"
      "snd d = map (\<lambda>i. send_request a (domain_order_of (fst d) (we_posTime E i))) [0..<n]"
      unfolding pos_requests_def by blast
    then have "snd d = map (\<lambda>now. send_request a (domain_order_of (fst d) now)) (map (we_posTime E) [0..<n])"
      by simp
    with n show ?thesis by (metis diff_zero length_map length_upt)
  qed
  with once show ?thesis unfolding asked_once_def asked_for_def Let_def by blast
qed

lemma sample_keys_env [simp]: "keys_env (sample_env now http)"
  by (simp add: keys_env_def)

text \<open>The sample's job, delivered while its POS is down and again when it answers.\<close>

definition sample_delivery :: "(nat \<Rightarrow> http_client) \<Rightarrow> nat system_state \<Rightarrow> nat system_state" where
  "sample_delivery http = deliver_job (sample_env 10 http) ''w1'' ''order-o1'' 0 sample_payload"

definition new_calls :: "nat system_state \<Rightarrow> nat system_state \<Rightarrow> http_request list" where
  "new_calls s t = drop (length (system_calls s)) (system_calls t)"

theorem pos_asked_by_one_delivery_witness:
  "let s1 = sample_delivery dead_http requested_system; s2 = sample_delivery flaky_http s1
   in length (filter (\<lambda>rqs. rqs \<noteq> []) [new_calls requested_system s1, new_calls s1 s2]) \<le> 1"
proof -
  let ?s = requested_system and ?apis = "\<lambda>A. A = sample_api_env 5"
  let ?s1 = "sample_delivery dead_http ?s"
  let ?s2 = "sample_delivery flaky_http ?s1"
  have L: "policy_sound (we_policies (sample_env 10 h))" for h by (simp add: plain_library_sound)
  have "service_run ?apis ?s ([] @ [(sample_payload, new_calls ?s ?s1)]) ?s1"
    unfolding new_calls_def sample_delivery_def
    by (rule service_run.delivery [OF service_run.start sample_keys_env L])
  from service_run.delivery [OF this sample_keys_env L]
  have "service_run ?apis ?s (([] @ [(sample_payload, new_calls ?s ?s1)]) @ [(sample_payload, new_calls ?s1 ?s2)]) ?s2"
    unfolding new_calls_def sample_delivery_def .
  from pos_asked_by_one_delivery [OF this]
  have "length (filter (\<lambda>d. jp_idempotencyKey (fst d) = jp_idempotencyKey sample_payload \<and> snd d \<noteq> [])
      [(sample_payload, new_calls ?s ?s1), (sample_payload, new_calls ?s1 ?s2)]) \<le> 1"
    unfolding Let_def append.simps by blast
  then show ?thesis by (simp add: Let_def split: if_splits)
qed

end
