(* ===== verification/Lock_Times.thy ===== *)
theory Lock_Times
  imports Wiring Worker_Correctness
begin

text \<open>
  The lock of an order expires by itself, so it protects a job only as long as the job takes. Here
  the settings of three services meet: the timeouts of the POS adapters, the retries and delays
  of the circuit breaker's policy, and the time to live of the lock. Times are in milliseconds.
\<close>

definition pos_timeout :: "pos_adapter \<Rightarrow> nat" where
  "pos_timeout a = (case a of LegacyV1PosAdapter _ _ \<Rightarrow> 8000 | ModernV2PosAdapter _ _ \<Rightarrow> 5000)"

lemma send_request_timeout: "rq_timeout (send_request a ord) = pos_timeout a"
  by (cases a) (simp_all add: pos_timeout_def)

lemma pos_timeout_le: "pos_timeout a \<le> 8000"
  by (cases a) (simp_all add: pos_timeout_def)

text \<open>
  How long one execution may take: each request at most as long as the timeout its adapter gave it,
  and before each retry as long as the policy waits, also when the retry is rejected by the breaker
  and sends no request.
\<close>

definition pos_times :: "'p worker_env \<Rightarrow> pos_adapter \<Rightarrow> order_job_payload \<Rightarrow> nat \<Rightarrow> nat list \<Rightarrow> bool" where
  "pos_times E a p n took \<longleftrightarrow> length took = n \<and>
     (\<forall>i < n. took ! i \<le> rq_timeout (send_request a (domain_order_of p (we_posTime E i))))"

definition pos_waits ::
  "'p worker_env \<Rightarrow> pos_adapter \<Rightarrow> order_job_payload \<Rightarrow> 'p breaker_state \<Rightarrow> nat list" where
  "pos_waits E a p b = breaker_waits (we_policies E) (we_failureThreshold E) (we_openDurationMs E)
     (jp_storeId p) (we_posTime E 0) (pos_attempt E a p) b"

lemma sum_list_le: "(\<And>x. x \<in> set xs \<Longrightarrow> x \<le> m) \<Longrightarrow> sum_list xs \<le> length xs * (m :: nat)"
  by (induction xs) (auto simp: add_mono)

lemma pos_times_bound:
  assumes "pos_times E a p n took" and "n \<le> 4"
  shows "sum_list took \<le> 4 * pos_timeout a"
proof -
  have "sum_list took \<le> length took * pos_timeout a"
    using assms(1) by (intro sum_list_le) (auto simp: pos_times_def send_request_timeout in_set_conv_nth)
  also have "\<dots> \<le> 4 * pos_timeout a"
    using assms by (intro mult_right_mono) (simp_all add: pos_times_def)
  finally show ?thesis .
qed

lemma pos_waits_bound:
  assumes "policy_sound (we_policies E)"
  shows "sum_list (pos_waits E a p b) \<le> 12000"
proof -
  have "sum_list (pos_waits E a p b) \<le> length (pos_waits E a p b) * 4000"
    unfolding pos_waits_def by (rule sum_list_le) (rule breaker_waits_sound(2) [OF assms])
  also have "\<dots> \<le> 3 * 4000"
    unfolding pos_waits_def by (intro mult_right_mono breaker_waits_sound(1) [OF assms]) simp
  finally show ?thesis by simp
qed

lemma parseInt_60: "parseInt ''60'' = Some 60"
  by code_simp

lemma default_lock_ttl: "env ''LOCK_TTL_SECONDS'' = None \<Longrightarrow> lock_ttl env = Some 60"
  by (simp add: lock_ttl_def configuration_of_def env_int_def env_or_def truthy_def parseInt_60)

section \<open>The property\<close>

text \<open>C13: a worker still holds the lock of its order when the POS has been asked: with the three
  retries and the longest delay that the service configures, and the adapters' timeouts, the
  requests of one execution and the delays before its retries, rejected ones included, take at
  most 44 seconds (32 with a JSON POS), so a lock whose time to live is longer by what went before
  has not expired. With the default of 60 seconds that leaves 16 for the statements before the
  first request.\<close>

theorem lock_outlives_pos_calls:
  assumes "policy_sound (we_policies E)"
    and "breaker_execute (we_policies E) (we_failureThreshold E) (we_openDurationMs E) (jp_storeId p)
      (we_posTime E 0) (pos_attempt E a p) b = (r, n, b')"
    and "pos_times E a p n took"
    and "lock_ttl env = Some ttl" and "before + 4 * pos_timeout a + 12000 < 1000 * nat ttl"
    and "acquireOrThrow kv_cmds (nat ttl) now (jp_orderId p) (lock_token m) locks = (Inr (), locks')"
  shows "lock_holder kv_cmds (now + before + sum_list took + sum_list (pos_waits E a p b)) (jp_orderId p) locks' =
      Some (lock_token m) \<and>
    sum_list took + sum_list (pos_waits E a p b) \<le> 4 * pos_timeout a + 12000 \<and>
    4 * pos_timeout a + 12000 \<le> 44000"
proof -
  from breaker_execute_sound [OF assms(1,2)] have "n \<le> 4" by simp
  note bound = pos_times_bound [OF assms(3) this] pos_waits_bound [OF assms(1), of a p b]
  from assms(6) have free: "lock_holder kv_cmds now (jp_orderId p) locks = None"
    by (auto simp: acquireOrThrow_result split: option.splits)
  with assms(6) have "locks' = kv_set now (nat ttl) (lockKey (jp_orderId p)) (lock_token m) locks"
    by (simp add: acquireOrThrow_result)
  with bound assms(5) pos_timeout_le [of a] show ?thesis by (simp add: lock_holder_def kv_defs)
qed

text \<open>The sample's job with the default settings, each request as long as can be.\<close>

theorem lock_outlives_pos_calls_witness:
  "let E = sample_env 10 flaky_http; p = sample_payload;
       n = fst (snd (breaker_execute (we_policies E) (we_failureThreshold E) (we_openDurationMs E) (jp_storeId p)
         (we_posTime E 0) (pos_attempt E sample_adapter p) (w_breaker sample_start)));
       locks = snd (acquireOrThrow kv_cmds 60 0 (jp_orderId p) (lock_token (sample_meta 0)) Map.empty)
   in lock_holder kv_cmds (15000 + sum_list (replicate n (pos_timeout sample_adapter)) +
          sum_list (pos_waits E sample_adapter p (w_breaker sample_start)))
        (jp_orderId p) locks = Some (lock_token (sample_meta 0))"
proof -
  let ?E = "sample_env 10 flaky_http" and ?p = sample_payload
  obtain r n b' where run: "breaker_execute (we_policies ?E) (we_failureThreshold ?E) (we_openDurationMs ?E)
      (jp_storeId ?p) (we_posTime ?E 0) (pos_attempt ?E sample_adapter ?p) (w_breaker sample_start) = (r, n, b')"
    by (metis prod_cases3)
  have L: "policy_sound (we_policies ?E)" by (simp add: plain_library_sound)
  have times: "pos_times ?E sample_adapter ?p n (replicate n (pos_timeout sample_adapter))"
    by (simp add: pos_times_def send_request_timeout pos_timeout_def)
  have ttl: "lock_ttl (\<lambda>_. None) = Some 60" by (rule default_lock_ttl) simp
  have before: "15000 + 4 * pos_timeout sample_adapter + 12000 < 1000 * nat 60"
    using pos_timeout_le [of sample_adapter] by simp
  have acq: "acquireOrThrow kv_cmds (nat 60) 0 (jp_orderId ?p) (lock_token (sample_meta 0)) Map.empty =
      (Inr (), kv_set 0 60 (lockKey (jp_orderId ?p)) (lock_token (sample_meta 0)) Map.empty)"
    by (simp add: acquireOrThrow_result lock_holder_def kv_get_def)
  from lock_outlives_pos_calls [OF L run times ttl before acq] acq show ?thesis
    unfolding Let_def run by simp
qed

end
