(* ===== verification/Migrations.thy ===== *)
theory Migrations
  imports Order_Domain
begin

text \<open>
  The scripts that run a migration by hand (scripts/migrate-*.js): connect, run the file, show
  what it changed. The PostgreSQL client and the files are parameters; a script's state is what
  it did, in order, and messages are kept as the values they print.
\<close>

text \<open>The queries that show the result.\<close>

datatype check_query =
    ConstraintDef string string \<comment> \<open>table and constraint\<close>
  | ColumnsOf string "string list"
  | TablesAmong "string list"
  | AreasByStore

type_synonym result_row = "string list"

record pg_client =
  pg_connect :: "error + unit"
  pg_file :: "string \<Rightarrow> error + string"
  pg_run :: "string \<Rightarrow> error + unit"
  pg_check :: "check_query \<Rightarrow> error + result_row list"
  pg_end :: "error + unit"

datatype script_event =
    Connected
  | Announced string
  | Ran string
  | DoneMsg
  | Shown "string list"
  | ShownMissing
  | Complained message
  | Ended

type_synonym 'a script = "(script_event list, error, 'a) comp"

definition emit :: "script_event \<Rightarrow> unit script" where
  "emit e = st_update (\<lambda>log. log @ [e])"

text \<open>A call of the client: its event if it succeeds.\<close>

definition awaits :: "error + 'a \<Rightarrow> script_event list \<Rightarrow> 'a script" where
  "awaits r evs log = (case r of Inl e \<Rightarrow> (Inl e, log) | Inr a \<Rightarrow> (Inr a, log @ evs))"

text \<open>What the four scripts begin with.\<close>

definition apply_file :: "pg_client \<Rightarrow> string \<Rightarrow> unit script" where
  "apply_file c file =
     st_bind (awaits (pg_connect c) [Connected]) (\<lambda>_.
     st_bind (awaits (pg_file c (''../database/migrations/'' @ file)) []) (\<lambda>sql.
     st_bind (emit (Announced file)) (\<lambda>_.
     st_bind (awaits (pg_run c sql) [Ran file]) (\<lambda>_. emit DoneMsg))))"

text \<open>run().catch(...): an error is printed and the client closed; the process exits with 0 either way.\<close>

definition run_catch :: "pg_client \<Rightarrow> unit script \<Rightarrow> script_event list \<Rightarrow> script_event list \<times> nat" where
  "run_catch c body log =
     (case body log of
        (Inr _, log') \<Rightarrow> (log', 0)
      | (Inl e, log') \<Rightarrow> (log' @ [Complained (err_message e), Ended], 0))"

definition migrate_005 :: "pg_client \<Rightarrow> unit script" where
  "migrate_005 c =
     st_bind (apply_file c ''005_pos_status.sql'') (\<lambda>_.
     st_bind (awaits (pg_check c (ConstraintDef ''orders'' ''chk_order_status'')) []) (\<lambda>rows.
     st_bind (emit (case rows of [] \<Rightarrow> ShownMissing | r # _ \<Rightarrow> Shown r)) (\<lambda>_.
       awaits (pg_end c) [Ended])))"

definition migrate_006 :: "pg_client \<Rightarrow> unit script" where
  "migrate_006 c =
     st_bind (apply_file c ''006_add_updated_at.sql'') (\<lambda>_.
     st_bind (awaits (pg_check c (ColumnsOf ''orders'' [''updated_at''])) []) (\<lambda>rows.
     st_bind (emit (case rows of [] \<Rightarrow> ShownMissing | r # _ \<Rightarrow> Shown r)) (\<lambda>_.
       awaits (pg_end c) [Ended])))"

definition migrate_007 :: "pg_client \<Rightarrow> unit script" where
  "migrate_007 c =
     st_bind (apply_file c ''007_menu_management.sql'') (\<lambda>_.
     st_bind (awaits (pg_check c (ColumnsOf ''menus'' [''category'', ''sort_order'', ''meta''])) []) (\<lambda>cols.
     st_bind (emit (Shown (concat (map (take 1) cols)))) (\<lambda>_.
     st_bind (awaits (pg_check c (TablesAmong [''menu_categories'', ''menu_options'', ''pos_settings''])) []) (\<lambda>tables.
     st_bind (emit (Shown (concat (map (take 1) tables)))) (\<lambda>_.
       awaits (pg_end c) [Ended])))))"

text \<open>Each area with the first eight characters of its store's id.\<close>

definition area_line :: "result_row \<Rightarrow> script_event" where
  "area_line r = (case r of [areaName, storeId] \<Rightarrow> Shown [areaName, take 8 storeId] | _ \<Rightarrow> Shown r)"

definition migrate_areas :: "pg_client \<Rightarrow> unit script" where
  "migrate_areas c =
     st_bind (apply_file c ''004_areas.sql'') (\<lambda>_.
     st_bind (awaits (pg_check c AreasByStore) []) (\<lambda>rows.
     st_bind (st_update (\<lambda>log. log @ map area_line rows)) (\<lambda>_.
       awaits (pg_end c) [Ended])))"

section \<open>A failed migration looks like a successful one\<close>

lemma apply_file_fails:
  "pg_connect c = Inr () \<Longrightarrow> pg_file c (''../database/migrations/'' @ file) = Inr sql \<Longrightarrow> pg_run c sql = Inl e \<Longrightarrow>
     apply_file c file log = (Inl e, log @ [Connected, Announced file])"
  by (simp add: apply_file_def st_bind_def awaits_def emit_def)

lemma migrations_exit_0: "snd (run_catch c body log) = 0"
  by (simp add: run_catch_def split: prod.splits sum.splits)

lemma failed_migration_exits_0:
  assumes "pg_connect c = Inr ()" and "pg_file c (''../database/migrations/005_pos_status.sql'') = Inr sql"
    and "pg_run c sql = Inl e"
  shows "run_catch c (migrate_005 c) [] =
    ([Connected, Announced ''005_pos_status.sql'', Complained (err_message e), Ended], 0)"
proof -
  have "apply_file c ''005_pos_status.sql'' [] = (Inl e, [Connected, Announced ''005_pos_status.sql''])"
    using apply_file_fails [of c "''005_pos_status.sql''" sql e "[]"] assms by simp
  then show ?thesis by (simp add: run_catch_def migrate_005_def st_bind_def)
qed

end
