(* ===== verification/Life_Histories.thy ===== *)
theory Life_Histories
  imports Worker_Correctness Order_Api
begin

text \<open>
  The histories of orders in the states that the service reaches. Workers run jobs and failure
  events with any faults; before each of their statements, and between jobs, other clients of the
  database may have made any number of steps: other workers and the administrator through the
  repository, the POS and the apps through the status endpoint, the menu editor. What these do is
  given by the operations of the code, not by an invariant. The orders whose status the endpoint
  overwrote are collected in a set: of these the log says less.
\<close>

section \<open>A row and its log\<close>

text \<open>What holds of every order: its log starts with QUEUED, each later entry is a move that the
  state machine allows, and the version counts them.\<close>

definition steps_logged :: "order_row \<Rightarrow> order_state_transition_entity list \<Rightarrow> bool" where
  "steps_logged r ts \<longleftrightarrow>
     (case ts of
        [] \<Rightarrow> False
      | t # us \<Rightarrow> tr_fromStatus t = None \<and> tr_toStatus t = QUEUED \<and> o_version r = int (length us) \<and>
          (\<forall>u \<in> set us. \<exists>st. tr_fromStatus u = Some st \<and> validate st (tr_toStatus u) False = Inr ()))"

lemma walk_steps:
  "walk s ts = Some e \<Longrightarrow> u \<in> set ts \<Longrightarrow>
     \<exists>st. tr_fromStatus u = Some st \<and> validate st (tr_toStatus u) False = Inr ()"
  by (induction s ts rule: walk.induct) (auto split: if_splits)

lemma audit_ok_steps: "audit_ok r ts \<Longrightarrow> steps_logged r ts"
  by (cases ts) (auto simp: steps_logged_def dest: walk_steps)

definition history_ok :: "uuid set \<Rightarrow> order_row \<Rightarrow> order_state_transition_entity list \<Rightarrow> bool" where
  "history_ok X r ts \<longleftrightarrow> steps_logged r ts \<and> (o_id r \<notin> X \<longrightarrow> audit_ok r ts)"

interpretation history: row_log "history_ok X" for X
proof unfold_locales
  fix p i and r :: order_row and t :: order_state_transition_entity
  assume "fresh_row_of p i r" "tr_fromStatus t = None" "tr_toStatus t = QUEUED"
  then show "history_ok X r [t]" by (simp add: history_ok_def steps_logged_def fresh_row_of_def)
next
  fix r r' :: order_row and ts and x :: order_state_transition_entity
  assume "history_ok X r ts" "tr_fromStatus x = Some (o_status r)"
    "validate (o_status r) (tr_toStatus x) False = Inr ()" "o_id r' = o_id r"
    "o_status r' = tr_toStatus x" "o_version r' = o_version r + 1"
  then show "history_ok X r' (ts @ [x])"
    by (auto simp: history_ok_def intro: audit_ok_snoc) (auto simp: steps_logged_def split: list.splits)
next
  fix r r' :: order_row and ts
  assume "history_ok X r ts" "o_id r' = o_id r" "o_status r' = o_status r" "o_version r' = o_version r"
  then show "history_ok X r' ts"
    using audit_ok_cong [of r' r ts] by (simp add: history_ok_def steps_logged_def split: list.splits)
qed

abbreviation histories :: "uuid set \<Rightarrow> database \<Rightarrow> bool" where
  "histories X \<equiv> logged (history_ok X)"

lemma histories_none: "histories {} db = db_inv db"
  using audit_ok_steps by (auto simp: db_inv_logged logged_def history_ok_def)

section \<open>The other clients\<close>

text \<open>The status endpoint on an order of the set: status and time are overwritten, nothing is logged.\<close>

lemma posStatusUpdate_histories:
  assumes "histories X db" and "\<And>i. cx_uuid_in C orderId = Some i \<Longrightarrow> i \<in> X"
  shows "histories X (snd (posStatusUpdate C st orderId db))"
proof (cases "bind_res (run_stmt C UpdateOrder) (\<lambda>_. uuid_arg C orderId)")
  case (Inl e)
  with assms(1) show ?thesis by (simp add: posStatusUpdate_def)
next
  case (Inr i)
  then have i: "i \<in> X" using assms(2) by (auto simp: bind_res_Inr)
  let ?f = "\<lambda>r. r\<lparr>o_status := st, o_updatedAt := Some (cx_now C)\<rparr>"
  let ?db = "db\<lparr>t_orders := sql_update (\<lambda>r. o_id r = i) ?f (t_orders db)\<rparr>"
  have "histories X ?db"
  proof (rule loggedI)
    show "keys_ok ?db" using assms(1) by (simp add: logged_def keys_ok_update)
  next
    fix r' assume "r' \<in> set (t_orders ?db)"
    then obtain r where r: "r \<in> set (t_orders db)" "r' = (if o_id r = i then ?f r else r)"
      by (auto simp: set_sql_update)
    with assms(1) have "history_ok X r (trail (o_id r) db)" by (simp add: logged_def)
    then show "history_ok X r' (trail (o_id r') ?db)"
      using r(2) i by (auto simp: history_ok_def steps_logged_def trail_def split: list.splits)
  qed
  with Inr show ?thesis by (simp add: posStatusUpdate_def Let_def)
qed

inductive outside_step :: "uuid set \<Rightarrow> database \<Rightarrow> database \<Rightarrow> bool" for X where
  repository: "repo_step db db' \<Longrightarrow> outside_step X db db'"
| status: "(\<And>i. cx_uuid_in C orderId = Some i \<Longrightarrow> i \<in> X) \<Longrightarrow>
    outside_step X db (snd (posStatusUpdate C st orderId db))"
| other_tables: "t_orders db' = t_orders db \<Longrightarrow> t_transitions db' = t_transitions db \<Longrightarrow> outside_step X db db'"

lemma outside_step_histories: "outside_step X db db' \<Longrightarrow> histories X db \<Longrightarrow> histories X db'"
proof (induction rule: outside_step.induct)
  case (repository db db')
  then show ?case
    by (induction rule: repo_step.induct)
      (simp_all add: history.createOrder_logged history.transitionStatus_logged history.markDlq_logged
        history.incrementRetryCount_logged)
next
  case (status C orderId db st)
  then show ?case by (intro posStatusUpdate_histories)
next
  case (other_tables db' db)
  then show ?case by (simp add: logged_def keys_ok_def trail_def)
qed

lemma outside_steps_histories: "(outside_step X)\<^sup>*\<^sup>* db db' \<Longrightarrow> histories X db \<Longrightarrow> histories X db'"
  by (induction rule: rtranclp_induct) (auto intro: outside_step_histories)

text \<open>An environment of a worker: any faults, answers and clocks, and any of these steps before
  each statement.\<close>

definition served_env :: "uuid set \<Rightarrow> 'p worker_env \<Rightarrow> bool" where
  "served_env X E \<longleftrightarrow> (\<forall>c. driver_counts (we_ctx E c)) \<and> (\<forall>c db. (outside_step X)\<^sup>*\<^sup>* db (we_others E c db))"

lemma served_env_ok: "served_env {} E \<Longrightarrow> env_ok E"
  using outside_steps_histories [of "{}", unfolded histories_none]
  unfolding served_env_def env_ok_def by metis

interpretation served: db_invariant "histories X" "served_env X" "\<lambda>_. True" for X
  by unfold_locales (auto simp: served_env_def history.createOrder_logged history.transitionStatus_logged
      history.markDlq_logged history.incrementRetryCount_logged intro: outside_steps_histories)

section \<open>Reachable states\<close>

inductive worker_step :: "uuid set \<Rightarrow> 'p worker_state \<Rightarrow> 'p worker_state \<Rightarrow> bool" for X where
  job: "served_env X E \<Longrightarrow> worker_step X s (snd (order_processor_process E w j n p s))"
| failed: "served_env X E \<Longrightarrow> worker_step X s (snd (onFailed E w j n p err s))"
| dead_letter: "worker_step X s (snd (dlq_processor_process E d s))"
| outside: "outside_step X (w_db s) db \<Longrightarrow> worker_step X s (s\<lparr>w_db := db\<rparr>)"

inductive worker_reachable :: "uuid set \<Rightarrow> 'p worker_state \<Rightarrow> bool" for X where
  initial: "t_orders (w_db s) = [] \<Longrightarrow> t_transitions (w_db s) = [] \<Longrightarrow> worker_reachable X s"
| step: "worker_reachable X s \<Longrightarrow> worker_step X s s' \<Longrightarrow> worker_reachable X s'"

lemma worker_step_histories: "worker_step X s s' \<Longrightarrow> histories X (w_db s) \<Longrightarrow> histories X (w_db s')"
proof (induction rule: worker_step.induct)
  case (job E s w j n p)
  then show ?case by (intro keepsD [OF served.queue_workers(1)] TrueI)
next
  case (failed E s w j n p err)
  then show ?case by (intro keepsD [OF served.queue_workers(2)])
next
  case (dead_letter s E d)
  then show ?case by (intro keepsD [OF served.queue_workers(3)])
next
  case (outside s db)
  then show ?case by (simp add: outside_step_histories)
qed

lemma no_histories: "t_orders db = [] \<Longrightarrow> t_transitions db = [] \<Longrightarrow> histories X db"
  by (simp add: logged_def keys_ok_def)

lemma worker_reachable_histories: "worker_reachable X s \<Longrightarrow> histories X (w_db s)"
  by (induction rule: worker_reachable.induct) (rule no_histories, assumption+, rule worker_step_histories)

section \<open>The property\<close>

text \<open>C10: in every state that workers and the other clients reach together, with any faults and any
  interleaving of the repository's operations, status updates of the POS and the apps, and edits of
  other tables: the log of each order starts with QUEUED, goes on with allowed moves only, and the
  version counts them; and unless the status endpoint was called for the order, its history is one of
  six paths through the state machine, which ends in its status.\<close>

theorem worker_life_cycle:
  assumes "worker_reachable X s" and "r \<in> set (t_orders (w_db s))"
  shows "steps_logged r (trail (o_id r) (w_db s)) \<and>
    (o_id r \<notin> X \<longrightarrow> (visits (trail (o_id r) (w_db s)), o_status r, o_version r) \<in>
      {([QUEUED], QUEUED, 0), ([QUEUED, FAILED], FAILED, 1), ([QUEUED, SAVED], SAVED, 1),
       ([QUEUED, SAVED, FAILED], FAILED, 2), ([QUEUED, SAVED, SENT_TO_POS], SENT_TO_POS, 2),
       ([QUEUED, SAVED, SENT_TO_POS, COMPLETED], COMPLETED, 3)})"
proof -
  from worker_reachable_histories [OF assms(1)] assms(2)
  have "history_ok X r (trail (o_id r) (w_db s))" by (simp add: logged_def)
  then have "steps_logged r (trail (o_id r) (w_db s))" "o_id r \<notin> X \<Longrightarrow> audit_ok r (trail (o_id r) (w_db s))"
    by (simp_all add: history_ok_def)
  then show ?thesis by (intro conjI impI audit_ok_visits)
qed

text \<open>A job whose POS does not answer, while the POS sets the status of another order.\<close>

theorem worker_life_cycle_witness:
  "\<exists>r. row_with_id ''o1'' (snd (posStatusUpdate (quiet_ctx 30) COOKING ''o2'' (w_db (snd (process
       (sample_env 10 dead_http) sample_payload (sample_meta 0) sample_start))))) = Some r \<and>
     o_status r = SAVED \<and> o_version r = 1"
proof -
  let ?s = "snd (process (sample_env 10 dead_http) sample_payload (sample_meta 0) sample_start)"
  let ?db = "snd (posStatusUpdate (quiet_ctx 30) COOKING ''o2'' (w_db ?s))"
  have E: "served_env {''o2''} (sample_env 10 dead_http)"
    by (simp add: served_env_def)
  have "worker_reachable {''o2''} sample_start" by (rule worker_reachable.initial) simp_all
  moreover have "worker_step {''o2''} sample_start ?s"
    using worker_step.job [OF E, of sample_start "''w1''" "''order-o1''" 0 sample_payload]
    by (simp add: order_processor_rethrows sample_meta_def)
  ultimately have "worker_reachable {''o2''} ?s" by (rule worker_reachable.step)
  moreover have "worker_step {''o2''} ?s (?s\<lparr>w_db := ?db\<rparr>)"
    by (intro worker_step.outside outside_step.status) simp
  ultimately have reach: "worker_reachable {''o2''} (?s\<lparr>w_db := ?db\<rparr>)" by (rule worker_reachable.step)
  obtain r where r: "row_with_id ''o1'' (w_db ?s) = Some r" "o_status r = SAVED"
    using process_fresh [OF dead_job, of 0] by auto
  then have row: "row_with_id ''o1'' ?db = Some r"
    using row_with_id_Some [OF r(1)]
    by (simp add: posStatusUpdate_def uuid_arg_def Let_def row_with_id_def find_sql_update_key)
  with worker_life_cycle [OF reach, of r] r(2) show ?thesis by (auto dest: row_with_id_Some)
qed

end
