(* ===== verification/Catalog_Edits.thy ===== *)
theory Catalog_Edits
  imports Catalog_Properties
begin

text \<open>
  What each operation on menus, categories, option groups and areas does to the tables, seen through
  the rows of one store or one area: what was sent is there, in its order, and nothing else has
  changed; or the operation was refused or failed, and nothing has changed at all.
\<close>

section \<open>The rows of a store and of an area\<close>

definition menus_of :: "uuid \<Rightarrow> catalog \<Rightarrow> menu_entity list" where
  "menus_of st k = filter (\<lambda>m. me_storeId m = st) (t_menus (c_db k))"

definition categories_of :: "uuid \<Rightarrow> catalog \<Rightarrow> category_row list" where
  "categories_of st k = filter (\<lambda>r. cg_storeId r = st) (c_categories k)"

definition options_of :: "uuid \<Rightarrow> catalog \<Rightarrow> option_row list" where
  "options_of st k = filter (\<lambda>r. og_storeId r = st) (c_options k)"

definition areas_at :: "uuid \<Rightarrow> catalog \<Rightarrow> area_row list" where
  "areas_at i k = filter (\<lambda>a. ar_id a = i) (c_areas k)"

definition areas_but :: "uuid \<Rightarrow> catalog \<Rightarrow> area_row list" where
  "areas_but i k = filter (\<lambda>a. ar_id a \<noteq> i) (c_areas k)"

text \<open>A row and the item it was made from. A menu keeps the item's identifier when that is a UUID,
  and the columns of migration 007 are stored under it.\<close>

definition menu_saved :: "db_ctx \<Rightarrow> catalog \<Rightarrow> menu_entity \<Rightarrow> menu_item_body \<Rightarrow> bool" where
  "menu_saved C k m it \<longleftrightarrow> me_name m = or_else (mb_name it) [] \<and>
     me_unitPrice m = first_some (mb_priceForOrder it) (mb_price it) 0 \<and> me_isAvailable m = menu_available it \<and>
     (\<exists>txt. (UUID_RE (or_else (mb_id it) []) \<longrightarrow> txt = or_else (mb_id it) []) \<and>
        cx_uuid_in C txt = Some (me_id m) \<and> c_columns k (me_id m) = new_menu_columns txt it)"

definition category_saved :: "category_row \<Rightarrow> category_body \<Rightarrow> bool" where
  "category_saved r it \<longleftrightarrow> Some (cg_id r) = kb_id it \<and> cg_name r = or_else (kb_name it) [] \<and>
     cg_sortOrder r = or_else (kb_sort it) 0 \<and> cg_meta r = kb_json it"

definition option_saved :: "option_row \<Rightarrow> option_body \<Rightarrow> bool" where
  "option_saved r it \<longleftrightarrow> Some (og_id r) = xb_id it \<and> og_name r = or_else (xb_name it) [] \<and>
     og_sortOrder r = or_else (xb_sort it) 0 \<and> og_items r = or_else (xb_items it) (JArr [])"

lemma or_else_nonempty: "or_else x [] \<noteq> [] \<Longrightarrow> Some (or_else x []) = x"
  by (cases x) (simp_all add: or_else_def)

lemma filter_none: "\<forall>x \<in> set xs. \<not> P x \<Longrightarrow> filter P xs = []"
  by (simp add: filter_empty_conv)

lemma filter_kept: "st \<noteq> store \<Longrightarrow> filter (\<lambda>x. f x = st) (filter (\<lambda>x. f x \<noteq> store) xs) = filter (\<lambda>x. f x = st) xs"
  by (induction xs) auto

section \<open>Insertions\<close>

lemma insertMenus_saved:
  assumes "insertMenus C n uuids s its k = Inr k'" and s: "cx_uuid_in C s = Some store"
  shows "\<exists>ms. k' = k\<lparr>c_db := (c_db k)\<lparr>t_menus := t_menus (c_db k) @ ms\<rparr>, c_columns := c_columns k'\<rparr> \<and>
    (\<forall>m \<in> set ms. me_storeId m = store) \<and> list_all2 (menu_saved C k') ms its \<and>
    me_id ` set ms \<inter> me_id ` set (t_menus (c_db k)) = {} \<and>
    (\<forall>i. i \<notin> me_id ` set ms \<longrightarrow> c_columns k' i = c_columns k i)"
  using assms(1)
proof (induction its arbitrary: n k)
  case Nil
  then show ?case by (intro exI [of _ "[]"]) simp
next
  case (Cons it its)
  from Cons.prems obtain k1 where one: "insertMenu C n (uuids n) s it k = Inr k1"
    and rest: "insertMenus C (Suc n) uuids s its k1 = Inr k'" by (auto simp: bind_res_Inr)
  let ?txt = "toUuid (uuids n) (or_else (mb_id it) [])"
  from insertMenu_Inr [OF one] s obtain i where
    i: "cx_uuid_in C ?txt = Some i" "i \<notin> me_id ` set (t_menus (c_db k))" and
    k1: "k1 = k\<lparr>c_db := (c_db k)\<lparr>t_menus := t_menus (c_db k) @ [new_menu C i store it]\<rparr>,
      c_columns := (c_columns k)(i := new_menu_columns ?txt it)\<rparr>"
    by auto
  from Cons.IH [OF rest] obtain ms where
    k': "k' = k1\<lparr>c_db := (c_db k1)\<lparr>t_menus := t_menus (c_db k1) @ ms\<rparr>, c_columns := c_columns k'\<rparr>"
    and ms: "\<forall>m \<in> set ms. me_storeId m = store" "list_all2 (menu_saved C k') ms its"
    and fresh: "me_id ` set ms \<inter> me_id ` set (t_menus (c_db k1)) = {}"
    and cols: "\<forall>j. j \<notin> me_id ` set ms \<longrightarrow> c_columns k' j = c_columns k1 j"
    by blast
  have new: "i \<notin> me_id ` set ms" using fresh by (auto simp: k1)
  then have "c_columns k' i = new_menu_columns ?txt it" using cols by (simp add: k1)
  then have "menu_saved C k' (new_menu C i store it) it"
    using i(1) by (auto simp: menu_saved_def toUuid_def)
  moreover have "k' = k\<lparr>c_db := (c_db k)\<lparr>t_menus := t_menus (c_db k) @ new_menu C i store it # ms\<rparr>,
      c_columns := c_columns k'\<rparr>"
    by (subst k') (simp add: k1)
  moreover have "\<forall>j. j \<notin> insert i (me_id ` set ms) \<longrightarrow> c_columns k' j = c_columns k j"
    using cols by (simp add: k1)
  ultimately show ?case
    using ms fresh i(2) by (intro exI [of _ "new_menu C i store it # ms"]) (auto simp: k1)
qed

lemma insertCategories_saved:
  assumes "insertCategories C n s its k = Inr k'" and s: "cx_uuid_in C s = Some store"
  shows "\<exists>rs. k' = k\<lparr>c_categories := c_categories k @ rs\<rparr> \<and> (\<forall>r \<in> set rs. cg_storeId r = store) \<and>
    list_all2 category_saved rs (filter (\<lambda>it. or_else (kb_id it) [] \<noteq> []) its)"
  using assms(1)
proof (induction its arbitrary: n k)
  case Nil
  then show ?case by (intro exI [of _ "[]"]) simp
next
  case (Cons it its)
  from Cons.prems obtain k1 where one: "insertCategory C n s it k = Inr k1"
    and rest: "insertCategories C (Suc n) s its k1 = Inr k'" by (auto simp: bind_res_Inr)
  from Cons.IH [OF rest] obtain rs where k': "k' = k1\<lparr>c_categories := c_categories k1 @ rs\<rparr>"
    and rs: "\<forall>r \<in> set rs. cg_storeId r = store" "list_all2 category_saved rs (filter (\<lambda>it. or_else (kb_id it) [] \<noteq> []) its)"
    by blast
  show ?case
  proof (cases "or_else (kb_id it) [] = []")
    case True
    with one have "k1 = k" by (simp add: insertCategory_def)
    with k' rs True show ?thesis by auto
  next
    case False
    let ?r = "\<lparr>cg_id = or_else (kb_id it) [], cg_storeId = store, cg_name = or_else (kb_name it) [],
       cg_sortOrder = or_else (kb_sort it) 0, cg_meta = kb_json it\<rparr>"
    from one False s have "k1 = k\<lparr>c_categories := c_categories k @ [?r]\<rparr>"
      by (auto simp: insertCategory_def Let_def bind_res_Inr)
    moreover have "category_saved ?r it" using or_else_nonempty [OF False] by (simp add: category_saved_def)
    ultimately show ?thesis
      using k' rs False by (intro exI [of _ "?r # rs"]) simp
  qed
qed

lemma insertOptions_saved:
  assumes "insertOptions C n s its k = Inr k'" and s: "cx_uuid_in C s = Some store"
  shows "\<exists>rs. k' = k\<lparr>c_options := c_options k @ rs\<rparr> \<and> (\<forall>r \<in> set rs. og_storeId r = store) \<and>
    list_all2 option_saved rs (filter (\<lambda>it. or_else (xb_id it) [] \<noteq> []) its)"
  using assms(1)
proof (induction its arbitrary: n k)
  case Nil
  then show ?case by (intro exI [of _ "[]"]) simp
next
  case (Cons it its)
  from Cons.prems obtain k1 where one: "insertOption C n s it k = Inr k1"
    and rest: "insertOptions C (Suc n) s its k1 = Inr k'" by (auto simp: bind_res_Inr)
  from Cons.IH [OF rest] obtain rs where k': "k' = k1\<lparr>c_options := c_options k1 @ rs\<rparr>"
    and rs: "\<forall>r \<in> set rs. og_storeId r = store" "list_all2 option_saved rs (filter (\<lambda>it. or_else (xb_id it) [] \<noteq> []) its)"
    by blast
  show ?case
  proof (cases "or_else (xb_id it) [] = []")
    case True
    with one have "k1 = k" by (simp add: insertOption_def)
    with k' rs True show ?thesis by auto
  next
    case False
    let ?r = "\<lparr>og_id = or_else (xb_id it) [], og_storeId = store, og_name = or_else (xb_name it) [],
       og_sortOrder = or_else (xb_sort it) 0, og_items = or_else (xb_items it) (JArr [])\<rparr>"
    from one False s have "k1 = k\<lparr>c_options := c_options k @ [?r]\<rparr>"
      by (auto simp: insertOption_def Let_def bind_res_Inr)
    moreover have "option_saved ?r it" using or_else_nonempty [OF False] by (simp add: option_saved_def)
    ultimately show ?thesis
      using k' rs False by (intro exI [of _ "?r # rs"]) simp
  qed
qed

section \<open>Replacements\<close>

definition menus_replaced_by ::
  "db_ctx \<Rightarrow> string option \<Rightarrow> menu_item_body list \<Rightarrow> catalog \<Rightarrow> catalog \<Rightarrow> bool" where
  "menus_replaced_by C storeId items k k' \<longleftrightarrow> (\<exists>s store. storeId = Some s \<and> cx_uuid_in C s = Some store \<and>
     list_all2 (menu_saved C k') (menus_of store k') items \<and>
     (\<forall>st. st \<noteq> store \<longrightarrow> menus_of st k' = menus_of st k \<and>
        (\<forall>m \<in> set (menus_of st k). c_columns k' (me_id m) = c_columns k (me_id m))) \<and>
     k' = k\<lparr>c_db := (c_db k)\<lparr>t_menus := t_menus (c_db k')\<rparr>, c_columns := c_columns k'\<rparr>)"

lemma saveMenus_exact:
  "case saveMenus C uuids storeId items k of (Inl _, k') \<Rightarrow> k' = k
   | (Inr _, k') \<Rightarrow> menus_replaced_by C storeId items k k'"
proof (cases "\<exists>k'. saveMenus C uuids storeId items k = (Inr (), k')")
  case False
  then have "\<exists>e. saveMenus C uuids storeId items k = (Inl e, k)"
    by (auto simp: saveMenus_def catalog_transaction_def st_throw_def split: sum.splits if_splits)
  then show ?thesis by auto
next
  case True
  then obtain k' k1 where save: "saveMenus C uuids storeId items k = (Inr (), k')" and t: "truthy storeId"
    and del: "deleteMenus C (the storeId) k = Inr k1"
    and ins: "insertMenus C 1 uuids (the storeId) items k1 = Inr k'"
    by (auto simp: saveMenus_def catalog_transaction_def bind_res_Inr st_throw_def split: if_splits sum.splits)
  from deleteMenus_Inr [OF del] obtain store where store: "cx_uuid_in C (the storeId) = Some store"
    and k1: "k1 = k\<lparr>c_db := (c_db k)\<lparr>t_menus := sql_delete (\<lambda>m. me_storeId m = store) (t_menus (c_db k))\<rparr>\<rparr>"
    by blast
  from insertMenus_saved [OF ins store] obtain ms where
    k': "k' = k1\<lparr>c_db := (c_db k1)\<lparr>t_menus := t_menus (c_db k1) @ ms\<rparr>, c_columns := c_columns k'\<rparr>"
    and ms: "\<forall>m \<in> set ms. me_storeId m = store" "list_all2 (menu_saved C k') ms items"
    and fresh: "me_id ` set ms \<inter> me_id ` set (t_menus (c_db k1)) = {}"
    and cols: "\<forall>i. i \<notin> me_id ` set ms \<longrightarrow> c_columns k' i = c_columns k1 i"
    by blast
  have menus: "t_menus (c_db k') = filter (\<lambda>m. me_storeId m \<noteq> store) (t_menus (c_db k)) @ ms"
    by (subst k') (simp add: k1 sql_delete_def)
  have own: "menus_of store k' = ms" using ms(1) by (simp add: menus_of_def menus filter_none)
  have other: "menus_of st k' = menus_of st k" if "st \<noteq> store" for st
  proof -
    have "filter (\<lambda>m. me_storeId m = st) ms = []" using ms(1) that by (intro filter_none) auto
    with filter_kept [OF that, of me_storeId] show ?thesis by (simp add: menus_of_def menus del: filter_filter)
  qed
  have kept: "c_columns k' (me_id m) = c_columns k (me_id m)" if "st \<noteq> store" "m \<in> set (menus_of st k)" for st m
  proof -
    have "m \<in> set (t_menus (c_db k1))" using that by (auto simp: menus_of_def k1 sql_delete_def)
    then have "me_id m \<notin> me_id ` set ms" using fresh by blast
    with cols show ?thesis by (simp add: k1)
  qed
  have frame: "k' = k\<lparr>c_db := (c_db k)\<lparr>t_menus := t_menus (c_db k')\<rparr>, c_columns := c_columns k'\<rparr>"
    by (subst k', subst (2) k') (simp add: k1)
  from t obtain s where "storeId = Some s" by (cases storeId) (simp_all add: truthy_def)
  with own other kept ms(2) store frame show ?thesis
    unfolding save menus_replaced_by_def by auto
qed

definition categories_replaced_by ::
  "db_ctx \<Rightarrow> string option \<Rightarrow> category_body list \<Rightarrow> catalog \<Rightarrow> catalog \<Rightarrow> bool" where
  "categories_replaced_by C storeId items k k' \<longleftrightarrow> (\<exists>s store. storeId = Some s \<and> cx_uuid_in C s = Some store \<and>
     list_all2 category_saved (categories_of store k') (filter (\<lambda>it. or_else (kb_id it) [] \<noteq> []) items) \<and>
     (\<forall>st. st \<noteq> store \<longrightarrow> categories_of st k' = categories_of st k) \<and>
     k' = k\<lparr>c_categories := c_categories k'\<rparr>)"

lemma filter_replaced:
  assumes "\<forall>r \<in> set rs. f r = store"
  shows "filter (\<lambda>r. f r = st) (sql_delete (\<lambda>r. f r = store) t @ rs) =
    (if st = store then rs else filter (\<lambda>r. f r = st) t)"
proof (cases "st = store")
  case True
  with assms show ?thesis by (simp add: sql_delete_def)
next
  case False
  then have "filter (\<lambda>r. f r = st) rs = []" using assms by (intro filter_none) auto
  with filter_kept [OF False, of f] False show ?thesis by (simp add: sql_delete_def del: filter_filter)
qed

lemma saveCategories_exact:
  "case saveCategories C storeId items k of (Inl _, k') \<Rightarrow> k' = k
   | (Inr _, k') \<Rightarrow> categories_replaced_by C storeId items k k'"
proof (cases "\<exists>k'. saveCategories C storeId items k = (Inr (), k')")
  case False
  then have "\<exists>e. saveCategories C storeId items k = (Inl e, k)"
    by (auto simp: saveCategories_def catalog_transaction_def st_throw_def split: sum.splits if_splits)
  then show ?thesis by auto
next
  case True
  then obtain k' k1 where save: "saveCategories C storeId items k = (Inr (), k')" and t: "truthy storeId"
    and del: "deleteCategories C (the storeId) k = Inr k1"
    and ins: "insertCategories C 1 (the storeId) items k1 = Inr k'"
    by (auto simp: saveCategories_def catalog_transaction_def bind_res_Inr st_throw_def split: if_splits sum.splits)
  from del obtain store where store: "cx_uuid_in C (the storeId) = Some store"
    and k1: "k1 = k\<lparr>c_categories := sql_delete (\<lambda>r. cg_storeId r = store) (c_categories k)\<rparr>"
    by (auto simp: deleteCategories_def bind_res_Inr)
  from insertCategories_saved [OF ins store] obtain rs where
    k': "k' = k1\<lparr>c_categories := c_categories k1 @ rs\<rparr>" and rs: "\<forall>r \<in> set rs. cg_storeId r = store"
      "list_all2 category_saved rs (filter (\<lambda>it. or_else (kb_id it) [] \<noteq> []) items)" by blast
  from t obtain s where "storeId = Some s" by (cases storeId) (simp_all add: truthy_def)
  with store rs show ?thesis
    unfolding save categories_replaced_by_def by (auto simp: categories_of_def k' k1 filter_replaced simp del: filter_append)
qed

definition options_replaced_by ::
  "db_ctx \<Rightarrow> string option \<Rightarrow> option_body list \<Rightarrow> catalog \<Rightarrow> catalog \<Rightarrow> bool" where
  "options_replaced_by C storeId items k k' \<longleftrightarrow> (\<exists>s store. storeId = Some s \<and> cx_uuid_in C s = Some store \<and>
     list_all2 option_saved (options_of store k') (filter (\<lambda>it. or_else (xb_id it) [] \<noteq> []) items) \<and>
     (\<forall>st. st \<noteq> store \<longrightarrow> options_of st k' = options_of st k) \<and>
     k' = k\<lparr>c_options := c_options k'\<rparr>)"

lemma saveOptions_exact:
  "case saveOptions C storeId items k of (Inl _, k') \<Rightarrow> k' = k
   | (Inr _, k') \<Rightarrow> options_replaced_by C storeId items k k'"
proof (cases "\<exists>k'. saveOptions C storeId items k = (Inr (), k')")
  case False
  then have "\<exists>e. saveOptions C storeId items k = (Inl e, k)"
    by (auto simp: saveOptions_def catalog_transaction_def st_throw_def split: sum.splits if_splits)
  then show ?thesis by auto
next
  case True
  then obtain k' k1 where save: "saveOptions C storeId items k = (Inr (), k')" and t: "truthy storeId"
    and del: "deleteOptions C (the storeId) k = Inr k1"
    and ins: "insertOptions C 1 (the storeId) items k1 = Inr k'"
    by (auto simp: saveOptions_def catalog_transaction_def bind_res_Inr st_throw_def split: if_splits sum.splits)
  from del obtain store where store: "cx_uuid_in C (the storeId) = Some store"
    and k1: "k1 = k\<lparr>c_options := sql_delete (\<lambda>r. og_storeId r = store) (c_options k)\<rparr>"
    by (auto simp: deleteOptions_def bind_res_Inr)
  from insertOptions_saved [OF ins store] obtain rs where
    k': "k' = k1\<lparr>c_options := c_options k1 @ rs\<rparr>" and rs: "\<forall>r \<in> set rs. og_storeId r = store"
      "list_all2 option_saved rs (filter (\<lambda>it. or_else (xb_id it) [] \<noteq> []) items)" by blast
  from t obtain s where "storeId = Some s" by (cases storeId) (simp_all add: truthy_def)
  with store rs show ?thesis
    unfolding save options_replaced_by_def by (auto simp: options_of_def k' k1 filter_replaced simp del: filter_append)
qed

section \<open>Areas\<close>

text \<open>What a body asks for; a name or store of blanks only asks for nothing.\<close>

definition area_wanted :: "db_ctx \<Rightarrow> area_body \<Rightarrow> string \<Rightarrow> uuid \<Rightarrow> int \<Rightarrow> bool" where
  "area_wanted C b name store n \<longleftrightarrow> name = trim (or_else (ab_name b) []) \<and> name \<noteq> [] \<and>
     cx_uuid_in C (trim (or_else (ab_storeId b) [])) = Some store \<and> n = or_else (ab_sortOrder b) 0"

definition area_refused :: "string option \<Rightarrow> area_body \<Rightarrow> 'a admin_answer \<Rightarrow> bool" where
  "area_refused pw b ans \<longleftrightarrow> ans = WrongPassword \<and> \<not> body_password_ok pw b \<or>
     ans = FieldsNeeded \<and> (trim (or_else (ab_name b) []) = [] \<or> trim (or_else (ab_storeId b) []) = [])"

lemma createArea_exact:
  "case createArea C pw fresh b k of
     (Inl _, k') \<Rightarrow> k' = k
   | (Inr (AdminOk j), k') \<Rightarrow> body_password_ok pw b \<and> j = fresh \<and>
       (\<exists>i name store n. cx_uuid_in C fresh = Some i \<and> area_wanted C b name store n \<and> store \<in> store_ids k \<and>
          areas_at i k = [] \<and> areas_but i k' = areas_but i k \<and>
          areas_at i k' = [\<lparr>ar_id = i, ar_name = name, ar_storeId = store, ar_isActive = True,
            ar_sortOrder = n, ar_createdAt = cx_now C\<rparr>] \<and> k' = k\<lparr>c_areas := c_areas k'\<rparr>)
   | (Inr ans, k') \<Rightarrow> k' = k \<and> area_refused pw b ans"
proof (cases "body_password_ok pw b \<and> trim (or_else (ab_name b) []) \<noteq> [] \<and> trim (or_else (ab_storeId b) []) \<noteq> []")
  case False
  then show ?thesis by (cases "body_password_ok pw b") (auto simp: createArea_def area_refused_def Let_def)
next
  case True
  show ?thesis
  proof (cases "createArea C pw fresh b k")
    case (Pair r k')
    show ?thesis
    proof (cases r)
      case (Inl e)
      with Pair True show ?thesis
        by (auto simp: createArea_def Let_def st_bind_def catalog_transaction_def split: sum.splits)
    next
      case (Inr ans)
      with Pair True obtain i store where ans: "ans = AdminOk fresh"
        and i: "cx_uuid_in C fresh = Some i" "i \<notin> ar_id ` set (c_areas k)"
        and store: "cx_uuid_in C (trim (or_else (ab_storeId b) [])) = Some store" "store \<in> store_ids k"
        and k': "k' = k\<lparr>c_areas := c_areas k @ [\<lparr>ar_id = i, ar_name = trim (or_else (ab_name b) []),
          ar_storeId = store, ar_isActive = True, ar_sortOrder = or_else (ab_sortOrder b) 0,
          ar_createdAt = cx_now C\<rparr>]\<rparr>"
        by (auto simp: createArea_def Let_def st_bind_def catalog_transaction_def bind_res_Inr split: sum.splits)
      have "areas_at i k = []" using i(2) by (auto simp: areas_at_def intro: filter_none)
      with True i store show ?thesis
        unfolding Pair Inr ans by (auto simp: k' areas_at_def areas_but_def area_wanted_def)
    qed
  qed
qed

lemma updateArea_exact:
  "case updateArea C pw areaId b k of
     (Inl _, k') \<Rightarrow> k' = k
   | (Inr (AdminOk _), k') \<Rightarrow> body_password_ok pw b \<and>
       (\<exists>i name store n. cx_uuid_in C areaId = Some i \<and> area_wanted C b name store n \<and>
          areas_but i k' = areas_but i k \<and>
          areas_at i k' = map (\<lambda>a. a\<lparr>ar_name := name, ar_storeId := store, ar_sortOrder := n,
            ar_isActive := (ab_isActive b \<noteq> Some False)\<rparr>) (areas_at i k) \<and> k' = k\<lparr>c_areas := c_areas k'\<rparr>)
   | (Inr ans, k') \<Rightarrow> k' = k \<and> area_refused pw b ans"
proof (cases "body_password_ok pw b \<and> trim (or_else (ab_name b) []) \<noteq> [] \<and> trim (or_else (ab_storeId b) []) \<noteq> []")
  case False
  then show ?thesis by (cases "body_password_ok pw b") (auto simp: updateArea_def area_refused_def Let_def)
next
  case True
  show ?thesis
  proof (cases "updateArea C pw areaId b k")
    case (Pair r k')
    show ?thesis
    proof (cases r)
      case (Inl e)
      with Pair True show ?thesis
        by (auto simp: updateArea_def Let_def st_bind_def catalog_transaction_def split: sum.splits)
    next
      case (Inr ans)
      let ?f = "\<lambda>store a. a\<lparr>ar_name := trim (or_else (ab_name b) []), ar_storeId := store,
        ar_sortOrder := or_else (ab_sortOrder b) 0, ar_isActive := (ab_isActive b \<noteq> Some False)\<rparr>"
      from Inr Pair True obtain i store where ans: "ans = AdminOk ()" and i: "cx_uuid_in C areaId = Some i"
        and store: "cx_uuid_in C (trim (or_else (ab_storeId b) [])) = Some store"
        and k': "sql_count (\<lambda>a. ar_id a = i) (c_areas k) = 0 \<and> k' = k \<or>
          k' = k\<lparr>c_areas := sql_update (\<lambda>a. ar_id a = i) (?f store) (c_areas k)\<rparr>"
        by (auto simp: updateArea_def Let_def st_bind_def catalog_transaction_def bind_res_Inr
            split: sum.splits if_splits)
      have up: "filter (\<lambda>a. ar_id a = i) (sql_update (\<lambda>a. ar_id a = i) (?f store) t) =
          map (?f store) (filter (\<lambda>a. ar_id a = i) t)"
        "filter (\<lambda>a. ar_id a \<noteq> i) (sql_update (\<lambda>a. ar_id a = i) (?f store) t) = filter (\<lambda>a. ar_id a \<noteq> i) t" for t
        by (induction t) (simp_all add: sql_update_def)
      have "areas_but i k' = areas_but i k \<and> areas_at i k' = map (?f store) (areas_at i k) \<and>
          k' = k\<lparr>c_areas := c_areas k'\<rparr>"
        using k' by (auto simp: areas_at_def areas_but_def up sql_count_def)
      moreover have "area_wanted C b (trim (or_else (ab_name b) [])) store (or_else (ab_sortOrder b) 0)"
        using True store by (simp add: area_wanted_def)
      ultimately have "\<exists>i name store n. cx_uuid_in C areaId = Some i \<and> area_wanted C b name store n \<and>
          areas_but i k' = areas_but i k \<and>
          areas_at i k' = map (\<lambda>a. a\<lparr>ar_name := name, ar_storeId := store, ar_sortOrder := n,
            ar_isActive := (ab_isActive b \<noteq> Some False)\<rparr>) (areas_at i k) \<and> k' = k\<lparr>c_areas := c_areas k'\<rparr>"
        using i by blast
      then show ?thesis using True unfolding Pair Inr ans by simp
    qed
  qed
qed

lemma deleteArea_exact:
  "case deleteArea C pw areaId b k of
     (Inl _, k') \<Rightarrow> k' = k
   | (Inr (AdminOk _), k') \<Rightarrow> body_password_ok pw b \<and> (\<exists>i. cx_uuid_in C areaId = Some i \<and>
       areas_but i k' = areas_but i k \<and> areas_at i k' = [] \<and> k' = k\<lparr>c_areas := c_areas k'\<rparr>)
   | (Inr ans, k') \<Rightarrow> k' = k \<and> ans = WrongPassword \<and> \<not> body_password_ok pw b"
  by (auto simp: deleteArea_def st_bind_def catalog_transaction_def bind_res_Inr sql_delete_def areas_but_def
      areas_at_def split: sum.splits)

section \<open>The property\<close>

text \<open>C31: every edit of the catalogue does exactly what it was sent, or nothing: saving menus, categories or
  option groups leaves the store with the rows of the body, in its order and no others, and every
  other store and table as it was; an area is added, changed or removed under its own identifier
  and no other area is touched; and a wrong password, a missing field or any failing statement
  leaves everything as it was.\<close>

theorem catalog_edits_exact:
  "(case saveMenus C uuids storeId items k of
      (Inl _, k') \<Rightarrow> k' = k | (Inr _, k') \<Rightarrow> menus_replaced_by C storeId items k k') \<and>
   (case saveCategories C storeId cats k of
      (Inl _, k') \<Rightarrow> k' = k | (Inr _, k') \<Rightarrow> categories_replaced_by C storeId cats k k') \<and>
   (case saveOptions C storeId opts k of
      (Inl _, k') \<Rightarrow> k' = k | (Inr _, k') \<Rightarrow> options_replaced_by C storeId opts k k') \<and>
   (case createArea C pw fresh b k of
      (Inl _, k') \<Rightarrow> k' = k
    | (Inr (AdminOk j), k') \<Rightarrow> body_password_ok pw b \<and> j = fresh \<and>
        (\<exists>i name store n. cx_uuid_in C fresh = Some i \<and> area_wanted C b name store n \<and> store \<in> store_ids k \<and>
           areas_at i k = [] \<and> areas_but i k' = areas_but i k \<and>
           areas_at i k' = [\<lparr>ar_id = i, ar_name = name, ar_storeId = store, ar_isActive = True,
             ar_sortOrder = n, ar_createdAt = cx_now C\<rparr>] \<and> k' = k\<lparr>c_areas := c_areas k'\<rparr>)
    | (Inr ans, k') \<Rightarrow> k' = k \<and> area_refused pw b ans) \<and>
   (case updateArea C pw areaId b k of
      (Inl _, k') \<Rightarrow> k' = k
    | (Inr (AdminOk _), k') \<Rightarrow> body_password_ok pw b \<and>
        (\<exists>i name store n. cx_uuid_in C areaId = Some i \<and> area_wanted C b name store n \<and>
           areas_but i k' = areas_but i k \<and>
           areas_at i k' = map (\<lambda>a. a\<lparr>ar_name := name, ar_storeId := store, ar_sortOrder := n,
             ar_isActive := (ab_isActive b \<noteq> Some False)\<rparr>) (areas_at i k) \<and> k' = k\<lparr>c_areas := c_areas k'\<rparr>)
    | (Inr ans, k') \<Rightarrow> k' = k \<and> area_refused pw b ans) \<and>
   (case deleteArea C pw areaId b k of
      (Inl _, k') \<Rightarrow> k' = k
    | (Inr (AdminOk _), k') \<Rightarrow> body_password_ok pw b \<and> (\<exists>i. cx_uuid_in C areaId = Some i \<and>
        areas_but i k' = areas_but i k \<and> areas_at i k' = [] \<and> k' = k\<lparr>c_areas := c_areas k'\<rparr>)
    | (Inr ans, k') \<Rightarrow> k' = k \<and> ans = WrongPassword \<and> \<not> body_password_ok pw b)"
  by (intro conjI saveMenus_exact saveCategories_exact saveOptions_exact createArea_exact updateArea_exact
      deleteArea_exact)

definition north_body :: area_body where
  "north_body = \<lparr>ab_password = Some ''admin1234'', ab_name = Some '' north '', ab_storeId = Some ''s1'',
     ab_sortOrder = Some 1, ab_isActive = None\<rparr>"

text \<open>One of two areas is removed.\<close>

definition two_areas :: catalog where
  "two_areas = sample_catalog\<lparr>c_areas :=
     [\<lparr>ar_id = ''a1'', ar_name = ''north'', ar_storeId = ''s1'', ar_isActive = True, ar_sortOrder = 1, ar_createdAt = 0\<rparr>,
      \<lparr>ar_id = ''a2'', ar_name = ''south'', ar_storeId = ''s1'', ar_isActive = True, ar_sortOrder = 2, ar_createdAt = 0\<rparr>]\<rparr>"

theorem catalog_edits_exact_witness:
  "\<exists>k'. deleteArea (quiet_ctx 5) None ''a1'' north_body two_areas = (Inr (AdminOk ()), k') \<and>
     areas_at ''a1'' k' = [] \<and> map ar_name (areas_but ''a1'' k') = [''south'']"
proof -
  have "body_password_ok None north_body"
    by (simp add: body_password_ok_def checkAdminPassword_def ADMIN_PASSWORD_def or_else_def north_body_def)
  then obtain k' where x: "deleteArea (quiet_ctx 5) None ''a1'' north_body two_areas = (Inr (AdminOk ()), k')"
    by (simp add: deleteArea_def st_bind_def catalog_transaction_def catalog_stmt_succeeds uuid_arg_def)
  have "areas_at ''a1'' k' = []" "areas_but ''a1'' k' = areas_but ''a1'' two_areas"
    using catalog_edits_exact [where C = "quiet_ctx 5" and pw = None and areaId = "''a1''" and b = north_body and
        k = two_areas] by (simp_all add: x)
  then show ?thesis using x by (simp add: areas_but_def two_areas_def)
qed

end
