(* ===== verification/Spec2Isabelle.thy ===== *)
theory Spec2Isabelle
  imports Worker_Correctness Order_Api Admin_Service Auth_Otp Public_Properties Order_System
    Life_Cycle Menu_Cache Http_Properties Page_Session Public_Content Deployment_Properties
    Pos_Once Lock_Times Migrations Life_Histories Catalog_Edits
begin

text \<open>
  A model of the order system under src/src: an HTTP server that takes orders for the stores of
  a chain, a job queue, workers that write each order to PostgreSQL and pass it to the store's
  POS, and the endpoints around them. This theory holds the property that follows one order
  from the request to the POS; everything else is in the theories below, which it imports.

  How the parts interact. CreateOrderService.execute takes a request under its idempotency key,
  checks its amount against the menu's prices and puts a job into the queue; it writes no order.
  OrderProcessor takes jobs and calls ProcessOrderService.process, which under the order's lock
  creates the row (duplicates are recognised by the idempotency key), moves it through QUEUED,
  SAVED, SENT_TO_POS and COMPLETED, and calls the POS through the circuit breaker. The queue
  retries a failed job; after each failure handleFailure counts it, and after the last one or a
  business error moves the order to FAILED, to the dead letter queue and to the alert channel.
  The POS and the apps read orders, set statuses around the state machine, and edit menus,
  settings and areas; the administrator lists dead letters and re-drives them. All of these
  share the tables, Redis (under three key prefixes) and the queue.

  The method of the model. An async method is a computation over an explicit state (type comp in
  Prelude): it returns a value or throws an error value, and the state is what it is at that
  moment; await, try/catch and try/finally are st_bind, st_catch and st_finally. Tables are
  lists of rows, and one SQL statement is one function on them. Each statement, Redis command or
  remote call may fail: its faults, the clock and random ids are in a context record (db_ctx,
  api_env, worker_env), one field or argument per call. Between two steps of a worker the
  environment may change the database and the locks: lemmas on one job ask of it env_ok, that it
  keeps the audit invariant, which every environment does that acts by operations of the repository
  (lemma Life_Histories.served_env_ok); the properties of whole runs give the other clients by
  the operations of the code.

  Theories and what they model:
    \<^item> Prelude: results, computations, tables. Js_Text: the text functions of JavaScript. Samples:
      the values of the witnesses.
    \<^item> Order_Domain: order-state-machine.ts, order.errors.ts and the entities.
    \<^item> Redis_Store: SET, SET NX, GET and DEL as a locale of laws, and a store that obeys them.
      Idempotency: idempotency.service.ts. Distributed_Lock: distributed-lock.service.ts. Order_Queue:
      order-queue.service.ts, over a locale of the queue library's laws.
    \<^item> Order_Repository: order.repository.ts and the tables; Order_Audit and Repository_Properties:
      its invariant (each log replays to its row), the outcome of each operation, optimistic locking
      and paging. Life_Cycle: transitions end.
    \<^item> Pos_Adapter, Circuit_Breaker: infrastructure/pos. Notification: notification.service.ts.
      Process_Order: process-order.service.ts and the two processors; Worker_Properties and
      Worker_Correctness: what a job does, how failures are filed, what a retry does. Job_Attempts:
      all attempts of a job under the retry loop of the queue.
      Life_Histories: the histories of orders in every state that workers and other clients reach.
    \<^item> Order_Gateway: order.gateway.ts. Create_Order: create-order.service.ts; Intake_Properties: the
      amount check, rejections and replays; Menu_Cache: the cache against the database.
    \<^item> Order_Api: order.controller.ts, internal-bridge.controller.ts and the DTOs. Admin_Service:
      admin.service.ts. Auth_Otp: auth.controller.ts (its SMS request is in Wiring).
    \<^item> Public_Orders, Public_Properties: orders and sales of public.controller.ts. Store_Catalog:
      menu-admin.controller.ts; Store_Areas: menus, settings, areas and customers of
      public.controller.ts, and admin.controller.ts; Catalog_Properties (the tables stay well formed), Catalog_Edits (what
      each edit changes, and what it leaves alone) and Menu_Properties on both.
      Public_Content: the endpoints of public.controller.ts that answer with constants. Areas_Page:
      the script of the page that admin.controller.ts serves, against the endpoints it calls;
      Page_Session: what a session with the page can reach.
    \<^item> Http_Edge: the exception filter, the trace interceptor, the settings, the status publisher,
      the payment bridge and the queue metrics; Http_Properties: the answers to failed requests.
      Wiring: main.ts and the modules (what a process serves and consumes, the options of the
      database, the queues, the workers and the Redis clients), trace.context.ts and logger.service.ts.
    \<^item> Deployment: the stacks of src/infra as data; Deployment_Properties: what the program makes of
      the environments of its containers. Migrations: scripts/migrate-*.js.
    \<^item> Order_Ledger: an abstract specification of the order service, and the proof that the worker
      refines it. Traced_Orders, Order_System: the system of all components, whose runs log the requests
      taken, and the end-to-end property that every order goes back to one of them, line by line.
      Order_Board: a specification of the statuses, which the whole service refines, the apps' endpoint
      that sets any status included. Pos_Once: the runs of the system with what each delivery of a
      job asks the POS; at most one delivery per key does. Lock_Times: the lock's time to live against
      the timeouts and delays of the POS calls.

  Interfaces. The locales redis, lock_redis, lease, idempotency_redis, job_queue, order_queue and
  retry_queue state what the services rely on; versioned_store is optimistic locking; db_invariant
  is what a property of the database needs to be kept by every step of a worker, and is interpreted for
  the audit invariant, for the histories, for the ledger, for traced orders, for the board and for
  the keys that have an order; row_log is a property of a row and its log that the operations of the
  repository keep, interpreted for the replay of a log and for the histories.

  Parameters and hypotheses. Third-party code is an argument of the definitions: the HTTP client,
  the policy library (policy_sound, for any configuration: an execution calls the function it is given, once and once
  more per retry at most, retries every error until the configured attempts are spent, waits at most
  the configured maximum before each retry, and returns the last result or a rejection), the decimal library (decimal_exact: exact below 10^20 hundredths), the
  database driver (driver_counts: element 1 of an UPDATE's result is the row count), numeric
  and uuid input of the server, collation, date parsing, the validator library.
  Each hypothesis is met by a concrete function in a witness.

  Bounds. A policy calls the POS at most four times, in at most 44 seconds: both follow from the
  three retries and the delay of at most 4000 ms that the service configures (store_policy_config) and
  from the timeouts of the adapters. Sums stay exact because a line of an order stays below 10^10 and an order has at most
  10^10 lines in the properties that add them up. Times to live are in seconds, clocks in
  milliseconds. No definition needs fuel; the retry loop ends because the attempts run out.

  Where the model is coarser than the code. Characters are bytes and fixed messages in Korean are
  replaced by short English ones; messages with values keep their values. Bodies of requests
  are records with the types that the clients send, and prices that are not numbers are left
  out. policy.execute is one step for a store, so two jobs do not interleave inside one policy. A command
  of Redis or of the queue that fails has had no effect: a reply that is lost after the command ran is
  not modelled; nor is a connection that fails before the first statement of transitionStatus.
  The queue of the model forgets no job; attempts of one job follow one another. The
  menu cache's entries are values, not JSON text.

  Not modelled: the calls of the logger in the services (what a call writes is in Wiring); the
  container of the framework beyond what it supplies to a constructor; texts and styles of the
  page of areas; what the cloud does with the stacks, and their outputs. A container's environment
  beyond what the stacks set is a parameter of Deployment. The migrations under src/database are read as the types and
  constraints of the tables, the files of infra/task-definitions not at all.
\<close>

section \<open>From the request to the POS\<close>

text \<open>What the database must hold for an order to be inserted.\<close>

definition insertable :: "db_ctx \<Rightarrow> create_order_params \<Rightarrow> uuid \<Rightarrow> database \<Rightarrow> bool" where
  "insertable C p i db \<longleftrightarrow>
     statements_succeed C \<and> readable C p \<and> cx_uuid_in C (cp_id p) = Some i \<and>
     cp_idempotencyKey p \<notin> o_idempotencyKey ` set (t_orders db) \<and> i \<notin> o_id ` set (t_orders db) \<and>
     the (cx_uuid_in C (cp_storeId p)) \<in> st_id ` set (t_stores db) \<and>
     (\<forall>it \<in> set (cp_items p). item_row_ok it \<and>
        (\<exists>m. cx_uuid_in C (ji_menuId it) = Some m \<and> m \<in> me_id ` set (t_menus db)))"

lemma insertItems_ok:
  "statements_succeed C \<Longrightarrow>
   \<forall>it \<in> set its. item_row_ok it \<and> (\<exists>m. cx_uuid_in C (ji_menuId it) = Some m \<and> m \<in> me_id ` set (t_menus db)) \<Longrightarrow>
   \<exists>rows. insertItems C n i its db = Inr (db\<lparr>t_items := t_items db @ rows\<rparr>)"
proof (induction its arbitrary: n db)
  case Nil
  show ?case by (simp add: exI [of _ "[]"])
next
  case (Cons it its)
  then obtain m where m: "cx_uuid_in C (ji_menuId it) = Some m" "m \<in> me_id ` set (t_menus db)"
    and ok: "item_row_ok it" by auto
  obtain row where it: "insertItem C n i it db = Inr (db\<lparr>t_items := t_items db @ [row]\<rparr>)"
    using m ok Cons.prems(1) by (simp add: insertItem_def statements_succeedD uuid_arg_def)
  have "\<exists>rows. insertItems C (Suc n) i its (db\<lparr>t_items := t_items db @ [row]\<rparr>) =
      Inr ((db\<lparr>t_items := t_items db @ [row]\<rparr>)\<lparr>t_items := t_items (db\<lparr>t_items := t_items db @ [row]\<rparr>) @ rows\<rparr>)"
    using Cons.prems by (intro Cons.IH) simp_all
  then obtain rows where "insertItems C (Suc n) i its (db\<lparr>t_items := t_items db @ [row]\<rparr>) =
      Inr (db\<lparr>t_items := t_items db @ [row] @ rows\<rparr>)" by auto
  then show ?case by (intro exI [of _ "row # rows"]) (simp add: it)
qed

lemma createOrder_insertable:
  assumes ins: "insertable C p i db"
  shows "\<exists>ord db'. createOrder C p db = (Inr (Some ord), db')"
proof -
  from ins have C: "statements_succeed C" and i: "cx_uuid_in C (cp_id p) = Some i"
    and new: "i \<notin> o_id ` set (t_orders db)" by (simp_all add: insertable_def)
  obtain row where row: "insertOrder C p db = Inr (Some (db\<lparr>t_orders := t_orders db @ [row]\<rparr>))" "o_id row = i"
    using ins by (cases "cp_userId p")
      (auto simp: insertable_def readable_def insertOrder_def statements_succeedD uuid_arg_def
        numeric_arg_def new_row_def)
  let ?db1 = "db\<lparr>t_orders := t_orders db @ [row]\<rparr>"
  obtain rows where items: "insertItems C 0 i (cp_items p) ?db1 = Inr (?db1\<lparr>t_items := t_items ?db1 @ rows\<rparr>)"
    using insertItems_ok [OF C, of "cp_items p" ?db1 0 i] ins by (auto simp: insertable_def)
  obtain tr where tx: "createOrder_tx C p db = Inr (True, ?db1\<lparr>t_items := t_items ?db1 @ rows,
      t_transitions := t_transitions db @ [tr]\<rparr>)"
    using row(2) by (simp add: createOrder_tx_def row(1) uuid_arg_def i items insertTransition_def
        statements_succeedD [OF C])
  let ?db3 = "?db1\<lparr>t_items := t_items ?db1 @ rows, t_transitions := t_transitions db @ [tr]\<rparr>"
  have "row_with_id i ?db3 \<noteq> None"
    using row(2) by (simp add: row_with_id_def find_None_key)
  then obtain r where "row_with_id i ?db3 = Some r" by blast
  then show ?thesis
    by (simp add: createOrder_def transaction_def tx findById_quiet [OF C i])
qed

text \<open>C1: an order whose request is accepted reaches the POS: the job that the request queued, when
  a worker takes it and the POS answers, ends with the order COMPLETED in the database, with the
  server's prices and the exact total in the job.\<close>

theorem accepted_order_completes:
  assumes D: "decimal_exact (ae_decimal A) rep" and A: "no_faults A"
    and new: "\<not> isPending kv_cmds (ae_time A CallTryAcquire) (cc_idempotencyKey cmd) (a_idem s)"
      "bull_lookup (a_queue s) (orderJobId (ae_uuid A 0)) = None"
    and menus: "menus_seen A cmd s = Inr menus" "orderable (menu_map menus) (cc_items cmd)"
      "sane_items (menu_map menus) (cc_items cmd)"
    and amount: "amount_hundredths (cc_requestedAmount cmd) =
      Some (nat (order_total (menu_map menus) (cc_items cmd)))"
    and payload: "p = intake_payload A cmd (fixed2 (nat (order_total (menu_map menus) (cc_items cmd))))
      (job_items (menu_map menus) (cc_items cmd))"
    and worker: "env_quiet E (jp_orderId p) i" "lock_undisturbed E" "w_db w = a_db s" "inv_state w"
      "lock_holder kv_cmds (we_lockTime E) (jp_orderId p) (w_locks w) = None"
      "insertable (we_ctx E CallCreate) (create_params p m) i (w_db w)"
    and pos: "selectStore (jp_storeId p) (we_ctx E CallStore) (w_db w) = Inr (Some store)"
      "pos_create (st_posType store) (st_posEndpoint store) (st_posApiKeyEnc store) = Inr a"
      "fst (breaker_execute (we_policies E) (we_failureThreshold E) (we_openDurationMs E)
        (jp_storeId p) (we_posTime E 0) (pos_attempt E a p) (w_breaker w)) = Inr res"
  shows "(\<exists>j. bull_lookup (a_queue (snd (execute A cmd s))) (orderJobId (ae_uuid A 0)) = Some j \<and>
      job_data j = p) \<and>
    fst (execute A cmd s) = Inr (intake_result A) \<and> w_db w = a_db (snd (execute A cmd s)) \<and>
    fst (process E p m w) = Inr () \<and>
    (\<exists>row. row_with_id i (w_db (snd (process E p m w))) = Some row \<and> o_status row = COMPLETED)"
proof -
  note ex = execute_accepted [OF D A new(1) menus amount]
  have id: "jp_orderId p = ae_uuid A 0" by (simp add: payload intake_payload_def)
  then have "bull_lookup (a_queue s) (orderJobId (jp_orderId p)) = None" using new(2) by simp
  note pub = oq.publish_new [OF this, of "ae_maxAttempts A" "ae_baseDelay A"]
  have "fresh_job E p m i w (Inr res)"
    unfolding fresh_job_def
    using worker(1,4) createOrder_insertable [OF worker(6)] pos by blast
  from process_fresh [OF this worker(2,5)] show ?thesis
    using pub ex by (auto simp: id worker(3) simp flip: payload)
qed

theorem accepted_order_completes_witness:
  "let cmd = sample_command (fixed2 3600000);
       j = the (bull_lookup (a_queue (snd (execute (sample_api_env 5) cmd sample_api))) (orderJobId ''o1''))
   in fst (process (sample_env 10 flaky_http) (job_data j) (sample_meta 0) sample_start) = Inr ()"
proof -
  let ?A = "sample_api_env 5" and ?E = "sample_env 10 flaky_http"
  let ?cmd = "sample_command (fixed2 3600000)"
  let ?items = "job_items (menu_map [sample_view]) (cc_items ?cmd)"
  let ?p = "intake_payload ?A ?cmd (fixed2 (nat (order_total (menu_map [sample_view]) (cc_items ?cmd)))) ?items"
  have D: "decimal_exact (ae_decimal ?A) (=)" by (simp add: sample_decimal_exact)
  have p: "jp_orderId ?p = ''o1''" "jp_storeId ?p = ''s1''"
    by (simp_all add: intake_payload_def) (simp add: sample_command_def)
  have items: "?items = [sample_item]"
    by (simp add: job_items_def menu_price_def sample_menu_map) (simp add: sample_view_def sample_item_def)
  have ins: "insertable (we_ctx ?E CallCreate) (create_params ?p (sample_meta 0)) ''o1'' (w_db sample_start)"
    using items by (simp add: insertable_def readable_def create_params_def intake_payload_def)
      (simp add: sample_command_def sample_item_def)
  have sel: "we_policies ?E = plain_library" "we_failureThreshold ?E = 5" "we_openDurationMs ?E = 30000"
    "we_posTime ?E 0 = 10" by (simp_all add: sample_env_def)
  obtain res where b: "fst (breaker_execute (we_policies ?E) (we_failureThreshold ?E) (we_openDurationMs ?E)
      (jp_storeId ?p) (we_posTime ?E 0) (pos_attempt ?E sample_adapter ?p) (w_breaker sample_start)) = Inr res"
    unfolding sel using flaky_breaker by blast
  have st: "selectStore (jp_storeId ?p) (we_ctx ?E CallStore) (w_db sample_start) = Inr (Some sample_store)"
    unfolding p(2) by (simp add: selectStore_def)
  have ad: "pos_create (st_posType sample_store) (st_posEndpoint sample_store)
      (st_posApiKeyEnc sample_store) = Inr sample_adapter"
    by (simp add: sample_store_def pos_create_def)
  have new: "\<not> isPending kv_cmds (ae_time ?A CallTryAcquire) (cc_idempotencyKey ?cmd) (a_idem sample_api)"
    by simp
  have q: "bull_lookup (a_queue sample_api) (orderJobId (ae_uuid ?A 0)) = None"
    by (simp add: sample_api_def bull_lookup_def)
  have am: "amount_hundredths (cc_requestedAmount ?cmd) =
      Some (nat (order_total (menu_map [sample_view]) (cc_items ?cmd)))"
    by (simp add: amount_hundredths_fixed2 sample_total)
  have E: "env_quiet ?E (jp_orderId ?p) ''o1''" unfolding p(1) by simp
  have w: "w_db sample_start = a_db sample_api" by (simp add: sample_api_def)
  have free: "lock_holder kv_cmds (we_lockTime ?E) (jp_orderId ?p) (w_locks sample_start) = None" by simp
  have inv: "inv_state sample_start" by (simp add: seed_db_inv)
  from accepted_order_completes [OF D sample_api_env_sel(3) new q sample_menus_seen sample_sane(1,2) am
      refl E sample_env_lock w inv free ins st ad b]
  show ?thesis by (auto simp: Let_def)
qed

end
